(* ===== verification/Mono_Prelude.thy ===== *)
theory Mono_Prelude
  imports Main "HOL-Library.Word" "HOL-Library.List_Lexorder"
begin

text \<open>
  What every component of the development shares: the errors of the repository (one datatype per
  \<^verbatim>\<open>errors.go\<close>), the three ways a Go call can end (a value, an error, a panic), the threading of a
  mutable state through calls that may fail, and the lemma collections the component proofs use.

  A Go function that can fail returns \<open>'a outcome\<close>. A method that also writes state is a function
  \<open>'s \<Rightarrow> 'a outcome \<times> 's\<close>: on an error the state it leaves behind is part of the
  result, because a handler of this program returns early and does not undo what it did before (the
  roll-back of a failed transaction is the work of the SDK's BaseApp, outside this repository).
\<close>

named_theorems outcome_simps \<open>rewriting of outcomes and of sequenced calls\<close>
named_theorems outcome_elims \<open>inversion of a sequence of calls that returned a value\<close>
named_theorems keeper_defs \<open>definitions of the keepers' operations\<close>

section \<open>Errors\<close>

text \<open>\<^verbatim>\<open>x/burn/types/errors.go\<close>\<close>

datatype burn_error =
    ErrInvalidBurnAmount
  | ErrInvalidBurnDenom
  | ErrInvalidBurnTotal
  | ErrInvalidFeeBurnPercent

text \<open>\<^verbatim>\<open>x/validator/types/errors.go\<close>\<close>

datatype validator_error =
    ErrInvalidRegistrationBurn
  | ErrInvalidMinSelfDelegation
  | ErrParamsRead
  | ErrInvalidRegistrationTx
  | ErrRegistrationAddressMismatch
  | ErrBurnDenomMismatch
  | ErrBurnBelowRequired
  | ErrDelegationDenomMismatch
  | ErrMinSelfDelegationBelowRequired

text \<open>\<^verbatim>\<open>cmd/monod/cmd/mono_config.go\<close>\<close>

datatype cmd_error =
    ErrInvalidFlagsCombo
  | ErrChainIDOverflow

text \<open>
  The errors of the generated codecs (\<^verbatim>\<open>x/*/types/*.pb.go\<close>): the three variables every file
  declares, \<open>io.ErrUnexpectedEOF\<close>, and the messages built with \<open>fmt.Errorf\<close>, which name
  the message or field and carry the numbers they print.
\<close>

datatype wire_error =
    ErrInvalidLength
  | ErrIntOverflow
  | ErrUnexpectedEndOfGroup
  | ErrUnexpectedEOF
  | EndGroupForNonGroup string
  | IllegalTag string int "64 word"
  | WrongWireType int string
  | IllegalWireType int

text \<open>
  An error value of the program: one of its own, one of the sentinel errors of the SDK that it names
  (\<open>collections.ErrNotFound\<close>, \<open>govtypes.ErrInvalidSigner\<close>, \<open>sdkerrors.ErrInvalidChainID\<close>,
  \<open>codes.InvalidArgument\<close>), or any other error a library call returns, with its text.
\<close>

datatype error =
    BurnErr burn_error
  | ValidatorErr validator_error
  | CmdErr cmd_error
  | WireErr wire_error
  | ErrNotFound
  | ErrInvalidSigner
  | ErrInvalidChainID
  | InvalidArgument
  | OtherErr string

section \<open>Outcomes\<close>

datatype 'a outcome = Ok 'a | Err error | Panic

fun is_ok :: "'a outcome \<Rightarrow> bool" where
  "is_ok (Ok _) = True"
| "is_ok _ = False"

lemma is_ok_iff [simp]: "is_ok r \<longleftrightarrow> (\<exists>x. r = Ok x)"
  by (cases r) auto

definition bindO :: "'a outcome \<Rightarrow> ('a \<Rightarrow> 'b outcome) \<Rightarrow> 'b outcome" where
  "bindO r f = (case r of Ok x \<Rightarrow> f x | Err e \<Rightarrow> Err e | Panic \<Rightarrow> Panic)"

lemma bindO_simps [simp, outcome_simps]:
  "bindO (Ok x) f = f x" "bindO (Err e) f = Err e" "bindO Panic f = Panic"
  by (simp_all add: bindO_def)

lemma bindO_Ok_iff [outcome_elims]: "bindO r f = Ok y \<longleftrightarrow> (\<exists>x. r = Ok x \<and> f x = Ok y)"
  by (cases r) auto

lemma bindO_assoc: "bindO (bindO r f) g = bindO r (\<lambda>x. bindO (f x) g)"
  by (cases r) auto

text \<open>Reading a nil pointer panics: the value of a possibly nil \<open>math.Int\<close> or \<open>LegacyDec\<close>.\<close>

definition deref :: "'a option \<Rightarrow> 'a outcome" where
  "deref v = (case v of None \<Rightarrow> Panic | Some x \<Rightarrow> Ok x)"

lemma deref_simps [simp, outcome_simps]: "deref None = Panic" "deref (Some x) = Ok x"
  by (simp_all add: deref_def)

lemma deref_Ok_iff [simp]: "deref v = Ok x \<longleftrightarrow> v = Some x"
  by (cases v) auto

section \<open>Calls that read and write a state\<close>

definition retM :: "'a \<Rightarrow> 's \<Rightarrow> 'a outcome \<times> 's" where
  "retM x s = (Ok x, s)"

definition failM :: "error \<Rightarrow> 's \<Rightarrow> 'a outcome \<times> 's" where
  "failM e s = (Err e, s)"

text \<open>A call that only computes: the state is left alone.\<close>

definition liftM :: "'a outcome \<Rightarrow> 's \<Rightarrow> 'a outcome \<times> 's" where
  "liftM r s = (r, s)"

text \<open>The idiom \<^verbatim>\<open>x, err := m(ctx); if err != nil { return err }; ...\<close>\<close>

definition bindM ::
  "('s \<Rightarrow> 'a outcome \<times> 's) \<Rightarrow> ('a \<Rightarrow> 's \<Rightarrow> 'b outcome \<times> 's) \<Rightarrow> 's \<Rightarrow> 'b outcome \<times> 's" where
  "bindM m f s =
     (case m s of
        (Ok x, s') \<Rightarrow> f x s'
      | (Err e, s') \<Rightarrow> (Err e, s')
      | (Panic, s') \<Rightarrow> (Panic, s'))"

definition getM :: "('s \<Rightarrow> 'a) \<Rightarrow> 's \<Rightarrow> 'a outcome \<times> 's" where
  "getM f s = (Ok (f s), s)"

text \<open>A call on a part of the state (a module's store inside the context).\<close>

definition onM ::
  "('s \<Rightarrow> 't) \<Rightarrow> ('t \<Rightarrow> 's \<Rightarrow> 's) \<Rightarrow> ('t \<Rightarrow> 'a outcome \<times> 't) \<Rightarrow> 's \<Rightarrow> 'a outcome \<times> 's" where
  "onM get put m s = (case m (get s) of (r, t) \<Rightarrow> (r, put t s))"

lemma retM_simp [simp, outcome_simps]: "retM x s = (Ok x, s)"
  by (simp add: retM_def)

lemma failM_simp [simp, outcome_simps]: "failM e s = (Err e, s)"
  by (simp add: failM_def)

lemma liftM_simp [simp, outcome_simps]: "liftM r s = (r, s)"
  by (simp add: liftM_def)

lemma getM_simp [simp, outcome_simps]: "getM f s = (Ok (f s), s)"
  by (simp add: getM_def)

lemma onM_simp [outcome_simps]: "m (get s) = (r, t) \<Longrightarrow> onM get put m s = (r, put t s)"
  by (simp add: onM_def)

lemma onM_iff: "onM get put m s = (r, s') \<longleftrightarrow> (\<exists>t. m (get s) = (r, t) \<and> s' = put t s)"
  by (auto simp: onM_def split: prod.splits)

lemma bindM_Ok [outcome_simps]: "m s = (Ok x, s') \<Longrightarrow> bindM m f s = f x s'"
  by (simp add: bindM_def)

lemma bindM_Err [outcome_simps]: "m s = (Err e, s') \<Longrightarrow> bindM m f s = (Err e, s')"
  by (simp add: bindM_def)

lemma bindM_Panic [outcome_simps]: "m s = (Panic, s') \<Longrightarrow> bindM m f s = (Panic, s')"
  by (simp add: bindM_def)

lemma bindM_Ok_iff [outcome_elims]:
  "bindM m f s = (Ok y, s') \<longleftrightarrow> (\<exists>x s1. m s = (Ok x, s1) \<and> f x s1 = (Ok y, s'))"
  by (auto simp: bindM_def split: prod.splits outcome.splits)

text \<open>What a sequence of calls preserves: every call it makes preserves it.\<close>

definition preserves :: "('s \<Rightarrow> bool) \<Rightarrow> ('s \<Rightarrow> 'a outcome \<times> 's) \<Rightarrow> bool" where
  "preserves P m \<longleftrightarrow> (\<forall>s. P s \<longrightarrow> P (snd (m s)))"

lemma preservesI: "(\<And>s. P s \<Longrightarrow> P (snd (m s))) \<Longrightarrow> preserves P m"
  by (simp add: preserves_def)

lemma preservesD: "preserves P m \<Longrightarrow> P s \<Longrightarrow> m s = (r, s') \<Longrightarrow> P s'"
  unfolding preserves_def by force

lemma preserves_bindM:
  assumes "preserves P m" and "\<And>x. preserves P (f x)"
  shows "preserves P (bindM m f)"
proof (rule preservesI)
  fix s assume "P s"
  obtain r s1 where m: "m s = (r, s1)" by fastforce
  with assms(1) \<open>P s\<close> have "P s1" by (rule preservesD)
  then show "P (snd (bindM m f s))"
    using m assms(2) by (cases r) (auto simp: bindM_def preserves_def)
qed

lemma preserves_pure [simp]:
  "preserves P (retM x)" "preserves P (failM e)" "preserves P (liftM r)" "preserves P (getM f)"
  by (simp_all add: preserves_def)

section \<open>Lists\<close>

text \<open>A list whose keys ascend strictly is determined by what it maps each key to.\<close>

abbreviation keys_ascending :: "('k::linorder \<times> 'v) list \<Rightarrow> bool" where
  "keys_ascending kvs \<equiv> sorted_wrt (<) (map fst kvs)"

lemma keys_ascending_distinct: "keys_ascending kvs \<Longrightarrow> distinct (map fst kvs)"
  by (simp add: strict_sorted_iff)

lemma map_of_rev_distinct: "distinct (map fst kvs) \<Longrightarrow> map_of (rev kvs) = map_of kvs"
  by (subst map_of_inject_set) (simp_all add: rev_map [symmetric])

lemma keys_ascending_ext:
  assumes "keys_ascending xs" and "keys_ascending ys" and "map_of xs = map_of ys"
  shows "xs = ys"
proof -
  have d: "distinct (map fst xs)" "distinct (map fst ys)"
    using assms(1,2) by (simp_all add: keys_ascending_distinct)
  have same: "set xs = set ys"
    using d assms(3) by (metis map_of_inject_set)
  have "sorted (map fst xs)" "sorted (map fst ys)"
    using assms(1,2) by (simp_all add: strict_sorted_iff)
  moreover have "inj_on fst (set xs \<union> set ys)"
    using d(1) same by (simp add: distinct_map)
  ultimately show ?thesis
    using d same by (intro map_sorted_distinct_set_unique)
qed

end
