(* ===== verification/Module_Store.thy ===== *)
theory Module_Store
  imports Mono_Prelude
begin

text \<open>
  The state a keeper owns, as the keepers of this repository declare it: singletons
  (\<open>collections.Item\<close>), one counter (\<open>collections.Sequence\<close>) and one ordered map
  (\<open>collections.Map\<close>). A cell is absent, holds a value, or holds bytes that do not decode
  (reading it returns that error). A write returns an error when the value does not encode or the
  underlying store refuses it: which writes are refused is a parameter (\<open>fault\<close>) of the
  keepers, as the repository's own tests inject a store that fails.

  The map is the interface \<open>ordered_store\<close>: what a lookup returns after a write, and that a
  walk visits every entry once in ascending key order. The clients' lemmas (rebuilding a map from
  its walk, the sum of its values) are proved in the locale; the association list the keepers'
  records use is its provider.
\<close>

section \<open>Singletons and the counter\<close>

datatype 'v entry = Val 'v | Corrupt error

type_synonym 'v item = "'v entry option"

definition item_get :: "'v item \<Rightarrow> 'v outcome" where
  "item_get c =
     (case c of None \<Rightarrow> Err ErrNotFound | Some (Val v) \<Rightarrow> Ok v | Some (Corrupt e) \<Rightarrow> Err e)"

definition item_set :: "error option \<Rightarrow> 'v outcome \<Rightarrow> 'v item \<Rightarrow> unit outcome \<times> 'v item" where
  "item_set fault enc c =
     (case enc of
        Err e \<Rightarrow> (Err e, c)
      | Panic \<Rightarrow> (Panic, c)
      | Ok v \<Rightarrow> (case fault of Some e \<Rightarrow> (Err e, c) | None \<Rightarrow> (Ok (), Some (Val v))))"

text \<open>A counter that was never written reads 0; the value is a \<open>uint64\<close>.\<close>

definition seq_peek :: "64 word item \<Rightarrow> 64 word outcome" where
  "seq_peek c = (case c of None \<Rightarrow> Ok 0 | Some (Val n) \<Rightarrow> Ok n | Some (Corrupt e) \<Rightarrow> Err e)"

definition seq_next :: "error option \<Rightarrow> 64 word item \<Rightarrow> 64 word outcome \<times> 64 word item" where
  "seq_next fault =
     bindM (\<lambda>c. (seq_peek c, c)) (\<lambda>n.
     bindM (item_set fault (Ok (n + 1))) (\<lambda>_.
     retM n))"

lemma item_get_simps [simp]:
  "item_get None = Err ErrNotFound"
  "item_get (Some (Val v)) = Ok v"
  "item_get (Some (Corrupt e)) = Err e"
  by (simp_all add: item_get_def)

lemma item_get_Ok_iff [simp]: "item_get c = Ok v \<longleftrightarrow> c = Some (Val v)"
  by (auto simp: item_get_def split: option.splits entry.splits)

lemma item_set_simps [simp]:
  "item_set None (Ok v) c = (Ok (), Some (Val v))"
  "item_set (Some e) (Ok v) c = (Err e, c)"
  "item_set fault (Err e) c = (Err e, c)"
  "item_set fault Panic c = (Panic, c)"
  by (simp_all add: item_set_def)

lemma item_set_Ok_iff:
  "item_set fault enc c = (Ok u, c') \<longleftrightarrow> (\<exists>v. fault = None \<and> enc = Ok v \<and> c' = Some (Val v))"
  by (auto simp: item_set_def split: option.splits outcome.splits)

lemma item_set_not_Ok:
  "item_set fault enc c = (r, c') \<Longrightarrow> \<not> is_ok r \<Longrightarrow> c' = c"
  by (auto simp: item_set_def split: option.splits outcome.splits)

lemma seq_peek_simps [simp]:
  "seq_peek None = Ok 0" "seq_peek (Some (Val n)) = Ok n" "seq_peek (Some (Corrupt e)) = Err e"
  by (simp_all add: seq_peek_def)

lemma seq_next_simp:
  "seq_peek c = Ok n \<Longrightarrow> seq_next None c = (Ok n, Some (Val (n + 1)))"
  by (simp add: seq_next_def bindM_def)

lemma seq_next_Ok_iff:
  "seq_next fault c = (Ok n, c') \<longleftrightarrow> fault = None \<and> seq_peek c = Ok n \<and> c' = Some (Val (n + 1))"
  by (auto simp: seq_next_def bindM_Ok_iff item_set_Ok_iff)

lemma seq_next_not_Ok:
  "seq_next fault c = (r, c') \<Longrightarrow> \<not> is_ok r \<Longrightarrow> c' = c"
  by (auto simp: seq_next_def seq_peek_def bindM_def item_set_def
      split: outcome.splits option.splits entry.splits)

section \<open>The ordered map: interface\<close>

locale ordered_store =
  fixes lookup :: "'m \<Rightarrow> 'k::linorder \<Rightarrow> 'v option"
    and put :: "'k \<Rightarrow> 'v \<Rightarrow> 'm \<Rightarrow> 'm"
    and fresh :: "'m"
    and walk :: "'m \<Rightarrow> ('k \<times> 'v) list"
    and well_formed :: "'m \<Rightarrow> bool"
  assumes lookup_fresh: "lookup fresh k = None"
    and lookup_put:
      "well_formed m \<Longrightarrow> lookup (put k v m) k' = (if k' = k then Some v else lookup m k')"
    and well_formed_fresh: "well_formed fresh"
    and well_formed_put: "well_formed m \<Longrightarrow> well_formed (put k v m)"
    and walk_ascending: "well_formed m \<Longrightarrow> keys_ascending (walk m)"
    and walk_lookup: "well_formed m \<Longrightarrow> map_of (walk m) k = lookup m k"
    and walk_inject: "well_formed m \<Longrightarrow> well_formed m' \<Longrightarrow> walk m = walk m' \<Longrightarrow> m = m'"
begin

definition put_all :: "('k \<times> 'v) list \<Rightarrow> 'm \<Rightarrow> 'm" where
  "put_all kvs m = foldl (\<lambda>m (k, v). put k v m) m kvs"

lemma put_all_simps [simp]:
  "put_all [] m = m"
  "put_all ((k, v) # kvs) m = put_all kvs (put k v m)"
  by (simp_all add: put_all_def)

lemma well_formed_put_all: "well_formed m \<Longrightarrow> well_formed (put_all kvs m)"
  by (induction kvs arbitrary: m) (auto simp: well_formed_put)

text \<open>The last write of a key wins, and other keys keep what they had.\<close>

lemma lookup_put_all:
  "well_formed m \<Longrightarrow>
   lookup (put_all kvs m) k = (case map_of (rev kvs) k of Some v \<Rightarrow> Some v | None \<Rightarrow> lookup m k)"
proof (induction kvs arbitrary: m)
  case Nil
  then show ?case by simp
next
  case (Cons kv kvs)
  obtain k1 v1 where kv: "kv = (k1, v1)" by fastforce
  from Cons.prems have "well_formed (put k1 v1 m)" by (rule well_formed_put)
  note IH = Cons.IH [OF this]
  show ?case
    using Cons.prems by (simp add: kv IH lookup_put map_of_append map_add_def split: option.splits)
qed

lemma lookup_ext:
  assumes "well_formed m" and "well_formed m'" and "\<And>k. lookup m k = lookup m' k"
  shows "m = m'"
proof (rule walk_inject [OF assms(1,2)])
  show "walk m = walk m'"
    by (rule keys_ascending_ext)
      (use assms in \<open>auto simp: walk_ascending walk_lookup fun_eq_iff\<close>)
qed

text \<open>Writing back everything a walk visited, into an empty map, gives the map again.\<close>

lemma rebuild:
  assumes "well_formed m"
  shows "put_all (walk m) fresh = m"
proof (rule lookup_ext)
  show "well_formed (put_all (walk m) fresh)"
    by (intro well_formed_put_all well_formed_fresh)
  fix k
  have "map_of (rev (walk m)) = map_of (walk m)"
    using assms by (intro map_of_rev_distinct keys_ascending_distinct walk_ascending)
  then show "lookup (put_all (walk m) fresh) k = lookup m k"
    using assms by (simp add: lookup_put_all well_formed_fresh lookup_fresh walk_lookup split: option.splits)
qed (fact assms)

text \<open>The sum of a measure over the entries, and what one write adds to it.\<close>

definition sum_entries :: "('v \<Rightarrow> int) \<Rightarrow> 'm \<Rightarrow> int" where
  "sum_entries f m = sum_list (map (f \<circ> snd) (walk m))"

lemma sum_entries_fresh: "sum_entries f fresh = 0"
proof -
  have "map_of (walk fresh) = Map.empty"
    by (simp add: walk_lookup well_formed_fresh lookup_fresh fun_eq_iff)
  then show ?thesis by (simp add: sum_entries_def)
qed

lemma sum_entries_eq:
  assumes "well_formed m"
  shows "sum_entries f m = (\<Sum>k \<in> dom (lookup m). f (the (lookup m k)))"
proof -
  let ?ws = "walk m"
  have d: "distinct (map fst ?ws)"
    using assms by (intro keys_ascending_distinct walk_ascending)
  have "sum_list (map (f \<circ> snd) ?ws) = sum_list (map (\<lambda>k. f (the (map_of ?ws k))) (map fst ?ws))"
    using d by (auto intro!: arg_cong [where f = sum_list] simp: comp_def)
  also have "\<dots> = (\<Sum>k \<in> fst ` set ?ws. f (the (map_of ?ws k)))"
    using d by (metis sum.distinct_set_conv_list list.set_map)
  also have "fst ` set ?ws = dom (lookup m)"
    using assms by (simp add: dom_map_of_conv_image_fst [symmetric] walk_lookup dom_def)
  finally show ?thesis
    using assms by (simp add: sum_entries_def walk_lookup comp_def)
qed

lemma finite_lookup: "well_formed m \<Longrightarrow> finite (dom (lookup m))"
proof -
  assume "well_formed m"
  then have "dom (lookup m) = dom (map_of (walk m))"
    by (simp add: walk_lookup dom_def)
  then show ?thesis by (simp add: finite_dom_map_of)
qed

lemma sum_entries_put:
  assumes "well_formed m"
  shows "sum_entries f (put k v m)
         = sum_entries f m - (case lookup m k of None \<Rightarrow> 0 | Some v0 \<Rightarrow> f v0) + f v"
proof -
  let ?g = "\<lambda>x. f (the (lookup m x))"
  let ?D = "dom (lookup m)"
  have new: "lookup (put k v m) = (lookup m)(k := Some v)"
    using assms by (simp add: lookup_put fun_eq_iff)
  have fin: "finite ?D" using assms by (rule finite_lookup)
  have "sum_entries f (put k v m) = (\<Sum>x \<in> insert k ?D. f (the (((lookup m)(k := Some v)) x)))"
    using assms by (simp add: sum_entries_eq well_formed_put new)
  also have "\<dots> = f v + (\<Sum>x \<in> ?D - {k}. ?g x)"
    using fin by (simp add: sum.insert_remove cong: sum.cong_simp)
  also have "(\<Sum>x \<in> ?D - {k}. ?g x)
             = (\<Sum>x \<in> ?D. ?g x) - (case lookup m k of None \<Rightarrow> 0 | Some v0 \<Rightarrow> f v0)"
    using fin by (cases "lookup m k") (auto simp: sum_diff1 dom_def)
  finally show ?thesis
    using assms by (simp add: sum_entries_eq)
qed

end

section \<open>The ordered map: the keepers' representation\<close>

type_synonym ('k, 'v) kv = "('k \<times> 'v) list"

fun kv_put :: "'k::linorder \<Rightarrow> 'v \<Rightarrow> ('k, 'v) kv \<Rightarrow> ('k, 'v) kv" where
  "kv_put k v [] = [(k, v)]"
| "kv_put k v (kv # kvs) =
     (if fst kv < k then kv # kv_put k v kvs
      else if fst kv = k then (k, v) # kvs
      else (k, v) # kv # kvs)"

lemma kv_put_map_of: "map_of (kv_put k v kvs) = (map_of kvs)(k := Some v)"
  by (induction kvs) (auto simp: fun_eq_iff)

lemma kv_put_keys: "fst ` set (kv_put k v kvs) = insert k (fst ` set kvs)"
  by (induction kvs) (auto split: if_splits)

lemma kv_put_ascending: "keys_ascending kvs \<Longrightarrow> keys_ascending (kv_put k v kvs)"
proof (induction kvs)
  case Nil
  then show ?case by simp
next
  case (Cons kv kvs)
  then show ?case
    using kv_put_keys [of k v kvs] by (fastforce simp: image_iff)
qed

interpretation kv: ordered_store map_of kv_put "[]" "\<lambda>kvs. kvs" keys_ascending
  by unfold_locales (auto simp: kv_put_map_of kv_put_ascending)

end
