(* ===== verification/Sdk_Interfaces.thy ===== *)
theory Sdk_Interfaces
  imports Module_Store
begin

text \<open>
  The Cosmos SDK as the modules of this repository see it. None of it is under src/, so none of it
  is defined here: the functions the code calls are fields of records that the definitions of the
  model take as an argument. The two interfaces the repository itself declares
  (\<^verbatim>\<open>x/burn/types/expected_keepers.go\<close>, \<^verbatim>\<open>x/validator/types/expected_keepers.go\<close>) are records of
  their own; everything else (\<^verbatim>\<open>cosmossdk.io/math\<close>, \<open>sdk.NewCoin\<close>, the address codecs) is
  \<open>sdk_lib\<close>.

  What the theorems rely on is stated as predicates over these records: \<open>sdk_laws\<close> (the
  arithmetic of \<open>math.Int\<close> and \<open>LegacyDec\<close>, the coin constructors), \<open>codec_laws\<close> (the
  address codec reads back what it prints), \<open>bank_accounting\<close> (what a bank call that returned nil
  has moved) and \<open>bank_progress\<close> (funded transfers and burns succeed).

  A \<open>math.Int\<close> or \<open>LegacyDec\<close> is \<open>int option\<close>: \<open>None\<close> is the nil value, a decimal
  is the integer it holds, scaled by \<open>10 ^ 18\<close>. Signs and comparisons are read off that integer
  (a nil operand panics); the operations that can overflow are parameters.
\<close>

section \<open>Values\<close>

type_synonym bytes = "8 word list"
type_synonym addr = bytes

record coin =
  Denom :: string
  Amount :: "int option"

datatype event = Event string "(string \<times> string) list"

text \<open>\<open>sdk.DefaultBondDenom\<close>, which \<^verbatim>\<open>app/config.go\<close> sets when the program starts.\<close>

definition DefaultBondDenom :: string where
  "DefaultBondDenom = ''alyth''"

definition dec_one :: int where
  "dec_one = 10 ^ 18"

text \<open>How much of a denomination a list of coins holds.\<close>

fun coins_amount :: "coin list \<Rightarrow> string \<Rightarrow> int" where
  "coins_amount [] d = 0"
| "coins_amount (c # cs) d =
     (if Denom c = d then (case Amount c of None \<Rightarrow> 0 | Some i \<Rightarrow> i) else 0) + coins_amount cs d"

text \<open>A valid \<open>sdk.Coins\<close> holds positive amounts only.\<close>

definition valid_coins :: "coin list \<Rightarrow> bool" where
  "valid_coins cs \<longleftrightarrow> (\<forall>c \<in> set cs. \<exists>i>0. Amount c = Some i)"

lemma coins_amount_nonneg: "valid_coins cs \<Longrightarrow> 0 \<le> coins_amount cs d"
  by (induction cs) (auto simp: valid_coins_def)

text \<open>\<open>coin.IsPositive()\<close>, \<open>coin.IsZero()\<close>: a nil amount panics.\<close>

definition coin_IsPositive :: "coin \<Rightarrow> bool outcome" where
  "coin_IsPositive c = bindO (deref (Amount c)) (\<lambda>i. Ok (0 < i))"

definition coin_IsZero :: "coin \<Rightarrow> bool outcome" where
  "coin_IsZero c = bindO (deref (Amount c)) (\<lambda>i. Ok (i = 0))"

definition int_LT :: "int option \<Rightarrow> int option \<Rightarrow> bool outcome" where
  "int_LT a b = bindO (deref a) (\<lambda>x. bindO (deref b) (\<lambda>y. Ok (x < y)))"

section \<open>Library functions\<close>

record sdk_lib =
  IntAdd :: "int \<Rightarrow> int \<Rightarrow> int outcome"
  DecMulInt :: "int \<Rightarrow> int \<Rightarrow> int outcome"
  DecTruncateInt :: "int \<Rightarrow> int outcome"
  IntEncode :: "int option \<Rightarrow> int outcome"
  DecEncode :: "int option \<Rightarrow> int option outcome"
  IntString :: "int \<Rightarrow> string"
  DecString :: "int \<Rightarrow> string"
  CoinString :: "coin \<Rightarrow> string"
  NewCoin :: "string \<Rightarrow> int option \<Rightarrow> coin outcome"
  NewCoins :: "coin \<Rightarrow> coin list outcome"
  CoinValidate :: "coin \<Rightarrow> unit outcome"
  StringToBytes :: "string \<Rightarrow> addr outcome"
  BytesToString :: "addr \<Rightarrow> string outcome"
  ValStringToBytes :: "string \<Rightarrow> addr outcome"
  NewModuleAddress :: "string \<Rightarrow> addr"

definition sdk_laws :: "sdk_lib \<Rightarrow> bool" where
  "sdk_laws L \<longleftrightarrow>
     (\<forall>a b c. IntAdd L a b = Ok c \<longrightarrow> c = a + b) \<and>
     (\<forall>a b. \<bar>a + b\<bar> < 2 ^ 256 \<longrightarrow> IntAdd L a b = Ok (a + b)) \<and>
     (\<forall>d i m. DecMulInt L d i = Ok m \<longrightarrow> m = d * i) \<and>
     (\<forall>d i. \<bar>d * i\<bar> < 2 ^ 256 \<longrightarrow> DecMulInt L d i = Ok (d * i)) \<and>
     (\<forall>m t. 0 \<le> m \<longrightarrow> DecTruncateInt L m = Ok t \<longrightarrow> t = m div dec_one) \<and>
     (\<forall>m. \<bar>m\<bar> < 2 ^ 256 \<longrightarrow> DecTruncateInt L m = Ok (sgn m * (\<bar>m\<bar> div dec_one))) \<and>
     (\<forall>i. IntEncode L (Some i) = Ok i) \<and>
     (\<forall>d. DecEncode L (Some d) = Ok (Some d)) \<and>
     (\<forall>i. 0 \<le> i \<longrightarrow>
        NewCoin L DefaultBondDenom (Some i) = Ok \<lparr>Denom = DefaultBondDenom, Amount = Some i\<rparr>) \<and>
     (\<forall>c cs. NewCoins L c = Ok cs \<longrightarrow>
        valid_coins cs \<and>
        (\<exists>i\<ge>0. Amount c = Some i \<and> (\<forall>d. coins_amount cs d = (if d = Denom c then i else 0)))) \<and>
     (\<forall>i>0. \<exists>cs. NewCoins L \<lparr>Denom = DefaultBondDenom, Amount = Some i\<rparr> = Ok cs)"

lemma sdk_lawsD:
  assumes "sdk_laws L"
  shows "IntAdd L a b = Ok c \<Longrightarrow> c = a + b"
    and "\<bar>a + b\<bar> < 2 ^ 256 \<Longrightarrow> IntAdd L a b = Ok (a + b)"
    and "DecMulInt L d i = Ok m \<Longrightarrow> m = d * i"
    and "\<bar>d * i\<bar> < 2 ^ 256 \<Longrightarrow> DecMulInt L d i = Ok (d * i)"
    and "0 \<le> m \<Longrightarrow> DecTruncateInt L m = Ok t \<Longrightarrow> t = m div dec_one"
    and "\<bar>m\<bar> < 2 ^ 256 \<Longrightarrow> DecTruncateInt L m = Ok (sgn m * (\<bar>m\<bar> div dec_one))"
    and "IntEncode L (Some i) = Ok i"
    and "DecEncode L (Some d) = Ok (Some d)"
    and "0 \<le> i \<Longrightarrow>
      NewCoin L DefaultBondDenom (Some i) = Ok \<lparr>Denom = DefaultBondDenom, Amount = Some i\<rparr>"
    and "NewCoins L cn = Ok cs \<Longrightarrow> \<exists>i\<ge>0. Amount cn = Some i \<and>
      (\<forall>d. coins_amount cs d = (if d = Denom cn then i else 0))"
    and "NewCoins L cn = Ok cs \<Longrightarrow> valid_coins cs"
    and "0 < i \<Longrightarrow> \<exists>cs. NewCoins L \<lparr>Denom = DefaultBondDenom, Amount = Some i\<rparr> = Ok cs"
  using assms unfolding sdk_laws_def by blast+

text \<open>An address codec reads back what it printed (several strings may name one address).\<close>

definition codec_laws :: "sdk_lib \<Rightarrow> bool" where
  "codec_laws L \<longleftrightarrow>
     (\<forall>a s. BytesToString L a = Ok s \<longrightarrow> StringToBytes L s = Ok a)"

lemma codec_lawsD: "codec_laws L \<Longrightarrow> BytesToString L a = Ok s \<Longrightarrow> StringToBytes L s = Ok a"
  by (simp add: codec_laws_def)

section \<open>The bank, as x/burn sees it\<close>

record 'b bank_keeper =
  GetBalance :: "addr \<Rightarrow> string \<Rightarrow> 'b \<Rightarrow> coin"
  SendCoinsFromAccountToModule :: "addr \<Rightarrow> string \<Rightarrow> coin list \<Rightarrow> 'b \<Rightarrow> unit outcome \<times> 'b"
  SendCoinsFromModuleToModule :: "string \<Rightarrow> string \<Rightarrow> coin list \<Rightarrow> 'b \<Rightarrow> unit outcome \<times> 'b"
  BurnCoins :: "string \<Rightarrow> coin list \<Rightarrow> 'b \<Rightarrow> unit outcome \<times> 'b"

text \<open>The balance as a number.\<close>

definition balance :: "'b bank_keeper \<Rightarrow> 'b \<Rightarrow> addr \<Rightarrow> string \<Rightarrow> int" where
  "balance B b a d = (case Amount (GetBalance B a d b) of None \<Rightarrow> 0 | Some i \<Rightarrow> i)"

text \<open>A transfer moves exactly the coins it names and leaves the supply alone.\<close>

definition moved ::
  "'b bank_keeper \<Rightarrow> ('b \<Rightarrow> string \<Rightarrow> int) \<Rightarrow> addr \<Rightarrow> addr \<Rightarrow> coin list \<Rightarrow> 'b \<Rightarrow> 'b \<Rightarrow> bool" where
  "moved B supply from dest cs b b' \<longleftrightarrow>
     supply b' = supply b \<and>
     (\<forall>x d. balance B b' x d =
        balance B b x d - (if x = from then coins_amount cs d else 0)
                        + (if x = dest then coins_amount cs d else 0))"

text \<open>A burn takes the coins from the module's account and from the supply.\<close>

definition destroyed ::
  "'b bank_keeper \<Rightarrow> ('b \<Rightarrow> string \<Rightarrow> int) \<Rightarrow> addr \<Rightarrow> coin list \<Rightarrow> 'b \<Rightarrow> 'b \<Rightarrow> bool" where
  "destroyed B supply from cs b b' \<longleftrightarrow>
     (\<forall>d. supply b' d = supply b d - coins_amount cs d) \<and>
     (\<forall>x d. balance B b' x d = balance B b x d - (if x = from then coins_amount cs d else 0))"

definition bank_accounting ::
  "sdk_lib \<Rightarrow> 'b bank_keeper \<Rightarrow> ('b \<Rightarrow> string \<Rightarrow> int) \<Rightarrow> bool" where
  "bank_accounting L B supply \<longleftrightarrow>
     (\<forall>a d b. \<exists>i\<ge>0. GetBalance B a d b = \<lparr>Denom = d, Amount = Some i\<rparr>) \<and>
     (\<forall>a m cs b b'. SendCoinsFromAccountToModule B a m cs b = (Ok (), b') \<longrightarrow>
        moved B supply a (NewModuleAddress L m) cs b b') \<and>
     (\<forall>m m' cs b b'. SendCoinsFromModuleToModule B m m' cs b = (Ok (), b') \<longrightarrow>
        moved B supply (NewModuleAddress L m) (NewModuleAddress L m') cs b b') \<and>
     (\<forall>m cs b b'. BurnCoins B m cs b = (Ok (), b') \<longrightarrow>
        destroyed B supply (NewModuleAddress L m) cs b b')"

lemma bank_accountingD:
  assumes "bank_accounting L B supply"
  shows "\<exists>i\<ge>0. GetBalance B a d b = \<lparr>Denom = d, Amount = Some i\<rparr>"
    and "SendCoinsFromAccountToModule B a m cs b = (Ok u, b') \<Longrightarrow>
      moved B supply a (NewModuleAddress L m) cs b b'"
    and "SendCoinsFromModuleToModule B m m' cs b = (Ok u, b') \<Longrightarrow>
      moved B supply (NewModuleAddress L m) (NewModuleAddress L m') cs b b'"
    and "BurnCoins B m cs b = (Ok u, b') \<Longrightarrow>
      destroyed B supply (NewModuleAddress L m) cs b b'"
  using assms unfolding bank_accounting_def by auto

lemma GetBalance_balance:
  "bank_accounting L B supply \<Longrightarrow> GetBalance B a d b = \<lparr>Denom = d, Amount = Some (balance B b a d)\<rparr>"
  unfolding balance_def by (metis bank_accountingD(1) coin.select_convs(2) option.case(2))

lemma balance_nonneg: "bank_accounting L B supply \<Longrightarrow> 0 \<le> balance B b a d"
  unfolding balance_def by (metis bank_accountingD(1) coin.select_convs(2) option.case(2))

text \<open>
  Transfers between module accounts and burns succeed when the payer holds the coins and, for a
  burn, when the module account may burn (\<open>burner\<close>, from the application's account permissions).
\<close>

definition bank_progress :: "sdk_lib \<Rightarrow> 'b bank_keeper \<Rightarrow> (string \<Rightarrow> bool) \<Rightarrow> bool" where
  "bank_progress L B burner \<longleftrightarrow>
     (\<forall>m m' cs b. valid_coins cs \<longrightarrow> (\<forall>d. coins_amount cs d \<le> balance B b (NewModuleAddress L m) d) \<longrightarrow>
        (\<exists>b'. SendCoinsFromModuleToModule B m m' cs b = (Ok (), b'))) \<and>
     (\<forall>m cs b. burner m \<longrightarrow> valid_coins cs \<longrightarrow> (\<forall>d. coins_amount cs d \<le> balance B b (NewModuleAddress L m) d) \<longrightarrow>
        (\<exists>b'. BurnCoins B m cs b = (Ok (), b')))"

lemma bank_progressD:
  assumes "bank_progress L B burner"
  shows "valid_coins cs \<Longrightarrow> (\<And>d. coins_amount cs d \<le> balance B b (NewModuleAddress L m) d) \<Longrightarrow>
      \<exists>b'. SendCoinsFromModuleToModule B m m' cs b = (Ok (), b')"
    and "burner m \<Longrightarrow> valid_coins cs \<Longrightarrow> (\<And>d. coins_amount cs d \<le> balance B b (NewModuleAddress L m) d) \<Longrightarrow>
      \<exists>b'. BurnCoins B m cs b = (Ok (), b')"
  using assms unfolding bank_progress_def by blast+

end
