(* ===== verification/Burn_Types.thy ===== *)
theory Burn_Types
  imports Sdk_Interfaces
begin

text \<open>
  \<^verbatim>\<open>x/burn/types\<close>: the module's parameters, its genesis state and its messages, with their
  validation, and the keeper's own state. \<open>LegacyDec\<close> and \<open>math.Int\<close> fields are
  \<open>int option\<close> (None for nil).
\<close>

section \<open>keys.go\<close>

definition burn_ModuleName :: string where
  "burn_ModuleName = ''burn''"

text \<open>The four prefixes of the module's store; the last one holds a key per address.\<close>

datatype burn_key = ParamsKey | GlobalBurnCountKey | GlobalBurnTotalKey | AccountBurnTotalKey addr

section \<open>params.go\<close>

record burn_params =
  FeeBurnPercent :: "int option"

definition burn_NewParams :: "int option \<Rightarrow> burn_params" where
  "burn_NewParams feeBurnPercent = \<lparr>FeeBurnPercent = feeBurnPercent\<rparr>"

definition DefaultFeeBurnPercent :: "int option" where
  "DefaultFeeBurnPercent = Some 0"

definition burn_DefaultParams :: burn_params where
  "burn_DefaultParams = burn_NewParams DefaultFeeBurnPercent"

definition validateFeeBurnPercent :: "int option \<Rightarrow> unit outcome" where
  "validateFeeBurnPercent v =
     (case v of
        None \<Rightarrow> Err (BurnErr ErrInvalidFeeBurnPercent)
      | Some d \<Rightarrow>
          if d < 0 \<or> dec_one < d then Err (BurnErr ErrInvalidFeeBurnPercent) else Ok ())"

definition burn_Params_Validate :: "burn_params \<Rightarrow> unit outcome" where
  "burn_Params_Validate p = validateFeeBurnPercent (FeeBurnPercent p)"

section \<open>genesis.go, genesis.pb.go\<close>

record AccountBurnRecord =
  rec_Address :: string
  rec_Total :: "int option"

record burn_GenesisState =
  gen_Params :: burn_params
  gen_Count :: "64 word"
  gen_Total :: "int option"
  gen_AccountTotals :: "AccountBurnRecord list"

definition burn_DefaultGenesisState :: burn_GenesisState where
  "burn_DefaultGenesisState =
     \<lparr>gen_Params = burn_DefaultParams, gen_Count = 0, gen_Total = None, gen_AccountTotals = []\<rparr>"

text \<open>The loop of \<open>Validate\<close> over the account records.\<close>

fun validate_records :: "sdk_lib \<Rightarrow> AccountBurnRecord list \<Rightarrow> unit outcome" where
  "validate_records L [] = Ok ()"
| "validate_records L (r # rs) =
     bindO (StringToBytes L (rec_Address r)) (\<lambda>_.
       case rec_Total r of
         None \<Rightarrow> Err (BurnErr ErrInvalidBurnTotal)
       | Some t \<Rightarrow> if t < 0 then Err (BurnErr ErrInvalidBurnTotal) else validate_records L rs)"

definition burn_GenesisState_Validate :: "sdk_lib \<Rightarrow> burn_GenesisState \<Rightarrow> unit outcome" where
  "burn_GenesisState_Validate L gs =
     bindO (burn_Params_Validate (gen_Params gs)) (\<lambda>_.
       case gen_Total gs of
         None \<Rightarrow> validate_records L (gen_AccountTotals gs)
       | Some t \<Rightarrow>
           if t < 0 then Err (BurnErr ErrInvalidBurnTotal)
           else validate_records L (gen_AccountTotals gs))"

section \<open>msgs.go, tx.pb.go\<close>

record MsgBurn =
  FromAddress :: string
  BurnAmount :: coin

definition NewMsgBurn :: "string \<Rightarrow> coin \<Rightarrow> MsgBurn" where
  "NewMsgBurn fromAddress amount = \<lparr>FromAddress = fromAddress, BurnAmount = amount\<rparr>"

record burn_MsgUpdateParams =
  bup_Authority :: string
  bup_Params :: burn_params

section \<open>Lemmas\<close>

text \<open>The parameters \<open>Validate\<close> accepts are the decimals from 0 to 1.\<close>

definition valid_burn_params :: "burn_params \<Rightarrow> bool" where
  "valid_burn_params p \<longleftrightarrow> (\<exists>d. FeeBurnPercent p = Some d \<and> 0 \<le> d \<and> d \<le> dec_one)"

lemma validateFeeBurnPercent_cases:
  "validateFeeBurnPercent v = Ok () \<or> validateFeeBurnPercent v = Err (BurnErr ErrInvalidFeeBurnPercent)"
  by (simp add: validateFeeBurnPercent_def split: option.splits)

lemma burn_Params_Validate_Ok: "burn_Params_Validate p = Ok u \<longleftrightarrow> valid_burn_params p"
  by (auto simp: burn_Params_Validate_def validateFeeBurnPercent_def valid_burn_params_def
      split: option.splits if_splits)

lemma burn_Params_Validate_Err:
  "\<not> valid_burn_params p \<Longrightarrow> burn_Params_Validate p = Err (BurnErr ErrInvalidFeeBurnPercent)"
  using validateFeeBurnPercent_cases [of "FeeBurnPercent p"] burn_Params_Validate_Ok [of p "()"]
  by (auto simp: burn_Params_Validate_def)

lemma valid_burn_params_default: "valid_burn_params burn_DefaultParams"
  by (simp add: valid_burn_params_def burn_DefaultParams_def burn_NewParams_def
      DefaultFeeBurnPercent_def dec_one_def)

lemma validate_records_Ok:
  "validate_records L rs = Ok u \<longleftrightarrow>
   (\<forall>r \<in> set rs. (\<exists>a. StringToBytes L (rec_Address r) = Ok a) \<and> (\<exists>t\<ge>0. rec_Total r = Some t))"
  by (induction rs) (auto simp: bindO_Ok_iff split: option.splits if_splits)

lemma burn_GenesisState_Validate_Ok:
  "burn_GenesisState_Validate L gs = Ok u \<longleftrightarrow>
   valid_burn_params (gen_Params gs) \<and> (\<forall>t. gen_Total gs = Some t \<longrightarrow> 0 \<le> t) \<and>
   (\<forall>r \<in> set (gen_AccountTotals gs).
      (\<exists>a. StringToBytes L (rec_Address r) = Ok a) \<and> (\<exists>t\<ge>0. rec_Total r = Some t))"
  by (auto simp: burn_GenesisState_Validate_def bindO_Ok_iff burn_Params_Validate_Ok validate_records_Ok
      split: option.splits if_splits)

end
