(* ===== verification/Burn_Keeper.thy ===== *)
theory Burn_Keeper
  imports Burn_Types
begin

text \<open>
  \<^verbatim>\<open>x/burn/keeper\<close>: the keeper, its state, the burn operations, the fee burn that runs in
  \<open>BeginBlock\<close>, the message and query servers, and genesis import and export. A method on
  \<open>Keeper\<close> takes the keeper \<open>K\<close> first and is a state-passing call on the chain's
  context, which holds the bank's state (opaque), the module's own store and the emitted events.
\<close>

section \<open>State\<close>

record burn_store =
  Params :: "burn_params item"
  GlobalBurnCount :: "64 word item"
  GlobalBurnTotal :: "int item"
  AccountBurnTotal :: "(addr, int entry) kv"

record 'b chain =
  bank :: 'b
  burn :: burn_store
  emitted :: "event list"

record 'b burn_keeper =
  lib :: sdk_lib
  bankKeeper :: "'b bank_keeper"
  burn_authority :: string
  FeeCollectorName :: string
  burn_fault :: "burn_key \<Rightarrow> error option"

abbreviation on_bank where
  "on_bank \<equiv> onM bank (\<lambda>b s. s\<lparr>bank := b\<rparr>)"

abbreviation on_burn where
  "on_burn \<equiv> onM burn (\<lambda>b s. s\<lparr>burn := b\<rparr>)"

abbreviation EmitEvent :: "event \<Rightarrow> ('b, 'z) chain_scheme \<Rightarrow> unit outcome \<times> ('b, 'z) chain_scheme" where
  "EmitEvent e \<equiv> (\<lambda>s. (Ok (), s\<lparr>emitted := emitted s @ [e]\<rparr>))"

section \<open>keeper.go\<close>

text \<open>
  \<open>NewKeeper\<close> panics when the authority does not decode; otherwise it returns the keeper with
  the arguments it was given.
\<close>

definition burn_NewKeeper ::
  "sdk_lib \<Rightarrow> string \<Rightarrow> 'b bank_keeper \<Rightarrow> string \<Rightarrow> (burn_key \<Rightarrow> error option) \<Rightarrow> 'b burn_keeper outcome" where
  "burn_NewKeeper L authority B feeCollector fault =
     (case StringToBytes L authority of
        Err e \<Rightarrow> Panic
      | Panic \<Rightarrow> Panic
      | Ok _ \<Rightarrow> Ok \<lparr>lib = L, bankKeeper = B, burn_authority = authority,
                   FeeCollectorName = feeCollector, burn_fault = fault\<rparr>)"

definition GetGlobalBurnTotal :: "burn_store \<Rightarrow> int outcome" where
  "GetGlobalBurnTotal st =
     (case item_get (GlobalBurnTotal st) of
        Ok t \<Rightarrow> Ok t
      | Err e \<Rightarrow> if e = ErrNotFound then Ok 0 else Err e
      | Panic \<Rightarrow> Panic)"

definition GetAccountBurnTotal :: "burn_store \<Rightarrow> addr \<Rightarrow> int outcome" where
  "GetAccountBurnTotal st address =
     (case item_get (map_of (AccountBurnTotal st) address) of
        Ok t \<Rightarrow> Ok t
      | Err e \<Rightarrow> if e = ErrNotFound then Ok 0 else Err e
      | Panic \<Rightarrow> Panic)"

text \<open>The writes to the four collections.\<close>

definition Params_Set :: "'b burn_keeper \<Rightarrow> burn_params \<Rightarrow> burn_store \<Rightarrow> unit outcome \<times> burn_store" where
  "Params_Set K p =
     onM Params (\<lambda>c st. st\<lparr>Params := c\<rparr>)
       (item_set (burn_fault K ParamsKey)
          (bindO (DecEncode (lib K) (FeeBurnPercent p)) (\<lambda>d. Ok \<lparr>FeeBurnPercent = d\<rparr>)))"

definition GlobalBurnCount_Set :: "'b burn_keeper \<Rightarrow> 64 word \<Rightarrow> burn_store \<Rightarrow> unit outcome \<times> burn_store" where
  "GlobalBurnCount_Set K n =
     onM GlobalBurnCount (\<lambda>c st. st\<lparr>GlobalBurnCount := c\<rparr>)
       (item_set (burn_fault K GlobalBurnCountKey) (Ok n))"

definition GlobalBurnCount_Next :: "'b burn_keeper \<Rightarrow> burn_store \<Rightarrow> 64 word outcome \<times> burn_store" where
  "GlobalBurnCount_Next K =
     onM GlobalBurnCount (\<lambda>c st. st\<lparr>GlobalBurnCount := c\<rparr>)
       (seq_next (burn_fault K GlobalBurnCountKey))"

definition GlobalBurnTotal_Set :: "'b burn_keeper \<Rightarrow> int option \<Rightarrow> burn_store \<Rightarrow> unit outcome \<times> burn_store" where
  "GlobalBurnTotal_Set K t =
     onM GlobalBurnTotal (\<lambda>c st. st\<lparr>GlobalBurnTotal := c\<rparr>)
       (item_set (burn_fault K GlobalBurnTotalKey) (IntEncode (lib K) t))"

definition AccountBurnTotal_Set ::
  "'b burn_keeper \<Rightarrow> addr \<Rightarrow> int option \<Rightarrow> burn_store \<Rightarrow> unit outcome \<times> burn_store" where
  "AccountBurnTotal_Set K a t st =
     (case IntEncode (lib K) t of
        Err e \<Rightarrow> (Err e, st)
      | Panic \<Rightarrow> (Panic, st)
      | Ok v \<Rightarrow>
          (case burn_fault K (AccountBurnTotalKey a) of
             Some e \<Rightarrow> (Err e, st)
           | None \<Rightarrow> (Ok (), st\<lparr>AccountBurnTotal := kv_put a (Val v) (AccountBurnTotal st)\<rparr>)))"

section \<open>burn.go\<close>

definition updateTrackers :: "'b burn_keeper \<Rightarrow> addr \<Rightarrow> coin \<Rightarrow> burn_store \<Rightarrow> unit outcome \<times> burn_store" where
  "updateTrackers K sender nativeCoin =
     bindM (GlobalBurnCount_Next K) (\<lambda>_.
     bindM (\<lambda>st. (GetGlobalBurnTotal st, st)) (\<lambda>globalTotal.
     bindM (liftM (bindO (deref (Amount nativeCoin)) (IntAdd (lib K) globalTotal))) (\<lambda>nextGlobalTotal.
     bindM (GlobalBurnTotal_Set K (Some nextGlobalTotal)) (\<lambda>_.
     bindM (\<lambda>st. (GetAccountBurnTotal st sender, st)) (\<lambda>accountTotal.
     bindM (liftM (bindO (deref (Amount nativeCoin)) (IntAdd (lib K) accountTotal))) (\<lambda>nextAccountTotal.
     AccountBurnTotal_Set K sender (Some nextAccountTotal)))))))"

definition burnNative ::
  "'b burn_keeper \<Rightarrow> addr \<Rightarrow> coin \<Rightarrow> ('b, 'z) chain_scheme \<Rightarrow> unit outcome \<times> ('b, 'z) chain_scheme" where
  "burnNative K sender nativeCoin =
     bindM (liftM (coin_IsPositive nativeCoin)) (\<lambda>positive.
       if \<not> positive then retM ()
       else if Denom nativeCoin \<noteq> DefaultBondDenom then failM (BurnErr ErrInvalidBurnDenom)
       else
         bindM (liftM (NewCoins (lib K) nativeCoin)) (\<lambda>coins.
         bindM (on_bank (BurnCoins (bankKeeper K) burn_ModuleName coins)) (\<lambda>_.
         on_burn (updateTrackers K sender nativeCoin))))"

definition BurnFromAccount ::
  "'b burn_keeper \<Rightarrow> addr \<Rightarrow> coin \<Rightarrow> ('b, 'z) chain_scheme \<Rightarrow> unit outcome \<times> ('b, 'z) chain_scheme" where
  "BurnFromAccount K sender nativeCoin =
     bindM (liftM (NewCoins (lib K) nativeCoin)) (\<lambda>coins.
     bindM (on_bank (SendCoinsFromAccountToModule (bankKeeper K) sender burn_ModuleName coins)) (\<lambda>_.
     burnNative K sender nativeCoin))"

definition BurnFromModule ::
  "'b burn_keeper \<Rightarrow> string \<Rightarrow> coin \<Rightarrow> ('b, 'z) chain_scheme \<Rightarrow> unit outcome \<times> ('b, 'z) chain_scheme" where
  "BurnFromModule K senderModule nativeCoin =
     bindM (liftM (NewCoins (lib K) nativeCoin)) (\<lambda>coins.
     bindM (on_bank (SendCoinsFromModuleToModule (bankKeeper K) senderModule burn_ModuleName coins)) (\<lambda>_.
     burnNative K (NewModuleAddress (lib K) senderModule) nativeCoin))"

section \<open>fee_burn.go, abci.go\<close>

text \<open>\<open>params.FeeBurnPercent.MulInt(nativeCoin.Amount).TruncateInt()\<close>\<close>

definition burnableAmount :: "sdk_lib \<Rightarrow> int option \<Rightarrow> int option \<Rightarrow> int outcome" where
  "burnableAmount L percent amount =
     bindO (deref percent) (\<lambda>d.
     bindO (deref amount) (\<lambda>i.
     bindO (DecMulInt L d i) (DecTruncateInt L)))"

definition fee_burn_event :: "sdk_lib \<Rightarrow> int option \<Rightarrow> coin \<Rightarrow> event" where
  "fee_burn_event L percent c =
     Event ''fee_burn''
       [(''burn_percent'', case percent of None \<Rightarrow> [] | Some d \<Rightarrow> DecString L d),
        (''amount'', CoinString L c)]"

definition ProcessFeeBurn ::
  "'b burn_keeper \<Rightarrow> ('b, 'z) chain_scheme \<Rightarrow> unit outcome \<times> ('b, 'z) chain_scheme" where
  "ProcessFeeBurn K =
     bindM (\<lambda>s. (item_get (Params (burn s)), s)) (\<lambda>params.
     bindM (getM (\<lambda>s. GetBalance (bankKeeper K)
              (NewModuleAddress (lib K) (FeeCollectorName K)) DefaultBondDenom (bank s))) (\<lambda>nativeCoin.
     bindM (liftM (burnableAmount (lib K) (FeeBurnPercent params) (Amount nativeCoin))) (\<lambda>amount.
       if \<not> 0 < amount then retM ()
       else
         bindM (liftM (NewCoin (lib K) DefaultBondDenom (Some amount))) (\<lambda>burnableCoin.
         bindM (BurnFromModule K (FeeCollectorName K) burnableCoin) (\<lambda>_.
         EmitEvent (fee_burn_event (lib K) (FeeBurnPercent params) burnableCoin))))))"

definition burn_BeginBlock ::
  "'b burn_keeper \<Rightarrow> ('b, 'z) chain_scheme \<Rightarrow> unit outcome \<times> ('b, 'z) chain_scheme" where
  "burn_BeginBlock K = ProcessFeeBurn K"

section \<open>msg_server.go\<close>

definition msg_Burn ::
  "'b burn_keeper \<Rightarrow> MsgBurn \<Rightarrow> ('b, 'z) chain_scheme \<Rightarrow> unit outcome \<times> ('b, 'z) chain_scheme" where
  "msg_Burn K msg =
     bindM (liftM (StringToBytes (lib K) (FromAddress msg))) (\<lambda>senderBytes.
     BurnFromAccount K senderBytes (BurnAmount msg))"

definition burn_UpdateParams ::
  "'b burn_keeper \<Rightarrow> burn_MsgUpdateParams \<Rightarrow> ('b, 'z) chain_scheme \<Rightarrow> unit outcome \<times> ('b, 'z) chain_scheme" where
  "burn_UpdateParams K msg =
     (if burn_authority K \<noteq> bup_Authority msg then failM ErrInvalidSigner
      else
        bindM (liftM (burn_Params_Validate (bup_Params msg))) (\<lambda>_.
        on_burn (Params_Set K (bup_Params msg))))"

section \<open>grpc_query.go\<close>

definition burn_query_Params :: "burn_store \<Rightarrow> burn_params outcome" where
  "burn_query_Params st = item_get (Params st)"

record BurnStatsResponse =
  TotalBurns :: "64 word"
  TotalBurned :: string

definition query_BurnStats :: "'b burn_keeper \<Rightarrow> burn_store \<Rightarrow> BurnStatsResponse outcome" where
  "query_BurnStats K st =
     bindO (seq_peek (GlobalBurnCount st)) (\<lambda>count.
     bindO (GetGlobalBurnTotal st) (\<lambda>globalBurnTotal.
     Ok \<lparr>TotalBurns = count, TotalBurned = IntString (lib K) globalBurnTotal\<rparr>))"

text \<open>A nil request is \<open>None\<close>.\<close>

definition query_AccountBurns :: "'b burn_keeper \<Rightarrow> string option \<Rightarrow> burn_store \<Rightarrow> string outcome" where
  "query_AccountBurns K req st =
     (case req of
        None \<Rightarrow> Err InvalidArgument
      | Some address \<Rightarrow>
          bindO (StringToBytes (lib K) address) (\<lambda>addrBytes.
          bindO (GetAccountBurnTotal st addrBytes) (\<lambda>accountBurnTotal.
          Ok (IntString (lib K) accountBurnTotal))))"

section \<open>genesis.go\<close>

text \<open>The loop of \<open>InitGenesis\<close> over the account records.\<close>

fun init_accounts ::
  "'b burn_keeper \<Rightarrow> AccountBurnRecord list \<Rightarrow> burn_store \<Rightarrow> unit outcome \<times> burn_store" where
  "init_accounts K [] = retM ()"
| "init_accounts K (r # rs) =
     bindM (liftM (StringToBytes (lib K) (rec_Address r))) (\<lambda>addr.
     bindM (AccountBurnTotal_Set K addr (rec_Total r)) (\<lambda>_.
     init_accounts K rs))"

definition burn_InitGenesis ::
  "'b burn_keeper \<Rightarrow> burn_GenesisState \<Rightarrow> burn_store \<Rightarrow> unit outcome \<times> burn_store" where
  "burn_InitGenesis K genState =
     bindM (Params_Set K (gen_Params genState)) (\<lambda>_.
     bindM (GlobalBurnCount_Set K (gen_Count genState)) (\<lambda>_.
     bindM (case gen_Total genState of
              None \<Rightarrow> retM ()
            | Some t \<Rightarrow> GlobalBurnTotal_Set K (Some t)) (\<lambda>_.
     init_accounts K (gen_AccountTotals genState))))"

text \<open>The callback of the walk in \<open>ExportGenesis\<close>, over the entries in key order.\<close>

fun export_accounts :: "sdk_lib \<Rightarrow> (addr, int entry) kv \<Rightarrow> AccountBurnRecord list outcome" where
  "export_accounts L [] = Ok []"
| "export_accounts L ((a, e) # kvs) =
     (case e of
        Corrupt err \<Rightarrow> Err err
      | Val amount \<Rightarrow>
          bindO (BytesToString L a) (\<lambda>addrStr.
          bindO (export_accounts L kvs) (\<lambda>rs.
          Ok (\<lparr>rec_Address = addrStr, rec_Total = Some amount\<rparr> # rs))))"

definition burn_ExportGenesis :: "'b burn_keeper \<Rightarrow> burn_store \<Rightarrow> burn_GenesisState outcome" where
  "burn_ExportGenesis K st =
     bindO (item_get (Params st)) (\<lambda>params.
     bindO (seq_peek (GlobalBurnCount st)) (\<lambda>globalBurnCount.
     bindO (GetGlobalBurnTotal st) (\<lambda>globalBurnTotal.
     bindO (export_accounts (lib K) (AccountBurnTotal st)) (\<lambda>accountBurnTotals.
     Ok \<lparr>gen_Params = params, gen_Count = globalBurnCount, gen_Total = Some globalBurnTotal,
         gen_AccountTotals = accountBurnTotals\<rparr>))))"

end
