(* ===== verification/Burn_Ledger.thy ===== *)
theory Burn_Ledger
  imports Burn_Keeper
begin

text \<open>
  What x/burn promises: an abstract ledger of burns (how many, how much in all, how much by each
  account) and the proof that the keeper's store implements it. The concrete store may hold absent
  cells (read as 0) and cells that do not decode (read as an error); \<open>readable\<close> rules the
  latter out, and every operation of the keeper preserves it.

  The section on inversion gives, for each operation, exactly the state it leaves when it returns
  nil; the later sections (accounting of supply and balances, the ledger invariant, the reachable
  states) rest on those lemmas only.
\<close>

section \<open>Inversion of the operations\<close>

lemma GetGlobalBurnTotal_Ok:
  "GetGlobalBurnTotal st = Ok t \<longleftrightarrow>
   (case GlobalBurnTotal st of
      None \<Rightarrow> t = 0 | Some (Val v) \<Rightarrow> t = v | Some (Corrupt e) \<Rightarrow> e = ErrNotFound \<and> t = 0)"
  by (auto simp: GetGlobalBurnTotal_def split: option.splits entry.splits)

lemma GetAccountBurnTotal_Ok:
  "GetAccountBurnTotal st a = Ok t \<longleftrightarrow>
   (case map_of (AccountBurnTotal st) a of
      None \<Rightarrow> t = 0 | Some (Val v) \<Rightarrow> t = v | Some (Corrupt e) \<Rightarrow> e = ErrNotFound \<and> t = 0)"
  by (auto simp: GetAccountBurnTotal_def split: option.splits entry.splits)

lemma Get_frame [simp]:
  "GetGlobalBurnTotal (st\<lparr>GlobalBurnCount := c\<rparr>) = GetGlobalBurnTotal st"
  "GetAccountBurnTotal (st\<lparr>GlobalBurnCount := c\<rparr>) = GetAccountBurnTotal st"
  "GetAccountBurnTotal (st\<lparr>GlobalBurnTotal := t\<rparr>) = GetAccountBurnTotal st"
  by (simp_all add: GetGlobalBurnTotal_def GetAccountBurnTotal_def fun_eq_iff)

lemma GlobalBurnCount_Next_Ok:
  "GlobalBurnCount_Next K st = (Ok n, st') \<longleftrightarrow>
   burn_fault K GlobalBurnCountKey = None \<and> seq_peek (GlobalBurnCount st) = Ok n \<and>
   st' = st\<lparr>GlobalBurnCount := Some (Val (n + 1))\<rparr>"
  by (auto simp: GlobalBurnCount_Next_def onM_iff seq_next_Ok_iff)

lemma GlobalBurnTotal_Set_Ok:
  "GlobalBurnTotal_Set K t st = (Ok u, st') \<longleftrightarrow>
   burn_fault K GlobalBurnTotalKey = None \<and>
   (\<exists>v. IntEncode (lib K) t = Ok v \<and> st' = st\<lparr>GlobalBurnTotal := Some (Val v)\<rparr>)"
  by (auto simp: GlobalBurnTotal_Set_def onM_iff item_set_Ok_iff)

lemma AccountBurnTotal_Set_Ok:
  "AccountBurnTotal_Set K a t st = (Ok u, st') \<longleftrightarrow>
   burn_fault K (AccountBurnTotalKey a) = None \<and>
   (\<exists>v. IntEncode (lib K) t = Ok v \<and>
        st' = st\<lparr>AccountBurnTotal := kv_put a (Val v) (AccountBurnTotal st)\<rparr>)"
  by (auto simp: AccountBurnTotal_Set_def split: outcome.splits option.splits)

lemma Params_Set_Ok:
  "Params_Set K p st = (Ok u, st') \<longleftrightarrow>
   burn_fault K ParamsKey = None \<and>
   (\<exists>d. DecEncode (lib K) (FeeBurnPercent p) = Ok d \<and>
        st' = st\<lparr>Params := Some (Val \<lparr>FeeBurnPercent = d\<rparr>)\<rparr>)"
  by (auto simp: Params_Set_def onM_iff item_set_Ok_iff bindO_Ok_iff)

lemmas set_Ok = GlobalBurnCount_Next_Ok GlobalBurnTotal_Set_Ok AccountBurnTotal_Set_Ok Params_Set_Ok

text \<open>The store after a burn of \<open>i\<close> by \<open>a\<close>, when the trackers read \<open>n\<close>, \<open>g\<close> and \<open>t\<close>.\<close>

definition tracked :: "addr \<Rightarrow> int \<Rightarrow> 64 word \<Rightarrow> int \<Rightarrow> int \<Rightarrow> burn_store \<Rightarrow> burn_store" where
  "tracked a i n g t st =
     st\<lparr>GlobalBurnCount := Some (Val (n + 1)), GlobalBurnTotal := Some (Val (g + i)),
        AccountBurnTotal := kv_put a (Val (t + i)) (AccountBurnTotal st)\<rparr>"

lemma updateTrackers_Ok:
  assumes laws: "sdk_laws (lib K)" and ok: "updateTrackers K a c st = (Ok u, st')"
  shows "\<exists>n g t i. seq_peek (GlobalBurnCount st) = Ok n \<and> GetGlobalBurnTotal st = Ok g \<and>
    GetAccountBurnTotal st a = Ok t \<and> Amount c = Some i \<and> st' = tracked a i n g t st"
  using ok
  by (auto simp: updateTrackers_def bindM_Ok_iff bindO_Ok_iff set_Ok tracked_def sdk_lawsD(7) [OF laws]
      dest!: sdk_lawsD(1) [OF laws])

lemma on_bank_iff:
  "on_bank m s = (r, s') \<longleftrightarrow> (\<exists>b. m (bank s) = (r, b) \<and> s' = s\<lparr>bank := b\<rparr>)"
  by (rule onM_iff)

lemma on_burn_iff:
  "on_burn m s = (r, s') \<longleftrightarrow> (\<exists>st. m (burn s) = (r, st) \<and> s' = s\<lparr>burn := st\<rparr>)"
  by (rule onM_iff)

lemma coin_IsPositive_Ok [simp]: "coin_IsPositive c = Ok p \<longleftrightarrow> (\<exists>i. Amount c = Some i \<and> p = (0 < i))"
  by (auto simp: coin_IsPositive_def bindO_Ok_iff)

lemma burnNative_Ok:
  assumes "burnNative K a c s = (Ok u, s')"
  shows "(\<exists>i\<le>0. Amount c = Some i \<and> s' = s) \<or>
    (\<exists>i>0. \<exists>coins b st. Amount c = Some i \<and> Denom c = DefaultBondDenom \<and>
       NewCoins (lib K) c = Ok coins \<and>
       BurnCoins (bankKeeper K) burn_ModuleName coins (bank s) = (Ok (), b) \<and>
       updateTrackers K a c (burn s) = (Ok (), st) \<and> s' = s\<lparr>bank := b, burn := st\<rparr>)"
  using assms
  by (auto simp: burnNative_def bindM_Ok_iff on_bank_iff on_burn_iff split: if_splits)

lemma BurnFromAccount_Ok:
  assumes "BurnFromAccount K a c s = (Ok u, s')"
  shows "\<exists>coins b. NewCoins (lib K) c = Ok coins \<and>
    SendCoinsFromAccountToModule (bankKeeper K) a burn_ModuleName coins (bank s) = (Ok (), b) \<and>
    burnNative K a c (s\<lparr>bank := b\<rparr>) = (Ok (), s')"
  using assms by (auto simp: BurnFromAccount_def bindM_Ok_iff on_bank_iff)

lemma BurnFromModule_Ok:
  assumes "BurnFromModule K m c s = (Ok u, s')"
  shows "\<exists>coins b. NewCoins (lib K) c = Ok coins \<and>
    SendCoinsFromModuleToModule (bankKeeper K) m burn_ModuleName coins (bank s) = (Ok (), b) \<and>
    burnNative K (NewModuleAddress (lib K) m) c (s\<lparr>bank := b\<rparr>) = (Ok (), s')"
  using assms by (auto simp: BurnFromModule_def bindM_Ok_iff on_bank_iff)

section \<open>Accounting\<close>

text \<open>
  What a burn of \<open>i\<close> native tokens held by \<open>a\<close> does to the chain: the supply and the
  payer's balance fall by \<open>i\<close>, every other balance (the burn module's own included) stays, and
  the trackers grow.
\<close>

definition burned ::
  "'b burn_keeper \<Rightarrow> ('b \<Rightarrow> string \<Rightarrow> int) \<Rightarrow> addr \<Rightarrow> int \<Rightarrow> ('b, 'z) chain_scheme \<Rightarrow> ('b, 'z) chain_scheme \<Rightarrow> bool"
where
  "burned K supply a i s s' \<longleftrightarrow>
     (\<forall>d. supply (bank s') d = supply (bank s) d - (if d = DefaultBondDenom then i else 0)) \<and>
     (\<forall>x d. balance (bankKeeper K) (bank s') x d =
        balance (bankKeeper K) (bank s) x d - (if x = a \<and> d = DefaultBondDenom then i else 0)) \<and>
     (\<exists>n g t. seq_peek (GlobalBurnCount (burn s)) = Ok n \<and> GetGlobalBurnTotal (burn s) = Ok g \<and>
        GetAccountBurnTotal (burn s) a = Ok t \<and> burn s' = tracked a i n g t (burn s))"

text \<open>The rest of the context is left alone: the events, and what other modules added to the state.\<close>

definition same_rest :: "('b, 'z) chain_scheme \<Rightarrow> ('b, 'z) chain_scheme \<Rightarrow> bool" where
  "same_rest s s' \<longleftrightarrow> emitted s' = emitted s \<and> chain.more s' = chain.more s"

lemma transfer_then_burn:
  assumes laws: "sdk_laws (lib K)" and acc: "bank_accounting (lib K) (bankKeeper K) supply"
    and coins: "NewCoins (lib K) c = Ok coins"
    and sent: "moved (bankKeeper K) supply a (NewModuleAddress (lib K) burn_ModuleName) coins (bank s) b"
    and burnt: "burnNative K a c (s\<lparr>bank := b\<rparr>) = (Ok u, s')"
    and pos: "Amount c = Some i" "0 < i"
  shows "Denom c = DefaultBondDenom \<and> burned K supply a i s s' \<and> same_rest s s'"
proof -
  let ?m = "NewModuleAddress (lib K) burn_ModuleName"
  obtain b' st where den: "Denom c = DefaultBondDenom"
    and bc: "BurnCoins (bankKeeper K) burn_ModuleName coins b = (Ok (), b')"
    and ut: "updateTrackers K a c (burn s) = (Ok (), st)"
    and s': "s' = s\<lparr>bank := b', burn := st\<rparr>"
    using burnNative_Ok [OF burnt] pos coins by fastforce
  have amt: "coins_amount coins d = (if d = DefaultBondDenom then i else 0)" for d
    using sdk_lawsD(10) [OF laws coins] pos den by auto
  have destr: "destroyed (bankKeeper K) supply ?m coins b b'"
    using bc by (rule bank_accountingD(4) [OF acc])
  have "supply b' d = supply (bank s) d - (if d = DefaultBondDenom then i else 0)" for d
    using sent destr amt by (auto simp: moved_def destroyed_def)
  moreover have "balance (bankKeeper K) b' x d = balance (bankKeeper K) (bank s) x d
      - (if x = a \<and> d = DefaultBondDenom then i else 0)" for x d
    using sent destr amt by (auto simp: moved_def destroyed_def)
  ultimately show ?thesis
    using updateTrackers_Ok [OF laws ut] pos(1) den s' by (auto simp: burned_def same_rest_def)
qed

lemma BurnFromAccount_burned:
  assumes laws: "sdk_laws (lib K)" and acc: "bank_accounting (lib K) (bankKeeper K) supply"
    and ok: "BurnFromAccount K a c s = (Ok u, s')" and pos: "Amount c = Some i" "0 < i"
  shows "Denom c = DefaultBondDenom \<and> burned K supply a i s s' \<and> same_rest s s'"
  using BurnFromAccount_Ok [OF ok] transfer_then_burn [OF laws acc _ _ _ pos]
    bank_accountingD(2) [OF acc] by blast

lemma BurnFromModule_burned:
  assumes laws: "sdk_laws (lib K)" and acc: "bank_accounting (lib K) (bankKeeper K) supply"
    and ok: "BurnFromModule K m c s = (Ok u, s')" and pos: "Amount c = Some i" "0 < i"
  shows "Denom c = DefaultBondDenom \<and> burned K supply (NewModuleAddress (lib K) m) i s s' \<and>
    same_rest s s'"
  using BurnFromModule_Ok [OF ok] transfer_then_burn [OF laws acc _ _ _ pos]
    bank_accountingD(3) [OF acc] by blast

text \<open>A successful burn of an amount that is not positive transfers nothing and records nothing.\<close>

lemma BurnFromAccount_nothing:
  assumes laws: "sdk_laws (lib K)" and acc: "bank_accounting (lib K) (bankKeeper K) supply"
    and ok: "BurnFromAccount K a c s = (Ok u, s')" and "Amount c = Some i" "\<not> 0 < i"
  shows "i = 0 \<and> burn s' = burn s \<and> supply (bank s') = supply (bank s) \<and>
    balance (bankKeeper K) (bank s') = balance (bankKeeper K) (bank s)"
proof -
  obtain coins b where c: "NewCoins (lib K) c = Ok coins"
    and sd: "SendCoinsFromAccountToModule (bankKeeper K) a burn_ModuleName coins (bank s) = (Ok (), b)"
    and bn: "burnNative K a c (s\<lparr>bank := b\<rparr>) = (Ok (), s')"
    using BurnFromAccount_Ok [OF ok] by blast
  have i: "i = 0" and amt: "coins_amount coins d = 0" for d
    using sdk_lawsD(10) [OF laws c] assms(4,5) by auto
  have mv: "moved (bankKeeper K) supply a (NewModuleAddress (lib K) burn_ModuleName) coins (bank s) b"
    using sd by (rule bank_accountingD(2) [OF acc])
  have "s' = s\<lparr>bank := b\<rparr>"
    using burnNative_Ok [OF bn] assms(4,5) by auto
  with i mv amt show ?thesis
    by (auto simp: moved_def fun_eq_iff)
qed

section \<open>The fee burn\<close>

lemma burnableAmount_Ok:
  assumes "sdk_laws L" and "burnableAmount L p v = Ok amt"
  shows "\<exists>d i. p = Some d \<and> v = Some i \<and> (0 \<le> d * i \<longrightarrow> amt = d * i div dec_one)"
  using assms
  by (auto simp: burnableAmount_def bindO_Ok_iff dest!: sdk_lawsD(3) [OF assms(1)] sdk_lawsD(5) [OF assms(1)])

lemma ProcessFeeBurn_Ok:
  assumes laws: "sdk_laws (lib K)" and acc: "bank_accounting (lib K) (bankKeeper K) supply"
    and ok: "ProcessFeeBurn K s = (Ok u, s')"
  shows "\<exists>p amt. Params (burn s) = Some (Val p) \<and>
    burnableAmount (lib K) (FeeBurnPercent p)
      (Some (balance (bankKeeper K) (bank s)
         (NewModuleAddress (lib K) (FeeCollectorName K)) DefaultBondDenom)) = Ok amt \<and>
    (if 0 < amt
     then \<exists>s1. burned K supply (NewModuleAddress (lib K) (FeeCollectorName K)) amt s s1 \<and>
            same_rest s s1 \<and>
            s' = s1\<lparr>emitted := emitted s @ [fee_burn_event (lib K) (FeeBurnPercent p)
                    \<lparr>Denom = DefaultBondDenom, Amount = Some amt\<rparr>]\<rparr>
     else s' = s)"
proof -
  let ?fc = "NewModuleAddress (lib K) (FeeCollectorName K)"
  note [simp] = GetBalance_balance [OF acc, of ?fc DefaultBondDenom "bank s"]
  obtain p amt where p: "Params (burn s) = Some (Val p)"
    and amt: "burnableAmount (lib K) (FeeBurnPercent p)
       (Some (balance (bankKeeper K) (bank s) ?fc DefaultBondDenom)) = Ok amt"
    and rest: "(if \<not> 0 < amt then retM ()
       else bindM (liftM (NewCoin (lib K) DefaultBondDenom (Some amt))) (\<lambda>burnableCoin.
            bindM (BurnFromModule K (FeeCollectorName K) burnableCoin) (\<lambda>_.
            EmitEvent (fee_burn_event (lib K) (FeeBurnPercent p) burnableCoin)))) s = (Ok u, s')"
    using ok by (auto simp: ProcessFeeBurn_def bindM_Ok_iff)
  show ?thesis
  proof (cases "0 < amt")
    case False
    with p amt rest show ?thesis by auto
  next
    case True
    let ?c = "\<lparr>Denom = DefaultBondDenom, Amount = Some amt\<rparr>"
    have "NewCoin (lib K) DefaultBondDenom (Some amt) = Ok ?c"
      using True by (intro sdk_lawsD(9) [OF laws]) simp
    with True rest obtain s1 where b: "BurnFromModule K (FeeCollectorName K) ?c s = (Ok (), s1)"
      and s': "s' = s1\<lparr>emitted := emitted s1 @ [fee_burn_event (lib K) (FeeBurnPercent p) ?c]\<rparr>"
      by (auto simp: bindM_Ok_iff)
    have "burned K supply ?fc amt s s1" "same_rest s s1"
      using BurnFromModule_burned [OF laws acc b] True by auto
    with p amt s' True show ?thesis
      by (auto simp: same_rest_def)
  qed
qed

section \<open>The abstract ledger and the refinement\<close>

record ledger =
  burns :: nat
  total :: int
  by_account :: "addr \<Rightarrow> int"

definition record_burn :: "addr \<Rightarrow> int \<Rightarrow> ledger \<Rightarrow> ledger" where
  "record_burn a i l =
     l\<lparr>burns := burns l + 1, total := total l + i,
       by_account := (by_account l)(a := by_account l a + i)\<rparr>"

fun entry_val :: "int entry \<Rightarrow> int" where
  "entry_val (Val v) = v"
| "entry_val (Corrupt e) = 0"

fun is_val :: "'v entry \<Rightarrow> bool" where
  "is_val (Val _) = True"
| "is_val (Corrupt _) = False"

text \<open>Every cell the trackers read decodes, and the account map is ordered.\<close>

definition readable :: "burn_store \<Rightarrow> bool" where
  "readable st \<longleftrightarrow>
     pred_option is_val (GlobalBurnCount st) \<and> pred_option is_val (GlobalBurnTotal st) \<and>
     keys_ascending (AccountBurnTotal st) \<and>
     (\<forall>a e. map_of (AccountBurnTotal st) a = Some e \<longrightarrow> is_val e)"

text \<open>The counter is a \<open>uint64\<close>: it holds the number of burns modulo \<open>2 ^ 64\<close>.\<close>

definition implements :: "burn_store \<Rightarrow> ledger \<Rightarrow> bool" where
  "implements st l \<longleftrightarrow>
     readable st \<and>
     seq_peek (GlobalBurnCount st) = Ok (of_nat (burns l)) \<and>
     GetGlobalBurnTotal st = Ok (total l) \<and>
     (\<forall>a. GetAccountBurnTotal st a = Ok (by_account l a))"

lemma readable_tracked: "readable st \<Longrightarrow> readable (tracked a i n g t st)"
  by (auto simp: readable_def tracked_def kv_put_ascending kv_put_map_of)

lemma implements_tracked:
  assumes impl: "implements st l" and n: "seq_peek (GlobalBurnCount st) = Ok n"
    and g: "GetGlobalBurnTotal st = Ok g" and t: "GetAccountBurnTotal st a = Ok t"
  shows "implements (tracked a i n g t st) (record_burn a i l)"
proof -
  have "n = of_nat (burns l)" "g = total l" "t = by_account l a"
    using impl n g t by (simp_all add: implements_def)
  then show ?thesis
    using impl readable_tracked [of st a i n g t]
    by (auto simp: implements_def record_burn_def tracked_def GetGlobalBurnTotal_def
        GetAccountBurnTotal_def kv_put_map_of add.commute)
qed

section \<open>The ledger invariant\<close>

text \<open>The total equals the sum of what the accounts burned.\<close>

definition account_sum :: "burn_store \<Rightarrow> int" where
  "account_sum st = kv.sum_entries entry_val (AccountBurnTotal st)"

definition consistent :: "burn_store \<Rightarrow> bool" where
  "consistent st \<longleftrightarrow> readable st \<and> GetGlobalBurnTotal st = Ok (account_sum st)"

lemma consistent_tracked:
  assumes cons: "consistent st" and g: "GetGlobalBurnTotal st = Ok g"
    and t: "GetAccountBurnTotal st a = Ok t"
  shows "consistent (tracked a i n g t st)"
proof -
  have r: "readable st" and g': "g = account_sum st"
    using cons g by (simp_all add: consistent_def)
  have asc: "keys_ascending (AccountBurnTotal st)"
    using r by (simp add: readable_def)
  have t': "(case map_of (AccountBurnTotal st) a of None \<Rightarrow> 0 | Some e \<Rightarrow> entry_val e) = t"
    using t r by (auto simp: GetAccountBurnTotal_Ok readable_def split: option.splits entry.splits)
  have "account_sum (tracked a i n g t st) = account_sum st + i"
    using kv.sum_entries_put [OF asc, of entry_val a "Val (t + i)"] t'
    by (simp add: account_sum_def tracked_def)
  then show ?thesis
    using readable_tracked [OF r] g' by (simp add: consistent_def tracked_def GetGlobalBurnTotal_def)
qed

end
