(* ===== verification/Burn_Genesis.thy ===== *)
theory Burn_Genesis
  imports Burn_Ledger
begin

text \<open>
  Genesis import and export of x/burn: what a successful \<open>InitGenesis\<close> writes, that an
  imported genesis whose total is the sum of its account records starts a consistent ledger, and
  that importing what \<open>ExportGenesis\<close> produced gives back a store that reads the same.
\<close>

definition fresh_store :: burn_store where
  "fresh_store =
     \<lparr>Params = None, GlobalBurnCount = None, GlobalBurnTotal = None, AccountBurnTotal = []\<rparr>"

definition no_faults :: "'b burn_keeper \<Rightarrow> bool" where
  "no_faults K \<longleftrightarrow> (\<forall>k. burn_fault K k = None)"

text \<open>The writes the account records of a genesis file amount to.\<close>

fun record_entries :: "sdk_lib \<Rightarrow> AccountBurnRecord list \<Rightarrow> (addr \<times> int entry) list" where
  "record_entries L [] = []"
| "record_entries L (r # rs) =
     (case (StringToBytes L (rec_Address r), rec_Total r) of
        (Ok a, Some t) \<Rightarrow> (a, Val t) # record_entries L rs
      | _ \<Rightarrow> record_entries L rs)"

lemma init_accounts_Ok:
  assumes laws: "sdk_laws (lib K)" and "\<forall>r \<in> set rs. rec_Total r \<noteq> None"
    and "init_accounts K rs st = (Ok u, st')"
  shows "st' = st\<lparr>AccountBurnTotal := kv.put_all (record_entries (lib K) rs) (AccountBurnTotal st)\<rparr>"
  using assms(2,3)
proof (induction rs arbitrary: st)
  case Nil
  then show ?case by simp
next
  case (Cons r rs)
  then obtain a t where r: "StringToBytes (lib K) (rec_Address r) = Ok a" "rec_Total r = Some t"
    and rest: "init_accounts K rs (st\<lparr>AccountBurnTotal := kv_put a (Val t) (AccountBurnTotal st)\<rparr>) = (Ok u, st')"
    by (auto simp: bindM_Ok_iff AccountBurnTotal_Set_Ok sdk_lawsD(7) [OF laws])
  from Cons.IH [OF _ rest] Cons.prems(1) r show ?case by simp
qed

lemma init_accounts_progress:
  assumes laws: "sdk_laws (lib K)" and nf: "no_faults K"
    and "\<forall>r \<in> set rs. \<exists>a t. StringToBytes (lib K) (rec_Address r) = Ok a \<and> rec_Total r = Some t"
  shows "\<exists>st'. init_accounts K rs st = (Ok (), st')"
  using assms(3)
proof (induction rs arbitrary: st)
  case Nil
  then show ?case by simp
next
  case (Cons r rs)
  then obtain a t where "StringToBytes (lib K) (rec_Address r) = Ok a" "rec_Total r = Some t" by auto
  with Cons.IH Cons.prems nf show ?case
    by (auto simp: bindM_def AccountBurnTotal_Set_def sdk_lawsD(7) [OF laws] no_faults_def)
qed

text \<open>The store a successful import leaves in an empty module.\<close>

definition imported :: "sdk_lib \<Rightarrow> burn_GenesisState \<Rightarrow> burn_store" where
  "imported L g =
     \<lparr>Params = Some (Val (gen_Params g)), GlobalBurnCount = Some (Val (gen_Count g)),
      GlobalBurnTotal = map_option Val (gen_Total g),
      AccountBurnTotal = kv.put_all (record_entries L (gen_AccountTotals g)) []\<rparr>"

lemma InitGenesis_Ok:
  assumes laws: "sdk_laws (lib K)" and valid: "burn_GenesisState_Validate (lib K) g = Ok ()"
    and ok: "burn_InitGenesis K g fresh_store = (Ok u, st)"
  shows "st = imported (lib K) g"
proof -
  obtain d where d: "FeeBurnPercent (gen_Params g) = Some d"
    using valid by (auto simp: burn_GenesisState_Validate_Ok valid_burn_params_def)
  have tot: "\<forall>r \<in> set (gen_AccountTotals g). rec_Total r \<noteq> None"
    using valid by (auto simp: burn_GenesisState_Validate_Ok)
  have p: "\<lparr>FeeBurnPercent = Some d\<rparr> = gen_Params g"
    using d by (cases "gen_Params g") simp
  obtain st1 where st1: "init_accounts K (gen_AccountTotals g) st1 = (Ok u, st)"
    and eq: "st1 = \<lparr>Params = Some (Val (gen_Params g)), GlobalBurnCount = Some (Val (gen_Count g)),
      GlobalBurnTotal = map_option Val (gen_Total g), AccountBurnTotal = []\<rparr>"
    using ok d p
    by (cases "gen_Total g")
      (auto simp: burn_InitGenesis_def bindM_Ok_iff set_Ok GlobalBurnCount_Set_def onM_iff
        item_set_Ok_iff fresh_store_def sdk_lawsD(7,8) [OF laws])
  show ?thesis
    using init_accounts_Ok [OF laws tot st1] eq by (simp add: imported_def)
qed

lemma InitGenesis_progress:
  assumes laws: "sdk_laws (lib K)" and nf: "no_faults K"
    and valid: "burn_GenesisState_Validate (lib K) g = Ok ()"
  shows "burn_InitGenesis K g fresh_store = (Ok (), imported (lib K) g)"
proof -
  obtain d where d: "FeeBurnPercent (gen_Params g) = Some d"
    using valid by (auto simp: burn_GenesisState_Validate_Ok valid_burn_params_def)
  have recs: "\<forall>r \<in> set (gen_AccountTotals g).
       \<exists>a t. StringToBytes (lib K) (rec_Address r) = Ok a \<and> rec_Total r = Some t"
    using valid unfolding burn_GenesisState_Validate_Ok by blast
  have "\<exists>st. burn_InitGenesis K g fresh_store = (Ok (), st)"
    using init_accounts_progress [OF laws nf recs] d nf
    by (auto simp: burn_InitGenesis_def bindM_def Params_Set_def GlobalBurnCount_Set_def
        GlobalBurnTotal_Set_def onM_def no_faults_def sdk_lawsD(7,8) [OF laws] split: option.splits)
  then show ?thesis
    using InitGenesis_Ok [OF laws valid] by blast
qed

section \<open>A balanced genesis starts a consistent ledger\<close>

text \<open>The records name distinct accounts and add up to the total. \<open>Validate\<close> does not check this.\<close>

definition genesis_balanced :: "sdk_lib \<Rightarrow> burn_GenesisState \<Rightarrow> bool" where
  "genesis_balanced L g \<longleftrightarrow>
     distinct (map fst (record_entries L (gen_AccountTotals g))) \<and>
     (case gen_Total g of None \<Rightarrow> 0 | Some t \<Rightarrow> t) =
       sum_list (map (entry_val \<circ> snd) (record_entries L (gen_AccountTotals g)))"

lemma sum_put_all:
  assumes "keys_ascending m" and "distinct (map fst kvs)" and "\<forall>k \<in> fst ` set kvs. map_of m k = None"
  shows "kv.sum_entries f (kv.put_all kvs m) = kv.sum_entries f m + sum_list (map (f \<circ> snd) kvs)"
  using assms
proof (induction kvs arbitrary: m)
  case Nil
  then show ?case by simp
next
  case (Cons kv kvs)
  obtain k v where kv: "kv = (k, v)" by fastforce
  have "keys_ascending (kv_put k v m)"
    using Cons.prems(1) by (rule kv_put_ascending)
  moreover have "\<forall>k' \<in> fst ` set kvs. map_of (kv_put k v m) k' = None"
    using Cons.prems kv by (auto simp: kv_put_map_of)
  ultimately show ?case
    using Cons.IH [of "kv_put k v m"] Cons.prems kv kv.sum_entries_put [OF Cons.prems(1), of f k v]
    by simp
qed

lemma record_entries_val: "(a, e) \<in> set (record_entries L rs) \<Longrightarrow> is_val e"
  by (induction rs) (auto split: outcome.splits option.splits)

lemma readable_imported: "readable (imported L g)"
proof -
  have asc: "keys_ascending (kv.put_all (record_entries L (gen_AccountTotals g)) [])"
    by (rule kv.well_formed_put_all) simp
  have "is_val e" if "map_of (kv.put_all (record_entries L (gen_AccountTotals g)) []) a = Some e" for a e
    using that kv.lookup_put_all [of "[]" "record_entries L (gen_AccountTotals g)" a]
    by (auto split: option.splits dest!: map_of_SomeD record_entries_val)
  with asc show ?thesis
    by (auto simp: readable_def imported_def option.pred_map comp_def option.pred_True split: option.splits)
qed

lemma consistent_imported:
  assumes "genesis_balanced L g"
  shows "consistent (imported L g)"
proof -
  let ?es = "record_entries L (gen_AccountTotals g)"
  have "kv.sum_entries entry_val (kv.put_all ?es []) = sum_list (map (entry_val \<circ> snd) ?es)"
    using assms sum_put_all [of "[]" ?es entry_val] kv.sum_entries_fresh [of entry_val]
    by (simp add: genesis_balanced_def)
  then show ?thesis
    using assms readable_imported [of L g]
    by (auto simp: consistent_def account_sum_def imported_def genesis_balanced_def
        GetGlobalBurnTotal_Ok split: option.splits)
qed

section \<open>Export\<close>

lemma export_accounts_Ok:
  assumes codec: "codec_laws L" and "export_accounts L kvs = Ok rs"
  shows "record_entries L rs = kvs \<and>
    (\<forall>r \<in> set rs. \<exists>a t. StringToBytes L (rec_Address r) = Ok a \<and> rec_Total r = Some t \<and>
       (a, Val t) \<in> set kvs)"
  using assms(2)
proof (induction kvs arbitrary: rs)
  case Nil
  then show ?case by simp
next
  case (Cons kv kvs)
  then obtain a v s rs' where kv: "kv = (a, Val v)" and s: "BytesToString L a = Ok s"
    and rs': "export_accounts L kvs = Ok rs'" and rs: "rs = \<lparr>rec_Address = s, rec_Total = Some v\<rparr> # rs'"
    by (cases kv) (auto simp: bindO_Ok_iff split: entry.splits)
  from Cons.IH [OF rs'] codec_lawsD [OF codec s] kv rs show ?case by auto
qed

text \<open>A genesis exported from a store with valid parameters and no negative total is valid.\<close>

lemma export_validates:
  assumes codec: "codec_laws (lib K)" and rd: "readable st" and exp: "burn_ExportGenesis K st = Ok g"
    and valid: "valid_burn_params (gen_Params g)" and pos: "0 \<le> (case gen_Total g of None \<Rightarrow> 0 | Some t \<Rightarrow> t)"
      "\<forall>a v. map_of (AccountBurnTotal st) a = Some (Val v) \<longrightarrow> 0 \<le> v"
  shows "burn_GenesisState_Validate (lib K) g = Ok ()"
proof -
  obtain rs where rs: "export_accounts (lib K) (AccountBurnTotal st) = Ok rs" and g: "gen_AccountTotals g = rs"
    using exp by (auto simp: burn_ExportGenesis_def bindO_Ok_iff)
  note recs = export_accounts_Ok [OF codec rs]
  have asc: "keys_ascending (AccountBurnTotal st)"
    using rd by (simp add: readable_def)
  have "(\<exists>a. StringToBytes (lib K) (rec_Address r) = Ok a) \<and> (\<exists>t\<ge>0. rec_Total r = Some t)"
    if "r \<in> set rs" for r
    using that recs pos(2) map_of_is_SomeI [OF keys_ascending_distinct [OF asc]] by blast
  then show ?thesis
    using valid pos(1) g by (auto simp: burn_GenesisState_Validate_Ok)
qed

text \<open>
  Importing an export into an empty module restores every cell as it was read: the parameters, the
  counter, the total and the whole account map.
\<close>

lemma export_then_import:
  assumes laws: "sdk_laws (lib K)" and codec: "codec_laws (lib K)" and nf: "no_faults K"
    and rd: "readable st" and exp: "burn_ExportGenesis K st = Ok g"
    and valid: "valid_burn_params (gen_Params g)" and pos: "0 \<le> (case gen_Total g of None \<Rightarrow> 0 | Some t \<Rightarrow> t)"
      "\<forall>a v. map_of (AccountBurnTotal st) a = Some (Val v) \<longrightarrow> 0 \<le> v"
  shows "\<exists>st'. burn_InitGenesis K g fresh_store = (Ok (), st') \<and>
    Params st' = Params st \<and> seq_peek (GlobalBurnCount st') = seq_peek (GlobalBurnCount st) \<and>
    GetGlobalBurnTotal st' = GetGlobalBurnTotal st \<and> AccountBurnTotal st' = AccountBurnTotal st \<and> readable st'"
proof -
  obtain p n t rs where p: "Params st = Some (Val p)" and n: "seq_peek (GlobalBurnCount st) = Ok n"
    and t: "GetGlobalBurnTotal st = Ok t" and rs: "export_accounts (lib K) (AccountBurnTotal st) = Ok rs"
    and g: "g = \<lparr>gen_Params = p, gen_Count = n, gen_Total = Some t, gen_AccountTotals = rs\<rparr>"
    using exp by (auto simp: burn_ExportGenesis_def bindO_Ok_iff)
  note recs = export_accounts_Ok [OF codec rs]
  have asc: "keys_ascending (AccountBurnTotal st)"
    using rd by (simp add: readable_def)
  from InitGenesis_progress [OF laws nf export_validates [OF codec rd exp valid pos]]
  have "burn_InitGenesis K g fresh_store = (Ok (), imported (lib K) g)" .
  moreover have "AccountBurnTotal (imported (lib K) g) = AccountBurnTotal st"
    using recs g kv.rebuild [OF asc] by (simp add: imported_def)
  ultimately show ?thesis
    using p n t g readable_imported [of "lib K" g] by (simp add: imported_def GetGlobalBurnTotal_def)
qed

end
