(* ===== verification/Burn_Machine.thy ===== *)
theory Burn_Machine
  imports Burn_Genesis
begin

text \<open>
  The x/burn module as a state machine: it starts from an imported genesis and moves by its message
  handlers, by \<open>BeginBlock\<close>, and by \<open>BurnFromAccount\<close> called from another module
  (x/validator does). Only calls that returned nil are steps: the SDK discards the writes of a
  transaction whose handler returned an error. Between them, other modules change the rest of the
  context freely, but never this module's store.
\<close>

section \<open>Steps\<close>

inductive burn_step :: "'b burn_keeper \<Rightarrow> ('b, 'z) chain_scheme \<Rightarrow> ('b, 'z) chain_scheme \<Rightarrow> bool" for K where
  step_burn: "msg_Burn K m s = (Ok (), s') \<Longrightarrow> burn_step K s s'"
| step_call: "BurnFromAccount K a c s = (Ok (), s') \<Longrightarrow> burn_step K s s'"
| step_params: "burn_UpdateParams K m s = (Ok (), s') \<Longrightarrow> burn_step K s s'"
| step_begin: "burn_BeginBlock K s = (Ok (), s') \<Longrightarrow> burn_step K s s'"

inductive_cases burn_stepE [elim]: "burn_step K s s'"

text \<open>A state of the chain in which x/burn is initialised and has run, other modules in between.\<close>

inductive burn_reach :: "'b burn_keeper \<Rightarrow> ('b, 'z) chain_scheme \<Rightarrow> bool" for K where
  reach_init: "burn_GenesisState_Validate (lib K) g = Ok () \<Longrightarrow> genesis_balanced (lib K) g \<Longrightarrow>
     burn_InitGenesis K g fresh_store = (Ok (), burn s) \<Longrightarrow> burn_reach K s"
| reach_step: "burn_reach K s \<Longrightarrow> burn_step K s s' \<Longrightarrow> burn_reach K s'"
| reach_other: "burn_reach K s \<Longrightarrow> burn s' = burn s \<Longrightarrow> burn_reach K s'"

section \<open>What a step does\<close>

text \<open>
  Every step is a burn of a positive amount by some account, an update of the parameters to valid
  ones, or leaves the module's store and the supply as they are.
\<close>

definition params_updated :: "('b, 'z) chain_scheme \<Rightarrow> ('b, 'z) chain_scheme \<Rightarrow> bool" where
  "params_updated s s' \<longleftrightarrow>
     (\<exists>p. valid_burn_params p \<and> s' = s\<lparr>burn := (burn s)\<lparr>Params := Some (Val p)\<rparr>\<rparr>)"

definition burn_effect ::
  "'b burn_keeper \<Rightarrow> ('b \<Rightarrow> string \<Rightarrow> int) \<Rightarrow> ('b, 'z) chain_scheme \<Rightarrow> ('b, 'z) chain_scheme \<Rightarrow> bool" where
  "burn_effect K supply s s' \<longleftrightarrow>
     (\<exists>a i. 0 < i \<and> burned K supply a i s s') \<or>
     params_updated s s' \<or>
     burn s' = burn s \<and> supply (bank s') = supply (bank s)"

lemma UpdateParams_Ok:
  assumes laws: "sdk_laws (lib K)" and ok: "burn_UpdateParams K m s = (Ok u, s')"
  shows "burn_authority K = bup_Authority m \<and> valid_burn_params (bup_Params m) \<and>
    s' = s\<lparr>burn := (burn s)\<lparr>Params := Some (Val (bup_Params m))\<rparr>\<rparr>"
proof -
  have au: "burn_authority K = bup_Authority m" and va: "valid_burn_params (bup_Params m)"
    and st: "on_burn (Params_Set K (bup_Params m)) s = (Ok u, s')"
    using ok by (auto simp: burn_UpdateParams_def bindM_Ok_iff burn_Params_Validate_Ok split: if_splits)
  obtain d where d: "FeeBurnPercent (bup_Params m) = Some d"
    using va by (auto simp: valid_burn_params_def)
  then have "\<lparr>FeeBurnPercent = Some d\<rparr> = bup_Params m"
    by (cases "bup_Params m") simp
  with au va st d show ?thesis
    by (auto simp: on_burn_iff Params_Set_Ok sdk_lawsD(8) [OF laws])
qed

lemma msg_Burn_Ok:
  "msg_Burn K m s = (Ok u, s') \<Longrightarrow>
   \<exists>a. StringToBytes (lib K) (FromAddress m) = Ok a \<and> BurnFromAccount K a (BurnAmount m) s = (Ok u, s')"
  by (auto simp: msg_Burn_def bindM_Ok_iff)

lemma BurnFromAccount_effect:
  assumes laws: "sdk_laws (lib K)" and acc: "bank_accounting (lib K) (bankKeeper K) supply"
    and ok: "BurnFromAccount K a c s = (Ok u, s')"
  shows "burn_effect K supply s s'"
proof -
  obtain coins where "NewCoins (lib K) c = Ok coins"
    using BurnFromAccount_Ok [OF ok] by blast
  then obtain i where i: "Amount c = Some i"
    using sdk_lawsD(10) [OF laws] by blast
  show ?thesis
  proof (cases "0 < i")
    case True
    then show ?thesis
      using BurnFromAccount_burned [OF laws acc ok i] by (auto simp: burn_effect_def)
  next
    case False
    then show ?thesis
      using BurnFromAccount_nothing [OF laws acc ok i] by (simp add: burn_effect_def)
  qed
qed

lemma burned_emitted: "burned K supply a i s s1 \<Longrightarrow> burned K supply a i s (s1\<lparr>emitted := es\<rparr>)"
  by (simp add: burned_def)

lemma ProcessFeeBurn_effect:
  assumes laws: "sdk_laws (lib K)" and acc: "bank_accounting (lib K) (bankKeeper K) supply"
    and ok: "ProcessFeeBurn K s = (Ok u, s')"
  shows "burn_effect K supply s s'"
proof -
  obtain amt where "(\<exists>s1 es. 0 < amt \<and>
      burned K supply (NewModuleAddress (lib K) (FeeCollectorName K)) amt s s1 \<and>
      s' = s1\<lparr>emitted := es\<rparr>) \<or> s' = s"
    using ProcessFeeBurn_Ok [OF laws acc ok] by (auto split: if_splits)
  then show ?thesis
    unfolding burn_effect_def using burned_emitted by blast
qed

lemma burn_step_effect:
  assumes laws: "sdk_laws (lib K)" and acc: "bank_accounting (lib K) (bankKeeper K) supply"
    and "burn_step K s s'"
  shows "burn_effect K supply s s'"
  using assms(3)
proof cases
  case (step_burn m)
  then show ?thesis
    using msg_Burn_Ok BurnFromAccount_effect [OF laws acc] by blast
next
  case (step_call a c)
  then show ?thesis by (rule BurnFromAccount_effect [OF laws acc])
next
  case (step_params m)
  then show ?thesis
    using UpdateParams_Ok [OF laws] unfolding burn_effect_def params_updated_def by blast
next
  case step_begin
  then show ?thesis
    unfolding burn_BeginBlock_def by (rule ProcessFeeBurn_effect [OF laws acc])
qed

section \<open>The module invariant\<close>

definition nonnegative :: "burn_store \<Rightarrow> bool" where
  "nonnegative st \<longleftrightarrow>
     (\<forall>t. GetGlobalBurnTotal st = Ok t \<longrightarrow> 0 \<le> t) \<and>
     (\<forall>a v. map_of (AccountBurnTotal st) a = Some (Val v) \<longrightarrow> 0 \<le> v)"

definition module_inv :: "burn_store \<Rightarrow> bool" where
  "module_inv st \<longleftrightarrow>
     consistent st \<and> nonnegative st \<and> (\<exists>p. Params st = Some (Val p) \<and> valid_burn_params p)"

lemma module_inv_imported:
  assumes "burn_GenesisState_Validate L g = Ok ()" and "genesis_balanced L g"
  shows "module_inv (imported L g)"
proof -
  have pos: "0 \<le> v" if "(a, Val v) \<in> set (record_entries L rs)"
    and "\<forall>r \<in> set rs. (\<exists>a. StringToBytes L (rec_Address r) = Ok a) \<and> (\<exists>t\<ge>0. rec_Total r = Some t)"
    for a v rs
    using that by (induction rs) (auto split: outcome.splits option.splits)
  have "nonnegative (imported L g)"
    using assms(1) kv.lookup_put_all [of "[]" "record_entries L (gen_AccountTotals g)"]
    by (auto simp: nonnegative_def burn_GenesisState_Validate_Ok imported_def GetGlobalBurnTotal_Ok
        split: option.splits dest!: map_of_SomeD intro: pos)
  then show ?thesis
    using assms consistent_imported [OF assms(2)]
    by (simp add: module_inv_def burn_GenesisState_Validate_Ok imported_def)
qed

lemma account_nonneg:
  assumes "readable st" and "nonnegative st" and "GetAccountBurnTotal st a = Ok t"
  shows "0 \<le> t"
  using assms
  by (fastforce simp: nonnegative_def readable_def GetAccountBurnTotal_Ok split: option.splits entry.splits)

lemma nonnegative_tracked:
  assumes "nonnegative st" and "readable st" and "0 \<le> i"
    and "GetGlobalBurnTotal st = Ok g" and "GetAccountBurnTotal st a = Ok t"
  shows "nonnegative (tracked a i n g t st)"
proof -
  have "0 \<le> g" using assms(1,4) by (simp add: nonnegative_def)
  moreover have "0 \<le> t"
    using account_nonneg [OF assms(2,1,5)] .
  ultimately show ?thesis
    using assms(1,3) by (auto simp: nonnegative_def tracked_def kv_put_map_of GetGlobalBurnTotal_def)
qed

lemma module_inv_effect:
  assumes "burn_effect K supply s s'" and inv: "module_inv (burn s)"
  shows "module_inv (burn s')"
proof -
  consider a i where "0 < i" "burned K supply a i s s'" | "params_updated s s'" | "burn s' = burn s"
    using assms(1) by (auto simp: burn_effect_def)
  then show ?thesis
  proof cases
    case 1
    then obtain n g t where "GetGlobalBurnTotal (burn s) = Ok g"
      "GetAccountBurnTotal (burn s) a = Ok t" "burn s' = tracked a i n g t (burn s)"
      by (auto simp: burned_def)
    then show ?thesis
      using inv 1(1) consistent_tracked [of "burn s" g a t i n] nonnegative_tracked [of "burn s" i g a t n]
      by (auto simp: module_inv_def consistent_def [of "burn s"]) (simp_all add: tracked_def)
  next
    case 2
    then show ?thesis
      using inv
      by (auto simp: params_updated_def module_inv_def consistent_def nonnegative_def readable_def
          account_sum_def GetGlobalBurnTotal_def)
  next
    case 3
    then show ?thesis using inv by simp
  qed
qed

lemma burn_reach_inv:
  assumes laws: "sdk_laws (lib K)" and acc: "bank_accounting (lib K) (bankKeeper K) supply"
    and "burn_reach K s"
  shows "module_inv (burn s)"
  using assms(3)
proof induction
  case (reach_init g s)
  then show ?case
    using InitGenesis_Ok [OF laws reach_init(1,3)] module_inv_imported by metis
next
  case (reach_step s s')
  then show ?case
    using burn_step_effect [OF laws acc] module_inv_effect by blast
next
  case (reach_other s s')
  then show ?case by simp
qed

section \<open>Runs of burn steps conserve supply plus burned total\<close>

definition burned_total :: "burn_store \<Rightarrow> int" where
  "burned_total st = (case GetGlobalBurnTotal st of Ok t \<Rightarrow> t | _ \<Rightarrow> 0)"

lemma burn_effect_conserves:
  assumes "burn_effect K supply s s'"
  shows "supply (bank s') DefaultBondDenom + burned_total (burn s')
         = supply (bank s) DefaultBondDenom + burned_total (burn s)"
    and "den \<noteq> DefaultBondDenom \<Longrightarrow> supply (bank s') den = supply (bank s) den"
    and "burned_total (burn s) \<le> burned_total (burn s')"
  using assms
  by (auto simp: burn_effect_def burned_def params_updated_def burned_total_def tracked_def
      GetGlobalBurnTotal_def)

section \<open>Progress\<close>

lemma account_le_total:
  assumes inv: "module_inv st" and t: "GetAccountBurnTotal st a = Ok t"
    and g: "GetGlobalBurnTotal st = Ok g"
  shows "t \<le> g"
proof -
  let ?m = "AccountBurnTotal st"
  have asc: "keys_ascending ?m" and g': "g = account_sum st"
    using inv g by (auto simp: module_inv_def consistent_def readable_def)
  have nn: "0 \<le> entry_val e" if "map_of ?m k = Some e" for k e
    using inv that by (cases e) (auto simp: module_inv_def nonnegative_def)
  have sum: "account_sum st = (\<Sum>k \<in> dom (map_of ?m). entry_val (the (map_of ?m k)))"
    unfolding account_sum_def by (rule kv.sum_entries_eq [OF asc])
  show ?thesis
  proof (cases "map_of ?m a")
    case None
    then show ?thesis
      using t g' sum nn by (auto simp: GetAccountBurnTotal_Ok intro!: sum_nonneg)
  next
    case (Some e)
    then have "t = entry_val (the (map_of ?m a))"
      using t by (cases e) (auto simp: GetAccountBurnTotal_Ok)
    moreover have "entry_val (the (map_of ?m a)) \<le> (\<Sum>k \<in> dom (map_of ?m). entry_val (the (map_of ?m k)))"
      using Some nn by (intro member_le_sum) (auto simp: finite_dom_map_of)
    ultimately show ?thesis using g' sum by simp
  qed
qed

text \<open>What an account burned is read off its own cell, so the sum is over what a query returns.\<close>

lemma account_sum_reads:
  assumes "readable st"
  shows "account_sum st = (\<Sum>a \<in> dom (map_of (AccountBurnTotal st)).
    (case GetAccountBurnTotal st a of Ok t \<Rightarrow> t | _ \<Rightarrow> 0))"
proof -
  have "entry_val e = (case GetAccountBurnTotal st a of Ok t \<Rightarrow> t | _ \<Rightarrow> 0)"
    if "map_of (AccountBurnTotal st) a = Some e" for a e
    using that assms by (cases e) (fastforce simp: GetAccountBurnTotal_def readable_def)+
  then show ?thesis
    using assms kv.sum_entries_eq [of "AccountBurnTotal st" entry_val]
    by (auto simp: account_sum_def readable_def intro!: sum.cong)
qed

lemma readable_reads:
  assumes "readable st"
  shows "\<exists>n. seq_peek (GlobalBurnCount st) = Ok n" and "\<exists>g. GetGlobalBurnTotal st = Ok g"
    and "\<exists>t. GetAccountBurnTotal st a = Ok t"
proof -
  show "\<exists>n. seq_peek (GlobalBurnCount st) = Ok n"
    using assms by (cases "GlobalBurnCount st"; cases "the (GlobalBurnCount st)") (auto simp: readable_def)
  show "\<exists>g. GetGlobalBurnTotal st = Ok g"
    using assms by (cases "GlobalBurnTotal st"; cases "the (GlobalBurnTotal st)")
      (auto simp: readable_def GetGlobalBurnTotal_def)
  show "\<exists>t. GetAccountBurnTotal st a = Ok t"
    using assms by (cases "map_of (AccountBurnTotal st) a"; cases "the (map_of (AccountBurnTotal st) a)")
      (fastforce simp: readable_def GetAccountBurnTotal_def)+
qed

lemma updateTrackers_progress:
  assumes laws: "sdk_laws (lib K)" and nf: "no_faults K"
    and n: "seq_peek (GlobalBurnCount st) = Ok n" and g: "GetGlobalBurnTotal st = Ok g"
    and t: "GetAccountBurnTotal st a = Ok t" and c: "Amount c = Some i"
    and "\<bar>g + i\<bar> < 2 ^ 256" and "\<bar>t + i\<bar> < 2 ^ 256"
  shows "updateTrackers K a c st = (Ok (), tracked a i n g t st)"
proof -
  have "GlobalBurnCount_Next K st = (Ok n, st\<lparr>GlobalBurnCount := Some (Val (n + 1))\<rparr>)"
    using nf n by (simp add: GlobalBurnCount_Next_Ok no_faults_def)
  then show ?thesis
    using assms
    by (simp add: updateTrackers_def bindM_def tracked_def no_faults_def sdk_lawsD(2,7) [OF laws]
        GlobalBurnTotal_Set_def AccountBurnTotal_Set_def onM_def)
qed

lemma BurnFromModule_progress:
  assumes laws: "sdk_laws (lib K)" and acc: "bank_accounting (lib K) (bankKeeper K) supply"
    and prog: "bank_progress (lib K) (bankKeeper K) burner" and "burner burn_ModuleName"
    and nf: "no_faults K" and inv: "module_inv (burn s)" and i: "0 < i"
    and funds: "i \<le> balance (bankKeeper K) (bank s) (NewModuleAddress (lib K) m) DefaultBondDenom"
    and bound: "burned_total (burn s) + i < 2 ^ 256"
  shows "\<exists>s'. BurnFromModule K m \<lparr>Denom = DefaultBondDenom, Amount = Some i\<rparr> s = (Ok (), s')"
proof -
  let ?c = "\<lparr>Denom = DefaultBondDenom, Amount = Some i\<rparr>"
  let ?a = "NewModuleAddress (lib K) m" and ?b = "NewModuleAddress (lib K) burn_ModuleName"
  obtain cs where cs: "NewCoins (lib K) ?c = Ok cs"
    using sdk_lawsD(12) [OF laws i] by blast
  have amt: "coins_amount cs d = (if d = DefaultBondDenom then i else 0)" for d
    using sdk_lawsD(10) [OF laws cs] by auto
  have valid: "valid_coins cs" using cs by (rule sdk_lawsD(11) [OF laws])
  have cover: "coins_amount cs d \<le> balance (bankKeeper K) (bank s) ?a d" for d
    using funds balance_nonneg [OF acc] by (simp add: amt)
  obtain b1 where b1: "SendCoinsFromModuleToModule (bankKeeper K) m burn_ModuleName cs (bank s) = (Ok (), b1)"
    using bank_progressD(1) [OF prog valid cover] by blast
  have "moved (bankKeeper K) supply ?a ?b cs (bank s) b1"
    using b1 by (rule bank_accountingD(3) [OF acc])
  then have cover': "coins_amount cs d \<le> balance (bankKeeper K) b1 ?b d" for d
    using cover [of d] balance_nonneg [OF acc, of "bank s" ?b d] by (auto simp: moved_def)
  obtain b2 where b2: "BurnCoins (bankKeeper K) burn_ModuleName cs b1 = (Ok (), b2)"
    using bank_progressD(2) [OF prog assms(4) valid cover'] by blast
  obtain n g t where reads: "seq_peek (GlobalBurnCount (burn s)) = Ok n" "GetGlobalBurnTotal (burn s) = Ok g"
    "GetAccountBurnTotal (burn s) ?a = Ok t"
    using readable_reads(1,2) [of "burn s"] readable_reads(3) [of "burn s" ?a] inv
    by (auto simp: module_inv_def consistent_def)
  have "t \<le> g" using account_le_total [OF inv reads(3,2)] .
  moreover have "0 \<le> t"
    using inv account_nonneg [OF _ _ reads(3)] by (simp add: module_inv_def consistent_def)
  ultimately have "updateTrackers K ?a ?c (burn s) = (Ok (), tracked ?a i n g t (burn s))"
    using bound i reads by (intro updateTrackers_progress [OF laws nf]) (auto simp: burned_total_def)
  with b1 b2 cs i show ?thesis
    by (simp add: BurnFromModule_def burnNative_def bindM_def onM_def coin_IsPositive_def)
qed

lemma ProcessFeeBurn_progress:
  assumes laws: "sdk_laws (lib K)" and acc: "bank_accounting (lib K) (bankKeeper K) supply"
    and prog: "bank_progress (lib K) (bankKeeper K) burner" and "burner burn_ModuleName"
    and nf: "no_faults K" and inv: "module_inv (burn s)"
    and F: "F = balance (bankKeeper K) (bank s) (NewModuleAddress (lib K) (FeeCollectorName K)) DefaultBondDenom"
    and bound: "F < 2 ^ 190" "burned_total (burn s) + F < 2 ^ 256"
  shows "\<exists>s'. ProcessFeeBurn K s = (Ok (), s')"
proof -
  obtain d where p: "Params (burn s) = Some (Val \<lparr>FeeBurnPercent = Some d\<rparr>)"
    and d: "0 \<le> d" "d \<le> dec_one"
    using inv by (auto simp: module_inv_def valid_burn_params_def) (metis burn_params.surjective unit.exhaust)
  have F0: "0 \<le> F" unfolding F by (rule balance_nonneg [OF acc])
  let ?q = "d * F div dec_one"
  have dF: "d * F \<le> dec_one * F" using d(2) F0 by (rule mult_right_mono)
  then have qF: "?q \<le> F"
    by (smt (verit) dec_one_def nonzero_mult_div_cancel_left zdiv_mono1 zero_less_power)
  have "dec_one * F < 10 ^ 18 * 2 ^ 190" using bound(1) by (simp add: dec_one_def)
  then have "\<bar>d * F\<bar> < 2 ^ 256" using dF d(1) F0 by simp
  then have amt: "burnableAmount (lib K) (Some d) (Some F) = Ok ?q"
    using sdk_lawsD(4,6) [OF laws] d(1) F0 by (auto simp: burnableAmount_def sgn_if)
  note [simp] = GetBalance_balance [OF acc, of _ DefaultBondDenom "bank s"]
  show ?thesis
  proof (cases "0 < ?q")
    case False
    then show ?thesis
      using p amt by (simp add: ProcessFeeBurn_def bindM_def F [symmetric])
  next
    case True
    have "NewCoin (lib K) DefaultBondDenom (Some ?q) = Ok \<lparr>Denom = DefaultBondDenom, Amount = Some ?q\<rparr>"
      using True by (intro sdk_lawsD(9) [OF laws]) simp
    moreover obtain s1 where
      "BurnFromModule K (FeeCollectorName K) \<lparr>Denom = DefaultBondDenom, Amount = Some ?q\<rparr> s = (Ok (), s1)"
      using BurnFromModule_progress [OF laws acc prog assms(4) nf inv True, of "FeeCollectorName K"] qF bound(2) F
      by auto
    ultimately show ?thesis
      using p amt True by (simp add: ProcessFeeBurn_def bindM_def F [symmetric])
  qed
qed

end
