(* ===== verification/Ledger_Instance.thy ===== *)
theory Ledger_Instance
  imports Burn_Machine
begin

text \<open>
  A concrete library and a concrete bank that satisfy the laws the theorems assume of the SDK, so
  that every theorem about the modules can be applied to real runs. Nothing here models code of the
  repository: it shows that the hypotheses can hold, and the witnesses evaluate the model on it.

  Balances are natural numbers per address and denomination, with a supply per denomination.
\<close>

section \<open>The library\<close>

definition ref_bytes :: "string \<Rightarrow> bytes" where
  "ref_bytes s = map (\<lambda>c. word_of_nat (of_char c)) s"

definition ref_string :: "bytes \<Rightarrow> string" where
  "ref_string bs = map (\<lambda>b. char_of (unat b)) bs"

lemma ref_bytes_string: "ref_bytes (ref_string bs) = bs"
proof -
  have "word_of_nat (of_char (char_of (unat b) :: char)) = b" for b :: "8 word"
    using unsigned_less [of b, where 'a = nat] by simp
  then show ?thesis
    by (simp add: ref_bytes_def ref_string_def comp_def)
qed

definition ref_StringToBytes :: "string \<Rightarrow> bytes outcome" where
  "ref_StringToBytes s = (if s = [] then Err (OtherErr ''empty address string'') else Ok (ref_bytes s))"

definition ref_BytesToString :: "bytes \<Rightarrow> string outcome" where
  "ref_BytesToString a = (if a = [] then Err (OtherErr ''empty address'') else Ok (ref_string a))"

definition ref_NewCoin :: "string \<Rightarrow> int option \<Rightarrow> coin outcome" where
  "ref_NewCoin d v =
     (case v of None \<Rightarrow> Panic
      | Some i \<Rightarrow> if d = [] \<or> i < 0 then Panic else Ok \<lparr>Denom = d, Amount = v\<rparr>)"

definition ref_NewCoins :: "coin \<Rightarrow> coin list outcome" where
  "ref_NewCoins c =
     (case Amount c of None \<Rightarrow> Panic
      | Some i \<Rightarrow> if i = 0 then Ok [] else if Denom c = [] \<or> i < 0 then Panic else Ok [c])"

definition ref_CoinValidate :: "coin \<Rightarrow> unit outcome" where
  "ref_CoinValidate c =
     (if Denom c = [] then Err (OtherErr ''invalid denom'')
      else case Amount c of
             None \<Rightarrow> Err (OtherErr ''amount is nil'')
           | Some i \<Rightarrow> if i < 0 then Err (OtherErr ''negative coin amount'') else Ok ())"

definition ref_lib :: sdk_lib where
  "ref_lib =
     \<lparr>IntAdd = (\<lambda>a b. if \<bar>a + b\<bar> < 2 ^ 256 then Ok (a + b) else Panic),
      DecMulInt = (\<lambda>d i. if \<bar>d * i\<bar> < 2 ^ 315 then Ok (d * i) else Panic),
      DecTruncateInt = (\<lambda>m. Ok (sgn m * (\<bar>m\<bar> div dec_one))),
      IntEncode = (\<lambda>v. Ok (case v of None \<Rightarrow> 0 | Some i \<Rightarrow> i)),
      DecEncode = (\<lambda>v. Ok (Some (case v of None \<Rightarrow> 0 | Some i \<Rightarrow> i))),
      IntString = (\<lambda>i. if i = 0 then ''0'' else ''int''),
      DecString = (\<lambda>d. ''dec''),
      CoinString = (\<lambda>c. Denom c),
      NewCoin = ref_NewCoin,
      NewCoins = ref_NewCoins,
      CoinValidate = ref_CoinValidate,
      StringToBytes = ref_StringToBytes,
      BytesToString = ref_BytesToString,
      ValStringToBytes = ref_StringToBytes,
      NewModuleAddress = ref_bytes\<rparr>"

lemma ref_sdk_laws: "sdk_laws ref_lib"
  unfolding sdk_laws_def
proof (intro conjI)
  show "\<forall>m. \<bar>m\<bar> < 2 ^ 256 \<longrightarrow> DecTruncateInt ref_lib m = Ok (sgn m * (\<bar>m\<bar> div dec_one))"
    by (simp add: ref_lib_def)
  show "\<forall>m t. 0 \<le> m \<longrightarrow> DecTruncateInt ref_lib m = Ok t \<longrightarrow> t = m div dec_one"
    by (auto simp: ref_lib_def sgn_if)
  show "\<forall>c cs. NewCoins ref_lib c = Ok cs \<longrightarrow> valid_coins cs \<and>
      (\<exists>i\<ge>0. Amount c = Some i \<and> (\<forall>d. coins_amount cs d = (if d = Denom c then i else 0)))"
    by (auto simp: ref_lib_def ref_NewCoins_def valid_coins_def split: option.splits if_splits)
qed (auto simp: ref_lib_def ref_NewCoin_def ref_NewCoins_def DefaultBondDenom_def split: if_splits)

lemma ref_codec_laws: "codec_laws ref_lib"
  using ref_bytes_string
  by (auto simp: codec_laws_def ref_lib_def ref_StringToBytes_def ref_BytesToString_def
      ref_string_def split: if_splits)

section \<open>The bank\<close>

type_synonym ref_state = "(addr \<Rightarrow> string \<Rightarrow> nat) \<times> (string \<Rightarrow> int)"

definition covered :: "coin list \<Rightarrow> (string \<Rightarrow> nat) \<Rightarrow> bool" where
  "covered cs bal \<longleftrightarrow>
     list_all (\<lambda>c. case Amount c of None \<Rightarrow> False | Some i \<Rightarrow> 0 < i) cs \<and>
     list_all (\<lambda>c. coins_amount cs (Denom c) \<le> int (bal (Denom c))) cs"

lemma coins_amount_absent: "d \<notin> Denom ` set cs \<Longrightarrow> coins_amount cs d = 0"
  by (induction cs) auto

lemma covered_iff:
  "covered cs bal \<longleftrightarrow> valid_coins cs \<and> (\<forall>d. coins_amount cs d \<le> int (bal d))"
proof -
  have "(\<forall>d. coins_amount cs d \<le> int (bal d)) \<longleftrightarrow> (\<forall>c \<in> set cs. coins_amount cs (Denom c) \<le> int (bal (Denom c)))"
    using coins_amount_absent [of _ cs] by (metis imageE of_nat_0_le_iff)
  then show ?thesis
    by (auto simp: covered_def valid_coins_def list_all_iff split: option.splits)
qed

definition ref_send :: "addr \<Rightarrow> addr \<Rightarrow> coin list \<Rightarrow> ref_state \<Rightarrow> unit outcome \<times> ref_state" where
  "ref_send a a' cs b =
     (if covered cs (fst b a)
      then (Ok (), (\<lambda>x d. nat (int (fst b x d) - (if x = a then coins_amount cs d else 0)
                                              + (if x = a' then coins_amount cs d else 0)), snd b))
      else (Err (OtherErr ''insufficient funds''), b))"

definition ref_burn :: "(string \<Rightarrow> bool) \<Rightarrow> string \<Rightarrow> coin list \<Rightarrow> ref_state \<Rightarrow> unit outcome \<times> ref_state" where
  "ref_burn burner m cs b =
     (if \<not> burner m then (Panic, b)
      else if covered cs (fst b (ref_bytes m))
      then (Ok (), (\<lambda>x d. nat (int (fst b x d) - (if x = ref_bytes m then coins_amount cs d else 0)),
                    \<lambda>d. snd b d - coins_amount cs d))
      else (Err (OtherErr ''insufficient funds''), b))"

definition ref_bank :: "(string \<Rightarrow> bool) \<Rightarrow> ref_state bank_keeper" where
  "ref_bank burner =
     \<lparr>GetBalance = (\<lambda>a d b. \<lparr>Denom = d, Amount = Some (int (fst b a d))\<rparr>),
      SendCoinsFromAccountToModule = (\<lambda>a m. ref_send a (ref_bytes m)),
      SendCoinsFromModuleToModule = (\<lambda>m m'. ref_send (ref_bytes m) (ref_bytes m')),
      BurnCoins = ref_burn burner\<rparr>"

lemma ref_bank_sel [simp]:
  "GetBalance (ref_bank burner) = (\<lambda>a d b. \<lparr>Denom = d, Amount = Some (int (fst b a d))\<rparr>)"
  "SendCoinsFromAccountToModule (ref_bank burner) = (\<lambda>a m. ref_send a (ref_bytes m))"
  "SendCoinsFromModuleToModule (ref_bank burner) = (\<lambda>m m'. ref_send (ref_bytes m) (ref_bytes m'))"
  "BurnCoins (ref_bank burner) = ref_burn burner"
  by (simp_all add: ref_bank_def)

definition ref_supply :: "ref_state \<Rightarrow> string \<Rightarrow> int" where
  "ref_supply = snd"

lemma balance_ref [simp]: "balance (ref_bank burner) b a d = int (fst b a d)"
  by (simp add: balance_def)

lemma ref_send_moved:
  assumes "ref_send a a' cs b = (Ok u, b')"
  shows "moved (ref_bank burner) ref_supply a a' cs b b'"
proof -
  have cov: "covered cs (fst b a)"
    and b': "b' = (\<lambda>x d. nat (int (fst b x d) - (if x = a then coins_amount cs d else 0)
                            + (if x = a' then coins_amount cs d else 0)), snd b)"
    using assms by (auto simp: ref_send_def split: if_splits)
  have "0 \<le> coins_amount cs d" "coins_amount cs d \<le> int (fst b a d)" for d
    using cov coins_amount_nonneg by (auto simp: covered_iff)
  then show ?thesis
    by (auto simp: moved_def b' ref_supply_def)
qed

lemma ref_burn_destroyed:
  assumes "ref_burn burner m cs b = (Ok u, b')"
  shows "destroyed (ref_bank burner) ref_supply (ref_bytes m) cs b b'"
proof -
  have cov: "covered cs (fst b (ref_bytes m))"
    and b': "b' = (\<lambda>x d. nat (int (fst b x d) - (if x = ref_bytes m then coins_amount cs d else 0)),
                   \<lambda>d. snd b d - coins_amount cs d)"
    using assms by (auto simp: ref_burn_def split: if_splits)
  have "coins_amount cs d \<le> int (fst b (ref_bytes m) d)" for d
    using cov by (simp add: covered_iff)
  then show ?thesis
    by (auto simp: destroyed_def b' ref_supply_def)
qed

lemma NewModuleAddress_ref [simp]: "NewModuleAddress ref_lib = ref_bytes"
  by (simp add: ref_lib_def)

lemma ref_bank_accounting: "bank_accounting ref_lib (ref_bank burner) ref_supply"
  by (simp add: bank_accounting_def ref_send_moved ref_burn_destroyed)

lemma ref_bank_progress: "bank_progress ref_lib (ref_bank burner) burner"
  by (simp add: bank_progress_def ref_send_def ref_burn_def covered_iff)

end
