(* ===== verification/Burn_Properties.thy ===== *)
theory Burn_Properties
  imports Ledger_Instance
begin

text \<open>
  The properties of x/burn, each with a run of the model on which its hypotheses hold. The bank and
  the library are parameters constrained by the laws of \<open>Sdk_Interfaces\<close>; the witnesses use
  the ones of \<open>Ledger_Instance\<close>.
\<close>

section \<open>A concrete chain\<close>

definition ref_keeper :: "ref_state burn_keeper" where
  "ref_keeper =
     \<lparr>lib = ref_lib, bankKeeper = ref_bank (\<lambda>m. m = burn_ModuleName), burn_authority = ''gov'',
      FeeCollectorName = ''fee_collector'', burn_fault = (\<lambda>_. None)\<rparr>"

text \<open>Half of the fees are burned; alice has burned 5 before; the collector holds 101.\<close>

definition ref_burn_store :: burn_store where
  "ref_burn_store =
     \<lparr>Params = Some (Val \<lparr>FeeBurnPercent = Some 500000000000000000\<rparr>),
      GlobalBurnCount = Some (Val 1), GlobalBurnTotal = Some (Val 5),
      AccountBurnTotal = [(ref_bytes ''alice'', Val 5)]\<rparr>"

definition ref_balances :: "addr \<Rightarrow> string \<Rightarrow> nat" where
  "ref_balances a d =
     (if a = ref_bytes ''alice'' then 1000 else if a = ref_bytes ''fee_collector'' then 101 else 0)"

definition ref_chain :: "ref_state chain" where
  "ref_chain = \<lparr>bank = (ref_balances, \<lambda>d. 1101), burn = ref_burn_store, emitted = []\<rparr>"

lemma ref_keeper_laws:
  "sdk_laws (lib ref_keeper)" "codec_laws (lib ref_keeper)"
  "bank_accounting (lib ref_keeper) (bankKeeper ref_keeper) ref_supply"
  "bank_progress (lib ref_keeper) (bankKeeper ref_keeper) (\<lambda>m. m = burn_ModuleName)"
  "no_faults ref_keeper"
  by (simp_all add: ref_keeper_def ref_sdk_laws ref_codec_laws ref_bank_accounting ref_bank_progress
      no_faults_def)

definition ref_genesis :: burn_GenesisState where
  "ref_genesis =
     \<lparr>gen_Params = \<lparr>FeeBurnPercent = Some 500000000000000000\<rparr>, gen_Count = 1, gen_Total = Some 5,
      gen_AccountTotals = [\<lparr>rec_Address = ''alice'', rec_Total = Some 5\<rparr>]\<rparr>"

lemma ref_genesis_valid: "burn_GenesisState_Validate (lib ref_keeper) ref_genesis = Ok ()"
  by code_simp

lemma ref_genesis_balanced: "genesis_balanced (lib ref_keeper) ref_genesis"
  by code_simp

lemma ref_genesis_import:
  "burn_InitGenesis ref_keeper ref_genesis fresh_store = (Ok (), burn ref_chain)"
  by code_simp

lemma ref_chain_reach: "burn_reach ref_keeper ref_chain"
  using ref_genesis_valid ref_genesis_balanced ref_genesis_import by (rule burn_reach.reach_init)

section \<open>Burning from an account\<close>

text \<open>
  Claim C9. When \<open>BurnFromAccount\<close> returns nil for a positive amount, the coin was the native
  one, the total supply fell by exactly the amount, the sender's balance fell by exactly the amount,
  and no other balance changed (the burn module's account keeps nothing of it).
\<close>

theorem burn_from_account_accounting:
  assumes "sdk_laws (lib K)" and "bank_accounting (lib K) (bankKeeper K) supply"
    and "BurnFromAccount K a \<lparr>Denom = den, Amount = Some i\<rparr> s = (Ok (), s')" and "0 < i"
  shows "den = DefaultBondDenom \<and>
    (\<forall>d. supply (bank s') d = supply (bank s) d - (if d = DefaultBondDenom then i else 0)) \<and>
    (\<forall>x d. balance (bankKeeper K) (bank s') x d =
       balance (bankKeeper K) (bank s) x d - (if x = a \<and> d = DefaultBondDenom then i else 0))"
  using BurnFromAccount_burned [OF assms(1,2,3), of i] assms(4) by (auto simp: burned_def)

lemma run_of_fst: "fst r = Ok x \<Longrightarrow> r = (Ok x, snd r)"
  by (cases r) simp

lemma ref_burn_runs:
  "fst (BurnFromAccount ref_keeper (ref_bytes ''alice'') \<lparr>Denom = ''alyth'', Amount = Some 40\<rparr> ref_chain) = Ok ()"
  by code_simp

theorem burn_from_account_accounting_witness:
  "\<exists>s'. BurnFromAccount ref_keeper (ref_bytes ''alice'') \<lparr>Denom = ''alyth'', Amount = Some 40\<rparr> ref_chain
      = (Ok (), s') \<and> ref_supply (bank s') ''alyth'' = 1061"
proof (intro exI conjI)
  let ?r = "BurnFromAccount ref_keeper (ref_bytes ''alice'') \<lparr>Denom = ''alyth'', Amount = Some 40\<rparr> ref_chain"
  show run: "?r = (Ok (), snd ?r)"
    by (rule run_of_fst [OF ref_burn_runs])
  have "ref_supply (bank (snd ?r)) ''alyth'' = ref_supply (bank ref_chain) ''alyth'' - 40"
    using burn_from_account_accounting [OF ref_keeper_laws(1,3) run] by (simp add: DefaultBondDenom_def)
  then show "ref_supply (bank (snd ?r)) ''alyth'' = 1061"
    by (simp add: ref_supply_def ref_chain_def)
qed

text \<open>
  Claim C15. The trackers refine the abstract ledger: whenever the store implements a ledger and
  \<open>updateTrackers\<close> returns nil, the new store implements the ledger with one more burn, the
  amount added to the total and to the sender's own total, every other account's unchanged. The
  64-bit counter holds the number of burns modulo \<open>2 ^ 64\<close>.
\<close>

theorem update_trackers_refines_ledger:
  assumes "sdk_laws (lib K)" and "implements st l"
    and "updateTrackers K a \<lparr>Denom = den, Amount = Some i\<rparr> st = (Ok (), st')"
  shows "implements st' (record_burn a i l)"
  using updateTrackers_Ok [OF assms(1,3)] implements_tracked [OF assms(2)] by auto

theorem update_trackers_refines_ledger_witness:
  "implements (snd (updateTrackers ref_keeper (ref_bytes ''bob'') \<lparr>Denom = ''alyth'', Amount = Some 7\<rparr> ref_burn_store))
     (record_burn (ref_bytes ''bob'') 7
        \<lparr>burns = 1, total = 5, by_account = (\<lambda>a. if a = ref_bytes ''alice'' then 5 else 0)\<rparr>)"
proof (rule update_trackers_refines_ledger [OF ref_keeper_laws(1)])
  show "implements ref_burn_store
      \<lparr>burns = 1, total = 5, by_account = (\<lambda>a. if a = ref_bytes ''alice'' then 5 else 0)\<rparr>"
    by (simp add: implements_def readable_def ref_burn_store_def GetGlobalBurnTotal_def
        GetAccountBurnTotal_def)
  show "updateTrackers ref_keeper (ref_bytes ''bob'') \<lparr>Denom = ''alyth'', Amount = Some 7\<rparr> ref_burn_store
    = (Ok (), snd (updateTrackers ref_keeper (ref_bytes ''bob'') \<lparr>Denom = ''alyth'', Amount = Some 7\<rparr> ref_burn_store))"
    by code_simp
qed

text \<open>
  Claim C36. A positive amount of any other denomination is never burned: \<open>BurnFromAccount\<close> does
  not return nil, the module's store (all trackers) is untouched, and when the transfer to the module
  account went through the error is \<open>ErrInvalidBurnDenom\<close>.
\<close>

theorem foreign_denom_never_burned:
  assumes "BurnFromAccount K a \<lparr>Denom = den, Amount = Some i\<rparr> s = (r, s')"
    and "den \<noteq> DefaultBondDenom" and "0 < i"
  shows "r \<noteq> Ok () \<and> burn s' = burn s \<and> emitted s' = emitted s \<and>
    ((\<exists>coins b. NewCoins (lib K) \<lparr>Denom = den, Amount = Some i\<rparr> = Ok coins \<and>
       SendCoinsFromAccountToModule (bankKeeper K) a burn_ModuleName coins (bank s) = (Ok (), b)) \<longrightarrow>
     r = Err (BurnErr ErrInvalidBurnDenom))"
  using assms
  by (auto simp: BurnFromAccount_def burnNative_def bindM_def onM_def coin_IsPositive_def
      split: outcome.splits prod.splits)

theorem foreign_denom_never_burned_witness:
  "\<exists>s'. BurnFromAccount (ref_keeper\<lparr>bankKeeper := ref_bank (\<lambda>_. True)\<rparr>) (ref_bytes ''alice'')
      \<lparr>Denom = ''uatom'', Amount = Some 3\<rparr> ref_chain = (Err (BurnErr ErrInvalidBurnDenom), s') \<and>
    burn s' = ref_burn_store"
proof -
  let ?K = "ref_keeper\<lparr>bankKeeper := ref_bank (\<lambda>_. True)\<rparr>"
  let ?r = "BurnFromAccount ?K (ref_bytes ''alice'') \<lparr>Denom = ''uatom'', Amount = Some 3\<rparr> ref_chain"
  have e: "fst ?r = Err (BurnErr ErrInvalidBurnDenom)"
    by code_simp
  have "burn (snd ?r) = burn ref_chain"
    using foreign_denom_never_burned [of ?K "ref_bytes ''alice''" "''uatom''" 3 ref_chain "fst ?r" "snd ?r"]
    by (simp add: DefaultBondDenom_def)
  with e show ?thesis
    by (intro exI [of _ "snd ?r"] conjI prod_eqI) (simp_all add: ref_chain_def)
qed

section \<open>The fee burn\<close>

text \<open>
  Claim C8. With parameters that \<open>Validate\<close> accepts and fees \<open>F\<close> in the collector, a
  \<open>ProcessFeeBurn\<close> that returns nil destroys \<open>floor(percent * F)\<close>, which lies between 0 and
  \<open>F\<close>: the supply and the collector's balance fall by it, the remainder stays in the collector,
  no other balance changes, and the \<open>fee_burn\<close> event is emitted exactly when the amount is
  positive.
\<close>

theorem fee_burn_amount:
  assumes laws: "sdk_laws (lib K)" and acc: "bank_accounting (lib K) (bankKeeper K) supply"
    and ok: "ProcessFeeBurn K s = (Ok (), s')"
    and p: "Params (burn s) = Some (Val \<lparr>FeeBurnPercent = Some d\<rparr>)" "0 \<le> d" "d \<le> dec_one"
    and fc: "fc = NewModuleAddress (lib K) (FeeCollectorName K)"
    and F: "F = balance (bankKeeper K) (bank s) fc DefaultBondDenom"
    and q: "q = d * F div dec_one"
  shows "0 \<le> q \<and> q \<le> F \<and>
    supply (bank s') DefaultBondDenom = supply (bank s) DefaultBondDenom - q \<and>
    balance (bankKeeper K) (bank s') fc DefaultBondDenom = F - q \<and>
    (\<forall>x den. (x, den) \<noteq> (fc, DefaultBondDenom) \<longrightarrow>
       balance (bankKeeper K) (bank s') x den = balance (bankKeeper K) (bank s) x den) \<and>
    emitted s' = emitted s @ (if 0 < q
      then [fee_burn_event (lib K) (Some d) \<lparr>Denom = DefaultBondDenom, Amount = Some q\<rparr>] else [])"
proof -
  have F0: "0 \<le> F" unfolding F by (rule balance_nonneg [OF acc])
  have q0: "0 \<le> q" using p(2) F0 by (simp add: q dec_one_def div_int_pos_iff)
  have "d * F \<le> dec_one * F" using p(3) F0 by (rule mult_right_mono)
  then have "q \<le> dec_one * F div dec_one"
    unfolding q by (rule zdiv_mono1) (simp add: dec_one_def)
  then have qF: "q \<le> F" by (simp add: dec_one_def)
  obtain p' amt where p': "Params (burn s) = Some (Val p')"
    and amt: "burnableAmount (lib K) (FeeBurnPercent p') (Some F) = Ok amt"
    and step: "if 0 < amt
     then \<exists>s1. burned K supply fc amt s s1 \<and> same_rest s s1 \<and>
            s' = s1\<lparr>emitted := emitted s @ [fee_burn_event (lib K) (FeeBurnPercent p')
                    \<lparr>Denom = DefaultBondDenom, Amount = Some amt\<rparr>]\<rparr>
     else s' = s"
    using ProcessFeeBurn_Ok [OF laws acc ok, folded fc, folded F] by blast
  note [simp] = p' [unfolded p(1), simplified, symmetric]
  have "amt = q"
    using burnableAmount_Ok [OF laws amt] p(2) F0 q by simp
  then show ?thesis
    using step q0 qF F by (auto simp: burned_def split: if_splits)
qed

theorem fee_burn_amount_witness:
  "\<exists>s'. ProcessFeeBurn ref_keeper ref_chain = (Ok (), s') \<and>
    ref_supply (bank s') ''alyth'' = 1051 \<and>
    balance (bankKeeper ref_keeper) (bank s') (ref_bytes ''fee_collector'') ''alyth'' = 51"
proof (intro exI conjI)
  let ?r = "ProcessFeeBurn ref_keeper ref_chain"
  let ?fc = "NewModuleAddress (lib ref_keeper) (FeeCollectorName ref_keeper)"
  have "fst ?r = Ok ()" by code_simp
  then show ok: "?r = (Ok (), snd ?r)" by (rule run_of_fst)
  have fc: "ref_bytes ''fee_collector'' = ?fc"
    by (simp add: ref_keeper_def)
  have F: "101 = balance (bankKeeper ref_keeper) (bank ref_chain) ?fc DefaultBondDenom"
    by (simp add: ref_keeper_def ref_chain_def ref_balances_def ref_bytes_def)
  have p: "Params (burn ref_chain) = Some (Val \<lparr>FeeBurnPercent = Some 500000000000000000\<rparr>)"
    by (simp add: ref_chain_def ref_burn_store_def)
  note result = fee_burn_amount [OF ref_keeper_laws(1,3) ok p _ _ refl F refl]
  show "ref_supply (bank (snd ?r)) ''alyth'' = 1051"
    using result by (simp add: DefaultBondDenom_def dec_one_def ref_supply_def ref_chain_def)
  show "balance (bankKeeper ref_keeper) (bank (snd ?r)) (ref_bytes ''fee_collector'') ''alyth'' = 51"
    using result unfolding fc by (simp add: DefaultBondDenom_def dec_one_def)
qed



section \<open>Reachable states\<close>

text \<open>
  Claim C5. In every state reachable from a valid, balanced genesis by burns, parameter updates and
  blocks, in any order and with other modules' transitions in between: the global total can be read
  and equals the sum of the account totals, no account total and no total is negative, no account has
  burned more than the total, and the parameters are ones \<open>Validate\<close> accepts.
\<close>

theorem reachable_ledger_balanced:
  assumes "sdk_laws (lib K)" and "bank_accounting (lib K) (bankKeeper K) supply" and "burn_reach K s"
  shows "(\<exists>p. burn_query_Params (burn s) = Ok p \<and> burn_Params_Validate p = Ok ()) \<and>
    GetGlobalBurnTotal (burn s) =
      Ok (\<Sum>a \<in> dom (map_of (AccountBurnTotal (burn s))). (case GetAccountBurnTotal (burn s) a of Ok t \<Rightarrow> t | _ \<Rightarrow> 0)) \<and>
    (\<forall>a. \<exists>t. GetAccountBurnTotal (burn s) a = Ok t \<and> 0 \<le> t \<and> t \<le> burned_total (burn s))"
proof -
  have inv: "module_inv (burn s)" by (rule burn_reach_inv [OF assms])
  have g: "GetGlobalBurnTotal (burn s) = Ok (account_sum (burn s))" and rd: "readable (burn s)"
    and nonneg: "nonnegative (burn s)"
    using inv by (simp_all add: module_inv_def consistent_def)
  have "account_sum (burn s) = (\<Sum>a \<in> dom (map_of (AccountBurnTotal (burn s))).
      (case GetAccountBurnTotal (burn s) a of Ok t \<Rightarrow> t | _ \<Rightarrow> 0))"
    using rd account_sum_reads by blast
  moreover have "\<exists>t. GetAccountBurnTotal (burn s) a = Ok t \<and> 0 \<le> t \<and> t \<le> burned_total (burn s)" for a
    using readable_reads(3) [OF rd, of a] account_le_total [OF inv _ g, of a] account_nonneg [OF rd nonneg] g
    by (fastforce simp: burned_total_def)
  ultimately show ?thesis
    using g inv by (auto simp: module_inv_def burn_query_Params_def burn_Params_Validate_Ok)
qed

theorem reachable_ledger_balanced_witness:
  "GetGlobalBurnTotal (burn ref_chain) = Ok 5 \<and>
   (\<forall>a. \<exists>t. GetAccountBurnTotal (burn ref_chain) a = Ok t \<and> 0 \<le> t \<and> t \<le> 5)"
  using reachable_ledger_balanced [OF ref_keeper_laws(1,3) ref_chain_reach]
  by (simp add: ref_chain_def ref_burn_store_def GetGlobalBurnTotal_def burned_total_def)

text \<open>
  Claim C2. Over any sequence of x/burn operations that returned nil, the supply of the native
  token plus the recorded global total is constant, the total never decreases, and the supply of
  every other denomination is constant: the trackers account for exactly the tokens destroyed.
\<close>

theorem burn_runs_conserve:
  assumes "sdk_laws (lib K)" and "bank_accounting (lib K) (bankKeeper K) supply"
    and "(burn_step K)\<^sup>*\<^sup>* s s'"
  shows "supply (bank s') DefaultBondDenom + burned_total (burn s')
         = supply (bank s) DefaultBondDenom + burned_total (burn s) \<and>
    burned_total (burn s) \<le> burned_total (burn s') \<and>
    (\<forall>d. d \<noteq> DefaultBondDenom \<longrightarrow> supply (bank s') d = supply (bank s) d)"
  using assms(3)
proof induction
  case base
  then show ?case by simp
next
  case (step t u)
  then show ?case
    using burn_effect_conserves [OF burn_step_effect [OF assms(1,2) step.hyps(2)]] by force
qed

theorem burn_runs_conserve_witness:
  "\<exists>s'. (burn_step ref_keeper)\<^sup>*\<^sup>* ref_chain s' \<and> ref_supply (bank s') ''alyth'' + burned_total (burn s') = 1106"
proof -
  let ?r = "BurnFromAccount ref_keeper (ref_bytes ''alice'') \<lparr>Denom = ''alyth'', Amount = Some 40\<rparr> ref_chain"
  have "burn_step ref_keeper ref_chain (snd ?r)"
    by (rule burn_step.step_call) (rule run_of_fst [OF ref_burn_runs])
  then have run: "(burn_step ref_keeper)\<^sup>*\<^sup>* ref_chain (snd ?r)" by simp
  have "ref_supply (bank (snd ?r)) ''alyth'' + burned_total (burn (snd ?r)) = 1106"
    using burn_runs_conserve [OF ref_keeper_laws(1,3) run]
    by (simp add: DefaultBondDenom_def ref_supply_def ref_chain_def ref_burn_store_def burned_total_def
        GetGlobalBurnTotal_def)
  with run show ?thesis by blast
qed

section \<open>Governance\<close>

text \<open>
  Claim C37. \<open>UpdateParams\<close> decides by authority first and validity second: any other signer gets
  \<open>ErrInvalidSigner\<close>, invalid parameters get \<open>ErrInvalidFeeBurnPercent\<close>, both leaving the
  state as it was; otherwise the parameters, and nothing else, are replaced.
\<close>

theorem burn_update_params_decision:
  assumes "sdk_laws (lib K)" and "no_faults K"
  shows "burn_UpdateParams K m s =
    (if burn_authority K \<noteq> bup_Authority m then (Err ErrInvalidSigner, s)
     else if \<not> valid_burn_params (bup_Params m) then (Err (BurnErr ErrInvalidFeeBurnPercent), s)
     else (Ok (), s\<lparr>burn := (burn s)\<lparr>Params := Some (Val (bup_Params m))\<rparr>\<rparr>))"
proof (cases "burn_authority K = bup_Authority m \<and> valid_burn_params (bup_Params m)")
  case True
  then obtain d where d: "FeeBurnPercent (bup_Params m) = Some d"
    by (auto simp: valid_burn_params_def)
  then have "\<lparr>FeeBurnPercent = Some d\<rparr> = bup_Params m"
    by (cases "bup_Params m") simp
  moreover have "burn_Params_Validate (bup_Params m) = Ok ()"
    using True by (simp add: burn_Params_Validate_Ok)
  ultimately show ?thesis
    using True d assms(2)
    by (simp add: burn_UpdateParams_def bindM_def Params_Set_def onM_def no_faults_def
        sdk_lawsD(8) [OF assms(1)])
next
  case False
  then show ?thesis
    by (auto simp: burn_UpdateParams_def bindM_def burn_Params_Validate_Err)
qed

theorem burn_update_params_decision_witness:
  "burn_UpdateParams ref_keeper
     \<lparr>bup_Authority = ''gov'', bup_Params = \<lparr>FeeBurnPercent = Some (10 ^ 18 + 1)\<rparr>\<rparr> ref_chain
   = (Err (BurnErr ErrInvalidFeeBurnPercent), ref_chain)"
  using burn_update_params_decision [OF ref_keeper_laws(1,5),
      of "\<lparr>bup_Authority = ''gov'', bup_Params = \<lparr>FeeBurnPercent = Some (10 ^ 18 + 1)\<rparr>\<rparr>" ref_chain]
  by (simp add: ref_keeper_def valid_burn_params_def dec_one_def)

section \<open>Genesis\<close>

text \<open>
  Claim C23. The genesis round trip: from every reachable state, a genesis that \<open>ExportGenesis\<close>
  returns passes \<open>Validate\<close>, \<open>InitGenesis\<close> accepts it on an empty store, and the imported
  store reads the same: parameters, counter, global total and every account total.
\<close>

theorem burn_genesis_roundtrip:
  assumes "sdk_laws (lib K)" and "codec_laws (lib K)" and "no_faults K"
    and "bank_accounting (lib K) (bankKeeper K) supply" and "burn_reach K s"
    and "burn_ExportGenesis K (burn s) = Ok g"
  shows "burn_GenesisState_Validate (lib K) g = Ok () \<and>
    (\<exists>st. burn_InitGenesis K g fresh_store = (Ok (), st) \<and>
      Params st = Params (burn s) \<and> seq_peek (GlobalBurnCount st) = seq_peek (GlobalBurnCount (burn s)) \<and>
      GetGlobalBurnTotal st = GetGlobalBurnTotal (burn s) \<and>
      AccountBurnTotal st = AccountBurnTotal (burn s))"
proof -
  have inv: "module_inv (burn s)" by (rule burn_reach_inv [OF assms(1,4,5)])
  then have rd: "readable (burn s)" and nn: "nonnegative (burn s)"
    by (simp_all add: module_inv_def consistent_def)
  have vp: "valid_burn_params (gen_Params g)" and vt: "0 \<le> (case gen_Total g of None \<Rightarrow> 0 | Some t \<Rightarrow> t)"
    using assms(6) inv nn
    by (auto simp: burn_ExportGenesis_def bindO_Ok_iff module_inv_def nonnegative_def)
  have accts: "\<forall>a v. map_of (AccountBurnTotal (burn s)) a = Some (Val v) \<longrightarrow> 0 \<le> v"
    using nn by (simp add: nonnegative_def)
  show ?thesis
    using export_then_import [OF assms(1,2,3) rd assms(6) vp vt accts]
      export_validates [OF assms(2) rd assms(6) vp vt accts] by blast
qed

theorem burn_genesis_roundtrip_witness:
  "\<exists>g st. burn_ExportGenesis ref_keeper (burn ref_chain) = Ok g \<and>
     burn_InitGenesis ref_keeper g fresh_store = (Ok (), st) \<and>
     AccountBurnTotal st = [(ref_bytes ''alice'', Val 5)]"
proof -
  have e: "burn_ExportGenesis ref_keeper (burn ref_chain) = Ok ref_genesis"
    by code_simp
  show ?thesis
    using e burn_genesis_roundtrip [OF ref_keeper_laws(1,2,5,3) ref_chain_reach e]
    by (auto simp: ref_chain_def ref_burn_store_def)
qed


end
