(* ===== verification/Validator_Types.thy ===== *)
theory Validator_Types
  imports Sdk_Interfaces
begin

text \<open>
  \<^verbatim>\<open>x/validator/types\<close>: the parameters of validator registration, their validation, the genesis
  state and the messages. \<open>MsgCreateValidator\<close> is x/staking's message: the record holds the
  fields this module reads, and the record scheme leaves room for the others.
\<close>

definition validator_ModuleName :: string where
  "validator_ModuleName = ''validator''"

definition GovModuleName :: string where
  "GovModuleName = ''gov''"

definition EventTypeRegisterValidator :: string where
  "EventTypeRegisterValidator = ''register_validator''"

section \<open>params.go\<close>

record validator_params =
  ValidatorRegistrationBurn :: coin
  ValidatorMinSelfDelegation :: coin

definition validator_NewParams :: "coin \<Rightarrow> coin \<Rightarrow> validator_params" where
  "validator_NewParams validatorRegistrationBurn validatorMinSelfDelegation =
     \<lparr>ValidatorRegistrationBurn = validatorRegistrationBurn,
      ValidatorMinSelfDelegation = validatorMinSelfDelegation\<rparr>"

definition validator_DefaultParams :: "sdk_lib \<Rightarrow> validator_params outcome" where
  "validator_DefaultParams L =
     bindO (NewCoin L DefaultBondDenom (Some 0)) (\<lambda>b.
     bindO (NewCoin L DefaultBondDenom (Some 0)) (\<lambda>d.
     Ok (validator_NewParams b d)))"

text \<open>An error of \<open>v.Validate()\<close> is replaced by the module's own; \<open>IsZero\<close> panics on nil.\<close>

definition validateRegistrationBurn :: "sdk_lib \<Rightarrow> coin \<Rightarrow> unit outcome" where
  "validateRegistrationBurn L v =
     (case CoinValidate L v of
        Panic \<Rightarrow> Panic
      | Err _ \<Rightarrow> Err (ValidatorErr ErrInvalidRegistrationBurn)
      | Ok _ \<Rightarrow>
          bindO (coin_IsZero v) (\<lambda>zero.
            if \<not> zero \<and> Denom v \<noteq> DefaultBondDenom
            then Err (ValidatorErr ErrInvalidRegistrationBurn) else Ok ()))"

definition validateMinSelfDelegation :: "sdk_lib \<Rightarrow> coin \<Rightarrow> unit outcome" where
  "validateMinSelfDelegation L v =
     (case CoinValidate L v of
        Panic \<Rightarrow> Panic
      | Err _ \<Rightarrow> Err (ValidatorErr ErrInvalidMinSelfDelegation)
      | Ok _ \<Rightarrow>
          bindO (coin_IsZero v) (\<lambda>zero.
            if \<not> zero \<and> Denom v \<noteq> DefaultBondDenom
            then Err (ValidatorErr ErrInvalidMinSelfDelegation) else Ok ()))"

definition validator_Params_Validate :: "sdk_lib \<Rightarrow> validator_params \<Rightarrow> unit outcome" where
  "validator_Params_Validate L p =
     bindO (validateRegistrationBurn L (ValidatorRegistrationBurn p)) (\<lambda>_.
     validateMinSelfDelegation L (ValidatorMinSelfDelegation p))"

section \<open>genesis.go, tx.pb.go\<close>

record validator_GenesisState =
  vgen_Params :: validator_params

definition validator_DefaultGenesisState :: "sdk_lib \<Rightarrow> validator_GenesisState outcome" where
  "validator_DefaultGenesisState L =
     bindO (validator_DefaultParams L) (\<lambda>p. Ok \<lparr>vgen_Params = p\<rparr>)"

definition validator_GenesisState_Validate :: "sdk_lib \<Rightarrow> validator_GenesisState \<Rightarrow> unit outcome" where
  "validator_GenesisState_Validate L gs = validator_Params_Validate L (vgen_Params gs)"

record MsgCreateValidator =
  ValidatorAddress :: string
  Value :: coin
  MinSelfDelegation :: "int option"

record 'c MsgRegisterValidator =
  Sender :: string
  CreateValidator :: "'c MsgCreateValidator_scheme"
  Burn :: coin

record validator_MsgUpdateParams =
  vup_Authority :: string
  vup_Params :: validator_params

section \<open>What Validate accepts\<close>

text \<open>\<open>Coin.Validate\<close> rejects nil and negative amounts.\<close>

definition coin_validate_law :: "sdk_lib \<Rightarrow> bool" where
  "coin_validate_law L \<longleftrightarrow>
     (\<forall>c. CoinValidate L c \<noteq> Panic \<and>
          (CoinValidate L c = Ok () \<longrightarrow> (\<exists>i\<ge>0. Amount c = Some i)))"

lemma coin_validate_lawD:
  assumes "coin_validate_law L"
  shows "CoinValidate L c \<noteq> Panic" and "CoinValidate L c = Ok u \<Longrightarrow> \<exists>i\<ge>0. Amount c = Some i"
  using assms by (auto simp: coin_validate_law_def)

text \<open>A requirement: a valid coin, in the native denomination unless it is zero.\<close>

definition valid_requirement :: "sdk_lib \<Rightarrow> coin \<Rightarrow> bool" where
  "valid_requirement L c \<longleftrightarrow>
     CoinValidate L c = Ok () \<and> (Amount c = Some 0 \<or> Denom c = DefaultBondDenom)"

definition valid_validator_params :: "sdk_lib \<Rightarrow> validator_params \<Rightarrow> bool" where
  "valid_validator_params L p \<longleftrightarrow>
     valid_requirement L (ValidatorRegistrationBurn p) \<and> valid_requirement L (ValidatorMinSelfDelegation p)"

lemma validate_requirement:
  assumes "coin_validate_law L"
  shows "validateRegistrationBurn L c =
      (if valid_requirement L c then Ok () else Err (ValidatorErr ErrInvalidRegistrationBurn))"
    and "validateMinSelfDelegation L c =
      (if valid_requirement L c then Ok () else Err (ValidatorErr ErrInvalidMinSelfDelegation))"
  using coin_validate_lawD [OF assms, of c]
  by (auto simp: validateRegistrationBurn_def validateMinSelfDelegation_def valid_requirement_def
      coin_IsZero_def split: outcome.splits)

lemma validator_Params_Validate_eq:
  assumes "coin_validate_law L"
  shows "validator_Params_Validate L p =
    (if \<not> valid_requirement L (ValidatorRegistrationBurn p)
     then Err (ValidatorErr ErrInvalidRegistrationBurn)
     else if \<not> valid_requirement L (ValidatorMinSelfDelegation p)
     then Err (ValidatorErr ErrInvalidMinSelfDelegation) else Ok ())"
  by (simp add: validator_Params_Validate_def validate_requirement [OF assms])

lemma validator_Params_Validate_Ok:
  assumes "coin_validate_law L"
  shows "validator_Params_Validate L p = Ok u \<longleftrightarrow> valid_validator_params L p"
  by (simp add: validator_Params_Validate_eq [OF assms] valid_validator_params_def)

lemma valid_requirement_amount:
  "coin_validate_law L \<Longrightarrow> valid_requirement L c \<Longrightarrow> \<exists>i\<ge>0. Amount c = Some i"
  by (auto simp: valid_requirement_def dest: coin_validate_lawD(2))

end
