(* ===== verification/Validator_Keeper.thy ===== *)
theory Validator_Keeper
  imports Validator_Types Burn_Keeper
begin

text \<open>
  \<^verbatim>\<open>x/validator/keeper\<close> and \<^verbatim>\<open>x/validator/ante\<close>: registration of a validator (burn, then
  create), the message and query servers, genesis, and the two guards the application puts in front
  of \<open>MsgCreateValidator\<close>: the staking server handed to the EVM precompile and the circuit breaker
  of the message router.

  The two interfaces of \<^verbatim>\<open>expected_keepers.go\<close> are fields of the keeper: \<open>BurnFromAccount\<close> of
  \<open>types.BurnKeeper\<close> and \<open>CreateValidator\<close> of \<open>types.StakingMsgServer\<close>, state-passing
  calls on the whole context.
\<close>

section \<open>State\<close>

record ('b, 'k) vchain = "'b chain" +
  validator_store :: "validator_params item"
  staking :: 'k
  BlockHeight :: int

record ('c, 's) validator_keeper =
  vlib :: sdk_lib
  validator_authority :: string
  burnKeeper :: "addr \<Rightarrow> coin \<Rightarrow> 's \<Rightarrow> unit outcome \<times> 's"
  stakingMsgServer :: "'c MsgCreateValidator_scheme \<Rightarrow> 's \<Rightarrow> unit outcome \<times> 's"
  validator_fault :: "error option"

abbreviation on_validator where
  "on_validator \<equiv> onM validator_store (\<lambda>v s. s\<lparr>validator_store := v\<rparr>)"

section \<open>keeper.go\<close>

definition validator_NewKeeper ::
  "sdk_lib \<Rightarrow> string \<Rightarrow> (addr \<Rightarrow> coin \<Rightarrow> 's \<Rightarrow> unit outcome \<times> 's) \<Rightarrow>
   ('c MsgCreateValidator_scheme \<Rightarrow> 's \<Rightarrow> unit outcome \<times> 's) \<Rightarrow> error option \<Rightarrow>
   ('c, 's) validator_keeper outcome" where
  "validator_NewKeeper L authority burnk stakingServer fault =
     (case StringToBytes L authority of
        Err e \<Rightarrow> Panic
      | Panic \<Rightarrow> Panic
      | Ok _ \<Rightarrow> Ok \<lparr>vlib = L, validator_authority = authority, burnKeeper = burnk,
                   stakingMsgServer = stakingServer, validator_fault = fault\<rparr>)"

definition resolveSender :: "sdk_lib \<Rightarrow> 'c MsgRegisterValidator \<Rightarrow> addr outcome" where
  "resolveSender L msg =
     bindO (StringToBytes L (Sender msg)) (\<lambda>sender.
     bindO (ValStringToBytes L (ValidatorAddress (CreateValidator msg))) (\<lambda>validator.
       if sender \<noteq> validator then Err (ValidatorErr ErrRegistrationAddressMismatch)
       else Ok sender))"

text \<open>\<open>a.IsNil() || a.LT(b)\<close>: the comparison is not reached when \<open>a\<close> is nil.\<close>

definition nil_or_LT :: "int option \<Rightarrow> int option \<Rightarrow> bool outcome" where
  "nil_or_LT a b = (case a of None \<Rightarrow> Ok True | Some _ \<Rightarrow> int_LT a b)"

definition validateRegistrationFunds :: "'c MsgRegisterValidator \<Rightarrow> validator_params \<Rightarrow> unit outcome" where
  "validateRegistrationFunds msg params =
     (if Denom (Burn msg) \<noteq> Denom (ValidatorRegistrationBurn params)
      then Err (ValidatorErr ErrBurnDenomMismatch)
      else
        bindO (nil_or_LT (Amount (Burn msg)) (Amount (ValidatorRegistrationBurn params))) (\<lambda>low.
        if low then Err (ValidatorErr ErrBurnBelowRequired)
        else if Denom (Value (CreateValidator msg)) \<noteq> Denom (ValidatorMinSelfDelegation params)
        then Err (ValidatorErr ErrDelegationDenomMismatch)
        else
          bindO (nil_or_LT (Amount (Value (CreateValidator msg)))
                   (Amount (ValidatorMinSelfDelegation params))) (\<lambda>low.
          if low then Err (ValidatorErr ErrMinSelfDelegationBelowRequired)
          else
            bindO (nil_or_LT (MinSelfDelegation (CreateValidator msg))
                     (Amount (ValidatorMinSelfDelegation params))) (\<lambda>low.
            if low then Err (ValidatorErr ErrMinSelfDelegationBelowRequired)
            else Ok ()))))"

definition RegisterValidator ::
  "('c, ('b, 'k, 'z) vchain_scheme) validator_keeper \<Rightarrow> 'c MsgRegisterValidator \<Rightarrow>
   ('b, 'k, 'z) vchain_scheme \<Rightarrow> unit outcome \<times> ('b, 'k, 'z) vchain_scheme" where
  "RegisterValidator K msg s =
     (case item_get (validator_store s) of
        Err e \<Rightarrow> (Err (ValidatorErr ErrParamsRead), s)
      | Panic \<Rightarrow> (Panic, s)
      | Ok params \<Rightarrow>
          bindM (liftM (resolveSender (vlib K) msg)) (\<lambda>sender.
          bindM (liftM (validateRegistrationFunds msg params)) (\<lambda>_.
          bindM (burnKeeper K sender (Burn msg)) (\<lambda>_.
          bindM (stakingMsgServer K (CreateValidator msg)) (\<lambda>_.
          EmitEvent (Event EventTypeRegisterValidator []))))) s)"

section \<open>msg_server.go\<close>

definition Validator_Params_Set ::
  "('c, 's) validator_keeper \<Rightarrow> validator_params \<Rightarrow> validator_params item \<Rightarrow> unit outcome \<times> validator_params item" where
  "Validator_Params_Set K p =
     item_set (validator_fault K)
       (bindO (IntEncode (vlib K) (Amount (ValidatorRegistrationBurn p))) (\<lambda>b.
        bindO (IntEncode (vlib K) (Amount (ValidatorMinSelfDelegation p))) (\<lambda>d.
        Ok \<lparr>ValidatorRegistrationBurn = (ValidatorRegistrationBurn p)\<lparr>Amount := Some b\<rparr>,
            ValidatorMinSelfDelegation = (ValidatorMinSelfDelegation p)\<lparr>Amount := Some d\<rparr>\<rparr>)))"

definition msg_RegisterValidator ::
  "('c, ('b, 'k, 'z) vchain_scheme) validator_keeper \<Rightarrow> 'c MsgRegisterValidator \<Rightarrow>
   ('b, 'k, 'z) vchain_scheme \<Rightarrow> unit outcome \<times> ('b, 'k, 'z) vchain_scheme" where
  "msg_RegisterValidator K msg = bindM (RegisterValidator K msg) (\<lambda>_. retM ())"

definition validator_UpdateParams ::
  "('c, ('b, 'k, 'z) vchain_scheme) validator_keeper \<Rightarrow> validator_MsgUpdateParams \<Rightarrow>
   ('b, 'k, 'z) vchain_scheme \<Rightarrow> unit outcome \<times> ('b, 'k, 'z) vchain_scheme" where
  "validator_UpdateParams K msg =
     (if validator_authority K \<noteq> vup_Authority msg then failM ErrInvalidSigner
      else
        bindM (liftM (validator_Params_Validate (vlib K) (vup_Params msg))) (\<lambda>_.
        on_validator (Validator_Params_Set K (vup_Params msg))))"

section \<open>grpc_query.go, genesis.go\<close>

definition validator_query_Params :: "validator_params item \<Rightarrow> validator_params outcome" where
  "validator_query_Params st = item_get st"

definition validator_InitGenesis ::
  "('c, 's) validator_keeper \<Rightarrow> validator_GenesisState \<Rightarrow> validator_params item \<Rightarrow>
   unit outcome \<times> validator_params item" where
  "validator_InitGenesis K genState = Validator_Params_Set K (vgen_Params genState)"

definition validator_ExportGenesis :: "validator_params item \<Rightarrow> validator_GenesisState outcome" where
  "validator_ExportGenesis st = bindO (item_get st) (\<lambda>params. Ok \<lparr>vgen_Params = params\<rparr>)"

section \<open>ante/staking_restriction.go\<close>

definition Restricted_CreateValidator ::
  "('m \<Rightarrow> ('b, 'k, 'z) vchain_scheme \<Rightarrow> unit outcome \<times> ('b, 'k, 'z) vchain_scheme) \<Rightarrow> 'm \<Rightarrow>
   ('b, 'k, 'z) vchain_scheme \<Rightarrow> unit outcome \<times> ('b, 'k, 'z) vchain_scheme" where
  "Restricted_CreateValidator inner msg s =
     (if BlockHeight s = 0 then inner msg s
      else (Err (ValidatorErr ErrInvalidRegistrationTx), s))"

text \<open>\<open>createURL\<close> is the type URL \<open>sdk.MsgTypeURL\<close> computes for \<open>MsgCreateValidator\<close>.\<close>

definition IsAllowed :: "string \<Rightarrow> ('b, 'k, 'z) vchain_scheme \<Rightarrow> string \<Rightarrow> bool outcome" where
  "IsAllowed createURL s typeURL =
     (if typeURL = createURL then Ok (BlockHeight s = 0) else Ok True)"

end
