(* ===== verification/Validator_Gate.thy ===== *)
theory Validator_Gate
  imports Validator_Keeper Burn_Machine
begin

text \<open>
  What x/validator relies on from its \<open>BurnKeeper\<close> is the locale \<open>burn_service\<close>; the lemmas
  about a successful registration are proved in it, and x/burn's \<open>BurnFromAccount\<close> provides it.
  The second half is the state machine of the whole gate: every way \<^verbatim>\<open>app.go\<close> leaves open for a
  \<open>MsgCreateValidator\<close> to reach the staking module, next to the steps of x/burn, governance and
  the other modules.
\<close>

section \<open>The validation part of RegisterValidator\<close>

lemma nil_or_LT_simps [simp]:
  "nil_or_LT None b = Ok True"
  "nil_or_LT (Some x) (Some y) = Ok (x < y)"
  by (simp_all add: nil_or_LT_def int_LT_def)

definition at_least :: "int \<Rightarrow> int option \<Rightarrow> bool" where
  "at_least r a \<longleftrightarrow> (case a of None \<Rightarrow> False | Some i \<Rightarrow> r \<le> i)"

lemma at_least_iff: "at_least r a \<longleftrightarrow> (\<exists>i\<ge>r. a = Some i)"
  by (auto simp: at_least_def split: option.splits)

lemma nil_or_LT_at_least: "nil_or_LT a (Some x) = Ok (\<not> at_least x a)"
  by (cases a) (auto simp: at_least_def)

text \<open>What a registration must offer, for requirements of \<open>r\<close> and \<open>d\<close>.\<close>

definition offers :: "'c MsgRegisterValidator \<Rightarrow> validator_params \<Rightarrow> int \<Rightarrow> int \<Rightarrow> bool" where
  "offers msg params r d \<longleftrightarrow>
     Denom (Burn msg) = Denom (ValidatorRegistrationBurn params) \<and>
     at_least r (Amount (Burn msg)) \<and>
     Denom (Value (CreateValidator msg)) = Denom (ValidatorMinSelfDelegation params) \<and>
     at_least d (Amount (Value (CreateValidator msg))) \<and>
     at_least d (MinSelfDelegation (CreateValidator msg))"

lemma validateRegistrationFunds_eq:
  assumes "Amount (ValidatorRegistrationBurn params) = Some r"
    and "Amount (ValidatorMinSelfDelegation params) = Some d"
  shows "validateRegistrationFunds msg params =
    (if Denom (Burn msg) \<noteq> Denom (ValidatorRegistrationBurn params)
     then Err (ValidatorErr ErrBurnDenomMismatch)
     else if \<not> at_least r (Amount (Burn msg)) then Err (ValidatorErr ErrBurnBelowRequired)
     else if Denom (Value (CreateValidator msg)) \<noteq> Denom (ValidatorMinSelfDelegation params)
     then Err (ValidatorErr ErrDelegationDenomMismatch)
     else if \<not> at_least d (Amount (Value (CreateValidator msg)))
       \<or> \<not> at_least d (MinSelfDelegation (CreateValidator msg))
     then Err (ValidatorErr ErrMinSelfDelegationBelowRequired)
     else Ok ())"
  by (simp add: validateRegistrationFunds_def assms nil_or_LT_at_least)

lemma validateRegistrationFunds_Ok:
  assumes "Amount (ValidatorRegistrationBurn params) = Some r"
    and "Amount (ValidatorMinSelfDelegation params) = Some d"
  shows "validateRegistrationFunds msg params = Ok u \<longleftrightarrow> offers msg params r d"
  by (auto simp: validateRegistrationFunds_eq [OF assms] offers_def)

lemma resolveSender_Ok:
  "resolveSender L msg = Ok a \<longleftrightarrow>
   StringToBytes L (Sender msg) = Ok a \<and> ValStringToBytes L (ValidatorAddress (CreateValidator msg)) = Ok a"
  by (auto simp: resolveSender_def bindO_Ok_iff split: if_splits)

lemma RegisterValidator_Ok:
  assumes "RegisterValidator K msg s = (Ok u, s')"
  shows "\<exists>params a s1 s2. validator_store s = Some (Val params) \<and> resolveSender (vlib K) msg = Ok a \<and>
    validateRegistrationFunds msg params = Ok () \<and>
    burnKeeper K a (Burn msg) s = (Ok (), s1) \<and>
    stakingMsgServer K (CreateValidator msg) s1 = (Ok (), s2) \<and>
    s' = s2\<lparr>emitted := emitted s2 @ [Event EventTypeRegisterValidator []]\<rparr>"
  using assms
  by (auto simp: RegisterValidator_def bindM_Ok_iff split: outcome.splits)

lemma validator_UpdateParams_Ok:
  assumes "validator_UpdateParams K m s = (Ok u, s')"
  shows "validator_authority K = vup_Authority m \<and> validator_Params_Validate (vlib K) (vup_Params m) = Ok () \<and>
    (\<exists>v. s' = s\<lparr>validator_store := v\<rparr>)"
  using assms by (auto simp: validator_UpdateParams_def bindM_Ok_iff onM_iff split: if_splits)

section \<open>The interface to x/burn\<close>

locale burn_service =
  fixes burn_call :: "addr \<Rightarrow> coin \<Rightarrow> ('b, 'z) chain_scheme \<Rightarrow> unit outcome \<times> ('b, 'z) chain_scheme"
    and token_supply :: "'b \<Rightarrow> string \<Rightarrow> int"
    and recorded :: "burn_store \<Rightarrow> int"
  assumes burns: "burn_call a c s = (Ok u, s') \<Longrightarrow> \<exists>i\<ge>0. Amount c = Some i \<and>
      (0 < i \<longrightarrow> Denom c = DefaultBondDenom) \<and>
      token_supply (bank s') DefaultBondDenom = token_supply (bank s) DefaultBondDenom - i \<and>
      recorded (burn s') = recorded (burn s) + i"
    and frame: "burn_call a c s = (r, s') \<Longrightarrow> emitted s' = emitted s \<and> chain.more s' = chain.more s"
begin

text \<open>A burn of at least \<open>r\<close> takes at least \<open>r\<close> from the token_supply and records it.\<close>

lemma burns_at_least:
  assumes "burn_call a c s = (Ok u, s')" and "Amount c = Some i" and "r \<le> i"
  shows "token_supply (bank s') DefaultBondDenom \<le> token_supply (bank s) DefaultBondDenom - r"
    and "recorded (burn s) + r \<le> recorded (burn s')"
  using burns [OF assms(1)] assms(2,3) by auto

lemma never_unrecorded:
  assumes "burn_call a c s = (Ok u, s')"
  shows "token_supply (bank s') DefaultBondDenom + recorded (burn s')
    = token_supply (bank s) DefaultBondDenom + recorded (burn s)"
  using burns [OF assms] by auto

end

lemma BurnFromAccount_frame:
  "BurnFromAccount K a c s = (r, s') \<Longrightarrow> emitted s' = emitted s \<and> chain.more s' = chain.more s"
  by (auto simp: BurnFromAccount_def burnNative_def bindM_def onM_def split: outcome.splits prod.splits if_splits)

lemma BurnFromModule_frame:
  "BurnFromModule K m c s = (r, s') \<Longrightarrow> emitted s' = emitted s \<and> chain.more s' = chain.more s"
  by (auto simp: BurnFromModule_def burnNative_def bindM_def onM_def split: outcome.splits prod.splits if_splits)

lemma burn_service_BurnFromAccount:
  fixes K :: "'b burn_keeper"
  assumes laws: "sdk_laws (lib K)" and acc: "bank_accounting (lib K) (bankKeeper K) supply"
  shows "burn_service
    (BurnFromAccount K :: addr \<Rightarrow> coin \<Rightarrow> ('b, 'z) chain_scheme \<Rightarrow> unit outcome \<times> ('b, 'z) chain_scheme)
    supply burned_total"
proof
  fix a c u and s s' :: "('b, 'z) chain_scheme"
  assume ok: "BurnFromAccount K a c s = (Ok u, s')"
  obtain coins where "NewCoins (lib K) c = Ok coins"
    using BurnFromAccount_Ok [OF ok] by blast
  then obtain i where i: "Amount c = Some i"
    using sdk_lawsD(10) [OF laws] by blast
  show "\<exists>i\<ge>0. Amount c = Some i \<and> (0 < i \<longrightarrow> Denom c = DefaultBondDenom) \<and>
      supply (bank s') DefaultBondDenom = supply (bank s) DefaultBondDenom - i \<and>
      burned_total (burn s') = burned_total (burn s) + i"
  proof (cases "0 < i")
    case True
    then show ?thesis
      using BurnFromAccount_burned [OF laws acc ok i] i
      by (auto simp: burned_def burned_total_def tracked_def GetGlobalBurnTotal_def)
  next
    case False
    then show ?thesis
      using BurnFromAccount_nothing [OF laws acc ok i] i by auto
  qed
qed (rule BurnFromAccount_frame)

text \<open>x/burn's keeper over a library and a bank that keep their laws provides the interface.\<close>

locale burn_module =
  fixes K :: "'b burn_keeper" and token_supply :: "'b \<Rightarrow> string \<Rightarrow> int"
  assumes library: "sdk_laws (lib K)"
    and accounting: "bank_accounting (lib K) (bankKeeper K) token_supply"

sublocale burn_module \<subseteq> burn_service "BurnFromAccount K" token_supply burned_total
  by (rule burn_service_BurnFromAccount [OF library accounting])

section \<open>The wiring of app.go\<close>

text \<open>
  The keeper \<open>New\<close> builds: x/burn's keeper and the unwrapped staking server, the governance
  account as authority.
\<close>

definition app_validator_keeper ::
  "'b burn_keeper \<Rightarrow> ('c MsgCreateValidator_scheme \<Rightarrow> ('b, 'k, 'z) vchain_scheme \<Rightarrow> unit outcome \<times> ('b, 'k, 'z) vchain_scheme)
   \<Rightarrow> error option \<Rightarrow> ('c, ('b, 'k, 'z) vchain_scheme) validator_keeper outcome" where
  "app_validator_keeper BK stakingServer fault =
     bindO (BytesToString (lib BK) (NewModuleAddress (lib BK) GovModuleName)) (\<lambda>authority.
     validator_NewKeeper (lib BK) authority (BurnFromAccount BK) stakingServer fault)"

lemma validator_NewKeeper_Ok:
  "validator_NewKeeper L authority b server fault = Ok K \<Longrightarrow>
   vlib K = L \<and> validator_authority K = authority \<and> burnKeeper K = b \<and> stakingMsgServer K = server"
  by (cases "StringToBytes L authority") (auto simp: validator_NewKeeper_def)

lemma app_validator_keeper_Ok:
  "app_validator_keeper BK server fault = Ok K \<Longrightarrow>
   vlib K = lib BK \<and> burnKeeper K = BurnFromAccount BK \<and> stakingMsgServer K = server"
  by (auto simp: app_validator_keeper_def bindO_Ok_iff dest!: validator_NewKeeper_Ok)

section \<open>The state machine of the gate\<close>

text \<open>
  What the gate relies on from x/staking: a \<open>CreateValidator\<close> that returned nil adds the operator
  it names and no other, and touches neither the two modules of this repository nor the supply.
\<close>

definition staking_laws ::
  "sdk_lib \<Rightarrow> ('b \<Rightarrow> string \<Rightarrow> int) \<Rightarrow> ('k \<Rightarrow> addr set) \<Rightarrow>
   ('c MsgCreateValidator_scheme \<Rightarrow> ('b, 'k, 'z) vchain_scheme \<Rightarrow> unit outcome \<times> ('b, 'k, 'z) vchain_scheme) \<Rightarrow> bool"
where
  "staking_laws L supply validators server \<longleftrightarrow>
     (\<forall>m s s'. server m s = (Ok (), s') \<longrightarrow>
        (\<exists>a. ValStringToBytes L (ValidatorAddress m) = Ok a \<and>
             validators (staking s') = insert a (validators (staking s))) \<and>
        burn s' = burn s \<and> validator_store s' = validator_store s \<and>
        BlockHeight s' = BlockHeight s \<and> supply (bank s') = supply (bank s))"

lemma staking_lawsD:
  assumes "staking_laws L supply validators server" and "server m s = (Ok u, s')"
  shows "\<exists>a. ValStringToBytes L (ValidatorAddress m) = Ok a \<and>
      validators (staking s') = insert a (validators (staking s))"
    and "burn s' = burn s" "validator_store s' = validator_store s" "BlockHeight s' = BlockHeight s"
    and "supply (bank s') = supply (bank s)"
  using assms unfolding staking_laws_def by fastforce+

text \<open>
  Every way to reach the staking module's \<open>CreateValidator\<close>: a registration, the message router
  behind the circuit breaker, the EVM precompile behind the restricted server. The other steps are
  those of x/burn and of governance on x/validator, and any transition of another module, which
  creates no validator and writes neither module's store.
\<close>

inductive gate_step ::
  "'b burn_keeper \<Rightarrow> ('c, ('b, 'k, 'z) vchain_scheme) validator_keeper \<Rightarrow> string \<Rightarrow> ('k \<Rightarrow> addr set) \<Rightarrow>
   ('b, 'k, 'z) vchain_scheme \<Rightarrow> ('b, 'k, 'z) vchain_scheme \<Rightarrow> bool" for BK K createURL validators where
  gate_register: "msg_RegisterValidator K m s = (Ok (), s') \<Longrightarrow> gate_step BK K createURL validators s s'"
| gate_router: "IsAllowed createURL s createURL = Ok True \<Longrightarrow> stakingMsgServer K c s = (Ok (), s') \<Longrightarrow>
     gate_step BK K createURL validators s s'"
| gate_precompile: "Restricted_CreateValidator (stakingMsgServer K) c s = (Ok (), s') \<Longrightarrow>
     gate_step BK K createURL validators s s'"
| gate_burn: "burn_step BK s s' \<Longrightarrow> gate_step BK K createURL validators s s'"
| gate_params: "validator_UpdateParams K p s = (Ok (), s') \<Longrightarrow> gate_step BK K createURL validators s s'"
| gate_other: "burn s' = burn s \<Longrightarrow> validator_store s' = validator_store s \<Longrightarrow>
     validators (staking s') \<subseteq> validators (staking s) \<Longrightarrow>
     (0 < BlockHeight s \<Longrightarrow> 0 < BlockHeight s') \<Longrightarrow> gate_step BK K createURL validators s s'"

inductive_cases gate_stepE: "gate_step BK K createURL validators s s'"

lemma EmitEvent_frame: "EmitEvent e s = (r, s') \<Longrightarrow> chain.more s' = chain.more s"
  by auto

lemma burn_step_frame:
  fixes s s' :: "('b, 'z) chain_scheme"
  assumes "burn_step K s s'"
  shows "chain.more s' = chain.more s"
  using assms
proof cases
  case (step_burn m)
  then show ?thesis
    by (auto dest!: msg_Burn_Ok BurnFromAccount_frame)
next
  case (step_call a c)
  then show ?thesis by (auto dest!: BurnFromAccount_frame)
next
  case (step_params m)
  then show ?thesis by (auto simp: burn_UpdateParams_def bindM_def onM_def split: outcome.splits prod.splits if_splits)
next
  case step_begin
  then show ?thesis
    by (auto simp: burn_BeginBlock_def ProcessFeeBurn_def bindM_Ok_iff split: if_splits
        dest!: BurnFromModule_frame)
qed

lemma vchain_more:
  "chain.more s' = chain.more s \<Longrightarrow>
   validator_store s' = validator_store s \<and> staking s' = staking s \<and> BlockHeight s' = BlockHeight s"
  for s s' :: "('b, 'k, 'z) vchain_scheme"
  by (cases s; cases s') simp

section \<open>What a registration costs\<close>

definition required_burn :: "validator_params item \<Rightarrow> int" where
  "required_burn c =
     (case c of Some (Val p) \<Rightarrow> (case Amount (ValidatorRegistrationBurn p) of Some r \<Rightarrow> r | None \<Rightarrow> 0) | _ \<Rightarrow> 0)"

lemma validateRegistrationFunds_offers:
  assumes "validateRegistrationFunds msg params = Ok u"
  shows "\<exists>r d. Amount (ValidatorRegistrationBurn params) = Some r \<and>
    Amount (ValidatorMinSelfDelegation params) = Some d \<and> offers msg params r d"
proof -
  obtain r d where rd: "Amount (ValidatorRegistrationBurn params) = Some r"
    "Amount (ValidatorMinSelfDelegation params) = Some d"
    using assms
    by (auto simp: validateRegistrationFunds_def nil_or_LT_def int_LT_def bindO_Ok_iff
        split: if_splits option.splits)
  then show ?thesis
    using assms validateRegistrationFunds_Ok [OF rd] by blast
qed

lemma registration_cost:
  fixes K :: "('c, ('b, 'k, 'z) vchain_scheme) validator_keeper"
  assumes laws: "sdk_laws (lib BK)" and acc: "bank_accounting (lib BK) (bankKeeper BK) supply"
    and wired: "app_validator_keeper BK server fault = Ok K"
    and staking: "staking_laws (lib BK) supply validators server"
    and ok: "RegisterValidator K m s = (Ok u, s')"
  shows "\<exists>params r d a i.
    validator_store s = Some (Val params) \<and>
    Amount (ValidatorRegistrationBurn params) = Some r \<and> Amount (ValidatorMinSelfDelegation params) = Some d \<and>
    offers m params r d \<and> resolveSender (lib BK) m = Ok a \<and> Amount (Burn m) = Some i \<and> r \<le> i \<and> 0 \<le> i \<and>
    (0 < i \<longrightarrow> Denom (Burn m) = DefaultBondDenom) \<and>
    supply (bank s') DefaultBondDenom = supply (bank s) DefaultBondDenom - i \<and>
    burned_total (burn s') = burned_total (burn s) + i \<and>
    validators (staking s') = insert a (validators (staking s)) \<and>
    validator_store s' = validator_store s \<and> BlockHeight s' = BlockHeight s"
proof -
  note wire = app_validator_keeper_Ok [OF wired]
  note service = burn_service_BurnFromAccount [OF laws acc]
  obtain params a s1 s2 where st: "validator_store s = Some (Val params)"
    and rs: "resolveSender (lib BK) m = Ok a" and vf: "validateRegistrationFunds m params = Ok ()"
    and b: "BurnFromAccount BK a (Burn m) s = (Ok (), s1)"
    and c: "server (CreateValidator m) s1 = (Ok (), s2)"
    and s': "s' = s2\<lparr>emitted := emitted s2 @ [Event EventTypeRegisterValidator []]\<rparr>"
    using RegisterValidator_Ok [OF ok] wire by auto
  obtain r d where rd: "Amount (ValidatorRegistrationBurn params) = Some r"
    "Amount (ValidatorMinSelfDelegation params) = Some d" "offers m params r d"
    using validateRegistrationFunds_offers [OF vf] by blast
  obtain i where i: "0 \<le> i" "Amount (Burn m) = Some i" "0 < i \<longrightarrow> Denom (Burn m) = DefaultBondDenom"
    "supply (bank s1) DefaultBondDenom = supply (bank s) DefaultBondDenom - i"
    "burned_total (burn s1) = burned_total (burn s) + i"
    using burn_service.burns [OF service b] by blast
  have more: "validator_store s1 = validator_store s" "staking s1 = staking s" "BlockHeight s1 = BlockHeight s"
    using vchain_more burn_service.frame [OF service b] by blast+
  have "r \<le> i" using rd(3) i(2) by (simp add: offers_def at_least_def)
  moreover have "validators (staking s2) = insert a (validators (staking s))"
    using staking_lawsD(1) [OF staking c] rs more by (auto simp: resolveSender_Ok)
  ultimately show ?thesis
    using st rs rd i more staking_lawsD(2-5) [OF staking c] s' by auto
qed

section \<open>Steps after genesis\<close>

text \<open>
  After genesis a step either registers a validator, in the sense of \<open>registration_cost\<close>, or adds
  no validator and takes nothing back from the burned total.
\<close>

lemma gate_step_cases:
  fixes K :: "('c, ('b, 'k, 'z) vchain_scheme) validator_keeper"
  assumes laws: "sdk_laws (lib BK)" and acc: "bank_accounting (lib BK) (bankKeeper BK) supply"
    and step: "gate_step BK K createURL validators s s'" and height: "0 < BlockHeight s"
  shows "(\<exists>m. RegisterValidator K m s = (Ok (), s')) \<or>
    validators (staking s') \<subseteq> validators (staking s) \<and> burned_total (burn s) \<le> burned_total (burn s') \<and>
    0 < BlockHeight s'"
  using step
proof (cases rule: gate_stepE [consumes 1, case_names register router precompile burn params other])
  case (register m)
  then show ?thesis by (auto simp: msg_RegisterValidator_def bindM_Ok_iff)
next
  case (router c)
  then show ?thesis using height by (simp add: IsAllowed_def)
next
  case (precompile c)
  then show ?thesis using height by (simp add: Restricted_CreateValidator_def)
next
  case burn
  have "burned_total (burn s) \<le> burned_total (burn s')"
    by (rule burn_effect_conserves(3) [OF burn_step_effect [OF laws acc burn]])
  then show ?thesis
    using vchain_more [OF burn_step_frame [OF burn]] height by simp
next
  case (params p)
  then show ?thesis using height by (auto dest!: validator_UpdateParams_Ok)
next
  case other
  then show ?thesis using height by auto
qed

lemma registration_step:
  fixes K :: "('c, ('b, 'k, 'z) vchain_scheme) validator_keeper"
  assumes laws: "sdk_laws (lib BK)" and acc: "bank_accounting (lib BK) (bankKeeper BK) supply"
    and wired: "app_validator_keeper BK server fault = Ok K"
    and staking: "staking_laws (lib BK) supply validators server"
    and ok: "RegisterValidator K m s = (Ok u, s')"
  shows "\<exists>a. validators (staking s') = insert a (validators (staking s)) \<and>
    burned_total (burn s) + required_burn (validator_store s) \<le> burned_total (burn s') \<and>
    BlockHeight s' = BlockHeight s"
  using registration_cost [OF assms] by (auto simp: required_burn_def)

text \<open>One validator more for at least \<open>R\<close>, or none for nothing: the account of a run stays in order.\<close>

lemma price_paid:
  fixes R b b' b0 :: int
  assumes "0 \<le> R" "finite V" and paid: "R * (int (card V) - c) \<le> b - b0"
    and step: "(\<exists>a. W = insert a V) \<and> b + R \<le> b' \<or> W \<subseteq> V \<and> b \<le> b'"
  shows "finite W \<and> R * (int (card W) - c) \<le> b' - b0"
proof -
  obtain n where n: "finite W" "int (card W) \<le> int (card V) + n" "b + R * n \<le> b'"
  proof (cases "W \<subseteq> V \<and> b \<le> b'")
    case True
    then show ?thesis using that [of 0] card_mono [OF assms(2)] finite_subset [OF _ assms(2)] by simp
  next
    case False
    then obtain a where "W = insert a V" "b + R \<le> b'" using step by blast
    then show ?thesis using that [of 1] assms(2) by (simp add: card_insert_if)
  qed
  have "R * (int (card W) - c) \<le> R * (int (card V) + n - c)"
    using n(2) assms(1) by (intro mult_left_mono) auto
  then show ?thesis using paid n by (simp add: algebra_simps)
qed

lemma gate_step_price:
  fixes K :: "('c, ('b, 'k, 'z) vchain_scheme) validator_keeper"
  assumes "sdk_laws (lib BK)" and "bank_accounting (lib BK) (bankKeeper BK) supply"
    and "app_validator_keeper BK server fault = Ok K"
    and "staking_laws (lib BK) supply validators server"
    and "gate_step BK K createURL validators s s'" and "R \<le> required_burn (validator_store s)"
    and "0 < BlockHeight s"
  shows "0 < BlockHeight s' \<and>
    ((\<exists>a. validators (staking s') = insert a (validators (staking s))) \<and>
       burned_total (burn s) + R \<le> burned_total (burn s') \<or>
     validators (staking s') \<subseteq> validators (staking s) \<and> burned_total (burn s) \<le> burned_total (burn s'))"
  using gate_step_cases [OF assms(1,2,5,7)] registration_step [OF assms(1-4)] assms(6,7) by fastforce

text \<open>Over a run in which the required burn never falls below \<open>R\<close>, every validator gained cost at least \<open>R\<close>.\<close>

lemma run_cost:
  fixes K :: "('c, ('b, 'k, 'z) vchain_scheme) validator_keeper"
  assumes laws: "sdk_laws (lib BK)" and acc: "bank_accounting (lib BK) (bankKeeper BK) supply"
    and wired: "app_validator_keeper BK server fault = Ok K"
    and staking: "staking_laws (lib BK) supply validators server"
    and run: "(\<lambda>t u. gate_step BK K createURL validators t u \<and> R \<le> required_burn (validator_store t))\<^sup>*\<^sup>* s s'"
    and R: "0 \<le> R" and height: "0 < BlockHeight s" and fin: "finite (validators (staking s))"
  shows "0 < BlockHeight s' \<and> finite (validators (staking s')) \<and>
    R * (int (card (validators (staking s'))) - int (card (validators (staking s))))
      \<le> burned_total (burn s') - burned_total (burn s)"
  using run
proof induction
  case base
  then show ?case using height fin by simp
next
  case (step t u)
  then show ?case
    using gate_step_price [OF laws acc wired staking, of createURL t u R] price_paid [OF R] by blast
qed

end
