(* ===== verification/Validator_Properties.thy ===== *)
theory Validator_Properties
  imports Validator_Gate Burn_Properties
begin

text \<open>
  The properties of x/validator, each with a run of the model on which its hypotheses hold. The
  staking module of the runs keeps the list of operators; the bank and the library are those of
  \<open>Ledger_Instance\<close>.
\<close>

interpretation ref_burn_service: burn_module ref_keeper ref_supply
  by unfold_locales (rule ref_keeper_laws)+

section \<open>A concrete chain\<close>

type_synonym ref_vchain = "(ref_state, addr list) vchain"

definition ref_staking_server :: "MsgCreateValidator \<Rightarrow> ref_vchain \<Rightarrow> unit outcome \<times> ref_vchain" where
  "ref_staking_server m s =
     (case ref_StringToBytes (ValidatorAddress m) of
        Err e \<Rightarrow> (Err e, s)
      | Panic \<Rightarrow> (Panic, s)
      | Ok a \<Rightarrow>
          if list_ex (\<lambda>x. x = a) (staking s) then (Err (OtherErr ''validator already exists''), s)
          else (Ok (), s\<lparr>staking := a # staking s\<rparr>))"

lemma ref_staking_laws: "staking_laws ref_lib ref_supply set ref_staking_server"
  by (auto simp: staking_laws_def ref_staking_server_def ref_lib_def split: outcome.splits if_splits)

lemma ref_coin_validate_law: "coin_validate_law ref_lib"
  by (auto simp: coin_validate_law_def ref_lib_def ref_CoinValidate_def split: option.splits if_splits)

definition ref_requirements :: validator_params where
  "ref_requirements =
     \<lparr>ValidatorRegistrationBurn = \<lparr>Denom = ''alyth'', Amount = Some 100\<rparr>,
      ValidatorMinSelfDelegation = \<lparr>Denom = ''alyth'', Amount = Some 10\<rparr>\<rparr>"

definition ref_vkeeper :: "(unit, ref_vchain) validator_keeper" where
  "ref_vkeeper =
     \<lparr>vlib = ref_lib, validator_authority = ''gov'', burnKeeper = BurnFromAccount ref_keeper,
      stakingMsgServer = ref_staking_server, validator_fault = None\<rparr>"

lemma ref_wired: "app_validator_keeper ref_keeper ref_staking_server None = Ok ref_vkeeper"
proof -
  have "BytesToString (lib ref_keeper) (NewModuleAddress (lib ref_keeper) GovModuleName) = Ok ''gov''"
    by code_simp
  moreover have "StringToBytes ref_lib ''gov'' = Ok (ref_bytes ''gov'')"
    by code_simp
  ultimately show ?thesis
    by (simp add: app_validator_keeper_def validator_NewKeeper_def ref_vkeeper_def ref_keeper_def)
qed

definition ref_vchain :: ref_vchain where
  "ref_vchain =
     \<lparr>bank = (ref_balances, \<lambda>d. 1101), burn = ref_burn_store, emitted = [],
      validator_store = Some (Val ref_requirements), staking = [ref_bytes ''genesis''], BlockHeight = 7\<rparr>"

definition ref_msg :: "string \<Rightarrow> int option \<Rightarrow> unit MsgRegisterValidator" where
  "ref_msg den amt =
     \<lparr>Sender = ''alice'',
      CreateValidator = \<lparr>ValidatorAddress = ''alice'', Value = \<lparr>Denom = ''alyth'', Amount = Some 50\<rparr>,
        MinSelfDelegation = Some 10\<rparr>,
      Burn = \<lparr>Denom = den, Amount = amt\<rparr>\<rparr>"

lemma ref_register_runs: "fst (RegisterValidator ref_vkeeper (ref_msg ''alyth'' (Some 100)) ref_vchain) = Ok ()"
  by code_simp

section \<open>Registration\<close>

text \<open>
  Claim C16. The decision table of \<open>RegisterValidator\<close> once the parameters read and the sender is the
  operator: the five checks in the code's order with their errors, a nil amount failing its check
  instead of panicking; every rejection leaves the whole state as it was; a message that offers
  enough goes on to burn from the sender, create the validator and emit the event, in this order.
\<close>

theorem register_validator_decision:
  assumes "validator_store s = Some (Val params)" and "resolveSender (vlib K) msg = Ok a"
    and "Amount (ValidatorRegistrationBurn params) = Some r"
    and "Amount (ValidatorMinSelfDelegation params) = Some d"
  shows "RegisterValidator K msg s =
    (if Denom (Burn msg) \<noteq> Denom (ValidatorRegistrationBurn params)
     then (Err (ValidatorErr ErrBurnDenomMismatch), s)
     else if \<not> at_least r (Amount (Burn msg)) then (Err (ValidatorErr ErrBurnBelowRequired), s)
     else if Denom (Value (CreateValidator msg)) \<noteq> Denom (ValidatorMinSelfDelegation params)
     then (Err (ValidatorErr ErrDelegationDenomMismatch), s)
     else if \<not> at_least d (Amount (Value (CreateValidator msg)))
       \<or> \<not> at_least d (MinSelfDelegation (CreateValidator msg))
     then (Err (ValidatorErr ErrMinSelfDelegationBelowRequired), s)
     else bindM (burnKeeper K a (Burn msg)) (\<lambda>_.
          bindM (stakingMsgServer K (CreateValidator msg)) (\<lambda>_.
          EmitEvent (Event ''register_validator'' []))) s)"
  by (simp add: RegisterValidator_def assms(1,2) validateRegistrationFunds_eq [OF assms(3,4)] bindM_def
      EventTypeRegisterValidator_def)

theorem register_validator_decision_witness:
  "RegisterValidator ref_vkeeper (ref_msg ''alyth'' None) ref_vchain
     = (Err (ValidatorErr ErrBurnBelowRequired), ref_vchain)"
proof -
  have "resolveSender (vlib ref_vkeeper) (ref_msg ''alyth'' None) = Ok (ref_bytes ''alice'')"
    by code_simp
  then show ?thesis
    using register_validator_decision [of ref_vchain ref_requirements ref_vkeeper "ref_msg ''alyth'' None" "ref_bytes ''alice''" 100 10]
    by (simp add: ref_vchain_def ref_requirements_def ref_msg_def at_least_def)
qed

text \<open>
  Claim C17. Who may register: \<open>RegisterValidator\<close> that returns nil was signed by the operator
  itself (sender and operator decode to the same bytes); when both decode but differ the answer is
  \<open>ErrRegistrationAddressMismatch\<close>, and when the parameters cannot be read it is
  \<open>ErrParamsRead\<close>, in both cases with nothing burned and the state unchanged.
\<close>

theorem register_validator_identity:
  "(case StringToBytes (vlib K) (Sender msg) of
      Ok a \<Rightarrow> (case ValStringToBytes (vlib K) (ValidatorAddress (CreateValidator msg)) of
          Ok v \<Rightarrow> (case item_get (validator_store s) of
              Ok _ \<Rightarrow> a \<noteq> v \<longrightarrow> RegisterValidator K msg s = (Err (ValidatorErr ErrRegistrationAddressMismatch), s)
            | _ \<Rightarrow> RegisterValidator K msg s = (Err (ValidatorErr ErrParamsRead), s))
        | _ \<Rightarrow> \<not> is_ok (fst (RegisterValidator K msg s)) \<and> snd (RegisterValidator K msg s) = s)
    | _ \<Rightarrow> \<not> is_ok (fst (RegisterValidator K msg s)) \<and> snd (RegisterValidator K msg s) = s)"
  by (auto simp: RegisterValidator_def resolveSender_def bindM_def item_get_def
      split: outcome.splits option.splits entry.splits)

theorem register_validator_identity_witness:
  "RegisterValidator ref_vkeeper ((ref_msg ''alyth'' (Some 100))\<lparr>Sender := ''bob''\<rparr>) ref_vchain
   = (Err (ValidatorErr ErrRegistrationAddressMismatch), ref_vchain)"
proof -
  have "StringToBytes ref_lib ''bob'' = Ok (ref_bytes ''bob'')"
    "ValStringToBytes ref_lib ''alice'' = Ok (ref_bytes ''alice'')"
    "ref_bytes ''bob'' \<noteq> ref_bytes ''alice''"
    by code_simp+
  then show ?thesis
    using register_validator_identity [of ref_vkeeper "(ref_msg ''alyth'' (Some 100))\<lparr>Sender := ''bob''\<rparr>" ref_vchain]
    by (simp add: ref_vkeeper_def ref_msg_def ref_vchain_def)
qed

text \<open>
  Claim C10. What a successful registration costs, through the wiring of the application: the amount
  burned is at least the required one, leaves the native supply and enters the burned total in full;
  the value and the minimum self-delegation reach the requirement; exactly the sender's operator is
  added to the validators.
\<close>

theorem register_validator_burns:
  fixes K :: "('c, ('b, 'k, 'z) vchain_scheme) validator_keeper"
  assumes "sdk_laws (lib BK)" and "bank_accounting (lib BK) (bankKeeper BK) supply"
    and "app_validator_keeper BK server fault = Ok K"
    and "staking_laws (lib BK) supply validators server"
    and "msg_RegisterValidator K m s = (Ok (), s')"
  shows "\<exists>params r d a i.
    validator_query_Params (validator_store s) = Ok params \<and>
    Amount (ValidatorRegistrationBurn params) = Some r \<and> Amount (ValidatorMinSelfDelegation params) = Some d \<and>
    Amount (Burn m) = Some i \<and> r \<le> i \<and> (0 < i \<longrightarrow> Denom (Burn m) = DefaultBondDenom) \<and>
    at_least d (Amount (Value (CreateValidator m))) \<and> at_least d (MinSelfDelegation (CreateValidator m)) \<and>
    supply (bank s') DefaultBondDenom = supply (bank s) DefaultBondDenom - i \<and>
    burned_total (burn s') = burned_total (burn s) + i \<and>
    StringToBytes (lib BK) (Sender m) = Ok a \<and>
    validators (staking s') = insert a (validators (staking s))"
proof -
  have "RegisterValidator K m s = (Ok (), s')"
    using assms(5) by (auto simp: msg_RegisterValidator_def bindM_Ok_iff)
  from registration_cost [OF assms(1-4) this] show ?thesis
    by (auto simp: validator_query_Params_def offers_def resolveSender_Ok)
qed

theorem register_validator_burns_witness:
  "\<exists>s'. msg_RegisterValidator ref_vkeeper (ref_msg ''alyth'' (Some 100)) ref_vchain = (Ok (), s') \<and>
     ref_supply (bank s') ''alyth'' = 1001 \<and>
     set (staking s') = {ref_bytes ''alice'', ref_bytes ''genesis''}"
proof -
  let ?r = "msg_RegisterValidator ref_vkeeper (ref_msg ''alyth'' (Some 100)) ref_vchain"
  have run: "?r = (Ok (), snd ?r)"
    by (rule run_of_fst) code_simp
  have L: "lib ref_keeper = ref_lib" by (simp add: ref_keeper_def)
  have a: "StringToBytes ref_lib ''alice'' = Ok (ref_bytes ''alice'')" by code_simp
  have "ref_supply (bank (snd ?r)) ''alyth'' = 1001 \<and>
     set (staking (snd ?r)) = {ref_bytes ''alice'', ref_bytes ''genesis''}"
    using register_validator_burns [OF ref_keeper_laws(1,3) ref_wired ref_staking_laws [folded L] run] a
    by (auto simp: L ref_msg_def ref_vchain_def ref_supply_def DefaultBondDenom_def)
  with run show ?thesis by blast
qed

section \<open>The gate\<close>

lemma msg_RegisterValidator_of:
  "RegisterValidator K m s = (Ok (), s') \<Longrightarrow> msg_RegisterValidator K m s = (Ok (), s')"
  by (simp add: msg_RegisterValidator_def bindM_Ok_iff)

text \<open>
  Claim C1. The only way in after genesis: when a step of the chain at a positive height adds a
  validator, whatever the step is (router, precompile, governance, another module), it was a
  successful \<open>RegisterValidator\<close> sent by that operator, and the burned total grew by at least the
  registration burn the parameters required.
\<close>

theorem validators_enter_by_registration:
  fixes K :: "('c, ('b, 'k, 'z) vchain_scheme) validator_keeper"
  assumes "sdk_laws (lib BK)" and "bank_accounting (lib BK) (bankKeeper BK) supply"
    and "app_validator_keeper BK server fault = Ok K"
    and "staking_laws (lib BK) supply validators server"
    and "gate_step BK K createURL validators s s'" and "0 < BlockHeight s"
    and "v \<in> validators (staking s')" and "v \<notin> validators (staking s)"
  shows "\<exists>m. RegisterValidator K m s = (Ok (), s') \<and> StringToBytes (lib BK) (Sender m) = Ok v \<and>
    burned_total (burn s) + required_burn (validator_store s) \<le> burned_total (burn s')"
proof -
  obtain m where m: "RegisterValidator K m s = (Ok (), s')"
    using gate_step_cases [OF assms(1,2,5,6)] assms(7,8) by blast
  obtain a where "StringToBytes (lib BK) (Sender m) = Ok a"
    "validators (staking s') = insert a (validators (staking s))"
    using registration_cost [OF assms(1-4) m] by (auto simp: resolveSender_Ok)
  then have "StringToBytes (lib BK) (Sender m) = Ok v"
    using assms(7,8) by auto
  then show ?thesis
    using registration_step [OF assms(1-4) m] m by blast
qed

theorem validators_enter_by_registration_witness:
  "\<exists>m s'. gate_step ref_keeper ref_vkeeper ''url'' set ref_vchain s' \<and>
     RegisterValidator ref_vkeeper m ref_vchain = (Ok (), s') \<and>
     ref_bytes ''alice'' \<in> set (staking s') \<and> 105 \<le> burned_total (burn s')"
proof -
  let ?r = "RegisterValidator ref_vkeeper (ref_msg ''alyth'' (Some 100)) ref_vchain"
  have run: "?r = (Ok (), snd ?r)"
    by (rule run_of_fst [OF ref_register_runs])
  have step: "gate_step ref_keeper ref_vkeeper ''url'' set ref_vchain (snd ?r)"
    by (rule gate_register [of _ "ref_msg ''alyth'' (Some 100)"]) (rule msg_RegisterValidator_of [OF run])
  have L: "lib ref_keeper = ref_lib" by (simp add: ref_keeper_def)
  have new: "ref_bytes ''alice'' \<in> set (staking (snd ?r))" "ref_bytes ''alice'' \<notin> set (staking ref_vchain)"
    by code_simp+
  have "\<exists>m. RegisterValidator ref_vkeeper m ref_vchain = (Ok (), snd ?r) \<and>
      StringToBytes (lib ref_keeper) (Sender m) = Ok (ref_bytes ''alice'') \<and>
      burned_total (burn ref_vchain) + required_burn (validator_store ref_vchain) \<le> burned_total (burn (snd ?r))"
    using validators_enter_by_registration
      [OF ref_keeper_laws(1,3) ref_wired ref_staking_laws [folded L] step _ new]
    by (simp add: ref_vchain_def)
  moreover have "burned_total (burn ref_vchain) = 5" "required_burn (validator_store ref_vchain) = 100"
    by (simp_all add: ref_vchain_def burned_total_def ref_burn_store_def GetGlobalBurnTotal_def
        required_burn_def ref_requirements_def)
  ultimately show ?thesis using step new(1) by auto
qed

text \<open>
  Claim C3. What validators cost over a whole run: from any state after genesis, through any sequence
  of registrations, burns, blocks, parameter updates, rejected direct creations and other modules'
  transitions during which the required burn never falls below \<open>R\<close>, the burned total grows by at
  least \<open>R\<close> for every validator gained.
\<close>

theorem every_validator_paid:
  fixes K :: "('c, ('b, 'k, 'z) vchain_scheme) validator_keeper"
  assumes "sdk_laws (lib BK)" and "bank_accounting (lib BK) (bankKeeper BK) supply"
    and "app_validator_keeper BK server fault = Ok K"
    and "staking_laws (lib BK) supply validators server"
    and "(\<lambda>t u. gate_step BK K createURL validators t u \<and> R \<le> required_burn (validator_store t))\<^sup>*\<^sup>* s s'"
    and "0 \<le> R" and "0 < BlockHeight s" and "finite (validators (staking s))"
  shows "R * (int (card (validators (staking s'))) - int (card (validators (staking s))))
    \<le> burned_total (burn s') - burned_total (burn s)"
  using run_cost [OF assms] by simp

theorem every_validator_paid_witness:
  "\<exists>s' :: ref_vchain. 100 * (int (card (set (staking s'))) - 1) \<le> burned_total (burn s') - 5 \<and> card (set (staking s')) = 2"
proof -
  let ?r = "RegisterValidator ref_vkeeper (ref_msg ''alyth'' (Some 100)) ref_vchain"
  have run: "?r = (Ok (), snd ?r)"
    by (rule run_of_fst [OF ref_register_runs])
  have step: "gate_step ref_keeper ref_vkeeper ''url'' set ref_vchain (snd ?r)"
    by (rule gate_register [of _ "ref_msg ''alyth'' (Some 100)"]) (rule msg_RegisterValidator_of [OF run])
  have req: "100 \<le> required_burn (validator_store ref_vchain)"
    by (simp add: ref_vchain_def required_burn_def ref_requirements_def)
  have L: "lib ref_keeper = ref_lib" by (simp add: ref_keeper_def)
  have steps: "(\<lambda>t u. gate_step ref_keeper ref_vkeeper ''url'' set t u \<and> 100 \<le> required_burn (validator_store t))\<^sup>*\<^sup>*
      ref_vchain (snd ?r)"
    using step req by (intro r_into_rtranclp) simp
  have "staking (snd ?r) = [ref_bytes ''alice'', ref_bytes ''genesis'']"
    by code_simp
  moreover have "ref_bytes ''alice'' \<noteq> ref_bytes ''genesis''" by code_simp
  moreover have "100 * (int (card (set (staking (snd ?r)))) - int (card (set (staking ref_vchain))))
      \<le> burned_total (burn (snd ?r)) - burned_total (burn ref_vchain)"
    by (rule every_validator_paid [OF ref_keeper_laws(1,3) ref_wired ref_staking_laws [folded L] steps])
      (simp_all add: ref_vchain_def)
  moreover have "burned_total (burn ref_vchain) = 5" "staking ref_vchain = [ref_bytes ''genesis'']"
    by (simp_all add: ref_vchain_def ref_burn_store_def burned_total_def GetGlobalBurnTotal_def)
  ultimately have "100 * (int (card (set (staking (snd ?r)))) - 1) \<le> burned_total (burn (snd ?r)) - 5 \<and>
      card (set (staking (snd ?r))) = 2"
    by simp
  then show ?thesis by blast
qed


section \<open>Governance and genesis\<close>

lemma Validator_Params_Set_valid:
  assumes laws: "sdk_laws (vlib K)" and cv: "coin_validate_law (vlib K)"
    and v: "valid_validator_params (vlib K) p" and "validator_fault K = None"
  shows "Validator_Params_Set K p st = (Ok (), Some (Val p))"
proof -
  obtain b where "Amount (ValidatorRegistrationBurn p) = Some b"
    using v valid_requirement_amount [OF cv] unfolding valid_validator_params_def by blast
  moreover obtain d where "Amount (ValidatorMinSelfDelegation p) = Some d"
    using v valid_requirement_amount [OF cv] unfolding valid_validator_params_def by blast
  ultimately show ?thesis
    using assms(4) by (cases p; cases "ValidatorRegistrationBurn p"; cases "ValidatorMinSelfDelegation p")
      (simp add: Validator_Params_Set_def sdk_lawsD(7) [OF laws])
qed

text \<open>
  \<open>UpdateParams\<close> of x/validator decides by authority, then by the burn requirement, then
  by the self-delegation requirement (each a valid coin in the native denomination or zero); each
  refusal has its own error and changes nothing, otherwise exactly the parameters are replaced.
\<close>

lemma validator_update_params_decision:
  assumes "sdk_laws (vlib K)" and "coin_validate_law (vlib K)" and "validator_fault K = None"
  shows "validator_UpdateParams K m s =
    (if validator_authority K \<noteq> vup_Authority m then (Err ErrInvalidSigner, s)
     else if \<not> valid_requirement (vlib K) (ValidatorRegistrationBurn (vup_Params m))
     then (Err (ValidatorErr ErrInvalidRegistrationBurn), s)
     else if \<not> valid_requirement (vlib K) (ValidatorMinSelfDelegation (vup_Params m))
     then (Err (ValidatorErr ErrInvalidMinSelfDelegation), s)
     else (Ok (), s\<lparr>validator_store := Some (Val (vup_Params m))\<rparr>))"
  using Validator_Params_Set_valid [OF assms(1,2) _ assms(3), of "vup_Params m"]
  by (auto simp: validator_UpdateParams_def bindM_def validator_Params_Validate_eq [OF assms(2)]
      valid_validator_params_def onM_def)

lemma validator_update_params_decision_witness:
  "validator_UpdateParams ref_vkeeper
     \<lparr>vup_Authority = ''gov'', vup_Params = ref_requirements\<lparr>ValidatorMinSelfDelegation := \<lparr>Denom = ''uatom'', Amount = Some 1\<rparr>\<rparr>\<rparr>
     ref_vchain = (Err (ValidatorErr ErrInvalidMinSelfDelegation), ref_vchain)"
proof -
  have "sdk_laws (vlib ref_vkeeper)" "coin_validate_law (vlib ref_vkeeper)" "validator_fault ref_vkeeper = None"
    by (simp_all add: ref_vkeeper_def ref_sdk_laws ref_coin_validate_law)
  from validator_update_params_decision [OF this,
      of "\<lparr>vup_Authority = ''gov'', vup_Params = ref_requirements\<lparr>ValidatorMinSelfDelegation := \<lparr>Denom = ''uatom'', Amount = Some 1\<rparr>\<rparr>\<rparr>" ref_vchain]
  show ?thesis
    by (simp add: ref_vkeeper_def ref_requirements_def valid_requirement_def DefaultBondDenom_def
        ref_lib_def ref_CoinValidate_def)
qed

text \<open>
  A requirement of zero does not always disable the check: parameters with a zero burn in a
  foreign denomination pass \<open>Validate\<close>, and from then on every registration that offers to burn
  the native token is refused with \<open>ErrBurnDenomMismatch\<close>.
\<close>

lemma zero_foreign_requirement_blocks:
  assumes "CoinValidate L \<lparr>Denom = den, Amount = Some 0\<rparr> = Ok ()"
    and "CoinValidate L \<lparr>Denom = DefaultBondDenom, Amount = Some 0\<rparr> = Ok ()" and "den \<noteq> DefaultBondDenom"
    and "p = validator_NewParams \<lparr>Denom = den, Amount = Some 0\<rparr> \<lparr>Denom = DefaultBondDenom, Amount = Some 0\<rparr>"
    and "Denom (Burn msg) = DefaultBondDenom"
  shows "validator_Params_Validate L p = Ok () \<and>
    validateRegistrationFunds msg p = Err (ValidatorErr ErrBurnDenomMismatch)"
  using assms
  by (auto simp: validator_Params_Validate_def validateRegistrationBurn_def validateMinSelfDelegation_def
      validator_NewParams_def coin_IsZero_def validateRegistrationFunds_def)

lemma zero_foreign_requirement_blocks_witness:
  "validateRegistrationFunds (ref_msg ''alyth'' (Some 100))
     (validator_NewParams \<lparr>Denom = ''uatom'', Amount = Some 0\<rparr> \<lparr>Denom = DefaultBondDenom, Amount = Some 0\<rparr>)
   = Err (ValidatorErr ErrBurnDenomMismatch)"
  using zero_foreign_requirement_blocks [OF _ _ _ refl, of ref_lib "''uatom''" "ref_msg ''alyth'' (Some 100)"]
  by (simp add: ref_lib_def ref_CoinValidate_def DefaultBondDenom_def ref_msg_def)

end
