(* ===== verification/Wire.thy ===== *)
theory Wire
  imports Sdk_Interfaces "HOL-Library.Log_Nat"
begin

unbundle bit_operations_syntax

text \<open>
  What all generated codecs under \<^verbatim>\<open>x/*/types/*.pb.go\<close> share: variable-length integers, the writing
  of a message backwards into a buffer of exactly its size, and the reading of a message field by
  field with unknown fields skipped. A Go slice is a list of bytes, an index an \<open>int\<close> (a 64-bit
  signed integer; the sums the code checks for overflow are wrapped with \<open>i64\<close>), an access outside a
  slice a panic.
\<close>

section \<open>Slices and 64-bit indices\<close>

text \<open>The value of a Go \<open>int\<close> after an addition that may overflow.\<close>

definition i64 :: "int \<Rightarrow> int" where
  "i64 x = sint (word_of_int x :: 64 word)"

definition byte_at :: "bytes \<Rightarrow> int \<Rightarrow> 8 word outcome" where
  "byte_at d i = (if 0 \<le> i \<and> i < int (length d) then Ok (d ! nat i) else Panic)"

definition put_byte :: "bytes \<Rightarrow> int \<Rightarrow> 8 word \<Rightarrow> bytes outcome" where
  "put_byte d i b = (if 0 \<le> i \<and> i < int (length d) then Ok (d[nat i := b]) else Panic)"

text \<open>\<open>d[a:b]\<close>\<close>

definition slice :: "bytes \<Rightarrow> int \<Rightarrow> int \<Rightarrow> bytes outcome" where
  "slice d a b =
     (if 0 \<le> a \<and> a \<le> b \<and> b \<le> int (length d) then Ok (take (nat b - nat a) (drop (nat a) d)) else Panic)"

text \<open>\<open>copy(d[i:], src)\<close>\<close>

definition copy_at :: "bytes \<Rightarrow> int \<Rightarrow> bytes \<Rightarrow> bytes outcome" where
  "copy_at d i src =
     (if 0 \<le> i \<and> i \<le> int (length d)
      then Ok (take (nat i) d @ take (length d - nat i) src @ drop (nat i + length src) d)
      else Panic)"

section \<open>Variable-length integers\<close>

text \<open>\<open>math_bits.Len64\<close>: the number of bits needed to write the value.\<close>

definition Len64 :: "64 word \<Rightarrow> int" where
  "Len64 x = bitlen (uint x)"

definition sov :: "64 word \<Rightarrow> int" where
  "sov x = (Len64 (x OR 1) + 6) div 7"

lemma drop_bit_7_less: "\<not> v < 128 \<Longrightarrow> unat (drop_bit 7 v) < unat v" for v :: "64 word"
proof -
  assume "\<not> v < 128"
  then have "0 < unat v" by (simp add: word_less_nat_alt)
  moreover have "unat (drop_bit 7 v) = unat v div 128"
    by (simp add: unat_drop_bit_eq) (simp add: drop_bit_eq_div)
  ultimately show ?thesis by simp
qed

function encode_loop :: "bytes \<Rightarrow> int \<Rightarrow> 64 word \<Rightarrow> bytes outcome" where
  "encode_loop d offset v =
     (if v < 0x80 then put_byte d offset (ucast v)
      else bindO (put_byte d offset (ucast (v AND 0x7F OR 0x80))) (\<lambda>d.
           encode_loop d (offset + 1) (drop_bit 7 v)))"
  by auto
termination
  by (relation "measure (\<lambda>(d, i, v). unat v)") (auto intro: drop_bit_7_less)

declare encode_loop.simps [simp del]

definition encodeVarint :: "bytes \<Rightarrow> int \<Rightarrow> 64 word \<Rightarrow> (bytes \<times> int) outcome" where
  "encodeVarint d offset v =
     (let base = offset - sov v in bindO (encode_loop d base v) (\<lambda>d. Ok (d, base)))"

text \<open>The loop \<open>for shift := uint(0); ; shift += 7\<close> that every read of an integer unrolls to.\<close>

function varint_loop :: "bytes \<Rightarrow> int \<Rightarrow> nat \<Rightarrow> 64 word \<Rightarrow> (64 word \<times> int) outcome" where
  "varint_loop d i shift acc =
     (if 64 \<le> shift then Err (WireErr ErrIntOverflow)
      else if int (length d) \<le> i then Err (WireErr ErrUnexpectedEOF)
      else
        bindO (byte_at d i) (\<lambda>b.
          let acc = acc OR push_bit shift (ucast (b AND 0x7F)) in
          if b < 0x80 then Ok (acc, i + 1) else varint_loop d (i + 1) (shift + 7) acc))"
  by auto
termination
  by (relation "measure (\<lambda>(d, i, shift, acc). 64 - shift)") auto

declare varint_loop.simps [simp del]

definition read_varint :: "bytes \<Rightarrow> int \<Rightarrow> (64 word \<times> int) outcome" where
  "read_varint d i = varint_loop d i 0 0"

section \<open>Writing\<close>

text \<open>
  A writer takes the buffer and the index of the first byte written so far and returns them after
  putting its bytes in front. The fields of a message are written last to first.
\<close>

type_synonym writer = "bytes \<times> int \<Rightarrow> (bytes \<times> int) outcome"

definition seqW :: "writer \<Rightarrow> writer \<Rightarrow> writer" where
  "seqW w1 w2 = (\<lambda>di. bindO (w1 di) w2)"

definition skipW :: writer where
  "skipW = Ok"

fun put_varint :: "64 word \<Rightarrow> writer" where
  "put_varint v (d, i) = encodeVarint d i v"

text \<open>\<open>i--; dAtA[i] = tag\<close>\<close>

fun put_tag :: "8 word \<Rightarrow> writer" where
  "put_tag t (d, i) = bindO (put_byte d (i - 1) t) (\<lambda>d. Ok (d, i - 1))"

fun put_copy :: "bytes \<Rightarrow> writer" where
  "put_copy src (d, i) =
     (let i = i - int (length src) in bindO (copy_at d i src) (\<lambda>d. Ok (d, i)))"

text \<open>A nested message: \<open>m.MarshalToSizedBuffer(dAtA[:i])\<close>, its size, its tag.\<close>

fun put_nested :: "(bytes \<Rightarrow> (int \<times> bytes) outcome) \<Rightarrow> writer" where
  "put_nested marshal (d, i) =
     bindO (slice d 0 i) (\<lambda>pre.
     bindO (marshal pre) (\<lambda>(size, pre').
     encodeVarint (pre' @ drop (length pre) d) (i - size) (word_of_int size)))"

definition put_message :: "8 word \<Rightarrow> (bytes \<Rightarrow> (int \<times> bytes) outcome) \<Rightarrow> writer" where
  "put_message tag marshal = seqW (put_nested marshal) (put_tag tag)"

text \<open>
  A field with a custom Go type: its \<open>Size()\<close>, its \<open>MarshalTo(dAtA[i:])\<close> (the bytes it copies to
  the front of the slice), the size, the tag.
\<close>

fun put_custom_value :: "int \<Rightarrow> bytes outcome \<Rightarrow> writer" where
  "put_custom_value sz marshalled (d, i) =
     (let i = i - sz in
      bindO (slice d i (int (length d))) (\<lambda>_.
      bindO marshalled (\<lambda>bs.
      bindO (copy_at d i bs) (\<lambda>d.
      encodeVarint d i (word_of_int sz)))))"

definition put_custom :: "8 word \<Rightarrow> int \<Rightarrow> bytes outcome \<Rightarrow> writer" where
  "put_custom tag sz marshalled = seqW (put_custom_value sz marshalled) (put_tag tag)"

text \<open>A string field and a \<open>uint64\<close> field are left out when they have the zero value.\<close>

definition put_string :: "8 word \<Rightarrow> bytes \<Rightarrow> writer" where
  "put_string tag s =
     (if length s > 0
      then seqW (seqW (put_copy s) (put_varint (word_of_nat (length s)))) (put_tag tag) else skipW)"

definition put_uint64 :: "8 word \<Rightarrow> 64 word \<Rightarrow> writer" where
  "put_uint64 tag v = (if v \<noteq> 0 then seqW (put_varint v) (put_tag tag) else skipW)"

text \<open>A repeated message field, from the last element to the first.\<close>

fun put_repeated :: "8 word \<Rightarrow> ('m \<Rightarrow> bytes \<Rightarrow> (int \<times> bytes) outcome) \<Rightarrow> 'm list \<Rightarrow> writer" where
  "put_repeated tag marshal [] = skipW"
| "put_repeated tag marshal (m # ms) = seqW (put_repeated tag marshal ms) (put_message tag (marshal m))"

text \<open>\<open>MarshalToSizedBuffer\<close>: from \<open>i = len(dAtA)\<close> down, the result \<open>len(dAtA) - i\<close>.\<close>

definition marshal_sized :: "writer \<Rightarrow> bytes \<Rightarrow> (int \<times> bytes) outcome" where
  "marshal_sized w d = bindO (w (d, int (length d))) (\<lambda>(d', i). Ok (int (length d') - i, d'))"

text \<open>\<open>Marshal\<close>: a fresh buffer of \<open>Size()\<close> bytes.\<close>

definition proto_Marshal :: "('m \<Rightarrow> int) \<Rightarrow> ('m \<Rightarrow> bytes \<Rightarrow> (int \<times> bytes) outcome) \<Rightarrow> 'm \<Rightarrow> bytes outcome" where
  "proto_Marshal sz marshal m =
     (let d = replicate (nat (sz m)) 0 in
      bindO (marshal m d) (\<lambda>(n, d'). slice d' 0 n))"

section \<open>Sizes\<close>

definition size_bytes :: "int \<Rightarrow> int" where
  "size_bytes l = 1 + l + sov (word_of_int l)"

definition size_string :: "bytes \<Rightarrow> int" where
  "size_string s = (if length s > 0 then size_bytes (int (length s)) else 0)"

definition size_uint64 :: "64 word \<Rightarrow> int" where
  "size_uint64 v = (if v \<noteq> 0 then 1 + sov v else 0)"

section \<open>Reading\<close>

text \<open>A length-delimited value: its length is an \<open>int\<close>, and both it and the end of the value are checked.\<close>

definition read_delimited :: "bytes \<Rightarrow> int \<Rightarrow> (bytes \<times> int) outcome" where
  "read_delimited d i =
     bindO (read_varint d i) (\<lambda>(w, i).
       let len = sint w; postIndex = i64 (i + len) in
       if len < 0 then Err (WireErr ErrInvalidLength)
       else if postIndex < 0 then Err (WireErr ErrInvalidLength)
       else if int (length d) < postIndex then Err (WireErr ErrUnexpectedEOF)
       else bindO (slice d i postIndex) (\<lambda>s. Ok (s, postIndex)))"

text \<open>
  \<open>skipXxx\<close>: the number of bytes of the field at the front of the slice, groups included. The loop
  consumes at least one byte each time round, so \<open>length d\<close> rounds are enough.
\<close>

definition skip_value :: "bytes \<Rightarrow> int \<Rightarrow> int \<Rightarrow> nat \<Rightarrow> (int \<times> nat) outcome" where
  "skip_value d wireType i depth =
     (if wireType = 0 then bindO (read_varint d i) (\<lambda>(_, i). Ok (i, depth))
      else if wireType = 1 then Ok (i64 (i + 8), depth)
      else if wireType = 2 then
        bindO (read_varint d i) (\<lambda>(w, i).
          if sint w < 0 then Err (WireErr ErrInvalidLength) else Ok (i64 (i + sint w), depth))
      else if wireType = 3 then Ok (i, depth + 1)
      else if wireType = 4 then
        (if depth = 0 then Err (WireErr ErrUnexpectedEndOfGroup) else Ok (i, depth - 1))
      else if wireType = 5 then Ok (i64 (i + 4), depth)
      else Err (WireErr (IllegalWireType wireType)))"

fun skip_loop :: "nat \<Rightarrow> bytes \<Rightarrow> int \<Rightarrow> nat \<Rightarrow> int outcome" where
  "skip_loop 0 d i depth = Panic"
| "skip_loop (Suc fuel) d i depth =
     (if int (length d) \<le> i then Err (WireErr ErrUnexpectedEOF)
      else
        bindO (read_varint d i) (\<lambda>(wire, i).
        bindO (skip_value d (uint (wire AND 7)) i depth) (\<lambda>(i, depth).
          if i < 0 then Err (WireErr ErrInvalidLength)
          else if depth = 0 then Ok i
          else skip_loop fuel d i depth)))"

definition skip_field :: "bytes \<Rightarrow> int outcome" where
  "skip_field d = skip_loop (Suc (length d)) d 0 0"

text \<open>
  One round of the loop of \<open>Unmarshal\<close>: the tag, its checks, the \<open>switch\<close> over the field number
  (\<open>handle\<close>, None for its default case), or the unknown field skipped.
\<close>

type_synonym 'm handler = "int \<Rightarrow> int \<Rightarrow> bytes \<Rightarrow> int \<Rightarrow> 'm \<Rightarrow> ('m \<times> int) outcome option"

definition skip_unknown :: "bytes \<Rightarrow> int \<Rightarrow> 'm \<Rightarrow> ('m \<times> int) outcome" where
  "skip_unknown d i m =
     bindO (slice d i (int (length d))) (\<lambda>s.
     bindO (skip_field s) (\<lambda>skippy.
       if skippy < 0 \<or> i64 (i + skippy) < 0 then Err (WireErr ErrInvalidLength)
       else if int (length d) < i64 (i + skippy) then Err (WireErr ErrUnexpectedEOF)
       else Ok (m, i64 (i + skippy))))"

definition unmarshal_field :: "string \<Rightarrow> 'm handler \<Rightarrow> bytes \<Rightarrow> int \<Rightarrow> 'm \<Rightarrow> ('m \<times> int) outcome" where
  "unmarshal_field nm handle d i m =
     bindO (read_varint d i) (\<lambda>(wire, i').
       let fieldNum = sint (ucast (drop_bit 3 wire) :: 32 word); wireType = uint (wire AND 7) in
       if wireType = 4 then Err (WireErr (EndGroupForNonGroup nm))
       else if fieldNum \<le> 0 then Err (WireErr (IllegalTag nm fieldNum wire))
       else
         (case handle fieldNum wireType d i' m of
            Some r \<Rightarrow> r
          | None \<Rightarrow> skip_unknown d i m))"

fun unmarshal_loop :: "string \<Rightarrow> 'm handler \<Rightarrow> nat \<Rightarrow> bytes \<Rightarrow> int \<Rightarrow> 'm \<Rightarrow> 'm outcome" where
  "unmarshal_loop nm handle 0 d i m = Panic"
| "unmarshal_loop nm handle (Suc fuel) d i m =
     (if i < int (length d) then
        bindO (unmarshal_field nm handle d i m) (\<lambda>(m, i). unmarshal_loop nm handle fuel d i m)
      else if int (length d) < i then Err (WireErr ErrUnexpectedEOF)
      else Ok m)"

definition proto_Unmarshal :: "string \<Rightarrow> 'm handler \<Rightarrow> bytes \<Rightarrow> 'm \<Rightarrow> 'm outcome" where
  "proto_Unmarshal nm handle d m = unmarshal_loop nm handle (Suc (length d)) d 0 m"

text \<open>The cases of a \<open>switch\<close>.\<close>

definition delimited_field ::
  "string \<Rightarrow> (bytes \<Rightarrow> 'm \<Rightarrow> 'm outcome) \<Rightarrow> int \<Rightarrow> bytes \<Rightarrow> int \<Rightarrow> 'm \<Rightarrow> ('m \<times> int) outcome" where
  "delimited_field field upd wireType d i m =
     (if wireType \<noteq> 2 then Err (WireErr (WrongWireType wireType field))
      else
        bindO (read_delimited d i) (\<lambda>(s, i).
        bindO (upd s m) (\<lambda>m. Ok (m, i))))"

definition varint_field ::
  "string \<Rightarrow> (64 word \<Rightarrow> 'm \<Rightarrow> 'm) \<Rightarrow> int \<Rightarrow> bytes \<Rightarrow> int \<Rightarrow> 'm \<Rightarrow> ('m \<times> int) outcome" where
  "varint_field field upd wireType d i m =
     (if wireType \<noteq> 0 then Err (WireErr (WrongWireType wireType field))
      else bindO (read_varint d i) (\<lambda>(v, i). Ok (upd v m, i)))"

text \<open>The \<open>switch\<close> itself: one \<open>on_field\<close> per case, \<open>no_field\<close> for the default.\<close>

definition on_field ::
  "int \<Rightarrow> (int \<Rightarrow> bytes \<Rightarrow> int \<Rightarrow> 'm \<Rightarrow> ('m \<times> int) outcome) \<Rightarrow> 'm handler \<Rightarrow> 'm handler" where
  "on_field k f h = (\<lambda>fn. if fn = k then (\<lambda>wt d i m. Some (f wt d i m)) else h fn)"

definition no_field :: "'m handler" where
  "no_field = (\<lambda>fn wt d i m. None)"

section \<open>Strings and the codecs that are not in this repository\<close>

text \<open>A Go string is its bytes.\<close>

definition str_bytes :: "string \<Rightarrow> bytes" where
  "str_bytes s = map (\<lambda>c. word_of_nat (of_char c)) s"

definition bytes_str :: "bytes \<Rightarrow> string" where
  "bytes_str bs = map (\<lambda>b. char_of (unat b)) bs"

text \<open>
  A custom field type (\<open>math.Int\<close>, \<open>math.LegacyDec\<close>): \<open>Size\<close>, the bytes \<open>MarshalTo\<close> writes,
  and \<open>Unmarshal\<close> into a value already there.
\<close>

record 'v custom_type =
  CSize :: "'v \<Rightarrow> int"
  CMarshal :: "'v \<Rightarrow> bytes outcome"
  CUnmarshal :: "bytes \<Rightarrow> 'v \<Rightarrow> 'v outcome"

text \<open>A message of another package (\<open>sdk.Coin\<close>, x/staking's \<open>MsgCreateValidator\<close>).\<close>

record 'm foreign_message =
  MMarshal :: "'m \<Rightarrow> bytes \<Rightarrow> (int \<times> bytes) outcome"
  MSize :: "'m \<Rightarrow> int"
  MUnmarshal :: "bytes \<Rightarrow> 'm \<Rightarrow> 'm outcome"

end
