(* ===== verification/Wire_Laws.thy ===== *)
theory Wire_Laws
  imports Wire
begin

text \<open>
  The laws of the codec combinators of \<open>Wire\<close>: what a writer puts in front of the buffer
  (\<open>writes\<close>), that a read of what was written gives it back, that every read makes progress and
  never leaves the slice, and the interface \<open>message_codec\<close> that the messages provide to the messages
  that contain them.
\<close>

section \<open>Variable-length integers\<close>

function varint_bytes :: "64 word \<Rightarrow> bytes" where
  "varint_bytes v =
     (if v < 0x80 then [ucast v] else ucast (v AND 0x7F OR 0x80) # varint_bytes (drop_bit 7 v))"
  by auto
termination
  by (relation "measure unat") (auto intro: drop_bit_7_less)

declare varint_bytes.simps [simp del]

lemma varint_bytes_nonempty [simp]: "varint_bytes v \<noteq> []"
  by (subst varint_bytes.simps) simp

lemma length_varint_bytes_pos [simp]: "0 < length (varint_bytes v)"
  by simp

lemma bitlen_step: "0 < x \<Longrightarrow> bitlen x = bitlen (x div 2) + 1"
  by (simp add: bitlen_def compute_floorlog [of 2 "nat x"] nat_div_distrib)

lemma bitlen_div_128:
  assumes "128 \<le> x"
  shows "bitlen x = bitlen (x div 128) + 7"
proof -
  have "bitlen x = bitlen (x div 2 div 2 div 2 div 2 div 2 div 2 div 2) + 7"
    using assms
    by (simp add: bitlen_step [of x] bitlen_step [of "x div 2"] bitlen_step [of "x div 4"]
        bitlen_step [of "x div 8"] bitlen_step [of "x div 16"] bitlen_step [of "x div 32"]
        bitlen_step [of "x div 64"] zdiv_zmult2_eq [symmetric])
  then show ?thesis by (simp add: zdiv_zmult2_eq [symmetric])
qed

lemma Len64_or_1: "Len64 (v OR 1) = bitlen (uint v div 2) + 1"
proof -
  have "uint (v OR 1) = uint v OR 1"
    by (simp add: uint_or)
  moreover have "(uint v OR 1) div 2 = uint v div 2"
    by (simp add: or_int_rec [of "uint v"])
  moreover have "0 < uint v OR 1"
  proof -
    have "0 \<le> uint v div 2" by (simp add: pos_imp_zdiv_nonneg_iff)
    then have "0 < 1 + 2 * (uint v div 2)" by linarith
    then show ?thesis by (simp add: or_int_rec [of "uint v"])
  qed
  ultimately show ?thesis
    by (simp add: Len64_def bitlen_step)
qed

lemma length_varint_bytes: "int (length (varint_bytes v)) = sov v"
proof (induction v rule: varint_bytes.induct)
  case (1 v)
  show ?case
  proof (cases "v < 0x80")
    case True
    then have "uint v < 128" by (simp add: word_less_def)
    then have "uint v div 2 < 2 ^ 6" by simp
    then have "bitlen (uint v div 2) \<le> 6"
      using bitlen_le_iff_power [of "uint v div 2" 6] by simp
    moreover have "0 \<le> bitlen (uint v div 2)" by (rule bitlen_nonneg)
    ultimately have "sov v = 1"
      by (simp add: sov_def Len64_or_1)
    then show ?thesis using True by (simp add: varint_bytes.simps)
  next
    case False
    then have ge: "128 \<le> uint v" by (simp add: word_less_def)
    have "uint (drop_bit 7 v) = uint v div 128"
      using uint_lt2p [of v] by (simp add: unsigned_drop_bit_eq take_bit_int_eq_self) (simp add: drop_bit_eq_div)
    then have "Len64 (v OR 1) = Len64 (drop_bit 7 v OR 1) + 7"
      using ge bitlen_step [of "uint v"] bitlen_step [of "uint v div 128"] bitlen_div_128 [of "uint v"]
      by (simp add: Len64_or_1 div_pos_pos_trivial pos_imp_zdiv_pos_iff)
    then have "sov v = sov (drop_bit 7 v) + 1"
      by (simp add: sov_def)
    then show ?thesis using 1 False by (subst varint_bytes.simps) simp
  qed
qed

lemma put_byte_append [simp]: "put_byte (pre @ x # ys) (int (length pre)) b = Ok (pre @ b # ys)"
  by (simp add: put_byte_def)

lemma encode_loop_writes:
  "length old = length (varint_bytes v) \<Longrightarrow>
   encode_loop (pre @ old @ post) (int (length pre)) v = Ok (pre @ varint_bytes v @ post)"
proof (induction v arbitrary: pre old rule: varint_bytes.induct)
  case (1 v)
  then obtain x xs where old: "old = x # xs"
    by (cases old) auto
  show ?case
  proof (cases "v < 0x80")
    case True
    then have "varint_bytes v = [ucast v]" by (simp add: varint_bytes.simps)
    then show ?thesis
      using True 1(2) old by (simp add: encode_loop.simps)
  next
    case False
    let ?b = "ucast (v AND 0x7F OR 0x80) :: 8 word"
    have vb: "varint_bytes v = ?b # varint_bytes (drop_bit 7 v)"
      using False by (simp add: varint_bytes.simps [of v])
    have "encode_loop ((pre @ [?b]) @ xs @ post) (int (length (pre @ [?b]))) (drop_bit 7 v)
        = Ok ((pre @ [?b]) @ varint_bytes (drop_bit 7 v) @ post)"
      using 1 False vb old by (intro 1(1)) auto
    then show ?thesis
      using False vb old by (simp add: encode_loop.simps [of _ _ v] add.commute)
  qed
qed

lemma bit_128 [simp]:
  "bit (0x80 :: 64 word) n \<longleftrightarrow> n = 7" "bit (0x80 :: int) n \<longleftrightarrow> n = 7"
proof -
  have "bit ((2 :: 64 word) ^ 7) n \<longleftrightarrow> n = 7" "bit ((2 :: int) ^ 7) n \<longleftrightarrow> n = 7"
    by (simp_all only: bit_exp_iff) auto
  then show "bit (0x80 :: 64 word) n \<longleftrightarrow> n = 7" "bit (0x80 :: int) n \<longleftrightarrow> n = 7"
    by simp_all
qed

lemma byte_low [simp]:
  "w < 0x80 \<Longrightarrow> ucast ((ucast w :: 8 word) AND 0x7F) = (w :: 64 word)"
  "ucast ((ucast (w AND 0x7F OR 0x80) :: 8 word) AND 0x7F) = (w :: 64 word) AND 0x7F"
proof -
  have m: "(0x7F :: 8 word) = mask 7" "(0x7F :: 64 word) = mask 7"
    by (simp_all add: mask_eq_exp_minus_1)
  show "ucast ((ucast (w AND 0x7F OR 0x80) :: 8 word) AND 0x7F) = w AND 0x7F"
    unfolding m by (rule bit_word_eqI) (auto simp: bit_simps)
  assume "w < 0x80"
  then have "w = take_bit 7 w"
    by (simp add: take_bit_eq_mod mod_word_less)
  then have hi: "bit w n \<Longrightarrow> n < 7" for n
    by (metis bit_take_bit_iff)
  then show "ucast ((ucast w :: 8 word) AND 0x7F) = w"
    unfolding m by (intro bit_word_eqI) (fastforce simp: bit_simps dest: hi)
qed

lemma byte_high [simp]:
  "w < 0x80 \<Longrightarrow> (ucast w :: 8 word) < 0x80"
  "\<not> (ucast (w AND 0x7F OR 0x80) :: 8 word) < 0x80" for w :: "64 word"
proof -
  let ?b = "ucast (w AND 0x7F OR 0x80) :: 8 word"
  have "bit ?b 7"
    by (simp add: bit_simps)
  then have "push_bit 7 1 = ?b AND push_bit 7 1"
    by (intro bit_word_eqI) (auto simp: bit_simps)
  then have "push_bit 7 1 \<le> ?b" by (metis word_and_le1 and.commute)
  then show "\<not> ?b < 0x80" by simp
  assume "w < 0x80"
  then show "(ucast w :: 8 word) < 0x80"
    by (simp add: word_less_nat_alt unsigned_ucast_eq take_bit_eq_mod)
qed

lemma varint_loop_reads:
  "w = drop_bit s v \<Longrightarrow> s < 64 \<Longrightarrow>
   varint_loop (pre @ varint_bytes w @ post) (int (length pre)) s (take_bit s v)
   = Ok (v, int (length pre + length (varint_bytes w)))"
proof (induction w arbitrary: s pre rule: varint_bytes.induct)
  case (1 w)
  show ?case
  proof (cases "w < 0x80")
    case True
    then have vb: "varint_bytes w = [ucast w]" by (simp add: varint_bytes.simps)
    have "take_bit s v OR push_bit s w = v"
      unfolding 1(2) by (rule bit_word_eqI) (auto simp: bit_simps, metis le_add_diff_inverse not_less)
    then show ?thesis
      using True 1(3) vb by (simp add: varint_loop.simps byte_at_def)
  next
    case False
    let ?b = "ucast (w AND 0x7F OR 0x80) :: 8 word"
    have vb: "varint_bytes w = ?b # varint_bytes (drop_bit 7 w)"
      using False by (simp add: varint_bytes.simps [of w])
    have s: "s + 7 < 64"
    proof (rule ccontr)
      assume "\<not> s + 7 < 64"
      then have "w = take_bit 7 w"
        unfolding 1(2) by (intro bit_word_eqI) (auto simp: bit_simps dest: bit_imp_le_length)
      moreover have "take_bit 7 w < 0x80"
        by (simp add: take_bit_eq_mod word_mod_less_divisor)
      ultimately show False using False by simp
    qed
    have acc: "take_bit s v OR push_bit s (w AND 0x7F) = take_bit (s + 7) v"
    proof -
      have m: "(0x7F :: 64 word) = mask 7" by (simp add: mask_eq_exp_minus_1)
      show ?thesis
        unfolding 1(2) m by (rule bit_word_eqI) (auto simp: bit_simps)
    qed
    have "varint_loop ((pre @ [?b]) @ varint_bytes (drop_bit 7 w) @ post) (int (length (pre @ [?b]))) (s + 7) (take_bit (s + 7) v)
        = Ok (v, int (length (pre @ [?b]) + length (varint_bytes (drop_bit 7 w))))"
      using False s 1(2) by (intro 1(1)) (simp_all add: drop_bit_drop_bit add.commute)
    then show ?thesis
      using 1(3) vb acc by (simp add: varint_loop.simps [of _ _ s] byte_at_def add.commute Let_def)
  qed
qed

lemma read_varint_bytes:
  "read_varint (pre @ varint_bytes v @ post) (int (length pre)) = Ok (v, int (length pre + length (varint_bytes v)))"
  using varint_loop_reads [of v 0 v pre post] by (simp add: read_varint_def)

section \<open>Writers\<close>

text \<open>\<open>writes w e\<close>: given room, \<open>w\<close> puts exactly \<open>e\<close> in front and touches nothing else.\<close>

definition writes :: "writer \<Rightarrow> bytes \<Rightarrow> bool" where
  "writes w e \<longleftrightarrow>
     (\<forall>pre old post. length old = length e \<longrightarrow>
        w (pre @ old @ post, int (length pre + length e)) = Ok (pre @ e @ post, int (length pre)))"

lemma writesI:
  "(\<And>pre old post. length old = length e \<Longrightarrow>
     w (pre @ old @ post, int (length pre + length e)) = Ok (pre @ e @ post, int (length pre))) \<Longrightarrow> writes w e"
  by (simp add: writes_def)

lemma writesD:
  "writes w e \<Longrightarrow> length old = length e \<Longrightarrow>
   w (pre @ old @ post, int (length pre + length e)) = Ok (pre @ e @ post, int (length pre))"
  by (simp add: writes_def)

definition sized :: "(bytes \<Rightarrow> (int \<times> bytes) outcome) \<Rightarrow> bytes \<Rightarrow> bool" where
  "sized marshal e \<longleftrightarrow>
     (\<forall>pre old. length old = length e \<longrightarrow> marshal (pre @ old) = Ok (int (length e), pre @ e))"

lemma split_old:
  assumes "length old = length (a @ b)"
  obtains x y where "old = x @ y" "length x = length a" "length y = length b"
proof
  show "old = take (length a) old @ drop (length a) old" by simp
qed (use assms in simp_all)

named_theorems writer_intros \<open>what each writer puts in front of the buffer\<close>

lemma writes_skip [writer_intros]: "writes skipW []"
  by (simp add: writes_def skipW_def)

lemma writes_seq [writer_intros]:
  assumes "writes w1 e1" and "writes w2 e2"
  shows "writes (seqW w1 w2) (e2 @ e1)"
proof (rule writesI)
  fix pre old post :: bytes
  assume "length old = length (e2 @ e1)"
  then obtain x y where old: "old = x @ y" "length x = length e2" "length y = length e1"
    by (rule split_old)
  have "w1 ((pre @ x) @ y @ post, int (length (pre @ x) + length e1))
      = Ok ((pre @ x) @ e1 @ post, int (length (pre @ x)))"
    using old(3) by (rule writesD [OF assms(1)])
  moreover have "w2 (pre @ x @ e1 @ post, int (length pre + length e2)) = Ok (pre @ e2 @ e1 @ post, int (length pre))"
    using old(2) by (rule writesD [OF assms(2)])
  ultimately show "seqW w1 w2 (pre @ old @ post, int (length pre + length (e2 @ e1)))
      = Ok (pre @ (e2 @ e1) @ post, int (length pre))"
    using old by (simp add: seqW_def add.assoc)
qed

lemma writes_varint [writer_intros]: "writes (put_varint v) (varint_bytes v)"
proof (rule writesI)
  fix pre old post :: bytes
  assume "length old = length (varint_bytes v)"
  then show "put_varint v (pre @ old @ post, int (length pre + length (varint_bytes v)))
      = Ok (pre @ varint_bytes v @ post, int (length pre))"
    by (simp add: encodeVarint_def length_varint_bytes [symmetric] encode_loop_writes)
qed

lemma writes_tag [writer_intros]: "writes (put_tag t) [t]"
proof (rule writesI)
  fix pre old post :: bytes
  assume "length old = length [t]"
  then obtain x where "old = [x]" by (cases old) auto
  then show "put_tag t (pre @ old @ post, int (length pre + length [t])) = Ok (pre @ [t] @ post, int (length pre))"
    by simp
qed

lemma copy_at_append:
  "length old = length s \<Longrightarrow> copy_at (pre @ old @ post) (int (length pre)) s = Ok (pre @ s @ post)"
  by (simp add: copy_at_def)

lemma writes_copy [writer_intros]: "writes (put_copy s) s"
  by (rule writesI) (simp add: copy_at_append)

lemma writes_nested [writer_intros]:
  assumes "sized marshal e"
  shows "writes (put_nested marshal) (varint_bytes (word_of_nat (length e)) @ e)"
proof (rule writesI)
  fix pre old post :: bytes
  let ?v = "varint_bytes (word_of_nat (length e))"
  assume "length old = length (?v @ e)"
  then obtain x y where old: "old = x @ y" "length x = length ?v" "length y = length e"
    by (rule split_old)
  have "marshal (pre @ x @ y) = Ok (int (length e), (pre @ x) @ e)"
    using assms old(3) unfolding sized_def by (metis append.assoc)
  moreover have "slice (pre @ x @ y @ post) 0 (int (length pre + length (?v @ e))) = Ok (pre @ x @ y)"
    using old by (simp add: slice_def nat_add_distrib)
  moreover have "put_varint (word_of_nat (length e)) (pre @ x @ e @ post, int (length pre + length ?v))
      = Ok (pre @ ?v @ e @ post, int (length pre))"
    using writesD [OF writes_varint old(2)] .
  ultimately show "put_nested marshal (pre @ old @ post, int (length pre + length (?v @ e)))
      = Ok (pre @ (?v @ e) @ post, int (length pre))"
    using old by simp
qed

lemma writes_custom_value [writer_intros]:
  "writes (put_custom_value (int (length bs)) (Ok bs)) (varint_bytes (word_of_nat (length bs)) @ bs)"
proof (rule writesI)
  fix pre old post :: bytes
  let ?v = "varint_bytes (word_of_nat (length bs))"
  assume "length old = length (?v @ bs)"
  then obtain x y where old: "old = x @ y" "length x = length ?v" "length y = length bs"
    by (rule split_old)
  have i: "int (length pre + length (?v @ bs)) - int (length bs) = int (length (pre @ x))"
    using old by simp
  have "copy_at ((pre @ x) @ y @ post) (int (length (pre @ x))) bs = Ok ((pre @ x) @ bs @ post)"
    using old(3) by (rule copy_at_append)
  moreover have "put_varint (word_of_nat (length bs)) (pre @ x @ bs @ post, int (length pre + length ?v))
      = Ok (pre @ ?v @ bs @ post, int (length pre))"
    using writesD [OF writes_varint old(2)] .
  moreover have "\<exists>s. slice (pre @ x @ y @ post) (int (length (pre @ x))) (int (length (pre @ x @ y @ post))) = Ok s"
    by (simp add: slice_def)
  ultimately show "put_custom_value (int (length bs)) (Ok bs) (pre @ old @ post, int (length pre + length (?v @ bs)))
      = Ok (pre @ (?v @ bs) @ post, int (length pre))"
    using old i by (auto simp: Let_def)
qed

text \<open>The bytes of a whole field.\<close>

definition delimited :: "8 word \<Rightarrow> bytes \<Rightarrow> bytes" where
  "delimited tag bs = tag # varint_bytes (word_of_nat (length bs)) @ bs"

definition string_bytes_field :: "8 word \<Rightarrow> bytes \<Rightarrow> bytes" where
  "string_bytes_field tag s = (if length s > 0 then delimited tag s else [])"

definition uint64_field :: "8 word \<Rightarrow> 64 word \<Rightarrow> bytes" where
  "uint64_field tag v = (if v \<noteq> 0 then tag # varint_bytes v else [])"

lemma writes_message [writer_intros]:
  "sized marshal e \<Longrightarrow> writes (put_message tag marshal) (delimited tag e)"
  using writes_seq [OF writes_nested writes_tag, of marshal e tag] by (simp add: put_message_def delimited_def)

lemma writes_custom [writer_intros]:
  "writes (put_custom tag (int (length bs)) (Ok bs)) (delimited tag bs)"
  using writes_seq [OF writes_custom_value writes_tag, of bs tag] by (simp add: put_custom_def delimited_def)

lemma writes_string [writer_intros]: "writes (put_string tag s) (string_bytes_field tag s)"
  using writes_seq [OF writes_seq [OF writes_copy writes_varint] writes_tag, of s "word_of_nat (length s)" tag]
  by (simp add: put_string_def string_bytes_field_def delimited_def writes_skip)

lemma writes_uint64 [writer_intros]: "writes (put_uint64 tag v) (uint64_field tag v)"
  using writes_seq [OF writes_varint writes_tag, of v tag]
  by (simp add: put_uint64_def uint64_field_def writes_skip)

lemma writes_repeated [writer_intros]:
  "list_all2 (\<lambda>m e. sized (marshal m) e) ms es \<Longrightarrow>
   writes (put_repeated tag marshal ms) (concat (map (delimited tag) es))"
proof (induction ms es rule: list_all2_induct)
  case Nil
  then show ?case by (simp add: writes_skip)
next
  case (Cons m ms e es)
  then show ?case
    using writes_seq [OF Cons.IH writes_message [OF Cons.hyps(1)]] by simp
qed

lemma sized_marshal:
  assumes "writes w e"
  shows "sized (marshal_sized w) e"
  unfolding sized_def
proof (intro allI impI)
  fix pre old :: bytes
  assume l: "length old = length e"
  show "marshal_sized w (pre @ old) = Ok (int (length e), pre @ e)"
    using writesD [OF assms l, of pre "[]"] l by (simp add: marshal_sized_def)
qed

lemma proto_Marshal_sized:
  assumes "sized (marshal m) e" and "sz m = int (length e)"
  shows "proto_Marshal sz marshal m = Ok e"
proof -
  have "marshal m ([] @ replicate (length e) 0) = Ok (int (length e), [] @ e)"
    using assms(1) unfolding sized_def by (metis length_replicate)
  then show ?thesis
    using assms(2) by (simp add: proto_Marshal_def slice_def)
qed

section \<open>Sizes\<close>

lemma length_delimited: "int (length (delimited tag bs)) = size_bytes (int (length bs))"
  by (simp add: size_bytes_def delimited_def length_varint_bytes [symmetric])

lemma length_string_field: "int (length (string_bytes_field tag s)) = size_string s"
  by (simp add: size_string_def string_bytes_field_def length_delimited)

lemma length_uint64_field: "int (length (uint64_field tag v)) = size_uint64 v"
  by (simp add: size_uint64_def uint64_field_def length_varint_bytes)

lemmas field_lengths = length_delimited length_string_field length_uint64_field

section \<open>Readers\<close>

lemma i64_id: "- (2 ^ 63) \<le> x \<Longrightarrow> x < 2 ^ 63 \<Longrightarrow> i64 x = x"
  by (simp add: i64_def signed_of_int signed_take_bit_int_eq_self)

lemma i64_wrap:
  assumes "0 \<le> x" and "x < 2 ^ 64"
  shows "i64 x = (if x < 2 ^ 63 then x else x - 2 ^ 64)"
proof (cases "x < 2 ^ 63")
  case False
  have "take_bit 64 (x - 2 ^ 64) = take_bit 64 x"
    by (simp add: take_bit_eq_mod)
  then have "(word_of_int (x - 2 ^ 64) :: 64 word) = word_of_int x"
    by (simp only: word_of_int_eq_iff) simp
  then have "i64 x = i64 (x - 2 ^ 64)"
    unfolding i64_def by (rule arg_cong [where f = sint, OF sym])
  then show ?thesis using assms False by (simp add: i64_id)
qed (use assms in \<open>simp add: i64_id\<close>)

lemma sint_of_length: "int n < 2 ^ 63 \<Longrightarrow> sint (word_of_nat n :: 64 word) = int n"
  using i64_id [of "int n"] by (simp add: i64_def)

lemma read_delimited_bytes:
  assumes "d = pre @ varint_bytes (word_of_nat (length bs)) @ bs @ post" and "int (length d) < 2 ^ 63"
  shows "read_delimited d (int (length pre)) =
    Ok (bs, int (length pre + length (varint_bytes (word_of_nat (length bs))) + length bs))"
proof -
  let ?v = "varint_bytes (word_of_nat (length bs))"
  have r: "read_varint d (int (length pre)) = Ok (word_of_nat (length bs), int (length pre + length ?v))"
    unfolding assms(1) by (rule read_varint_bytes)
  have s: "sint (word_of_nat (length bs) :: 64 word) = int (length bs)"
    using assms by (intro sint_of_length) simp
  have p: "i64 (int (length pre + length ?v) + int (length bs)) = int (length pre + length ?v + length bs)"
    using assms by (subst i64_id) auto
  have "slice d (int (length pre + length ?v)) (int (length pre + length ?v + length bs)) = Ok bs"
    using assms(1) by (simp add: slice_def nat_add_distrib)
  then show ?thesis
    using r s p assms by (simp add: read_delimited_def Let_def)
qed

text \<open>A one-byte tag: the field number and the wire type are its quotient and remainder by 8.\<close>

lemma read_tag:
  assumes "t < 0x80"
  shows "read_varint (pre @ t # post) (int (length pre)) = Ok (ucast t, int (length pre) + 1)"
proof -
  have "ucast t < (0x80 :: 64 word)"
    using assms by (simp add: word_less_nat_alt unsigned_ucast_eq take_bit_nat_eq_self)
  then have "varint_bytes (ucast t) = [t]"
    by (subst varint_bytes.simps) (simp, rule bit_word_eqI, auto simp: bit_simps)
  then show ?thesis
    using read_varint_bytes [of pre "ucast t" post] by (simp add: add.commute)
qed

lemma tag_parts:
  fixes t :: "8 word"
  assumes t: "uint t = 8 * fn + wt" "0 < fn" "fn < 16" "0 \<le> wt" "wt < 8"
  shows "uint (ucast t AND (7 :: 64 word)) = wt"
    and "sint (ucast (drop_bit 3 (ucast t :: 64 word)) :: 32 word) = fn"
    and "t < 0x80"
proof -
  show "t < 0x80" using t by (simp add: word_less_def)
  have "uint (ucast t AND (7 :: 64 word)) = uint t AND mask 3"
    by (simp add: unsigned_and_eq unsigned_ucast_eq take_bit_int_eq_self mask_eq_exp_minus_1
        uint_lt2p [of t, THEN less_trans])
  also have "\<dots> = uint t mod 8"
    by (simp add: take_bit_eq_mask [symmetric] take_bit_eq_mod)
  finally show "uint (ucast t AND (7 :: 64 word)) = wt"
    using t by simp
  have "uint (drop_bit 3 (ucast t :: 64 word)) = fn"
    using t by (simp add: unsigned_drop_bit_eq unsigned_ucast_eq take_bit_eq_mod) (simp add: drop_bit_eq_div)
  then have "drop_bit 3 (ucast t :: 64 word) = word_of_int fn"
    by (metis word_of_int_uint)
  then show "sint (ucast (drop_bit 3 (ucast t :: 64 word)) :: 32 word) = fn"
    using t by (simp add: unsigned_of_int signed_of_int signed_take_bit_int_eq_self take_bit_int_eq_self)
qed

lemma unmarshal_field_tag:
  assumes t: "uint t = 8 * fn + wt" "0 < fn" "fn < 16" "0 \<le> wt" "wt < 8" "wt \<noteq> 4"
  shows "unmarshal_field nm h (pre @ t # post) (int (length pre)) m =
    (case h fn wt (pre @ t # post) (int (length pre) + 1) m of
       Some r \<Rightarrow> r | None \<Rightarrow> skip_unknown (pre @ t # post) (int (length pre)) m)"
  using t by (simp add: unmarshal_field_def read_tag [OF tag_parts(3)] Let_def tag_parts(1,2))

section \<open>Reading a message field by field\<close>

text \<open>
  \<open>reads nm h e F\<close>: wherever the bytes \<open>e\<close> stand in the slice, the loop of \<open>Unmarshal\<close>
  consumes them, has applied \<open>F\<close> to the message and goes on behind them (an error of \<open>F\<close> ends it).
\<close>

definition reads :: "string \<Rightarrow> 'm handler \<Rightarrow> bytes \<Rightarrow> ('m \<Rightarrow> 'm outcome) \<Rightarrow> bool" where
  "reads nm h e F \<longleftrightarrow>
     (\<exists>k \<le> length e. \<forall>pre post m fuel. int (length (pre @ e @ post)) < 2 ^ 63 \<longrightarrow>
        unmarshal_loop nm h (k + fuel) (pre @ e @ post) (int (length pre)) m =
        bindO (F m) (\<lambda>m'. unmarshal_loop nm h fuel (pre @ e @ post) (int (length pre + length e)) m'))"

named_theorems reader_intros \<open>what reading the bytes of each field does\<close>

lemma reads_nil [reader_intros]: "reads nm h [] Ok"
  by (simp add: reads_def)

lemma reads_append:
  assumes "reads nm h e1 F1" and "reads nm h e2 F2"
  shows "reads nm h (e1 @ e2) (\<lambda>m. bindO (F1 m) F2)"
proof -
  obtain k1 where k1: "k1 \<le> length e1" and r1: "\<And>pre post m fuel. int (length (pre @ e1 @ post)) < 2 ^ 63 \<Longrightarrow>
      unmarshal_loop nm h (k1 + fuel) (pre @ e1 @ post) (int (length pre)) m =
      bindO (F1 m) (\<lambda>m'. unmarshal_loop nm h fuel (pre @ e1 @ post) (int (length pre + length e1)) m')"
    using assms(1) unfolding reads_def by blast
  obtain k2 where k2: "k2 \<le> length e2" and r2: "\<And>pre post m fuel. int (length (pre @ e2 @ post)) < 2 ^ 63 \<Longrightarrow>
      unmarshal_loop nm h (k2 + fuel) (pre @ e2 @ post) (int (length pre)) m =
      bindO (F2 m) (\<lambda>m'. unmarshal_loop nm h fuel (pre @ e2 @ post) (int (length pre + length e2)) m')"
    using assms(2) unfolding reads_def by blast
  have "unmarshal_loop nm h ((k1 + k2) + fuel) (pre @ (e1 @ e2) @ post) (int (length pre)) m =
      bindO (bindO (F1 m) F2) (\<lambda>m'. unmarshal_loop nm h fuel (pre @ (e1 @ e2) @ post)
        (int (length pre + length (e1 @ e2))) m')"
    if "int (length (pre @ (e1 @ e2) @ post)) < 2 ^ 63" for pre post m fuel
    using that r1 [of pre "e2 @ post" "k2 + fuel" m] r2 [of "pre @ e1" post fuel]
    by (cases "F1 m") (simp_all add: add.assoc)
  then show ?thesis
    unfolding reads_def using k1 k2 by (intro exI [of _ "k1 + k2"]) auto
qed

lemma reads_eq: "reads nm h e F \<Longrightarrow> (\<And>m. F m = G m) \<Longrightarrow> reads nm h e G"
  by (simp add: reads_def)

text \<open>One round of the loop.\<close>

lemma reads_field:
  assumes "e \<noteq> []"
    and "\<And>pre post m. int (length (pre @ e @ post)) < 2 ^ 63 \<Longrightarrow>
      unmarshal_field nm h (pre @ e @ post) (int (length pre)) m =
      bindO (F m) (\<lambda>m'. Ok (m', int (length pre + length e)))"
  shows "reads nm h e F"
  unfolding reads_def
proof (intro exI [of _ 1] conjI allI impI)
  show "1 \<le> length e" using assms(1) by (cases e) auto
  fix pre post m fuel
  assume "int (length (pre @ e @ post)) < 2 ^ 63"
  moreover have "int (length pre) < int (length (pre @ e @ post))"
    using assms(1) by (cases e) auto
  ultimately show "unmarshal_loop nm h (1 + fuel) (pre @ e @ post) (int (length pre)) m =
      bindO (F m) (\<lambda>m'. unmarshal_loop nm h fuel (pre @ e @ post) (int (length pre + length e)) m')"
    using assms(2) by (simp add: bindO_assoc)
qed

text \<open>Reading a whole slice.\<close>

lemma proto_Unmarshal_reads:
  assumes "reads nm h e F" and "int (length e) < 2 ^ 63"
  shows "proto_Unmarshal nm h e m = F m"
proof -
  obtain k where k: "k \<le> length e" and r: "\<And>pre post m fuel. int (length (pre @ e @ post)) < 2 ^ 63 \<Longrightarrow>
      unmarshal_loop nm h (k + fuel) (pre @ e @ post) (int (length pre)) m =
      bindO (F m) (\<lambda>m'. unmarshal_loop nm h fuel (pre @ e @ post) (int (length pre + length e)) m')"
    using assms(1) unfolding reads_def by blast
  have "Suc (length e) = k + Suc (length e - k)" using k by simp
  then have "proto_Unmarshal nm h e m = bindO (F m) (\<lambda>m'. Ok m')"
    using r [of "[]" "[]" "Suc (length e - k)" m] assms(2)
    by (simp add: proto_Unmarshal_def)
  then show ?thesis by (cases "F m") auto
qed

text \<open>The fields of each kind. \<open>tag_of t fn wt\<close>: the one-byte tag of field \<open>fn\<close> with wire type \<open>wt\<close>.\<close>

definition tag_of :: "8 word \<Rightarrow> int \<Rightarrow> int \<Rightarrow> bool" where
  "tag_of t fn wt \<longleftrightarrow> uint t = 8 * fn + wt \<and> 0 < fn \<and> fn < 16 \<and> 0 \<le> wt \<and> wt < 8 \<and> wt \<noteq> 4"

lemma reads_delimited:
  assumes t: "tag_of t fn 2"
    and h: "\<And>d i m. h fn 2 d i m = Some (delimited_field fld upd 2 d i m)"
  shows "reads nm h (delimited t bs) (upd bs)"
proof (rule reads_field)
  fix pre post :: bytes and m
  let ?v = "varint_bytes (word_of_nat (length bs))"
  let ?d = "pre @ delimited t bs @ post"
  assume l: "int (length ?d) < 2 ^ 63"
  have d: "?d = pre @ t # ?v @ bs @ post" "?d = (pre @ [t]) @ ?v @ bs @ post"
    by (simp_all add: delimited_def)
  have "read_delimited ?d (int (length (pre @ [t]))) = Ok (bs, int (length (pre @ [t]) + length ?v + length bs))"
    using l by (intro read_delimited_bytes [OF d(2)])
  moreover have "unmarshal_field nm h ?d (int (length pre)) m = delimited_field fld upd 2 ?d (int (length (pre @ [t]))) m"
    unfolding d(1) using t h by (subst unmarshal_field_tag) (auto simp: tag_of_def add.commute)
  ultimately show "unmarshal_field nm h ?d (int (length pre)) m =
      bindO (upd bs m) (\<lambda>m'. Ok (m', int (length pre + length (delimited t bs))))"
    by (simp add: delimited_field_def delimited_def add.assoc)
qed (simp add: delimited_def)

lemma reads_string:
  assumes "tag_of t fn 2" and "\<And>d i m. h fn 2 d i m = Some (delimited_field fld upd 2 d i m)"
  shows "reads nm h (string_bytes_field t s) (\<lambda>m. if s = [] then Ok m else upd s m)"
  using reads_delimited [where h = h and upd = upd and fld = fld and t = t and fn = fn and nm = nm and bs = s, OF assms]
    reads_nil [of nm h]
  by (simp add: string_bytes_field_def)

lemma reads_uint64:
  assumes t: "tag_of t fn 0" and h: "\<And>d i m. h fn 0 d i m = Some (varint_field fld upd 0 d i m)"
  shows "reads nm h (uint64_field t v) (\<lambda>m. Ok (if v = 0 then m else upd v m))"
proof (cases "v = 0")
  case True
  then show ?thesis using reads_nil by (simp add: uint64_field_def)
next
  case False
  have "reads nm h (t # varint_bytes v) (\<lambda>m. Ok (upd v m))"
  proof (rule reads_field)
    fix pre post :: bytes and m
    let ?d = "pre @ (t # varint_bytes v) @ post"
    have d: "?d = (pre @ [t]) @ varint_bytes v @ post" by simp
    have "read_varint ?d (int (length (pre @ [t]))) = Ok (v, int (length (pre @ [t]) + length (varint_bytes v)))"
      unfolding d by (rule read_varint_bytes)
    moreover have "unmarshal_field nm h ?d (int (length pre)) m = varint_field fld upd 0 ?d (int (length (pre @ [t]))) m"
      using t h unmarshal_field_tag [of t fn 0 nm h pre "varint_bytes v @ post" m]
      by (auto simp: tag_of_def add.commute)
    ultimately show "unmarshal_field nm h ?d (int (length pre)) m =
        bindO (Ok (upd v m)) (\<lambda>m'. Ok (m', int (length pre + length (t # varint_bytes v))))"
      by (simp add: varint_field_def)
  qed simp
  then show ?thesis using False by (simp add: uint64_field_def)
qed

text \<open>The same rules for a \<open>switch\<close>, whose cases are looked up by computation.\<close>

lemma read_case_delimited:
  assumes "tag_of t fn 2" and "h fn = (\<lambda>wt d i m. Some (delimited_field fld upd wt d i m))"
    and "\<And>m. upd bs m = F m"
  shows "reads nm h (delimited t bs) F"
  using reads_eq [OF reads_delimited [where h = h and upd = upd and fld = fld and t = t and fn = fn and nm = nm and bs = bs]]
    assms by simp

lemma read_case_string:
  assumes "tag_of t fn 2" and "h fn = (\<lambda>wt d i m. Some (delimited_field fld upd wt d i m))"
    and "\<And>m. (if s = [] then Ok m else upd s m) = F m"
  shows "reads nm h (string_bytes_field t s) F"
  using reads_eq [OF reads_string [where h = h and upd = upd and fld = fld and t = t and fn = fn and nm = nm and s = s]]
    assms by simp

lemma read_case_uint64:
  assumes "tag_of t fn 0" and "h fn = (\<lambda>wt d i m. Some (varint_field fld upd wt d i m))"
    and "\<And>m. Ok (if v = 0 then m else upd v m) = F m"
  shows "reads nm h (uint64_field t v) F"
  using reads_eq [OF reads_uint64 [where h = h and upd = upd and fld = fld and t = t and fn = fn and nm = nm and v = v]]
    assms by simp

fun read_all :: "(bytes \<Rightarrow> 'm \<Rightarrow> 'm outcome) \<Rightarrow> bytes list \<Rightarrow> 'm \<Rightarrow> 'm outcome" where
  "read_all F [] m = Ok m"
| "read_all F (e # es) m = bindO (F e m) (read_all F es)"

lemma reads_repeated:
  assumes "tag_of t fn 2" and "h fn = (\<lambda>wt d i m. Some (delimited_field fld upd wt d i m))"
  shows "reads nm h (concat (map (delimited t) es)) (read_all upd es)"
proof (induction es)
  case Nil
  show ?case by (simp, rule reads_eq [OF reads_nil], simp)
next
  case (Cons e es)
  have "reads nm h (delimited t e) (upd e)"
    by (rule read_case_delimited [where h = h and fn = fn and fld = fld and upd = upd]) (use assms in simp_all)
  from reads_append [OF this Cons.IH]
  have "reads nm h (delimited t e @ concat (map (delimited t) es)) (read_all upd (e # es))"
    by (rule reads_eq) simp
  then show ?case by (simp del: read_all.simps)
qed

section \<open>Unknown fields\<close>

lemma tag_ofD:
  assumes "tag_of t fn wt"
  shows "uint (ucast t AND (7 :: 64 word)) = wt" and "t < 0x80"
  using assms by (auto simp: tag_of_def intro!: tag_parts(1) tag_parts(3))

lemma skip_field_delimited:
  assumes t: "tag_of t fn 2" and l: "int (length (delimited t bs @ post)) < 2 ^ 63"
  shows "skip_field (delimited t bs @ post) = Ok (int (length (delimited t bs)))"
proof -
  let ?v = "varint_bytes (word_of_nat (length bs))"
  let ?d = "t # ?v @ bs @ post"
  have d: "delimited t bs @ post = ?d" by (simp add: delimited_def)
  have tag: "read_varint ?d 0 = Ok (ucast t, 1)"
    using read_tag [OF tag_ofD(2) [OF t], of "[]" "?v @ bs @ post"] by simp
  have len: "read_varint ?d 1 = Ok (word_of_nat (length bs), 1 + int (length ?v))"
    using read_varint_bytes [of "[t]" "word_of_nat (length bs)" "bs @ post"] by simp
  have "sint (word_of_nat (length bs) :: 64 word) = int (length bs)"
    using l by (intro sint_of_length) (simp add: delimited_def)
  moreover have "i64 (1 + int (length ?v) + int (length bs)) = 1 + int (length ?v) + int (length bs)"
    using l by (intro i64_id) (auto simp: delimited_def)
  ultimately show ?thesis
    unfolding d using tag len
    by (simp add: skip_field_def skip_value_def tag_ofD(1) [OF t] delimited_def)
qed

lemma skip_field_varint:
  assumes t: "tag_of t fn 0"
  shows "skip_field ((t # varint_bytes v) @ post) = Ok (int (length (t # varint_bytes v)))"
proof -
  let ?d = "t # varint_bytes v @ post"
  have tag: "read_varint ?d 0 = Ok (ucast t, 1)"
    using read_tag [OF tag_ofD(2) [OF t], of "[]" "varint_bytes v @ post"] by simp
  have val: "read_varint ?d 1 = Ok (v, 1 + int (length (varint_bytes v)))"
    using read_varint_bytes [of "[t]" v post] by simp
  show ?thesis
    using tag val by (simp add: skip_field_def skip_value_def tag_ofD(1) [OF t])
qed

text \<open>A field whose number the message does not know is skipped, whatever it holds.\<close>

lemma reads_unknown:
  fixes h :: "'m handler"
  assumes t: "tag_of t fn wt" and h: "\<And>d i m. h fn wt d i m = None"
    and e: "wt = 2 \<and> e = delimited t bs \<or> wt = 0 \<and> e = t # varint_bytes v"
  shows "reads nm h e Ok"
proof (rule reads_field)
  show "e \<noteq> []" using e by (auto simp: delimited_def)
  fix pre post :: bytes and m :: 'm
  let ?d = "pre @ e @ post"
  assume l: "int (length ?d) < 2 ^ 63"
  obtain rest where rest: "e = t # rest" using e by (auto simp: delimited_def)
  have skip: "skip_field (e @ post) = Ok (int (length e))"
  proof (cases "wt = 2")
    case True
    then have "e = delimited t bs" using e by auto
    moreover have "skip_field (delimited t bs @ post) = Ok (int (length (delimited t bs)))"
      using t True l \<open>e = delimited t bs\<close> by (intro skip_field_delimited [of t fn]) auto
    ultimately show ?thesis by simp
  next
    case False
    then have "e = t # varint_bytes v" "wt = 0" using e by auto
    then show ?thesis using skip_field_varint [of t fn v post] t by simp
  qed
  have "slice ?d (int (length pre)) (int (length ?d)) = Ok (e @ post)"
    by (simp add: slice_def)
  moreover have "i64 (int (length pre) + int (length e)) = int (length pre) + int (length e)"
    using l by (intro i64_id) auto
  ultimately have "skip_unknown ?d (int (length pre)) m = Ok (m, int (length pre + length e))"
    using skip by (simp add: skip_unknown_def)
  then show "unmarshal_field nm h ?d (int (length pre)) m = bindO (Ok m) (\<lambda>m'. Ok (m', int (length pre + length e)))"
    using t h unmarshal_field_tag [of t fn wt nm h pre "rest @ post" m]
    by (simp add: rest tag_of_def)
qed

section \<open>No input makes a read panic\<close>

lemma varint_loop_bounds:
  "0 \<le> i \<Longrightarrow> varint_loop d i s acc \<noteq> Panic \<and>
   (\<forall>v i'. varint_loop d i s acc = Ok (v, i') \<longrightarrow> i < i' \<and> i' \<le> int (length d))"
proof (induction d i s acc rule: varint_loop.induct)
  case (1 d i s acc)
  show ?case
  proof (cases "64 \<le> s \<or> int (length d) \<le> i")
    case True
    then show ?thesis by (auto simp: varint_loop.simps [of d i])
  next
    case False
    let ?b = "d ! nat i" and ?acc = "acc OR push_bit s (ucast (d ! nat i AND 0x7F))"
    have b: "byte_at d i = Ok ?b" using False 1(2) by (simp add: byte_at_def)
    show ?thesis
    proof (cases "?b < 0x80")
      case True
      then show ?thesis using False b by (auto simp: varint_loop.simps [of d i])
    next
      case h: False
      have "varint_loop d (i + 1) (s + 7) ?acc \<noteq> Panic \<and>
          (\<forall>v i'. varint_loop d (i + 1) (s + 7) ?acc = Ok (v, i') \<longrightarrow> i + 1 < i' \<and> i' \<le> int (length d))"
        using 1(1) [OF _ _ refl] False b h 1(2) by auto
      then show ?thesis using False b h by (auto simp: varint_loop.simps [of d i])
    qed
  qed
qed

lemma read_varint_bounds:
  assumes "0 \<le> i"
  shows "read_varint d i \<noteq> Panic" and "read_varint d i = Ok (v, i') \<Longrightarrow> i < i' \<and> i' \<le> int (length d)"
  using varint_loop_bounds [OF assms] by (auto simp: read_varint_def)

lemma i64_add:
  assumes "0 \<le> i" "i < 2 ^ 63" "0 \<le> n" "n < 2 ^ 63"
  shows "i \<le> i64 (i + n) \<and> i64 (i + n) = i + n \<or> i64 (i + n) < 0"
  using i64_wrap [of "i + n"] assms by auto

lemma i64_less: "i64 x < 2 ^ 63"
  using sint_lt [of "word_of_int x :: 64 word"] by (simp add: i64_def)

lemma skip_value_bounds:
  assumes "0 \<le> i" "i \<le> int (length d)" "int (length d) < 2 ^ 63"
  shows "skip_value d wt i depth \<noteq> Panic"
    and "skip_value d wt i depth = Ok (i', depth') \<Longrightarrow> (i \<le> i' \<or> i' < 0) \<and> i' < 2 ^ 63"
proof -
  show "skip_value d wt i depth \<noteq> Panic"
    using read_varint_bounds(1) [OF assms(1), of d]
    by (cases "read_varint d i") (auto simp: skip_value_def split: if_splits)
  assume ok: "skip_value d wt i depth = Ok (i', depth')"
  show "(i \<le> i' \<or> i' < 0) \<and> i' < 2 ^ 63"
  proof (cases "wt = 2")
    case True
    then obtain w j where w: "read_varint d i = Ok (w, j)" "0 \<le> sint w" "i' = i64 (j + sint w)"
      using ok by (auto simp: skip_value_def bindO_Ok_iff split: if_splits)
    have j: "i < j" "j \<le> int (length d)"
      using read_varint_bounds(2) [OF assms(1) w(1)] by auto
    moreover have "sint w < 2 ^ 63"
      using sint_lt [of w] by simp
    ultimately have "j \<le> i' \<or> i' < 0"
      using i64_add [of j "sint w"] w(2,3) assms by auto
    then show ?thesis using j w(3) i64_less by auto
  next
    case False
    then show ?thesis
      using ok assms read_varint_bounds(2) [OF assms(1), of d] i64_add [of i 8] i64_add [of i 4]
        i64_less [of "i + 8"] i64_less [of "i + 4"]
      by (fastforce simp: skip_value_def bindO_Ok_iff split: if_splits)
  qed
qed

lemma skip_loop_bounds:
  "0 \<le> i \<Longrightarrow> int (length d) < 2 ^ 63 \<Longrightarrow> 0 < fuel \<Longrightarrow> int (length d) - i < int fuel \<Longrightarrow>
   skip_loop fuel d i depth \<noteq> Panic \<and> (\<forall>r. skip_loop fuel d i depth = Ok r \<longrightarrow> i < r \<and> r < 2 ^ 63)"
proof (induction fuel arbitrary: i depth)
  case 0
  then show ?case by simp
next
  case (Suc fuel)
  show ?case
  proof (cases "i < int (length d)")
    case True
    consider e where "read_varint d i = Err e" | w j where "read_varint d i = Ok (w, j)"
      using read_varint_bounds(1) [OF Suc.prems(1), of d] by (cases "read_varint d i") auto
    then show ?thesis
    proof cases
      case 1
      then show ?thesis using True by simp
    next
      case (2 w j)
      let ?sv = "skip_value d (uint (w AND 7)) j depth"
      have j: "i < j" "j \<le> int (length d)"
        using read_varint_bounds(2) [OF Suc.prems(1) 2] by auto
      consider e where "?sv = Err e" | k dp where "?sv = Ok (k, dp)" "j \<le> k \<or> k < 0" "k < 2 ^ 63"
        using skip_value_bounds [of j d "uint (w AND 7)" depth] j Suc.prems by (cases ?sv) auto
      then show ?thesis
      proof cases
        case 1
        then show ?thesis using True 2 by simp
      next
        case (2 k dp)
        note step = True \<open>read_varint d i = Ok (w, j)\<close> 2(1)
        have "0 \<le> k \<Longrightarrow> skip_loop fuel d k dp \<noteq> Panic \<and> (\<forall>r. skip_loop fuel d k dp = Ok r \<longrightarrow> k < r \<and> r < 2 ^ 63)"
          using Suc.prems True j 2(2) by (intro Suc.IH) auto
        then show ?thesis
          using step j 2(2,3) by (cases "k < 0"; cases "dp = 0") auto
      qed
    qed
  qed simp
qed

lemma skip_unknown_bounds:
  assumes "0 \<le> i" "i \<le> int (length d)" "int (length d) < 2 ^ 63"
  shows "skip_unknown d i m \<noteq> Panic"
    and "skip_unknown d i m = Ok (m', i') \<Longrightarrow> i < i' \<and> i' \<le> int (length d)"
proof -
  let ?s = "drop (nat i) d"
  have s: "slice d i (int (length d)) = Ok ?s"
    using assms by (simp add: slice_def)
  have "int (length ?s) < 2 ^ 63"
    using assms by simp
  then have sk: "skip_field ?s \<noteq> Panic" "skip_field ?s = Ok r \<Longrightarrow> 0 < r \<and> r < 2 ^ 63" for r
    using skip_loop_bounds [of 0 ?s "Suc (length ?s)" 0] by (simp_all add: skip_field_def)
  show "skip_unknown d i m \<noteq> Panic"
    using s sk(1) by (cases "skip_field ?s") (auto simp: skip_unknown_def)
  assume ok: "skip_unknown d i m = Ok (m', i')"
  then obtain r where r: "skip_field ?s = Ok r" "0 \<le> i64 (i + r)" "i64 (i + r) \<le> int (length d)" "i' = i64 (i + r)"
    using s by (auto simp: skip_unknown_def bindO_Ok_iff split: if_splits)
  show "i < i' \<and> i' \<le> int (length d)"
    using sk(2) [OF r(1)] r assms i64_add [of i r] by auto
qed

text \<open>
  A \<open>switch\<close> is safe when each of its cases returns a message and an index further on in the slice, or
  an error; then so is the whole loop, which therefore never runs out of fuel either.
\<close>

definition safe_handler :: "'m handler \<Rightarrow> bool" where
  "safe_handler h \<longleftrightarrow>
     (\<forall>fn wt d i m r. h fn wt d i m = Some r \<longrightarrow> 0 \<le> i \<longrightarrow> i \<le> int (length d) \<longrightarrow> int (length d) < 2 ^ 63 \<longrightarrow>
        r \<noteq> Panic \<and> (\<forall>m' i'. r = Ok (m', i') \<longrightarrow> i \<le> i' \<and> i' \<le> int (length d)))"

lemma unmarshal_field_bounds:
  assumes h: "safe_handler h" and i: "0 \<le> i" "i < int (length d)" "int (length d) < 2 ^ 63"
  shows "unmarshal_field nm h d i m \<noteq> Panic"
    and "unmarshal_field nm h d i m = Ok (m', i') \<Longrightarrow> i < i' \<and> i' \<le> int (length d)"
proof -
  have le: "i \<le> int (length d)" using i by simp
  have sk: "skip_unknown d i m \<noteq> Panic"
    "\<forall>m' i'. skip_unknown d i m = Ok (m', i') \<longrightarrow> i < i' \<and> i' \<le> int (length d)"
    by (rule skip_unknown_bounds(1) [OF i(1) le i(3)], intro allI impI,
        rule skip_unknown_bounds(2) [OF i(1) le i(3)])
  consider e where "read_varint d i = Err e" | w j where "read_varint d i = Ok (w, j)" "i < j" "j \<le> int (length d)"
    using read_varint_bounds [OF i(1), of d] by (cases "read_varint d i") auto
  then have "unmarshal_field nm h d i m \<noteq> Panic \<and>
      (\<forall>m' i'. unmarshal_field nm h d i m = Ok (m', i') \<longrightarrow> i < i' \<and> i' \<le> int (length d))"
  proof cases
    case 1
    then show ?thesis by (simp add: unmarshal_field_def)
  next
    case (2 w j)
    let ?fn = "sint (ucast (drop_bit 3 w) :: 32 word)" and ?wt = "uint (w AND 7)"
    show ?thesis
    proof (cases "h ?fn ?wt d j m")
      case None
      then show ?thesis using 2(1) sk by (auto simp: unmarshal_field_def Let_def)
    next
      case (Some r)
      have "0 \<le> j" using 2 i by simp
      then have r: "r \<noteq> Panic" "\<forall>m' i'. r = Ok (m', i') \<longrightarrow> j \<le> i' \<and> i' \<le> int (length d)"
        using h 2 i Some unfolding safe_handler_def by blast+
      have "unmarshal_field nm h d i m = r \<or> (\<exists>e. unmarshal_field nm h d i m = Err e)"
        using 2(1) Some by (simp add: unmarshal_field_def Let_def)
      then show ?thesis
      proof
        assume eq: "unmarshal_field nm h d i m = r"
        have "i < i' \<and> i' \<le> int (length d)" if "r = Ok (m', i')" for m' i'
          using r(2) [rule_format, OF that] 2(2) by simp
        then show ?thesis
          unfolding eq using r(1) by blast
      qed auto
    qed
  qed
  then show "unmarshal_field nm h d i m \<noteq> Panic"
    and "unmarshal_field nm h d i m = Ok (m', i') \<Longrightarrow> i < i' \<and> i' \<le> int (length d)" by blast+
qed

lemma unmarshal_loop_safe:
  "safe_handler h \<Longrightarrow> 0 \<le> i \<Longrightarrow> i \<le> int (length d) \<Longrightarrow> int (length d) < 2 ^ 63 \<Longrightarrow>
   int (length d) - i < int fuel \<Longrightarrow> unmarshal_loop nm h fuel d i m \<noteq> Panic"
proof (induction fuel arbitrary: i m)
  case 0
  then show ?case by simp
next
  case (Suc fuel)
  show ?case
  proof (cases "i < int (length d)")
    case True
    note b = unmarshal_field_bounds [OF Suc.prems(1,2) True Suc.prems(4), of nm m]
    show ?thesis
    proof (cases "unmarshal_field nm h d i m")
      case (Ok r)
      obtain m' i' where r: "r = (m', i')" by fastforce
      have "i < i'" "i' \<le> int (length d)" using b(2) Ok r by auto
      then have "unmarshal_loop nm h fuel d i' m' \<noteq> Panic"
        using Suc.prems by (intro Suc.IH) auto
      then show ?thesis using True Ok r by simp
    qed (use True b in auto)
  next
    case False
    then show ?thesis using Suc.prems by simp
  qed
qed

text \<open>The fuel of the two loops is a bound, not a limit: more of it changes no result.\<close>

lemma unmarshal_loop_more:
  "unmarshal_loop nm h fuel d i m \<noteq> Panic \<Longrightarrow> fuel \<le> fuel' \<Longrightarrow>
   unmarshal_loop nm h fuel' d i m = unmarshal_loop nm h fuel d i m"
proof (induction fuel arbitrary: fuel' i m)
  case (Suc fuel)
  obtain n where n: "fuel' = Suc n" "fuel \<le> n"
    using Suc.prems(2) by (cases fuel') auto
  have "unmarshal_loop nm h n d i' m' = unmarshal_loop nm h fuel d i' m'"
    if "i < int (length d)" "unmarshal_field nm h d i m = Ok (m', i')" for m' i'
    using Suc.prems(1) that by (intro Suc.IH n(2)) simp
  then show ?case
    unfolding n(1) by (cases "unmarshal_field nm h d i m") auto
qed simp

lemma skip_loop_more:
  "skip_loop fuel d i depth \<noteq> Panic \<Longrightarrow> fuel \<le> fuel' \<Longrightarrow> skip_loop fuel' d i depth = skip_loop fuel d i depth"
proof (induction fuel arbitrary: fuel' i depth)
  case (Suc fuel)
  obtain n where n: "fuel' = Suc n" "fuel \<le> n"
    using Suc.prems(2) by (cases fuel') auto
  show ?case
  proof (cases "read_varint d i")
    case (Ok r)
    obtain w j where r: "r = (w, j)" by fastforce
    show ?thesis
    proof (cases "skip_value d (uint (w AND 7)) j depth")
      case (Ok q)
      obtain k dp where q: "q = (k, dp)" by fastforce
      have "skip_loop n d k dp = skip_loop fuel d k dp" if "i < int (length d)" "0 \<le> k" "dp \<noteq> 0"
        using Suc.prems(1) that \<open>read_varint d i = Ok r\<close> Ok r q by (intro Suc.IH n(2)) simp
      then show ?thesis
        unfolding n(1) using \<open>read_varint d i = Ok r\<close> Ok r q by auto
    qed (use Ok r n(1) in auto)
  qed (auto simp: n(1))
qed simp

lemma proto_Unmarshal_safe:
  "safe_handler h \<Longrightarrow> int (length d) < 2 ^ 63 \<Longrightarrow> proto_Unmarshal nm h d m \<noteq> Panic"
  unfolding proto_Unmarshal_def by (rule unmarshal_loop_safe) auto

lemma read_delimited_bounds:
  assumes i: "0 \<le> i" "i \<le> int (length d)" "int (length d) < 2 ^ 63"
  shows "read_delimited d i \<noteq> Panic"
    and "read_delimited d i = Ok (s, i') \<Longrightarrow> i < i' \<and> i' \<le> int (length d) \<and> length s \<le> length d"
proof -
  have "read_delimited d i \<noteq> Panic \<and>
    (\<forall>s i'. read_delimited d i = Ok (s, i') \<longrightarrow> i < i' \<and> i' \<le> int (length d) \<and> length s \<le> length d)"
  proof (cases "read_varint d i")
    case (Ok r)
    obtain w j where r: "r = (w, j)" by fastforce
    have j: "i < j" "j \<le> int (length d)"
      using read_varint_bounds(2) [OF i(1), of d w j] Ok r by auto
    have "sint w < 2 ^ 63" using sint_lt [of w] by simp
    then have "0 \<le> sint w \<longrightarrow> j \<le> i64 (j + sint w) \<or> i64 (j + sint w) < 0"
      using i64_add [of j "sint w"] i j by auto
    then show ?thesis
      using Ok r j i by (auto simp: read_delimited_def Let_def slice_def)
  qed (use read_varint_bounds(1) [OF i(1), of d] in \<open>auto simp: read_delimited_def\<close>)
  then show "read_delimited d i \<noteq> Panic"
    and "read_delimited d i = Ok (s, i') \<Longrightarrow> i < i' \<and> i' \<le> int (length d) \<and> length s \<le> length d"
    by blast+
qed

lemma delimited_field_safe:
  assumes i: "0 \<le> i" "i \<le> int (length d)" "int (length d) < 2 ^ 63"
    and upd: "\<And>s. int (length s) < 2 ^ 63 \<Longrightarrow> upd s m \<noteq> Panic"
  shows "delimited_field fld upd wt d i m \<noteq> Panic \<and>
    (\<forall>m' i'. delimited_field fld upd wt d i m = Ok (m', i') \<longrightarrow> i \<le> i' \<and> i' \<le> int (length d))"
proof (cases "read_delimited d i")
  case (Ok r)
  obtain s j where r: "r = (s, j)" by fastforce
  have b: "i < j" "j \<le> int (length d)" "length s \<le> length d"
    using read_delimited_bounds(2) [OF i, of s j] Ok r by auto
  then have "upd s m \<noteq> Panic" using i(3) by (intro upd) linarith
  then show ?thesis
    using Ok r b by (cases "upd s m") (auto simp: delimited_field_def)
qed (use read_delimited_bounds(1) [OF i] in \<open>auto simp: delimited_field_def\<close>)

lemma varint_field_safe:
  assumes i: "0 \<le> i" "i \<le> int (length d)"
  shows "varint_field fld upd wt d i m \<noteq> Panic \<and>
    (\<forall>m' i'. varint_field fld upd wt d i m = Ok (m', i') \<longrightarrow> i \<le> i' \<and> i' \<le> int (length d))"
proof (cases "read_varint d i")
  case (Ok r)
  obtain v j where r: "r = (v, j)" by fastforce
  then show ?thesis
    using Ok read_varint_bounds(2) [OF i(1), of d v j] by (auto simp: varint_field_def)
qed (use read_varint_bounds(1) [OF i(1), of d] in \<open>auto simp: varint_field_def\<close>)

named_theorems safe_intros \<open>the switches that never panic\<close>

lemma safe_no_field [safe_intros]: "safe_handler no_field"
  by (simp add: safe_handler_def no_field_def)

lemma safe_on_field:
  assumes f: "\<And>wt d i m. 0 \<le> i \<Longrightarrow> i \<le> int (length d) \<Longrightarrow> int (length d) < 2 ^ 63 \<Longrightarrow>
      f wt d i m \<noteq> Panic \<and> (\<forall>m' i'. f wt d i m = Ok (m', i') \<longrightarrow> i \<le> i' \<and> i' \<le> int (length d))"
    and h: "safe_handler h"
  shows "safe_handler (on_field k f h)"
  unfolding safe_handler_def
proof (intro allI impI)
  fix fn wt d i m r
  assume r: "on_field k f h fn wt d i m = Some r" and i: "0 \<le> i" "i \<le> int (length d)" "int (length d) < 2 ^ 63"
  show "r \<noteq> Panic \<and> (\<forall>m' i'. r = Ok (m', i') \<longrightarrow> i \<le> i' \<and> i' \<le> int (length d))"
  proof (cases "fn = k")
    case True
    then have "r = f wt d i m" using r by (simp add: on_field_def)
    then show ?thesis using f [OF i] by simp
  next
    case False
    then have "h fn wt d i m = Some r" using r by (simp add: on_field_def)
    then show ?thesis using h i unfolding safe_handler_def by blast
  qed
qed

lemma safe_delimited [safe_intros]:
  assumes "\<And>s m. int (length s) < 2 ^ 63 \<Longrightarrow> upd s m \<noteq> Panic" and "safe_handler h"
  shows "safe_handler (on_field k (delimited_field fld upd) h)"
  by (rule safe_on_field [OF delimited_field_safe assms(2)]) (use assms(1) in auto)

lemma safe_varint [safe_intros]:
  assumes "safe_handler h"
  shows "safe_handler (on_field k (varint_field fld upd) h)"
  by (rule safe_on_field [OF varint_field_safe assms])

section \<open>Strings and custom types\<close>

lemma bytes_str_bytes [simp]: "bytes_str (str_bytes s) = s"
proof -
  have "char_of (unat (word_of_nat (of_char c) :: 8 word)) = c" for c :: char
    by (simp add: unsigned_of_nat take_bit_eq_mod)
  then show ?thesis by (simp add: bytes_str_def str_bytes_def comp_def)
qed

lemma length_str_bytes [simp]: "length (str_bytes s) = length s"
  by (simp add: str_bytes_def)

lemma str_bytes_empty [simp]: "str_bytes s = [] \<longleftrightarrow> s = []"
  by (simp add: str_bytes_def)

text \<open>
  What a custom type promises for the values \<open>good\<close>: its size is the number of bytes it writes, and it
  reads them back over any previous value; reading never panics.
\<close>

definition custom_laws :: "'v custom_type \<Rightarrow> ('v \<Rightarrow> bool) \<Rightarrow> ('v \<Rightarrow> bytes) \<Rightarrow> bool" where
  "custom_laws C good enc \<longleftrightarrow>
     (\<forall>v. good v \<longrightarrow> CMarshal C v = Ok (enc v) \<and> CSize C v = int (length (enc v)) \<and>
        (\<forall>v0. CUnmarshal C (enc v) v0 = Ok v)) \<and>
     (\<forall>bs v0. CUnmarshal C bs v0 \<noteq> Panic)"

lemma custom_lawsD:
  assumes "custom_laws C good enc"
  shows "good v \<Longrightarrow> CMarshal C v = Ok (enc v)" and "good v \<Longrightarrow> CSize C v = int (length (enc v))"
    and "good v \<Longrightarrow> CUnmarshal C (enc v) v0 = Ok v" and "CUnmarshal C bs v0 \<noteq> Panic"
  using assms unfolding custom_laws_def by blast+

section \<open>The interface of a message\<close>

text \<open>
  A generated message type: \<open>MarshalToSizedBuffer\<close>, \<open>Size\<close>, \<open>Unmarshal\<close>, its zero value, the
  messages that can be encoded and their wire form. A message that contains another one relies on
  these laws only.
\<close>

locale message_codec =
  fixes marshal :: "'m \<Rightarrow> bytes \<Rightarrow> (int \<times> bytes) outcome"
    and msize :: "'m \<Rightarrow> int"
    and unmarshal :: "bytes \<Rightarrow> 'm \<Rightarrow> 'm outcome"
    and empty :: 'm
    and good :: "'m \<Rightarrow> bool"
    and enc :: "'m \<Rightarrow> bytes"
  assumes marshal_enc: "good m \<Longrightarrow> sized (marshal m) (enc m)"
    and size_enc: "good m \<Longrightarrow> msize m = int (length (enc m))"
    and unmarshal_enc: "good m \<Longrightarrow> int (length (enc m)) < 2 ^ 63 \<Longrightarrow> unmarshal (enc m) empty = Ok m"
    and unmarshal_safe: "int (length d) < 2 ^ 63 \<Longrightarrow> unmarshal d m \<noteq> Panic"
begin

text \<open>\<open>Marshal\<close> fills a buffer of exactly \<open>Size()\<close> bytes and \<open>Unmarshal\<close> gives the message back.\<close>

lemma Marshal_enc: "good m \<Longrightarrow> proto_Marshal msize marshal m = Ok (enc m)"
  by (intro proto_Marshal_sized marshal_enc size_enc)

lemma roundtrip:
  assumes "good m" and "msize m < 2 ^ 63"
  shows "\<exists>bs. proto_Marshal msize marshal m = Ok bs \<and> int (length bs) = msize m \<and> unmarshal bs empty = Ok m"
proof (intro exI conjI)
  show "proto_Marshal msize marshal m = Ok (enc m)" by (rule Marshal_enc [OF assms(1)])
  show l: "int (length (enc m)) = msize m" by (simp add: size_enc [OF assms(1)])
  show "unmarshal (enc m) empty = Ok m"
    using assms(2) by (intro unmarshal_enc [OF assms(1)]) (simp add: l)
qed

text \<open>The wire form determines the message.\<close>

lemma enc_inject:
  assumes "good m" "good m'" "enc m = enc m'" "msize m < 2 ^ 63"
  shows "m = m'"
proof -
  have l: "int (length (enc m)) < 2 ^ 63"
    using assms(4) size_enc [OF assms(1)] by simp
  have "Ok m = unmarshal (enc m') empty"
    unfolding assms(3) [symmetric] by (rule unmarshal_enc [OF assms(1) l, symmetric])
  also have "\<dots> = Ok m'"
    using l unfolding assms(3) by (rule unmarshal_enc [OF assms(2)])
  finally show ?thesis by simp
qed

text \<open>A field that holds such a message.\<close>

lemma field_writes: "good m \<Longrightarrow> writes (put_message tag (marshal m)) (delimited tag (enc m))"
  by (intro writes_message marshal_enc)

lemma field_size: "good m \<Longrightarrow> size_bytes (msize m) = int (length (delimited tag (enc m)))"
  by (simp add: length_delimited size_enc)

end

lemma length_delimited_ge: "length bs \<le> length (delimited tag bs)"
  by (simp add: delimited_def)

section \<open>Messages without fields\<close>

lemma empty_codec:
  "message_codec (\<lambda>_ :: unit. marshal_sized skipW) (\<lambda>_. 0) (proto_Unmarshal nm no_field) () (\<lambda>_. True) (\<lambda>_. [])"
proof
  show "sized (marshal_sized skipW) []" by (rule sized_marshal [OF writes_skip])
  show "proto_Unmarshal nm no_field [] () = Ok m" for m :: unit
    using proto_Unmarshal_reads [OF reads_nil, of nm no_field "()"] by simp
  show "int (length d) < 2 ^ 63 \<Longrightarrow> proto_Unmarshal nm no_field d m \<noteq> Panic" for d and m :: unit
    by (rule proto_Unmarshal_safe [OF safe_no_field])
qed simp

end
