(* ===== verification/Wire_Burn.thy ===== *)
theory Wire_Burn
  imports Wire_Laws Burn_Keeper
begin

text \<open>
  The codecs of x/burn (\<^verbatim>\<open>params.pb.go\<close>, \<^verbatim>\<open>genesis.pb.go\<close>, \<^verbatim>\<open>tx.pb.go\<close>, \<^verbatim>\<open>query.pb.go\<close>):
  for every message its \<open>MarshalToSizedBuffer\<close>, \<open>Size\<close> and \<open>Unmarshal\<close>, and that they provide
  the interface \<open>message_codec\<close>. \<open>D\<close> is the codec of \<open>math.LegacyDec\<close>, \<open>C\<close> that of
  \<open>math.Int\<close>, \<open>N\<close> that of \<open>sdk.Coin\<close>.
\<close>

section \<open>Params\<close>

definition burn_Params_MarshalToSizedBuffer ::
  "int option custom_type \<Rightarrow> burn_params \<Rightarrow> bytes \<Rightarrow> (int \<times> bytes) outcome" where
  "burn_Params_MarshalToSizedBuffer D m =
     marshal_sized (put_custom 0x0A (CSize D (FeeBurnPercent m)) (CMarshal D (FeeBurnPercent m)))"

definition burn_Params_Size :: "int option custom_type \<Rightarrow> burn_params \<Rightarrow> int" where
  "burn_Params_Size D m = size_bytes (CSize D (FeeBurnPercent m))"

definition burn_Params_Marshal :: "int option custom_type \<Rightarrow> burn_params \<Rightarrow> bytes outcome" where
  "burn_Params_Marshal D = proto_Marshal (burn_Params_Size D) (burn_Params_MarshalToSizedBuffer D)"

definition burn_Params_fields :: "int option custom_type \<Rightarrow> burn_params handler" where
  "burn_Params_fields D =
     on_field 1 (delimited_field ''FeeBurnPercent'' (\<lambda>s m.
       bindO (CUnmarshal D s (FeeBurnPercent m)) (\<lambda>v. Ok (m\<lparr>FeeBurnPercent := v\<rparr>))))
     no_field"

definition burn_Params_Unmarshal :: "int option custom_type \<Rightarrow> bytes \<Rightarrow> burn_params \<Rightarrow> burn_params outcome" where
  "burn_Params_Unmarshal D = proto_Unmarshal ''Params'' (burn_Params_fields D)"

definition burn_Params_enc :: "(int option \<Rightarrow> bytes) \<Rightarrow> burn_params \<Rightarrow> bytes" where
  "burn_Params_enc encD m = delimited 0x0A (encD (FeeBurnPercent m))"

lemma burn_Params_codec:
  assumes D: "custom_laws D goodD encD"
  shows "message_codec (burn_Params_MarshalToSizedBuffer D) (burn_Params_Size D) (burn_Params_Unmarshal D)
    \<lparr>FeeBurnPercent = None\<rparr> (\<lambda>m. goodD (FeeBurnPercent m)) (burn_Params_enc encD)"
proof
  fix m :: burn_params assume good: "goodD (FeeBurnPercent m)"
  note laws = custom_lawsD(1-3) [OF D good]
  show "sized (burn_Params_MarshalToSizedBuffer D m) (burn_Params_enc encD m)"
    unfolding burn_Params_MarshalToSizedBuffer_def burn_Params_enc_def laws(1,2)
    by (intro sized_marshal writer_intros)
  show "burn_Params_Size D m = int (length (burn_Params_enc encD m))"
    by (simp add: burn_Params_Size_def burn_Params_enc_def laws field_lengths)
  have r: "reads ''Params'' (burn_Params_fields D) (burn_Params_enc encD m) (\<lambda>m0. Ok (m0\<lparr>FeeBurnPercent := FeeBurnPercent m\<rparr>))"
    unfolding burn_Params_enc_def
    by (rule read_case_delimited [where fn = 1])
      (simp add: tag_of_def, simp add: burn_Params_fields_def on_field_def, simp add: laws)
  assume "int (length (burn_Params_enc encD m)) < 2 ^ 63"
  then show "burn_Params_Unmarshal D (burn_Params_enc encD m) \<lparr>FeeBurnPercent = None\<rparr> = Ok m"
    using proto_Unmarshal_reads [OF r] by (simp add: burn_Params_Unmarshal_def)
next
  fix d :: bytes and m
  assume "int (length d) < 2 ^ 63"
  then show "burn_Params_Unmarshal D d m \<noteq> Panic"
    unfolding burn_Params_Unmarshal_def burn_Params_fields_def
    by (intro proto_Unmarshal_safe safe_intros) (auto simp: bindO_def custom_lawsD(4) [OF D] split: outcome.split)
qed

section \<open>genesis.pb.go\<close>

definition AccountBurnRecord_MarshalToSizedBuffer ::
  "int option custom_type \<Rightarrow> AccountBurnRecord \<Rightarrow> bytes \<Rightarrow> (int \<times> bytes) outcome" where
  "AccountBurnRecord_MarshalToSizedBuffer C m =
     marshal_sized (seqW (put_custom 0x12 (CSize C (rec_Total m)) (CMarshal C (rec_Total m)))
       (put_string 0x0A (str_bytes (rec_Address m))))"

definition AccountBurnRecord_Size :: "int option custom_type \<Rightarrow> AccountBurnRecord \<Rightarrow> int" where
  "AccountBurnRecord_Size C m =
     size_string (str_bytes (rec_Address m)) +
     size_bytes (CSize C (rec_Total m))"

definition AccountBurnRecord_Marshal :: "int option custom_type \<Rightarrow> AccountBurnRecord \<Rightarrow> bytes outcome" where
  "AccountBurnRecord_Marshal C = proto_Marshal (AccountBurnRecord_Size C) (AccountBurnRecord_MarshalToSizedBuffer C)"

definition AccountBurnRecord_fields :: "int option custom_type \<Rightarrow> AccountBurnRecord handler" where
  "AccountBurnRecord_fields C =
     on_field 1 (delimited_field ''Address'' (\<lambda>s m. Ok (m\<lparr>rec_Address := bytes_str s\<rparr>)))
     (on_field 2 (delimited_field ''Total'' (\<lambda>s m.
       bindO (CUnmarshal C s (rec_Total m)) (\<lambda>v. Ok (m\<lparr>rec_Total := v\<rparr>))))
     no_field)"

definition AccountBurnRecord_Unmarshal :: "int option custom_type \<Rightarrow> bytes \<Rightarrow> AccountBurnRecord \<Rightarrow> AccountBurnRecord outcome" where
  "AccountBurnRecord_Unmarshal C = proto_Unmarshal ''AccountBurnRecord'' (AccountBurnRecord_fields C)"

definition AccountBurnRecord_enc :: "(int option \<Rightarrow> bytes) \<Rightarrow> AccountBurnRecord \<Rightarrow> bytes" where
  "AccountBurnRecord_enc encC m =
     string_bytes_field 0x0A (str_bytes (rec_Address m)) @
     delimited 0x12 (encC (rec_Total m))"

lemma AccountBurnRecord_codec:
  assumes C: "custom_laws C goodC encC"
  shows "message_codec (AccountBurnRecord_MarshalToSizedBuffer C) (AccountBurnRecord_Size C) (AccountBurnRecord_Unmarshal C)
    \<lparr>rec_Address = '''', rec_Total = None\<rparr> (\<lambda>m. goodC (rec_Total m)) (AccountBurnRecord_enc encC)"
proof
  fix m :: "AccountBurnRecord" assume good: "goodC (rec_Total m)"
  have g1: "goodC (rec_Total m)" using good by simp
  note c1 = custom_lawsD(1-3) [OF C g1]
  show "sized (AccountBurnRecord_MarshalToSizedBuffer C m) (AccountBurnRecord_enc encC m)"
    unfolding AccountBurnRecord_MarshalToSizedBuffer_def AccountBurnRecord_enc_def c1(1,2)
    by (intro sized_marshal  writer_intros )
  show "AccountBurnRecord_Size C m = int (length (AccountBurnRecord_enc encC m))"
    by (simp add: AccountBurnRecord_Size_def AccountBurnRecord_enc_def field_lengths c1)
  have r1: "reads ''AccountBurnRecord'' (AccountBurnRecord_fields C) (string_bytes_field 0x0A (str_bytes (rec_Address m)))
      (\<lambda>m0. Ok (if rec_Address m = [] then m0 else m0\<lparr>rec_Address := rec_Address m\<rparr>))"
    by (rule read_case_string [where fn = 1])
      (simp add: tag_of_def, simp add: AccountBurnRecord_fields_def on_field_def, simp)
  have r2: "reads ''AccountBurnRecord'' (AccountBurnRecord_fields C) (delimited 0x12 (encC (rec_Total m)))
      (\<lambda>m0. Ok (m0\<lparr>rec_Total := rec_Total m\<rparr>))"
    by (rule read_case_delimited [where fn = 2])
      (simp add: tag_of_def, simp add: AccountBurnRecord_fields_def on_field_def, simp add: c1(3))
  assume l: "int (length (AccountBurnRecord_enc encC m)) < 2 ^ 63"
  show "AccountBurnRecord_Unmarshal C (AccountBurnRecord_enc encC m) \<lparr>rec_Address = '''', rec_Total = None\<rparr> = Ok m"
    using proto_Unmarshal_reads [OF reads_append [OF r1 r2], of "\<lparr>rec_Address = '''', rec_Total = None\<rparr>"] l 
    by (cases m) (simp add: AccountBurnRecord_Unmarshal_def AccountBurnRecord_enc_def)
next
  fix d :: bytes and m :: "AccountBurnRecord"
  assume "int (length d) < 2 ^ 63"
  then show "AccountBurnRecord_Unmarshal C d m \<noteq> Panic"
    unfolding AccountBurnRecord_Unmarshal_def AccountBurnRecord_fields_def
    by (intro proto_Unmarshal_safe safe_intros) (auto simp: bindO_def custom_lawsD(4) [OF C] split: outcome.split)
qed

definition burn_GenesisState_MarshalToSizedBuffer ::
  "int option custom_type \<Rightarrow> int option custom_type \<Rightarrow> burn_GenesisState \<Rightarrow> bytes \<Rightarrow> (int \<times> bytes) outcome" where
  "burn_GenesisState_MarshalToSizedBuffer D C m =
     marshal_sized (seqW (seqW (seqW (put_repeated 0x22 (AccountBurnRecord_MarshalToSizedBuffer C) (gen_AccountTotals m))
       (put_custom 0x1A (CSize C (gen_Total m)) (CMarshal C (gen_Total m))))
       (put_uint64 0x10 (gen_Count m)))
       (put_message 0x0A (burn_Params_MarshalToSizedBuffer D (gen_Params m))))"

definition burn_GenesisState_Size :: "int option custom_type \<Rightarrow> int option custom_type \<Rightarrow> burn_GenesisState \<Rightarrow> int" where
  "burn_GenesisState_Size D C m =
     size_bytes (burn_Params_Size D (gen_Params m)) +
     size_uint64 (gen_Count m) +
     size_bytes (CSize C (gen_Total m)) +
     sum_list (map (\<lambda>e. size_bytes (AccountBurnRecord_Size C e)) (gen_AccountTotals m))"

definition burn_GenesisState_Marshal :: "int option custom_type \<Rightarrow> int option custom_type \<Rightarrow> burn_GenesisState \<Rightarrow> bytes outcome" where
  "burn_GenesisState_Marshal D C = proto_Marshal (burn_GenesisState_Size D C) (burn_GenesisState_MarshalToSizedBuffer D C)"

definition burn_GenesisState_fields :: "int option custom_type \<Rightarrow> int option custom_type \<Rightarrow> burn_GenesisState handler" where
  "burn_GenesisState_fields D C =
     on_field 1 (delimited_field ''Params'' (\<lambda>s m.
       bindO (burn_Params_Unmarshal D s (gen_Params m)) (\<lambda>v. Ok (m\<lparr>gen_Params := v\<rparr>))))
     (on_field 2 (varint_field ''Count'' (\<lambda>v m. m\<lparr>gen_Count := v\<rparr>))
     (on_field 3 (delimited_field ''Total'' (\<lambda>s m.
       bindO (CUnmarshal C s (gen_Total m)) (\<lambda>v. Ok (m\<lparr>gen_Total := v\<rparr>))))
     (on_field 4 (delimited_field ''AccountTotals'' (\<lambda>s m.
       bindO (AccountBurnRecord_Unmarshal C s \<lparr>rec_Address = '''', rec_Total = None\<rparr>) (\<lambda>v. Ok (m\<lparr>gen_AccountTotals := gen_AccountTotals m @ [v]\<rparr>))))
     no_field)))"

definition burn_GenesisState_Unmarshal :: "int option custom_type \<Rightarrow> int option custom_type \<Rightarrow> bytes \<Rightarrow> burn_GenesisState \<Rightarrow> burn_GenesisState outcome" where
  "burn_GenesisState_Unmarshal D C = proto_Unmarshal ''GenesisState'' (burn_GenesisState_fields D C)"

definition burn_GenesisState_enc :: "(int option \<Rightarrow> bytes) \<Rightarrow> (int option \<Rightarrow> bytes) \<Rightarrow> burn_GenesisState \<Rightarrow> bytes" where
  "burn_GenesisState_enc encD encC m =
     delimited 0x0A (burn_Params_enc encD (gen_Params m)) @
     uint64_field 0x10 (gen_Count m) @
     delimited 0x1A (encC (gen_Total m)) @
     concat (map (delimited 0x22) (map (AccountBurnRecord_enc encC) (gen_AccountTotals m)))"

lemma burn_GenesisState_codec:
  assumes D: "custom_laws D goodD encD"
    and C: "custom_laws C goodC encC"
  shows "message_codec (burn_GenesisState_MarshalToSizedBuffer D C) (burn_GenesisState_Size D C) (burn_GenesisState_Unmarshal D C)
    \<lparr>gen_Params = \<lparr>FeeBurnPercent = None\<rparr>, gen_Count = 0, gen_Total = None, gen_AccountTotals = []\<rparr> (\<lambda>m. goodD (FeeBurnPercent (gen_Params m)) \<and> goodC (gen_Total m) \<and> (\<forall>r \<in> set (gen_AccountTotals m). goodC (rec_Total r))) (burn_GenesisState_enc encD encC)"
proof
  fix m :: "burn_GenesisState" assume good: "goodD (FeeBurnPercent (gen_Params m)) \<and> goodC (gen_Total m) \<and> (\<forall>r \<in> set (gen_AccountTotals m). goodC (rec_Total r))"
  have g1: "(\<lambda>p. goodD (FeeBurnPercent p)) (gen_Params m)" using good by simp
  note c1 = message_codec.marshal_enc [OF burn_Params_codec [OF D] g1] message_codec.size_enc [OF burn_Params_codec [OF D] g1]
  have g2: "goodC (gen_Total m)" using good by simp
  note c2 = custom_lawsD(1-3) [OF C g2]
  have g3: "\<forall>e \<in> set (gen_AccountTotals m). (\<lambda>r. goodC (rec_Total r)) e" using good by simp
  have rw: "writes (put_repeated 0x22 (AccountBurnRecord_MarshalToSizedBuffer C) (gen_AccountTotals m)) (concat (map (delimited 0x22) (map (AccountBurnRecord_enc encC) (gen_AccountTotals m))))"
    by (rule writes_repeated) (use g3 in \<open>auto simp: list_all2_map2 list_all2_same intro: message_codec.marshal_enc [OF AccountBurnRecord_codec [OF C]]\<close>)
  show "sized (burn_GenesisState_MarshalToSizedBuffer D C m) (burn_GenesisState_enc encD encC m)"
    unfolding burn_GenesisState_MarshalToSizedBuffer_def burn_GenesisState_enc_def c2(1,2)
    by (intro sized_marshal c1(1) rw writer_intros c1(1) rw)
  have rs: "sum_list (map (\<lambda>e. size_bytes (AccountBurnRecord_Size C e)) ms) = int (length (concat (map (delimited 0x22) (map (AccountBurnRecord_enc encC) ms))))"
    if "\<forall>e \<in> set ms. (\<lambda>r. goodC (rec_Total r)) e" for ms
    using that by (induction ms) (auto simp: length_delimited message_codec.size_enc [OF AccountBurnRecord_codec [OF C]])
  show "burn_GenesisState_Size D C m = int (length (burn_GenesisState_enc encD encC m))"
    by (simp add: burn_GenesisState_Size_def burn_GenesisState_enc_def field_lengths c1(2) c2 rs [OF g3])
  have r1: "reads ''GenesisState'' (burn_GenesisState_fields D C) (delimited 0x0A (burn_Params_enc encD (gen_Params m)))
      (\<lambda>m0. bindO (burn_Params_Unmarshal D (burn_Params_enc encD (gen_Params m)) (gen_Params m0)) (\<lambda>v. Ok (m0\<lparr>gen_Params := v\<rparr>)))"
    by (rule read_case_delimited [where fn = 1])
      (simp add: tag_of_def, simp add: burn_GenesisState_fields_def on_field_def, simp)
  have r2: "reads ''GenesisState'' (burn_GenesisState_fields D C) (uint64_field 0x10 (gen_Count m))
      (\<lambda>m0. Ok (if gen_Count m = 0 then m0 else m0\<lparr>gen_Count := gen_Count m\<rparr>))"
    by (rule read_case_uint64 [where fn = 2])
      (simp add: tag_of_def, simp add: burn_GenesisState_fields_def on_field_def, simp)
  have r3: "reads ''GenesisState'' (burn_GenesisState_fields D C) (delimited 0x1A (encC (gen_Total m)))
      (\<lambda>m0. Ok (m0\<lparr>gen_Total := gen_Total m\<rparr>))"
    by (rule read_case_delimited [where fn = 3])
      (simp add: tag_of_def, simp add: burn_GenesisState_fields_def on_field_def, simp add: c2(3))
  have r4: "reads ''GenesisState'' (burn_GenesisState_fields D C) (concat (map (delimited 0x22) (map (AccountBurnRecord_enc encC) (gen_AccountTotals m))))
      (read_all (\<lambda>s m. bindO (AccountBurnRecord_Unmarshal C s \<lparr>rec_Address = '''', rec_Total = None\<rparr>) (\<lambda>v. Ok (m\<lparr>gen_AccountTotals := gen_AccountTotals m @ [v]\<rparr>))) (map (AccountBurnRecord_enc encC) (gen_AccountTotals m)))"
    by (rule reads_repeated [where fn = 4])
      (simp add: tag_of_def, simp add: burn_GenesisState_fields_def on_field_def)
  assume l: "int (length (burn_GenesisState_enc encD encC m)) < 2 ^ 63"
  have n1: "burn_Params_Unmarshal D (burn_Params_enc encD (gen_Params m)) (\<lparr>FeeBurnPercent = None\<rparr>) = Ok (gen_Params m)"
    using l length_delimited_ge [of "burn_Params_enc encD (gen_Params m)" "0x0A"]
    by (intro message_codec.unmarshal_enc [OF burn_Params_codec [OF D] g1]) (simp add: burn_GenesisState_enc_def)
  have all: "read_all (\<lambda>s m. bindO (AccountBurnRecord_Unmarshal C s \<lparr>rec_Address = '''', rec_Total = None\<rparr>) (\<lambda>v. Ok (m\<lparr>gen_AccountTotals := gen_AccountTotals m @ [v]\<rparr>)))
      (map (AccountBurnRecord_enc encC) ms) m0 = Ok (m0\<lparr>gen_AccountTotals := gen_AccountTotals m0 @ ms\<rparr>)"
    if "\<forall>e \<in> set ms. (\<lambda>r. goodC (rec_Total r)) e" "int (length (concat (map (delimited 0x22) (map (AccountBurnRecord_enc encC) ms)))) < 2 ^ 63" for ms m0
    using that
  proof (induction ms arbitrary: m0)
    case Nil
    then show ?case by simp
  next
    case (Cons e ms)
    have "AccountBurnRecord_Unmarshal C (AccountBurnRecord_enc encC e) \<lparr>rec_Address = '''', rec_Total = None\<rparr> = Ok e"
      using Cons.prems length_delimited_ge [of "AccountBurnRecord_enc encC e" "0x22"]
      by (intro message_codec.unmarshal_enc [OF AccountBurnRecord_codec [OF C]]) simp_all
    then show ?case using Cons by simp
  qed
  have la: "int (length (concat (map (delimited 0x22) (map (AccountBurnRecord_enc encC) (gen_AccountTotals m))))) < 2 ^ 63" using l by (simp add: burn_GenesisState_enc_def)
  show "burn_GenesisState_Unmarshal D C (burn_GenesisState_enc encD encC m) \<lparr>gen_Params = \<lparr>FeeBurnPercent = None\<rparr>, gen_Count = 0, gen_Total = None, gen_AccountTotals = []\<rparr> = Ok m"
    using proto_Unmarshal_reads [OF reads_append [OF r1 reads_append [OF r2 reads_append [OF r3 r4]]], of "\<lparr>gen_Params = \<lparr>FeeBurnPercent = None\<rparr>, gen_Count = 0, gen_Total = None, gen_AccountTotals = []\<rparr>"] l
    by (simp add: burn_GenesisState_Unmarshal_def burn_GenesisState_enc_def n1 all [OF g3 la])
next
  fix d :: bytes and m :: "burn_GenesisState"
  assume "int (length d) < 2 ^ 63"
  then show "burn_GenesisState_Unmarshal D C d m \<noteq> Panic"
    unfolding burn_GenesisState_Unmarshal_def burn_GenesisState_fields_def
    by (intro proto_Unmarshal_safe safe_intros) (auto simp: bindO_def custom_lawsD(4) [OF C] message_codec.unmarshal_safe [OF burn_Params_codec [OF D]] message_codec.unmarshal_safe [OF AccountBurnRecord_codec [OF C]] split: outcome.split)
qed

section \<open>tx.pb.go\<close>

definition burn_MsgUpdateParams_MarshalToSizedBuffer ::
  "int option custom_type \<Rightarrow> burn_MsgUpdateParams \<Rightarrow> bytes \<Rightarrow> (int \<times> bytes) outcome" where
  "burn_MsgUpdateParams_MarshalToSizedBuffer D m =
     marshal_sized (seqW (put_message 0x12 (burn_Params_MarshalToSizedBuffer D (bup_Params m)))
       (put_string 0x0A (str_bytes (bup_Authority m))))"

definition burn_MsgUpdateParams_Size :: "int option custom_type \<Rightarrow> burn_MsgUpdateParams \<Rightarrow> int" where
  "burn_MsgUpdateParams_Size D m =
     size_string (str_bytes (bup_Authority m)) +
     size_bytes (burn_Params_Size D (bup_Params m))"

definition burn_MsgUpdateParams_Marshal :: "int option custom_type \<Rightarrow> burn_MsgUpdateParams \<Rightarrow> bytes outcome" where
  "burn_MsgUpdateParams_Marshal D = proto_Marshal (burn_MsgUpdateParams_Size D) (burn_MsgUpdateParams_MarshalToSizedBuffer D)"

definition burn_MsgUpdateParams_fields :: "int option custom_type \<Rightarrow> burn_MsgUpdateParams handler" where
  "burn_MsgUpdateParams_fields D =
     on_field 1 (delimited_field ''Authority'' (\<lambda>s m. Ok (m\<lparr>bup_Authority := bytes_str s\<rparr>)))
     (on_field 2 (delimited_field ''Params'' (\<lambda>s m.
       bindO (burn_Params_Unmarshal D s (bup_Params m)) (\<lambda>v. Ok (m\<lparr>bup_Params := v\<rparr>))))
     no_field)"

definition burn_MsgUpdateParams_Unmarshal :: "int option custom_type \<Rightarrow> bytes \<Rightarrow> burn_MsgUpdateParams \<Rightarrow> burn_MsgUpdateParams outcome" where
  "burn_MsgUpdateParams_Unmarshal D = proto_Unmarshal ''MsgUpdateParams'' (burn_MsgUpdateParams_fields D)"

definition burn_MsgUpdateParams_enc :: "(int option \<Rightarrow> bytes) \<Rightarrow> burn_MsgUpdateParams \<Rightarrow> bytes" where
  "burn_MsgUpdateParams_enc encD m =
     string_bytes_field 0x0A (str_bytes (bup_Authority m)) @
     delimited 0x12 (burn_Params_enc encD (bup_Params m))"

lemma burn_MsgUpdateParams_codec:
  assumes D: "custom_laws D goodD encD"
  shows "message_codec (burn_MsgUpdateParams_MarshalToSizedBuffer D) (burn_MsgUpdateParams_Size D) (burn_MsgUpdateParams_Unmarshal D)
    \<lparr>bup_Authority = '''', bup_Params = \<lparr>FeeBurnPercent = None\<rparr>\<rparr> (\<lambda>m. goodD (FeeBurnPercent (bup_Params m))) (burn_MsgUpdateParams_enc encD)"
proof
  fix m :: "burn_MsgUpdateParams" assume good: "goodD (FeeBurnPercent (bup_Params m))"
  have g1: "(\<lambda>p. goodD (FeeBurnPercent p)) (bup_Params m)" using good by simp
  note c1 = message_codec.marshal_enc [OF burn_Params_codec [OF D] g1] message_codec.size_enc [OF burn_Params_codec [OF D] g1]
  show "sized (burn_MsgUpdateParams_MarshalToSizedBuffer D m) (burn_MsgUpdateParams_enc encD m)"
    unfolding burn_MsgUpdateParams_MarshalToSizedBuffer_def burn_MsgUpdateParams_enc_def 
    by (intro sized_marshal c1(1) writer_intros c1(1))
  show "burn_MsgUpdateParams_Size D m = int (length (burn_MsgUpdateParams_enc encD m))"
    by (simp add: burn_MsgUpdateParams_Size_def burn_MsgUpdateParams_enc_def field_lengths c1(2))
  have r1: "reads ''MsgUpdateParams'' (burn_MsgUpdateParams_fields D) (string_bytes_field 0x0A (str_bytes (bup_Authority m)))
      (\<lambda>m0. Ok (if bup_Authority m = [] then m0 else m0\<lparr>bup_Authority := bup_Authority m\<rparr>))"
    by (rule read_case_string [where fn = 1])
      (simp add: tag_of_def, simp add: burn_MsgUpdateParams_fields_def on_field_def, simp)
  have r2: "reads ''MsgUpdateParams'' (burn_MsgUpdateParams_fields D) (delimited 0x12 (burn_Params_enc encD (bup_Params m)))
      (\<lambda>m0. bindO (burn_Params_Unmarshal D (burn_Params_enc encD (bup_Params m)) (bup_Params m0)) (\<lambda>v. Ok (m0\<lparr>bup_Params := v\<rparr>)))"
    by (rule read_case_delimited [where fn = 2])
      (simp add: tag_of_def, simp add: burn_MsgUpdateParams_fields_def on_field_def, simp)
  assume l: "int (length (burn_MsgUpdateParams_enc encD m)) < 2 ^ 63"
  have n2: "burn_Params_Unmarshal D (burn_Params_enc encD (bup_Params m)) (\<lparr>FeeBurnPercent = None\<rparr>) = Ok (bup_Params m)"
    using l length_delimited_ge [of "burn_Params_enc encD (bup_Params m)" "0x12"]
    by (intro message_codec.unmarshal_enc [OF burn_Params_codec [OF D] g1]) (simp add: burn_MsgUpdateParams_enc_def)
  show "burn_MsgUpdateParams_Unmarshal D (burn_MsgUpdateParams_enc encD m) \<lparr>bup_Authority = '''', bup_Params = \<lparr>FeeBurnPercent = None\<rparr>\<rparr> = Ok m"
    using proto_Unmarshal_reads [OF reads_append [OF r1 r2], of "\<lparr>bup_Authority = '''', bup_Params = \<lparr>FeeBurnPercent = None\<rparr>\<rparr>"] l n2
    by (cases m) (simp add: burn_MsgUpdateParams_Unmarshal_def burn_MsgUpdateParams_enc_def)
next
  fix d :: bytes and m :: "burn_MsgUpdateParams"
  assume "int (length d) < 2 ^ 63"
  then show "burn_MsgUpdateParams_Unmarshal D d m \<noteq> Panic"
    unfolding burn_MsgUpdateParams_Unmarshal_def burn_MsgUpdateParams_fields_def
    by (intro proto_Unmarshal_safe safe_intros) (auto simp: bindO_def message_codec.unmarshal_safe [OF burn_Params_codec [OF D]] split: outcome.split)
qed

definition MsgBurn_MarshalToSizedBuffer ::
  "coin foreign_message \<Rightarrow> MsgBurn \<Rightarrow> bytes \<Rightarrow> (int \<times> bytes) outcome" where
  "MsgBurn_MarshalToSizedBuffer N m =
     marshal_sized (seqW (put_message 0x12 (MMarshal N (BurnAmount m)))
       (put_string 0x0A (str_bytes (FromAddress m))))"

definition MsgBurn_Size :: "coin foreign_message \<Rightarrow> MsgBurn \<Rightarrow> int" where
  "MsgBurn_Size N m =
     size_string (str_bytes (FromAddress m)) +
     size_bytes (MSize N (BurnAmount m))"

definition MsgBurn_Marshal :: "coin foreign_message \<Rightarrow> MsgBurn \<Rightarrow> bytes outcome" where
  "MsgBurn_Marshal N = proto_Marshal (MsgBurn_Size N) (MsgBurn_MarshalToSizedBuffer N)"

definition MsgBurn_fields :: "coin foreign_message \<Rightarrow> MsgBurn handler" where
  "MsgBurn_fields N =
     on_field 1 (delimited_field ''FromAddress'' (\<lambda>s m. Ok (m\<lparr>FromAddress := bytes_str s\<rparr>)))
     (on_field 2 (delimited_field ''Amount'' (\<lambda>s m.
       bindO (MUnmarshal N s (BurnAmount m)) (\<lambda>v. Ok (m\<lparr>BurnAmount := v\<rparr>))))
     no_field)"

definition MsgBurn_Unmarshal :: "coin foreign_message \<Rightarrow> bytes \<Rightarrow> MsgBurn \<Rightarrow> MsgBurn outcome" where
  "MsgBurn_Unmarshal N = proto_Unmarshal ''MsgBurn'' (MsgBurn_fields N)"

definition MsgBurn_enc :: "(coin \<Rightarrow> bytes) \<Rightarrow> MsgBurn \<Rightarrow> bytes" where
  "MsgBurn_enc encN m =
     string_bytes_field 0x0A (str_bytes (FromAddress m)) @
     delimited 0x12 (encN (BurnAmount m))"

lemma MsgBurn_codec:
  assumes N: "message_codec (MMarshal N) (MSize N) (MUnmarshal N) emptyN goodN encN"
  shows "message_codec (MsgBurn_MarshalToSizedBuffer N) (MsgBurn_Size N) (MsgBurn_Unmarshal N)
    \<lparr>FromAddress = '''', BurnAmount = emptyN\<rparr> (\<lambda>m. goodN (BurnAmount m)) (MsgBurn_enc encN)"
proof
  fix m :: "MsgBurn" assume good: "goodN (BurnAmount m)"
  have g1: "(goodN) (BurnAmount m)" using good by simp
  note c1 = message_codec.marshal_enc [OF N g1] message_codec.size_enc [OF N g1]
  show "sized (MsgBurn_MarshalToSizedBuffer N m) (MsgBurn_enc encN m)"
    unfolding MsgBurn_MarshalToSizedBuffer_def MsgBurn_enc_def 
    by (intro sized_marshal c1(1) writer_intros c1(1))
  show "MsgBurn_Size N m = int (length (MsgBurn_enc encN m))"
    by (simp add: MsgBurn_Size_def MsgBurn_enc_def field_lengths c1(2))
  have r1: "reads ''MsgBurn'' (MsgBurn_fields N) (string_bytes_field 0x0A (str_bytes (FromAddress m)))
      (\<lambda>m0. Ok (if FromAddress m = [] then m0 else m0\<lparr>FromAddress := FromAddress m\<rparr>))"
    by (rule read_case_string [where fn = 1])
      (simp add: tag_of_def, simp add: MsgBurn_fields_def on_field_def, simp)
  have r2: "reads ''MsgBurn'' (MsgBurn_fields N) (delimited 0x12 (encN (BurnAmount m)))
      (\<lambda>m0. bindO (MUnmarshal N (encN (BurnAmount m)) (BurnAmount m0)) (\<lambda>v. Ok (m0\<lparr>BurnAmount := v\<rparr>)))"
    by (rule read_case_delimited [where fn = 2])
      (simp add: tag_of_def, simp add: MsgBurn_fields_def on_field_def, simp)
  assume l: "int (length (MsgBurn_enc encN m)) < 2 ^ 63"
  have n2: "MUnmarshal N (encN (BurnAmount m)) (emptyN) = Ok (BurnAmount m)"
    using l length_delimited_ge [of "encN (BurnAmount m)" "0x12"]
    by (intro message_codec.unmarshal_enc [OF N g1]) (simp add: MsgBurn_enc_def)
  show "MsgBurn_Unmarshal N (MsgBurn_enc encN m) \<lparr>FromAddress = '''', BurnAmount = emptyN\<rparr> = Ok m"
    using proto_Unmarshal_reads [OF reads_append [OF r1 r2], of "\<lparr>FromAddress = '''', BurnAmount = emptyN\<rparr>"] l n2
    by (cases m) (simp add: MsgBurn_Unmarshal_def MsgBurn_enc_def)
next
  fix d :: bytes and m :: "MsgBurn"
  assume "int (length d) < 2 ^ 63"
  then show "MsgBurn_Unmarshal N d m \<noteq> Panic"
    unfolding MsgBurn_Unmarshal_def MsgBurn_fields_def
    by (intro proto_Unmarshal_safe safe_intros) (auto simp: bindO_def message_codec.unmarshal_safe [OF N] split: outcome.split)
qed

text \<open>The bytes of a burn message are read field by field, wherever they stand.\<close>

lemma MsgBurn_reads:
  "reads ''MsgBurn'' (MsgBurn_fields N) (MsgBurn_enc encN m)
     (\<lambda>m0. bindO (Ok (if FromAddress m = [] then m0 else m0\<lparr>FromAddress := FromAddress m\<rparr>))
        (\<lambda>m0. bindO (MUnmarshal N (encN (BurnAmount m)) (BurnAmount m0)) (\<lambda>v. Ok (m0\<lparr>BurnAmount := v\<rparr>))))"
  unfolding MsgBurn_enc_def
proof (rule reads_append)
  show "reads ''MsgBurn'' (MsgBurn_fields N) (string_bytes_field 0x0A (str_bytes (FromAddress m)))
      (\<lambda>m0. Ok (if FromAddress m = [] then m0 else m0\<lparr>FromAddress := FromAddress m\<rparr>))"
    by (rule read_case_string [where fn = 1])
      (simp add: tag_of_def, simp add: MsgBurn_fields_def on_field_def, simp)
  show "reads ''MsgBurn'' (MsgBurn_fields N) (delimited 0x12 (encN (BurnAmount m)))
      (\<lambda>m0. bindO (MUnmarshal N (encN (BurnAmount m)) (BurnAmount m0)) (\<lambda>v. Ok (m0\<lparr>BurnAmount := v\<rparr>)))"
    by (rule read_case_delimited [where fn = 2])
      (simp add: tag_of_def, simp add: MsgBurn_fields_def on_field_def, simp)
qed

definition burn_MsgUpdateParamsResponse_MarshalToSizedBuffer :: "unit \<Rightarrow> bytes \<Rightarrow> (int \<times> bytes) outcome" where
  "burn_MsgUpdateParamsResponse_MarshalToSizedBuffer m = marshal_sized skipW"

definition burn_MsgUpdateParamsResponse_Size :: "unit \<Rightarrow> int" where
  "burn_MsgUpdateParamsResponse_Size m = 0"

definition burn_MsgUpdateParamsResponse_Unmarshal :: "bytes \<Rightarrow> unit \<Rightarrow> unit outcome" where
  "burn_MsgUpdateParamsResponse_Unmarshal = proto_Unmarshal ''MsgUpdateParamsResponse'' no_field"

definition MsgBurnResponse_MarshalToSizedBuffer :: "unit \<Rightarrow> bytes \<Rightarrow> (int \<times> bytes) outcome" where
  "MsgBurnResponse_MarshalToSizedBuffer m = marshal_sized skipW"

definition MsgBurnResponse_Size :: "unit \<Rightarrow> int" where
  "MsgBurnResponse_Size m = 0"

definition MsgBurnResponse_Unmarshal :: "bytes \<Rightarrow> unit \<Rightarrow> unit outcome" where
  "MsgBurnResponse_Unmarshal = proto_Unmarshal ''MsgBurnResponse'' no_field"

section \<open>query.pb.go\<close>

record burn_QueryParamsResponse =
  qpr_Params :: burn_params

record QueryAccountBurnsRequest =
  qab_Address :: string

record QueryAccountBurnsResponse =
  qab_Amount :: string

definition burn_QueryParamsRequest_MarshalToSizedBuffer :: "unit \<Rightarrow> bytes \<Rightarrow> (int \<times> bytes) outcome" where
  "burn_QueryParamsRequest_MarshalToSizedBuffer m = marshal_sized skipW"

definition burn_QueryParamsRequest_Size :: "unit \<Rightarrow> int" where
  "burn_QueryParamsRequest_Size m = 0"

definition burn_QueryParamsRequest_Unmarshal :: "bytes \<Rightarrow> unit \<Rightarrow> unit outcome" where
  "burn_QueryParamsRequest_Unmarshal = proto_Unmarshal ''QueryParamsRequest'' no_field"

definition QueryBurnStatsRequest_MarshalToSizedBuffer :: "unit \<Rightarrow> bytes \<Rightarrow> (int \<times> bytes) outcome" where
  "QueryBurnStatsRequest_MarshalToSizedBuffer m = marshal_sized skipW"

definition QueryBurnStatsRequest_Size :: "unit \<Rightarrow> int" where
  "QueryBurnStatsRequest_Size m = 0"

definition QueryBurnStatsRequest_Unmarshal :: "bytes \<Rightarrow> unit \<Rightarrow> unit outcome" where
  "QueryBurnStatsRequest_Unmarshal = proto_Unmarshal ''QueryBurnStatsRequest'' no_field"

definition burn_QueryParamsResponse_MarshalToSizedBuffer ::
  "int option custom_type \<Rightarrow> burn_QueryParamsResponse \<Rightarrow> bytes \<Rightarrow> (int \<times> bytes) outcome" where
  "burn_QueryParamsResponse_MarshalToSizedBuffer D m =
     marshal_sized (put_message 0x0A (burn_Params_MarshalToSizedBuffer D (qpr_Params m)))"

definition burn_QueryParamsResponse_Size :: "int option custom_type \<Rightarrow> burn_QueryParamsResponse \<Rightarrow> int" where
  "burn_QueryParamsResponse_Size D m =
     size_bytes (burn_Params_Size D (qpr_Params m))"

definition burn_QueryParamsResponse_Marshal :: "int option custom_type \<Rightarrow> burn_QueryParamsResponse \<Rightarrow> bytes outcome" where
  "burn_QueryParamsResponse_Marshal D = proto_Marshal (burn_QueryParamsResponse_Size D) (burn_QueryParamsResponse_MarshalToSizedBuffer D)"

definition burn_QueryParamsResponse_fields :: "int option custom_type \<Rightarrow> burn_QueryParamsResponse handler" where
  "burn_QueryParamsResponse_fields D =
     on_field 1 (delimited_field ''Params'' (\<lambda>s m.
       bindO (burn_Params_Unmarshal D s (qpr_Params m)) (\<lambda>v. Ok (m\<lparr>qpr_Params := v\<rparr>))))
     no_field"

definition burn_QueryParamsResponse_Unmarshal :: "int option custom_type \<Rightarrow> bytes \<Rightarrow> burn_QueryParamsResponse \<Rightarrow> burn_QueryParamsResponse outcome" where
  "burn_QueryParamsResponse_Unmarshal D = proto_Unmarshal ''QueryParamsResponse'' (burn_QueryParamsResponse_fields D)"

definition burn_QueryParamsResponse_enc :: "(int option \<Rightarrow> bytes) \<Rightarrow> burn_QueryParamsResponse \<Rightarrow> bytes" where
  "burn_QueryParamsResponse_enc encD m =
     delimited 0x0A (burn_Params_enc encD (qpr_Params m))"

lemma burn_QueryParamsResponse_codec:
  assumes D: "custom_laws D goodD encD"
  shows "message_codec (burn_QueryParamsResponse_MarshalToSizedBuffer D) (burn_QueryParamsResponse_Size D) (burn_QueryParamsResponse_Unmarshal D)
    \<lparr>qpr_Params = \<lparr>FeeBurnPercent = None\<rparr>\<rparr> (\<lambda>m. goodD (FeeBurnPercent (qpr_Params m))) (burn_QueryParamsResponse_enc encD)"
proof
  fix m :: "burn_QueryParamsResponse" assume good: "goodD (FeeBurnPercent (qpr_Params m))"
  have g1: "(\<lambda>p. goodD (FeeBurnPercent p)) (qpr_Params m)" using good by simp
  note c1 = message_codec.marshal_enc [OF burn_Params_codec [OF D] g1] message_codec.size_enc [OF burn_Params_codec [OF D] g1]
  show "sized (burn_QueryParamsResponse_MarshalToSizedBuffer D m) (burn_QueryParamsResponse_enc encD m)"
    unfolding burn_QueryParamsResponse_MarshalToSizedBuffer_def burn_QueryParamsResponse_enc_def 
    by (intro sized_marshal c1(1) writer_intros c1(1))
  show "burn_QueryParamsResponse_Size D m = int (length (burn_QueryParamsResponse_enc encD m))"
    by (simp add: burn_QueryParamsResponse_Size_def burn_QueryParamsResponse_enc_def field_lengths c1(2))
  have r1: "reads ''QueryParamsResponse'' (burn_QueryParamsResponse_fields D) (delimited 0x0A (burn_Params_enc encD (qpr_Params m)))
      (\<lambda>m0. bindO (burn_Params_Unmarshal D (burn_Params_enc encD (qpr_Params m)) (qpr_Params m0)) (\<lambda>v. Ok (m0\<lparr>qpr_Params := v\<rparr>)))"
    by (rule read_case_delimited [where fn = 1])
      (simp add: tag_of_def, simp add: burn_QueryParamsResponse_fields_def on_field_def, simp)
  assume l: "int (length (burn_QueryParamsResponse_enc encD m)) < 2 ^ 63"
  have n1: "burn_Params_Unmarshal D (burn_Params_enc encD (qpr_Params m)) (\<lparr>FeeBurnPercent = None\<rparr>) = Ok (qpr_Params m)"
    using l length_delimited_ge [of "burn_Params_enc encD (qpr_Params m)" "0x0A"]
    by (intro message_codec.unmarshal_enc [OF burn_Params_codec [OF D] g1]) (simp add: burn_QueryParamsResponse_enc_def)
  show "burn_QueryParamsResponse_Unmarshal D (burn_QueryParamsResponse_enc encD m) \<lparr>qpr_Params = \<lparr>FeeBurnPercent = None\<rparr>\<rparr> = Ok m"
    using proto_Unmarshal_reads [OF r1, of "\<lparr>qpr_Params = \<lparr>FeeBurnPercent = None\<rparr>\<rparr>"] l n1
    by (cases m) (simp add: burn_QueryParamsResponse_Unmarshal_def burn_QueryParamsResponse_enc_def)
next
  fix d :: bytes and m :: "burn_QueryParamsResponse"
  assume "int (length d) < 2 ^ 63"
  then show "burn_QueryParamsResponse_Unmarshal D d m \<noteq> Panic"
    unfolding burn_QueryParamsResponse_Unmarshal_def burn_QueryParamsResponse_fields_def
    by (intro proto_Unmarshal_safe safe_intros) (auto simp: bindO_def message_codec.unmarshal_safe [OF burn_Params_codec [OF D]] split: outcome.split)
qed

definition BurnStatsResponse_MarshalToSizedBuffer ::
  "BurnStatsResponse \<Rightarrow> bytes \<Rightarrow> (int \<times> bytes) outcome" where
  "BurnStatsResponse_MarshalToSizedBuffer m =
     marshal_sized (seqW (put_string 0x12 (str_bytes (TotalBurned m)))
       (put_uint64 0x08 (TotalBurns m)))"

definition BurnStatsResponse_Size :: "BurnStatsResponse \<Rightarrow> int" where
  "BurnStatsResponse_Size m =
     size_uint64 (TotalBurns m) +
     size_string (str_bytes (TotalBurned m))"

definition BurnStatsResponse_Marshal :: "BurnStatsResponse \<Rightarrow> bytes outcome" where
  "BurnStatsResponse_Marshal = proto_Marshal BurnStatsResponse_Size BurnStatsResponse_MarshalToSizedBuffer"

definition BurnStatsResponse_fields :: "BurnStatsResponse handler" where
  "BurnStatsResponse_fields =
     on_field 1 (varint_field ''TotalBurns'' (\<lambda>v m. m\<lparr>TotalBurns := v\<rparr>))
     (on_field 2 (delimited_field ''TotalBurned'' (\<lambda>s m. Ok (m\<lparr>TotalBurned := bytes_str s\<rparr>)))
     no_field)"

definition BurnStatsResponse_Unmarshal :: "bytes \<Rightarrow> BurnStatsResponse \<Rightarrow> BurnStatsResponse outcome" where
  "BurnStatsResponse_Unmarshal = proto_Unmarshal ''QueryBurnStatsResponse'' BurnStatsResponse_fields"

definition BurnStatsResponse_enc :: "BurnStatsResponse \<Rightarrow> bytes" where
  "BurnStatsResponse_enc m =
     uint64_field 0x08 (TotalBurns m) @
     string_bytes_field 0x12 (str_bytes (TotalBurned m))"

lemma BurnStatsResponse_codec:
  shows "message_codec BurnStatsResponse_MarshalToSizedBuffer BurnStatsResponse_Size BurnStatsResponse_Unmarshal
    \<lparr>TotalBurns = 0, TotalBurned = ''''\<rparr> (\<lambda>m. True) BurnStatsResponse_enc"
proof
  fix m :: "BurnStatsResponse" assume good: "True"
  show "sized (BurnStatsResponse_MarshalToSizedBuffer m) (BurnStatsResponse_enc m)"
    unfolding BurnStatsResponse_MarshalToSizedBuffer_def BurnStatsResponse_enc_def 
    by (intro sized_marshal  writer_intros )
  show "BurnStatsResponse_Size m = int (length (BurnStatsResponse_enc m))"
    by (simp add: BurnStatsResponse_Size_def BurnStatsResponse_enc_def field_lengths )
  have r1: "reads ''QueryBurnStatsResponse'' BurnStatsResponse_fields (uint64_field 0x08 (TotalBurns m))
      (\<lambda>m0. Ok (if TotalBurns m = 0 then m0 else m0\<lparr>TotalBurns := TotalBurns m\<rparr>))"
    by (rule read_case_uint64 [where fn = 1])
      (simp add: tag_of_def, simp add: BurnStatsResponse_fields_def on_field_def, simp)
  have r2: "reads ''QueryBurnStatsResponse'' BurnStatsResponse_fields (string_bytes_field 0x12 (str_bytes (TotalBurned m)))
      (\<lambda>m0. Ok (if TotalBurned m = [] then m0 else m0\<lparr>TotalBurned := TotalBurned m\<rparr>))"
    by (rule read_case_string [where fn = 2])
      (simp add: tag_of_def, simp add: BurnStatsResponse_fields_def on_field_def, simp)
  assume l: "int (length (BurnStatsResponse_enc m)) < 2 ^ 63"
  show "BurnStatsResponse_Unmarshal (BurnStatsResponse_enc m) \<lparr>TotalBurns = 0, TotalBurned = ''''\<rparr> = Ok m"
    using proto_Unmarshal_reads [OF reads_append [OF r1 r2], of "\<lparr>TotalBurns = 0, TotalBurned = ''''\<rparr>"] l 
    by (cases m) (simp add: BurnStatsResponse_Unmarshal_def BurnStatsResponse_enc_def)
next
  fix d :: bytes and m :: "BurnStatsResponse"
  assume "int (length d) < 2 ^ 63"
  then show "BurnStatsResponse_Unmarshal d m \<noteq> Panic"
    unfolding BurnStatsResponse_Unmarshal_def BurnStatsResponse_fields_def
    by (intro proto_Unmarshal_safe safe_intros) (auto simp: bindO_def  split: outcome.split)
qed

definition QueryAccountBurnsRequest_MarshalToSizedBuffer ::
  "QueryAccountBurnsRequest \<Rightarrow> bytes \<Rightarrow> (int \<times> bytes) outcome" where
  "QueryAccountBurnsRequest_MarshalToSizedBuffer m =
     marshal_sized (put_string 0x0A (str_bytes (qab_Address m)))"

definition QueryAccountBurnsRequest_Size :: "QueryAccountBurnsRequest \<Rightarrow> int" where
  "QueryAccountBurnsRequest_Size m =
     size_string (str_bytes (qab_Address m))"

definition QueryAccountBurnsRequest_Marshal :: "QueryAccountBurnsRequest \<Rightarrow> bytes outcome" where
  "QueryAccountBurnsRequest_Marshal = proto_Marshal QueryAccountBurnsRequest_Size QueryAccountBurnsRequest_MarshalToSizedBuffer"

definition QueryAccountBurnsRequest_fields :: "QueryAccountBurnsRequest handler" where
  "QueryAccountBurnsRequest_fields =
     on_field 1 (delimited_field ''Address'' (\<lambda>s m. Ok (m\<lparr>qab_Address := bytes_str s\<rparr>)))
     no_field"

definition QueryAccountBurnsRequest_Unmarshal :: "bytes \<Rightarrow> QueryAccountBurnsRequest \<Rightarrow> QueryAccountBurnsRequest outcome" where
  "QueryAccountBurnsRequest_Unmarshal = proto_Unmarshal ''QueryAccountBurnsRequest'' QueryAccountBurnsRequest_fields"

definition QueryAccountBurnsRequest_enc :: "QueryAccountBurnsRequest \<Rightarrow> bytes" where
  "QueryAccountBurnsRequest_enc m =
     string_bytes_field 0x0A (str_bytes (qab_Address m))"

lemma QueryAccountBurnsRequest_codec:
  shows "message_codec QueryAccountBurnsRequest_MarshalToSizedBuffer QueryAccountBurnsRequest_Size QueryAccountBurnsRequest_Unmarshal
    \<lparr>qab_Address = ''''\<rparr> (\<lambda>m. True) QueryAccountBurnsRequest_enc"
proof
  fix m :: "QueryAccountBurnsRequest" assume good: "True"
  show "sized (QueryAccountBurnsRequest_MarshalToSizedBuffer m) (QueryAccountBurnsRequest_enc m)"
    unfolding QueryAccountBurnsRequest_MarshalToSizedBuffer_def QueryAccountBurnsRequest_enc_def 
    by (intro sized_marshal  writer_intros )
  show "QueryAccountBurnsRequest_Size m = int (length (QueryAccountBurnsRequest_enc m))"
    by (simp add: QueryAccountBurnsRequest_Size_def QueryAccountBurnsRequest_enc_def field_lengths )
  have r1: "reads ''QueryAccountBurnsRequest'' QueryAccountBurnsRequest_fields (string_bytes_field 0x0A (str_bytes (qab_Address m)))
      (\<lambda>m0. Ok (if qab_Address m = [] then m0 else m0\<lparr>qab_Address := qab_Address m\<rparr>))"
    by (rule read_case_string [where fn = 1])
      (simp add: tag_of_def, simp add: QueryAccountBurnsRequest_fields_def on_field_def, simp)
  assume l: "int (length (QueryAccountBurnsRequest_enc m)) < 2 ^ 63"
  show "QueryAccountBurnsRequest_Unmarshal (QueryAccountBurnsRequest_enc m) \<lparr>qab_Address = ''''\<rparr> = Ok m"
    using proto_Unmarshal_reads [OF r1, of "\<lparr>qab_Address = ''''\<rparr>"] l 
    by (cases m) (simp add: QueryAccountBurnsRequest_Unmarshal_def QueryAccountBurnsRequest_enc_def)
next
  fix d :: bytes and m :: "QueryAccountBurnsRequest"
  assume "int (length d) < 2 ^ 63"
  then show "QueryAccountBurnsRequest_Unmarshal d m \<noteq> Panic"
    unfolding QueryAccountBurnsRequest_Unmarshal_def QueryAccountBurnsRequest_fields_def
    by (intro proto_Unmarshal_safe safe_intros) (auto simp: bindO_def  split: outcome.split)
qed

definition QueryAccountBurnsResponse_MarshalToSizedBuffer ::
  "QueryAccountBurnsResponse \<Rightarrow> bytes \<Rightarrow> (int \<times> bytes) outcome" where
  "QueryAccountBurnsResponse_MarshalToSizedBuffer m =
     marshal_sized (put_string 0x0A (str_bytes (qab_Amount m)))"

definition QueryAccountBurnsResponse_Size :: "QueryAccountBurnsResponse \<Rightarrow> int" where
  "QueryAccountBurnsResponse_Size m =
     size_string (str_bytes (qab_Amount m))"

definition QueryAccountBurnsResponse_Marshal :: "QueryAccountBurnsResponse \<Rightarrow> bytes outcome" where
  "QueryAccountBurnsResponse_Marshal = proto_Marshal QueryAccountBurnsResponse_Size QueryAccountBurnsResponse_MarshalToSizedBuffer"

definition QueryAccountBurnsResponse_fields :: "QueryAccountBurnsResponse handler" where
  "QueryAccountBurnsResponse_fields =
     on_field 1 (delimited_field ''Amount'' (\<lambda>s m. Ok (m\<lparr>qab_Amount := bytes_str s\<rparr>)))
     no_field"

definition QueryAccountBurnsResponse_Unmarshal :: "bytes \<Rightarrow> QueryAccountBurnsResponse \<Rightarrow> QueryAccountBurnsResponse outcome" where
  "QueryAccountBurnsResponse_Unmarshal = proto_Unmarshal ''QueryAccountBurnsResponse'' QueryAccountBurnsResponse_fields"

definition QueryAccountBurnsResponse_enc :: "QueryAccountBurnsResponse \<Rightarrow> bytes" where
  "QueryAccountBurnsResponse_enc m =
     string_bytes_field 0x0A (str_bytes (qab_Amount m))"

lemma QueryAccountBurnsResponse_codec:
  shows "message_codec QueryAccountBurnsResponse_MarshalToSizedBuffer QueryAccountBurnsResponse_Size QueryAccountBurnsResponse_Unmarshal
    \<lparr>qab_Amount = ''''\<rparr> (\<lambda>m. True) QueryAccountBurnsResponse_enc"
proof
  fix m :: "QueryAccountBurnsResponse" assume good: "True"
  show "sized (QueryAccountBurnsResponse_MarshalToSizedBuffer m) (QueryAccountBurnsResponse_enc m)"
    unfolding QueryAccountBurnsResponse_MarshalToSizedBuffer_def QueryAccountBurnsResponse_enc_def 
    by (intro sized_marshal  writer_intros )
  show "QueryAccountBurnsResponse_Size m = int (length (QueryAccountBurnsResponse_enc m))"
    by (simp add: QueryAccountBurnsResponse_Size_def QueryAccountBurnsResponse_enc_def field_lengths )
  have r1: "reads ''QueryAccountBurnsResponse'' QueryAccountBurnsResponse_fields (string_bytes_field 0x0A (str_bytes (qab_Amount m)))
      (\<lambda>m0. Ok (if qab_Amount m = [] then m0 else m0\<lparr>qab_Amount := qab_Amount m\<rparr>))"
    by (rule read_case_string [where fn = 1])
      (simp add: tag_of_def, simp add: QueryAccountBurnsResponse_fields_def on_field_def, simp)
  assume l: "int (length (QueryAccountBurnsResponse_enc m)) < 2 ^ 63"
  show "QueryAccountBurnsResponse_Unmarshal (QueryAccountBurnsResponse_enc m) \<lparr>qab_Amount = ''''\<rparr> = Ok m"
    using proto_Unmarshal_reads [OF r1, of "\<lparr>qab_Amount = ''''\<rparr>"] l 
    by (cases m) (simp add: QueryAccountBurnsResponse_Unmarshal_def QueryAccountBurnsResponse_enc_def)
next
  fix d :: bytes and m :: "QueryAccountBurnsResponse"
  assume "int (length d) < 2 ^ 63"
  then show "QueryAccountBurnsResponse_Unmarshal d m \<noteq> Panic"
    unfolding QueryAccountBurnsResponse_Unmarshal_def QueryAccountBurnsResponse_fields_def
    by (intro proto_Unmarshal_safe safe_intros) (auto simp: bindO_def  split: outcome.split)
qed

section \<open>The messages with no foreign field provide the interface outright\<close>

interpretation BurnStatsResponse: message_codec BurnStatsResponse_MarshalToSizedBuffer BurnStatsResponse_Size BurnStatsResponse_Unmarshal
    "\<lparr>TotalBurns = 0, TotalBurned = ''''\<rparr>" "\<lambda>m. True" BurnStatsResponse_enc
  by (rule BurnStatsResponse_codec)

interpretation QueryAccountBurnsRequest: message_codec QueryAccountBurnsRequest_MarshalToSizedBuffer QueryAccountBurnsRequest_Size QueryAccountBurnsRequest_Unmarshal
    "\<lparr>qab_Address = ''''\<rparr>" "\<lambda>m. True" QueryAccountBurnsRequest_enc
  by (rule QueryAccountBurnsRequest_codec)

interpretation QueryAccountBurnsResponse: message_codec QueryAccountBurnsResponse_MarshalToSizedBuffer QueryAccountBurnsResponse_Size QueryAccountBurnsResponse_Unmarshal
    "\<lparr>qab_Amount = ''''\<rparr>" "\<lambda>m. True" QueryAccountBurnsResponse_enc
  by (rule QueryAccountBurnsResponse_codec)

interpretation burn_MsgUpdateParamsResponse: message_codec burn_MsgUpdateParamsResponse_MarshalToSizedBuffer burn_MsgUpdateParamsResponse_Size burn_MsgUpdateParamsResponse_Unmarshal "()" "\<lambda>_. True" "\<lambda>_. []"
  by (simp add: burn_MsgUpdateParamsResponse_MarshalToSizedBuffer_def [abs_def] burn_MsgUpdateParamsResponse_Size_def [abs_def] burn_MsgUpdateParamsResponse_Unmarshal_def empty_codec)

interpretation MsgBurnResponse: message_codec MsgBurnResponse_MarshalToSizedBuffer MsgBurnResponse_Size MsgBurnResponse_Unmarshal "()" "\<lambda>_. True" "\<lambda>_. []"
  by (simp add: MsgBurnResponse_MarshalToSizedBuffer_def [abs_def] MsgBurnResponse_Size_def [abs_def] MsgBurnResponse_Unmarshal_def empty_codec)

interpretation burn_QueryParamsRequest: message_codec burn_QueryParamsRequest_MarshalToSizedBuffer burn_QueryParamsRequest_Size burn_QueryParamsRequest_Unmarshal "()" "\<lambda>_. True" "\<lambda>_. []"
  by (simp add: burn_QueryParamsRequest_MarshalToSizedBuffer_def [abs_def] burn_QueryParamsRequest_Size_def [abs_def] burn_QueryParamsRequest_Unmarshal_def empty_codec)

interpretation QueryBurnStatsRequest: message_codec QueryBurnStatsRequest_MarshalToSizedBuffer QueryBurnStatsRequest_Size QueryBurnStatsRequest_Unmarshal "()" "\<lambda>_. True" "\<lambda>_. []"
  by (simp add: QueryBurnStatsRequest_MarshalToSizedBuffer_def [abs_def] QueryBurnStatsRequest_Size_def [abs_def] QueryBurnStatsRequest_Unmarshal_def empty_codec)

end
