(* ===== verification/Wire_Validator.thy ===== *)
theory Wire_Validator
  imports Wire_Laws Validator_Keeper
begin

text \<open>
  The codecs of x/validator (\<^verbatim>\<open>params.pb.go\<close>, \<^verbatim>\<open>genesis.pb.go\<close>, \<^verbatim>\<open>tx.pb.go\<close>,
  \<^verbatim>\<open>query.pb.go\<close>), built from the same parts as those of x/burn. \<open>N\<close> is the codec of
  \<open>sdk.Coin\<close>, \<open>V\<close> that of x/staking's \<open>MsgCreateValidator\<close>.
\<close>

section \<open>params.pb.go, genesis.pb.go\<close>

definition validator_Params_MarshalToSizedBuffer ::
  "coin foreign_message \<Rightarrow> validator_params \<Rightarrow> bytes \<Rightarrow> (int \<times> bytes) outcome" where
  "validator_Params_MarshalToSizedBuffer N m =
     marshal_sized (seqW (put_message 0x12 (MMarshal N (ValidatorMinSelfDelegation m)))
       (put_message 0x0A (MMarshal N (ValidatorRegistrationBurn m))))"

definition validator_Params_Size :: "coin foreign_message \<Rightarrow> validator_params \<Rightarrow> int" where
  "validator_Params_Size N m =
     size_bytes (MSize N (ValidatorRegistrationBurn m)) +
     size_bytes (MSize N (ValidatorMinSelfDelegation m))"

definition validator_Params_Marshal :: "coin foreign_message \<Rightarrow> validator_params \<Rightarrow> bytes outcome" where
  "validator_Params_Marshal N = proto_Marshal (validator_Params_Size N) (validator_Params_MarshalToSizedBuffer N)"

definition validator_Params_fields :: "coin foreign_message \<Rightarrow> validator_params handler" where
  "validator_Params_fields N =
     on_field 1 (delimited_field ''ValidatorRegistrationBurn'' (\<lambda>s m.
       bindO (MUnmarshal N s (ValidatorRegistrationBurn m)) (\<lambda>v. Ok (m\<lparr>ValidatorRegistrationBurn := v\<rparr>))))
     (on_field 2 (delimited_field ''ValidatorMinSelfDelegation'' (\<lambda>s m.
       bindO (MUnmarshal N s (ValidatorMinSelfDelegation m)) (\<lambda>v. Ok (m\<lparr>ValidatorMinSelfDelegation := v\<rparr>))))
     no_field)"

definition validator_Params_Unmarshal :: "coin foreign_message \<Rightarrow> bytes \<Rightarrow> validator_params \<Rightarrow> validator_params outcome" where
  "validator_Params_Unmarshal N = proto_Unmarshal ''Params'' (validator_Params_fields N)"

definition validator_Params_enc :: "(coin \<Rightarrow> bytes) \<Rightarrow> validator_params \<Rightarrow> bytes" where
  "validator_Params_enc encN m =
     delimited 0x0A (encN (ValidatorRegistrationBurn m)) @
     delimited 0x12 (encN (ValidatorMinSelfDelegation m))"

lemma validator_Params_codec:
  assumes N: "message_codec (MMarshal N) (MSize N) (MUnmarshal N) emptyN goodN encN"
  shows "message_codec (validator_Params_MarshalToSizedBuffer N) (validator_Params_Size N) (validator_Params_Unmarshal N)
    \<lparr>ValidatorRegistrationBurn = emptyN, ValidatorMinSelfDelegation = emptyN\<rparr> (\<lambda>m. goodN (ValidatorRegistrationBurn m) \<and> goodN (ValidatorMinSelfDelegation m)) (validator_Params_enc encN)"
proof
  fix m :: "validator_params" assume good: "goodN (ValidatorRegistrationBurn m) \<and> goodN (ValidatorMinSelfDelegation m)"
  have g1: "(goodN) (ValidatorRegistrationBurn m)" using good by simp
  note c1 = message_codec.marshal_enc [OF N g1] message_codec.size_enc [OF N g1]
  have g2: "(goodN) (ValidatorMinSelfDelegation m)" using good by simp
  note c2 = message_codec.marshal_enc [OF N g2] message_codec.size_enc [OF N g2]
  show "sized (validator_Params_MarshalToSizedBuffer N m) (validator_Params_enc encN m)"
    unfolding validator_Params_MarshalToSizedBuffer_def validator_Params_enc_def 
    by (intro sized_marshal c1(1) c2(1) writer_intros c1(1) c2(1))
  show "validator_Params_Size N m = int (length (validator_Params_enc encN m))"
    by (simp add: validator_Params_Size_def validator_Params_enc_def field_lengths c1(2) c2(2))
  have r1: "reads ''Params'' (validator_Params_fields N) (delimited 0x0A (encN (ValidatorRegistrationBurn m)))
      (\<lambda>m0. bindO (MUnmarshal N (encN (ValidatorRegistrationBurn m)) (ValidatorRegistrationBurn m0)) (\<lambda>v. Ok (m0\<lparr>ValidatorRegistrationBurn := v\<rparr>)))"
    by (rule read_case_delimited [where fn = 1])
      (simp add: tag_of_def, simp add: validator_Params_fields_def on_field_def, simp)
  have r2: "reads ''Params'' (validator_Params_fields N) (delimited 0x12 (encN (ValidatorMinSelfDelegation m)))
      (\<lambda>m0. bindO (MUnmarshal N (encN (ValidatorMinSelfDelegation m)) (ValidatorMinSelfDelegation m0)) (\<lambda>v. Ok (m0\<lparr>ValidatorMinSelfDelegation := v\<rparr>)))"
    by (rule read_case_delimited [where fn = 2])
      (simp add: tag_of_def, simp add: validator_Params_fields_def on_field_def, simp)
  assume l: "int (length (validator_Params_enc encN m)) < 2 ^ 63"
  have n1: "MUnmarshal N (encN (ValidatorRegistrationBurn m)) (emptyN) = Ok (ValidatorRegistrationBurn m)"
    using l length_delimited_ge [of "encN (ValidatorRegistrationBurn m)" "0x0A"]
    by (intro message_codec.unmarshal_enc [OF N g1]) (simp add: validator_Params_enc_def)
  have n2: "MUnmarshal N (encN (ValidatorMinSelfDelegation m)) (emptyN) = Ok (ValidatorMinSelfDelegation m)"
    using l length_delimited_ge [of "encN (ValidatorMinSelfDelegation m)" "0x12"]
    by (intro message_codec.unmarshal_enc [OF N g2]) (simp add: validator_Params_enc_def)
  show "validator_Params_Unmarshal N (validator_Params_enc encN m) \<lparr>ValidatorRegistrationBurn = emptyN, ValidatorMinSelfDelegation = emptyN\<rparr> = Ok m"
    using proto_Unmarshal_reads [OF reads_append [OF r1 r2], of "\<lparr>ValidatorRegistrationBurn = emptyN, ValidatorMinSelfDelegation = emptyN\<rparr>"] l n1 n2
    by (cases m) (simp add: validator_Params_Unmarshal_def validator_Params_enc_def)
next
  fix d :: bytes and m :: "validator_params"
  assume "int (length d) < 2 ^ 63"
  then show "validator_Params_Unmarshal N d m \<noteq> Panic"
    unfolding validator_Params_Unmarshal_def validator_Params_fields_def
    by (intro proto_Unmarshal_safe safe_intros) (auto simp: bindO_def message_codec.unmarshal_safe [OF N] message_codec.unmarshal_safe [OF N] split: outcome.split)
qed

definition validator_GenesisState_MarshalToSizedBuffer ::
  "coin foreign_message \<Rightarrow> validator_GenesisState \<Rightarrow> bytes \<Rightarrow> (int \<times> bytes) outcome" where
  "validator_GenesisState_MarshalToSizedBuffer N m =
     marshal_sized (put_message 0x0A (validator_Params_MarshalToSizedBuffer N (vgen_Params m)))"

definition validator_GenesisState_Size :: "coin foreign_message \<Rightarrow> validator_GenesisState \<Rightarrow> int" where
  "validator_GenesisState_Size N m =
     size_bytes (validator_Params_Size N (vgen_Params m))"

definition validator_GenesisState_Marshal :: "coin foreign_message \<Rightarrow> validator_GenesisState \<Rightarrow> bytes outcome" where
  "validator_GenesisState_Marshal N = proto_Marshal (validator_GenesisState_Size N) (validator_GenesisState_MarshalToSizedBuffer N)"

definition validator_GenesisState_fields :: "coin foreign_message \<Rightarrow> validator_GenesisState handler" where
  "validator_GenesisState_fields N =
     on_field 1 (delimited_field ''Params'' (\<lambda>s m.
       bindO (validator_Params_Unmarshal N s (vgen_Params m)) (\<lambda>v. Ok (m\<lparr>vgen_Params := v\<rparr>))))
     no_field"

definition validator_GenesisState_Unmarshal :: "coin foreign_message \<Rightarrow> bytes \<Rightarrow> validator_GenesisState \<Rightarrow> validator_GenesisState outcome" where
  "validator_GenesisState_Unmarshal N = proto_Unmarshal ''GenesisState'' (validator_GenesisState_fields N)"

definition validator_GenesisState_enc :: "(coin \<Rightarrow> bytes) \<Rightarrow> validator_GenesisState \<Rightarrow> bytes" where
  "validator_GenesisState_enc encN m =
     delimited 0x0A (validator_Params_enc encN (vgen_Params m))"

lemma validator_GenesisState_codec:
  assumes N: "message_codec (MMarshal N) (MSize N) (MUnmarshal N) emptyN goodN encN"
  shows "message_codec (validator_GenesisState_MarshalToSizedBuffer N) (validator_GenesisState_Size N) (validator_GenesisState_Unmarshal N)
    \<lparr>vgen_Params = \<lparr>ValidatorRegistrationBurn = emptyN, ValidatorMinSelfDelegation = emptyN\<rparr>\<rparr> (\<lambda>m. goodN (ValidatorRegistrationBurn (vgen_Params m)) \<and> goodN (ValidatorMinSelfDelegation (vgen_Params m))) (validator_GenesisState_enc encN)"
proof
  fix m :: "validator_GenesisState" assume good: "goodN (ValidatorRegistrationBurn (vgen_Params m)) \<and> goodN (ValidatorMinSelfDelegation (vgen_Params m))"
  have g1: "(\<lambda>p. goodN (ValidatorRegistrationBurn p) \<and> goodN (ValidatorMinSelfDelegation p)) (vgen_Params m)" using good by simp
  note c1 = message_codec.marshal_enc [OF validator_Params_codec [OF N] g1] message_codec.size_enc [OF validator_Params_codec [OF N] g1]
  show "sized (validator_GenesisState_MarshalToSizedBuffer N m) (validator_GenesisState_enc encN m)"
    unfolding validator_GenesisState_MarshalToSizedBuffer_def validator_GenesisState_enc_def 
    by (intro sized_marshal c1(1) writer_intros c1(1))
  show "validator_GenesisState_Size N m = int (length (validator_GenesisState_enc encN m))"
    by (simp add: validator_GenesisState_Size_def validator_GenesisState_enc_def field_lengths c1(2))
  have r1: "reads ''GenesisState'' (validator_GenesisState_fields N) (delimited 0x0A (validator_Params_enc encN (vgen_Params m)))
      (\<lambda>m0. bindO (validator_Params_Unmarshal N (validator_Params_enc encN (vgen_Params m)) (vgen_Params m0)) (\<lambda>v. Ok (m0\<lparr>vgen_Params := v\<rparr>)))"
    by (rule read_case_delimited [where fn = 1])
      (simp add: tag_of_def, simp add: validator_GenesisState_fields_def on_field_def, simp)
  assume l: "int (length (validator_GenesisState_enc encN m)) < 2 ^ 63"
  have n1: "validator_Params_Unmarshal N (validator_Params_enc encN (vgen_Params m)) (\<lparr>ValidatorRegistrationBurn = emptyN, ValidatorMinSelfDelegation = emptyN\<rparr>) = Ok (vgen_Params m)"
    using l length_delimited_ge [of "validator_Params_enc encN (vgen_Params m)" "0x0A"]
    by (intro message_codec.unmarshal_enc [OF validator_Params_codec [OF N] g1]) (simp add: validator_GenesisState_enc_def)
  show "validator_GenesisState_Unmarshal N (validator_GenesisState_enc encN m) \<lparr>vgen_Params = \<lparr>ValidatorRegistrationBurn = emptyN, ValidatorMinSelfDelegation = emptyN\<rparr>\<rparr> = Ok m"
    using proto_Unmarshal_reads [OF r1, of "\<lparr>vgen_Params = \<lparr>ValidatorRegistrationBurn = emptyN, ValidatorMinSelfDelegation = emptyN\<rparr>\<rparr>"] l n1
    by (cases m) (simp add: validator_GenesisState_Unmarshal_def validator_GenesisState_enc_def)
next
  fix d :: bytes and m :: "validator_GenesisState"
  assume "int (length d) < 2 ^ 63"
  then show "validator_GenesisState_Unmarshal N d m \<noteq> Panic"
    unfolding validator_GenesisState_Unmarshal_def validator_GenesisState_fields_def
    by (intro proto_Unmarshal_safe safe_intros) (auto simp: bindO_def message_codec.unmarshal_safe [OF validator_Params_codec [OF N]] split: outcome.split)
qed

section \<open>tx.pb.go\<close>

definition MsgRegisterValidator_MarshalToSizedBuffer ::
  "'c MsgCreateValidator_scheme foreign_message \<Rightarrow> coin foreign_message \<Rightarrow> 'c MsgRegisterValidator \<Rightarrow> bytes \<Rightarrow> (int \<times> bytes) outcome" where
  "MsgRegisterValidator_MarshalToSizedBuffer V N m =
     marshal_sized (seqW (seqW (put_message 0x1A (MMarshal N (Burn m)))
       (put_message 0x12 (MMarshal V (CreateValidator m))))
       (put_string 0x0A (str_bytes (Sender m))))"

definition MsgRegisterValidator_Size :: "'c MsgCreateValidator_scheme foreign_message \<Rightarrow> coin foreign_message \<Rightarrow> 'c MsgRegisterValidator \<Rightarrow> int" where
  "MsgRegisterValidator_Size V N m =
     size_string (str_bytes (Sender m)) +
     size_bytes (MSize V (CreateValidator m)) +
     size_bytes (MSize N (Burn m))"

definition MsgRegisterValidator_Marshal :: "'c MsgCreateValidator_scheme foreign_message \<Rightarrow> coin foreign_message \<Rightarrow> 'c MsgRegisterValidator \<Rightarrow> bytes outcome" where
  "MsgRegisterValidator_Marshal V N = proto_Marshal (MsgRegisterValidator_Size V N) (MsgRegisterValidator_MarshalToSizedBuffer V N)"

definition MsgRegisterValidator_fields :: "'c MsgCreateValidator_scheme foreign_message \<Rightarrow> coin foreign_message \<Rightarrow> 'c MsgRegisterValidator handler" where
  "MsgRegisterValidator_fields V N =
     on_field 1 (delimited_field ''Sender'' (\<lambda>s m. Ok (m\<lparr>Sender := bytes_str s\<rparr>)))
     (on_field 2 (delimited_field ''CreateValidator'' (\<lambda>s m.
       bindO (MUnmarshal V s (CreateValidator m)) (\<lambda>v. Ok (m\<lparr>CreateValidator := v\<rparr>))))
     (on_field 3 (delimited_field ''Burn'' (\<lambda>s m.
       bindO (MUnmarshal N s (Burn m)) (\<lambda>v. Ok (m\<lparr>Burn := v\<rparr>))))
     no_field))"

definition MsgRegisterValidator_Unmarshal :: "'c MsgCreateValidator_scheme foreign_message \<Rightarrow> coin foreign_message \<Rightarrow> bytes \<Rightarrow> 'c MsgRegisterValidator \<Rightarrow> 'c MsgRegisterValidator outcome" where
  "MsgRegisterValidator_Unmarshal V N = proto_Unmarshal ''MsgRegisterValidator'' (MsgRegisterValidator_fields V N)"

definition MsgRegisterValidator_enc :: "('c MsgCreateValidator_scheme \<Rightarrow> bytes) \<Rightarrow> (coin \<Rightarrow> bytes) \<Rightarrow> 'c MsgRegisterValidator \<Rightarrow> bytes" where
  "MsgRegisterValidator_enc encV encN m =
     string_bytes_field 0x0A (str_bytes (Sender m)) @
     delimited 0x12 (encV (CreateValidator m)) @
     delimited 0x1A (encN (Burn m))"

lemma MsgRegisterValidator_codec:
  fixes V :: "'c MsgCreateValidator_scheme foreign_message"
  assumes V: "message_codec (MMarshal V) (MSize V) (MUnmarshal V) emptyV goodV encV"
    and N: "message_codec (MMarshal N) (MSize N) (MUnmarshal N) emptyN goodN encN"
  shows "message_codec (MsgRegisterValidator_MarshalToSizedBuffer V N) (MsgRegisterValidator_Size V N) (MsgRegisterValidator_Unmarshal V N)
    \<lparr>Sender = '''', CreateValidator = emptyV, Burn = emptyN\<rparr> (\<lambda>m. goodV (CreateValidator m) \<and> goodN (Burn m)) (MsgRegisterValidator_enc encV encN)"
proof
  fix m :: "'c MsgRegisterValidator" assume good: "goodV (CreateValidator m) \<and> goodN (Burn m)"
  have g1: "(goodV) (CreateValidator m)" using good by simp
  note c1 = message_codec.marshal_enc [OF V g1] message_codec.size_enc [OF V g1]
  have g2: "(goodN) (Burn m)" using good by simp
  note c2 = message_codec.marshal_enc [OF N g2] message_codec.size_enc [OF N g2]
  show "sized (MsgRegisterValidator_MarshalToSizedBuffer V N m) (MsgRegisterValidator_enc encV encN m)"
    unfolding MsgRegisterValidator_MarshalToSizedBuffer_def MsgRegisterValidator_enc_def 
    by (intro sized_marshal c1(1) c2(1) writer_intros c1(1) c2(1))
  show "MsgRegisterValidator_Size V N m = int (length (MsgRegisterValidator_enc encV encN m))"
    by (simp add: MsgRegisterValidator_Size_def MsgRegisterValidator_enc_def field_lengths c1(2) c2(2))
  have r1: "reads ''MsgRegisterValidator'' (MsgRegisterValidator_fields V N) (string_bytes_field 0x0A (str_bytes (Sender m)))
      (\<lambda>m0. Ok (if Sender m = [] then m0 else m0\<lparr>Sender := Sender m\<rparr>))"
    by (rule read_case_string [where fn = 1])
      (simp add: tag_of_def, simp add: MsgRegisterValidator_fields_def on_field_def, simp)
  have r2: "reads ''MsgRegisterValidator'' (MsgRegisterValidator_fields V N) (delimited 0x12 (encV (CreateValidator m)))
      (\<lambda>m0. bindO (MUnmarshal V (encV (CreateValidator m)) (CreateValidator m0)) (\<lambda>v. Ok (m0\<lparr>CreateValidator := v\<rparr>)))"
    by (rule read_case_delimited [where fn = 2])
      (simp add: tag_of_def, simp add: MsgRegisterValidator_fields_def on_field_def, simp)
  have r3: "reads ''MsgRegisterValidator'' (MsgRegisterValidator_fields V N) (delimited 0x1A (encN (Burn m)))
      (\<lambda>m0. bindO (MUnmarshal N (encN (Burn m)) (Burn m0)) (\<lambda>v. Ok (m0\<lparr>Burn := v\<rparr>)))"
    by (rule read_case_delimited [where fn = 3])
      (simp add: tag_of_def, simp add: MsgRegisterValidator_fields_def on_field_def, simp)
  assume l: "int (length (MsgRegisterValidator_enc encV encN m)) < 2 ^ 63"
  have n2: "MUnmarshal V (encV (CreateValidator m)) (emptyV) = Ok (CreateValidator m)"
    using l length_delimited_ge [of "encV (CreateValidator m)" "0x12"]
    by (intro message_codec.unmarshal_enc [OF V g1]) (simp add: MsgRegisterValidator_enc_def)
  have n3: "MUnmarshal N (encN (Burn m)) (emptyN) = Ok (Burn m)"
    using l length_delimited_ge [of "encN (Burn m)" "0x1A"]
    by (intro message_codec.unmarshal_enc [OF N g2]) (simp add: MsgRegisterValidator_enc_def)
  show "MsgRegisterValidator_Unmarshal V N (MsgRegisterValidator_enc encV encN m) \<lparr>Sender = '''', CreateValidator = emptyV, Burn = emptyN\<rparr> = Ok m"
    using proto_Unmarshal_reads [OF reads_append [OF r1 reads_append [OF r2 r3]], of "\<lparr>Sender = '''', CreateValidator = emptyV, Burn = emptyN\<rparr>"] l n2 n3
    by (cases m) (simp add: MsgRegisterValidator_Unmarshal_def MsgRegisterValidator_enc_def)
next
  fix d :: bytes and m :: "'c MsgRegisterValidator"
  assume "int (length d) < 2 ^ 63"
  then show "MsgRegisterValidator_Unmarshal V N d m \<noteq> Panic"
    unfolding MsgRegisterValidator_Unmarshal_def MsgRegisterValidator_fields_def
    by (intro proto_Unmarshal_safe safe_intros) (auto simp: bindO_def message_codec.unmarshal_safe [OF V] message_codec.unmarshal_safe [OF N] split: outcome.split)
qed

definition validator_MsgUpdateParams_MarshalToSizedBuffer ::
  "coin foreign_message \<Rightarrow> validator_MsgUpdateParams \<Rightarrow> bytes \<Rightarrow> (int \<times> bytes) outcome" where
  "validator_MsgUpdateParams_MarshalToSizedBuffer N m =
     marshal_sized (seqW (put_message 0x12 (validator_Params_MarshalToSizedBuffer N (vup_Params m)))
       (put_string 0x0A (str_bytes (vup_Authority m))))"

definition validator_MsgUpdateParams_Size :: "coin foreign_message \<Rightarrow> validator_MsgUpdateParams \<Rightarrow> int" where
  "validator_MsgUpdateParams_Size N m =
     size_string (str_bytes (vup_Authority m)) +
     size_bytes (validator_Params_Size N (vup_Params m))"

definition validator_MsgUpdateParams_Marshal :: "coin foreign_message \<Rightarrow> validator_MsgUpdateParams \<Rightarrow> bytes outcome" where
  "validator_MsgUpdateParams_Marshal N = proto_Marshal (validator_MsgUpdateParams_Size N) (validator_MsgUpdateParams_MarshalToSizedBuffer N)"

definition validator_MsgUpdateParams_fields :: "coin foreign_message \<Rightarrow> validator_MsgUpdateParams handler" where
  "validator_MsgUpdateParams_fields N =
     on_field 1 (delimited_field ''Authority'' (\<lambda>s m. Ok (m\<lparr>vup_Authority := bytes_str s\<rparr>)))
     (on_field 2 (delimited_field ''Params'' (\<lambda>s m.
       bindO (validator_Params_Unmarshal N s (vup_Params m)) (\<lambda>v. Ok (m\<lparr>vup_Params := v\<rparr>))))
     no_field)"

definition validator_MsgUpdateParams_Unmarshal :: "coin foreign_message \<Rightarrow> bytes \<Rightarrow> validator_MsgUpdateParams \<Rightarrow> validator_MsgUpdateParams outcome" where
  "validator_MsgUpdateParams_Unmarshal N = proto_Unmarshal ''MsgUpdateParams'' (validator_MsgUpdateParams_fields N)"

definition validator_MsgUpdateParams_enc :: "(coin \<Rightarrow> bytes) \<Rightarrow> validator_MsgUpdateParams \<Rightarrow> bytes" where
  "validator_MsgUpdateParams_enc encN m =
     string_bytes_field 0x0A (str_bytes (vup_Authority m)) @
     delimited 0x12 (validator_Params_enc encN (vup_Params m))"

lemma validator_MsgUpdateParams_codec:
  assumes N: "message_codec (MMarshal N) (MSize N) (MUnmarshal N) emptyN goodN encN"
  shows "message_codec (validator_MsgUpdateParams_MarshalToSizedBuffer N) (validator_MsgUpdateParams_Size N) (validator_MsgUpdateParams_Unmarshal N)
    \<lparr>vup_Authority = '''', vup_Params = \<lparr>ValidatorRegistrationBurn = emptyN, ValidatorMinSelfDelegation = emptyN\<rparr>\<rparr> (\<lambda>m. goodN (ValidatorRegistrationBurn (vup_Params m)) \<and> goodN (ValidatorMinSelfDelegation (vup_Params m))) (validator_MsgUpdateParams_enc encN)"
proof
  fix m :: "validator_MsgUpdateParams" assume good: "goodN (ValidatorRegistrationBurn (vup_Params m)) \<and> goodN (ValidatorMinSelfDelegation (vup_Params m))"
  have g1: "(\<lambda>p. goodN (ValidatorRegistrationBurn p) \<and> goodN (ValidatorMinSelfDelegation p)) (vup_Params m)" using good by simp
  note c1 = message_codec.marshal_enc [OF validator_Params_codec [OF N] g1] message_codec.size_enc [OF validator_Params_codec [OF N] g1]
  show "sized (validator_MsgUpdateParams_MarshalToSizedBuffer N m) (validator_MsgUpdateParams_enc encN m)"
    unfolding validator_MsgUpdateParams_MarshalToSizedBuffer_def validator_MsgUpdateParams_enc_def 
    by (intro sized_marshal c1(1) writer_intros c1(1))
  show "validator_MsgUpdateParams_Size N m = int (length (validator_MsgUpdateParams_enc encN m))"
    by (simp add: validator_MsgUpdateParams_Size_def validator_MsgUpdateParams_enc_def field_lengths c1(2))
  have r1: "reads ''MsgUpdateParams'' (validator_MsgUpdateParams_fields N) (string_bytes_field 0x0A (str_bytes (vup_Authority m)))
      (\<lambda>m0. Ok (if vup_Authority m = [] then m0 else m0\<lparr>vup_Authority := vup_Authority m\<rparr>))"
    by (rule read_case_string [where fn = 1])
      (simp add: tag_of_def, simp add: validator_MsgUpdateParams_fields_def on_field_def, simp)
  have r2: "reads ''MsgUpdateParams'' (validator_MsgUpdateParams_fields N) (delimited 0x12 (validator_Params_enc encN (vup_Params m)))
      (\<lambda>m0. bindO (validator_Params_Unmarshal N (validator_Params_enc encN (vup_Params m)) (vup_Params m0)) (\<lambda>v. Ok (m0\<lparr>vup_Params := v\<rparr>)))"
    by (rule read_case_delimited [where fn = 2])
      (simp add: tag_of_def, simp add: validator_MsgUpdateParams_fields_def on_field_def, simp)
  assume l: "int (length (validator_MsgUpdateParams_enc encN m)) < 2 ^ 63"
  have n2: "validator_Params_Unmarshal N (validator_Params_enc encN (vup_Params m)) (\<lparr>ValidatorRegistrationBurn = emptyN, ValidatorMinSelfDelegation = emptyN\<rparr>) = Ok (vup_Params m)"
    using l length_delimited_ge [of "validator_Params_enc encN (vup_Params m)" "0x12"]
    by (intro message_codec.unmarshal_enc [OF validator_Params_codec [OF N] g1]) (simp add: validator_MsgUpdateParams_enc_def)
  show "validator_MsgUpdateParams_Unmarshal N (validator_MsgUpdateParams_enc encN m) \<lparr>vup_Authority = '''', vup_Params = \<lparr>ValidatorRegistrationBurn = emptyN, ValidatorMinSelfDelegation = emptyN\<rparr>\<rparr> = Ok m"
    using proto_Unmarshal_reads [OF reads_append [OF r1 r2], of "\<lparr>vup_Authority = '''', vup_Params = \<lparr>ValidatorRegistrationBurn = emptyN, ValidatorMinSelfDelegation = emptyN\<rparr>\<rparr>"] l n2
    by (cases m) (simp add: validator_MsgUpdateParams_Unmarshal_def validator_MsgUpdateParams_enc_def)
next
  fix d :: bytes and m :: "validator_MsgUpdateParams"
  assume "int (length d) < 2 ^ 63"
  then show "validator_MsgUpdateParams_Unmarshal N d m \<noteq> Panic"
    unfolding validator_MsgUpdateParams_Unmarshal_def validator_MsgUpdateParams_fields_def
    by (intro proto_Unmarshal_safe safe_intros) (auto simp: bindO_def message_codec.unmarshal_safe [OF validator_Params_codec [OF N]] split: outcome.split)
qed

definition MsgRegisterValidatorResponse_MarshalToSizedBuffer :: "unit \<Rightarrow> bytes \<Rightarrow> (int \<times> bytes) outcome" where
  "MsgRegisterValidatorResponse_MarshalToSizedBuffer m = marshal_sized skipW"

definition MsgRegisterValidatorResponse_Size :: "unit \<Rightarrow> int" where
  "MsgRegisterValidatorResponse_Size m = 0"

definition MsgRegisterValidatorResponse_Unmarshal :: "bytes \<Rightarrow> unit \<Rightarrow> unit outcome" where
  "MsgRegisterValidatorResponse_Unmarshal = proto_Unmarshal ''MsgRegisterValidatorResponse'' no_field"

definition validator_MsgUpdateParamsResponse_MarshalToSizedBuffer :: "unit \<Rightarrow> bytes \<Rightarrow> (int \<times> bytes) outcome" where
  "validator_MsgUpdateParamsResponse_MarshalToSizedBuffer m = marshal_sized skipW"

definition validator_MsgUpdateParamsResponse_Size :: "unit \<Rightarrow> int" where
  "validator_MsgUpdateParamsResponse_Size m = 0"

definition validator_MsgUpdateParamsResponse_Unmarshal :: "bytes \<Rightarrow> unit \<Rightarrow> unit outcome" where
  "validator_MsgUpdateParamsResponse_Unmarshal = proto_Unmarshal ''MsgUpdateParamsResponse'' no_field"

section \<open>query.pb.go\<close>

record validator_QueryParamsResponse =
  vqpr_Params :: validator_params

definition validator_QueryParamsRequest_MarshalToSizedBuffer :: "unit \<Rightarrow> bytes \<Rightarrow> (int \<times> bytes) outcome" where
  "validator_QueryParamsRequest_MarshalToSizedBuffer m = marshal_sized skipW"

definition validator_QueryParamsRequest_Size :: "unit \<Rightarrow> int" where
  "validator_QueryParamsRequest_Size m = 0"

definition validator_QueryParamsRequest_Unmarshal :: "bytes \<Rightarrow> unit \<Rightarrow> unit outcome" where
  "validator_QueryParamsRequest_Unmarshal = proto_Unmarshal ''QueryParamsRequest'' no_field"

definition validator_QueryParamsResponse_MarshalToSizedBuffer ::
  "coin foreign_message \<Rightarrow> validator_QueryParamsResponse \<Rightarrow> bytes \<Rightarrow> (int \<times> bytes) outcome" where
  "validator_QueryParamsResponse_MarshalToSizedBuffer N m =
     marshal_sized (put_message 0x0A (validator_Params_MarshalToSizedBuffer N (vqpr_Params m)))"

definition validator_QueryParamsResponse_Size :: "coin foreign_message \<Rightarrow> validator_QueryParamsResponse \<Rightarrow> int" where
  "validator_QueryParamsResponse_Size N m =
     size_bytes (validator_Params_Size N (vqpr_Params m))"

definition validator_QueryParamsResponse_Marshal :: "coin foreign_message \<Rightarrow> validator_QueryParamsResponse \<Rightarrow> bytes outcome" where
  "validator_QueryParamsResponse_Marshal N = proto_Marshal (validator_QueryParamsResponse_Size N) (validator_QueryParamsResponse_MarshalToSizedBuffer N)"

definition validator_QueryParamsResponse_fields :: "coin foreign_message \<Rightarrow> validator_QueryParamsResponse handler" where
  "validator_QueryParamsResponse_fields N =
     on_field 1 (delimited_field ''Params'' (\<lambda>s m.
       bindO (validator_Params_Unmarshal N s (vqpr_Params m)) (\<lambda>v. Ok (m\<lparr>vqpr_Params := v\<rparr>))))
     no_field"

definition validator_QueryParamsResponse_Unmarshal :: "coin foreign_message \<Rightarrow> bytes \<Rightarrow> validator_QueryParamsResponse \<Rightarrow> validator_QueryParamsResponse outcome" where
  "validator_QueryParamsResponse_Unmarshal N = proto_Unmarshal ''QueryParamsResponse'' (validator_QueryParamsResponse_fields N)"

definition validator_QueryParamsResponse_enc :: "(coin \<Rightarrow> bytes) \<Rightarrow> validator_QueryParamsResponse \<Rightarrow> bytes" where
  "validator_QueryParamsResponse_enc encN m =
     delimited 0x0A (validator_Params_enc encN (vqpr_Params m))"

lemma validator_QueryParamsResponse_codec:
  assumes N: "message_codec (MMarshal N) (MSize N) (MUnmarshal N) emptyN goodN encN"
  shows "message_codec (validator_QueryParamsResponse_MarshalToSizedBuffer N) (validator_QueryParamsResponse_Size N) (validator_QueryParamsResponse_Unmarshal N)
    \<lparr>vqpr_Params = \<lparr>ValidatorRegistrationBurn = emptyN, ValidatorMinSelfDelegation = emptyN\<rparr>\<rparr> (\<lambda>m. goodN (ValidatorRegistrationBurn (vqpr_Params m)) \<and> goodN (ValidatorMinSelfDelegation (vqpr_Params m))) (validator_QueryParamsResponse_enc encN)"
proof
  fix m :: "validator_QueryParamsResponse" assume good: "goodN (ValidatorRegistrationBurn (vqpr_Params m)) \<and> goodN (ValidatorMinSelfDelegation (vqpr_Params m))"
  have g1: "(\<lambda>p. goodN (ValidatorRegistrationBurn p) \<and> goodN (ValidatorMinSelfDelegation p)) (vqpr_Params m)" using good by simp
  note c1 = message_codec.marshal_enc [OF validator_Params_codec [OF N] g1] message_codec.size_enc [OF validator_Params_codec [OF N] g1]
  show "sized (validator_QueryParamsResponse_MarshalToSizedBuffer N m) (validator_QueryParamsResponse_enc encN m)"
    unfolding validator_QueryParamsResponse_MarshalToSizedBuffer_def validator_QueryParamsResponse_enc_def 
    by (intro sized_marshal c1(1) writer_intros c1(1))
  show "validator_QueryParamsResponse_Size N m = int (length (validator_QueryParamsResponse_enc encN m))"
    by (simp add: validator_QueryParamsResponse_Size_def validator_QueryParamsResponse_enc_def field_lengths c1(2))
  have r1: "reads ''QueryParamsResponse'' (validator_QueryParamsResponse_fields N) (delimited 0x0A (validator_Params_enc encN (vqpr_Params m)))
      (\<lambda>m0. bindO (validator_Params_Unmarshal N (validator_Params_enc encN (vqpr_Params m)) (vqpr_Params m0)) (\<lambda>v. Ok (m0\<lparr>vqpr_Params := v\<rparr>)))"
    by (rule read_case_delimited [where fn = 1])
      (simp add: tag_of_def, simp add: validator_QueryParamsResponse_fields_def on_field_def, simp)
  assume l: "int (length (validator_QueryParamsResponse_enc encN m)) < 2 ^ 63"
  have n1: "validator_Params_Unmarshal N (validator_Params_enc encN (vqpr_Params m)) (\<lparr>ValidatorRegistrationBurn = emptyN, ValidatorMinSelfDelegation = emptyN\<rparr>) = Ok (vqpr_Params m)"
    using l length_delimited_ge [of "validator_Params_enc encN (vqpr_Params m)" "0x0A"]
    by (intro message_codec.unmarshal_enc [OF validator_Params_codec [OF N] g1]) (simp add: validator_QueryParamsResponse_enc_def)
  show "validator_QueryParamsResponse_Unmarshal N (validator_QueryParamsResponse_enc encN m) \<lparr>vqpr_Params = \<lparr>ValidatorRegistrationBurn = emptyN, ValidatorMinSelfDelegation = emptyN\<rparr>\<rparr> = Ok m"
    using proto_Unmarshal_reads [OF r1, of "\<lparr>vqpr_Params = \<lparr>ValidatorRegistrationBurn = emptyN, ValidatorMinSelfDelegation = emptyN\<rparr>\<rparr>"] l n1
    by (cases m) (simp add: validator_QueryParamsResponse_Unmarshal_def validator_QueryParamsResponse_enc_def)
next
  fix d :: bytes and m :: "validator_QueryParamsResponse"
  assume "int (length d) < 2 ^ 63"
  then show "validator_QueryParamsResponse_Unmarshal N d m \<noteq> Panic"
    unfolding validator_QueryParamsResponse_Unmarshal_def validator_QueryParamsResponse_fields_def
    by (intro proto_Unmarshal_safe safe_intros) (auto simp: bindO_def message_codec.unmarshal_safe [OF validator_Params_codec [OF N]] split: outcome.split)
qed

section \<open>The messages without fields\<close>

interpretation MsgRegisterValidatorResponse: message_codec MsgRegisterValidatorResponse_MarshalToSizedBuffer MsgRegisterValidatorResponse_Size MsgRegisterValidatorResponse_Unmarshal "()" "\<lambda>_. True" "\<lambda>_. []"
  by (simp add: MsgRegisterValidatorResponse_MarshalToSizedBuffer_def [abs_def] MsgRegisterValidatorResponse_Size_def [abs_def] MsgRegisterValidatorResponse_Unmarshal_def empty_codec)

interpretation validator_MsgUpdateParamsResponse: message_codec validator_MsgUpdateParamsResponse_MarshalToSizedBuffer validator_MsgUpdateParamsResponse_Size validator_MsgUpdateParamsResponse_Unmarshal "()" "\<lambda>_. True" "\<lambda>_. []"
  by (simp add: validator_MsgUpdateParamsResponse_MarshalToSizedBuffer_def [abs_def] validator_MsgUpdateParamsResponse_Size_def [abs_def] validator_MsgUpdateParamsResponse_Unmarshal_def empty_codec)

interpretation validator_QueryParamsRequest: message_codec validator_QueryParamsRequest_MarshalToSizedBuffer validator_QueryParamsRequest_Size validator_QueryParamsRequest_Unmarshal "()" "\<lambda>_. True" "\<lambda>_. []"
  by (simp add: validator_QueryParamsRequest_MarshalToSizedBuffer_def [abs_def] validator_QueryParamsRequest_Size_def [abs_def] validator_QueryParamsRequest_Unmarshal_def empty_codec)

end
