(* ===== verification/Wire_Instance.thy ===== *)
theory Wire_Instance
  imports Wire_Burn Wire_Validator
begin

text \<open>
  Concrete codecs for the types of other packages, built from the combinators of \<open>Wire\<close>, so that
  the theorems about the messages that contain them can be applied to real bytes. They show that the
  hypotheses can hold; nothing here models code of the repository.
\<close>

section \<open>Integers, in unary\<close>

fun ref_int_bytes :: "int option \<Rightarrow> bytes" where
  "ref_int_bytes None = []"
| "ref_int_bytes (Some i) = (if i < 0 then 1 else 0) # replicate (nat \<bar>i\<bar>) 7"

fun ref_int_of :: "bytes \<Rightarrow> int option" where
  "ref_int_of [] = None"
| "ref_int_of (b # bs) = Some (if b = 1 then - int (length bs) else int (length bs))"

definition ref_int :: "int option custom_type" where
  "ref_int =
     \<lparr>CSize = (\<lambda>v. int (length (ref_int_bytes v))), CMarshal = (\<lambda>v. Ok (ref_int_bytes v)),
      CUnmarshal = (\<lambda>bs _. Ok (ref_int_of bs))\<rparr>"

lemma ref_int_laws: "custom_laws ref_int (\<lambda>v. True) ref_int_bytes"
proof -
  have "ref_int_of (ref_int_bytes v) = v" for v by (cases v) auto
  then show ?thesis by (simp add: custom_laws_def ref_int_def)
qed

section \<open>Coins and the message of x/staking\<close>

definition ref_Coin_MarshalToSizedBuffer ::
  "int option custom_type \<Rightarrow> coin \<Rightarrow> bytes \<Rightarrow> (int \<times> bytes) outcome" where
  "ref_Coin_MarshalToSizedBuffer C m =
     marshal_sized (seqW (put_custom 0x12 (CSize C (Amount m)) (CMarshal C (Amount m)))
       (put_string 0x0A (str_bytes (Denom m))))"

definition ref_Coin_Size :: "int option custom_type \<Rightarrow> coin \<Rightarrow> int" where
  "ref_Coin_Size C m =
     size_string (str_bytes (Denom m)) +
     size_bytes (CSize C (Amount m))"

definition ref_Coin_Marshal :: "int option custom_type \<Rightarrow> coin \<Rightarrow> bytes outcome" where
  "ref_Coin_Marshal C = proto_Marshal (ref_Coin_Size C) (ref_Coin_MarshalToSizedBuffer C)"

definition ref_Coin_fields :: "int option custom_type \<Rightarrow> coin handler" where
  "ref_Coin_fields C =
     on_field 1 (delimited_field ''Denom'' (\<lambda>s m. Ok (m\<lparr>Denom := bytes_str s\<rparr>)))
     (on_field 2 (delimited_field ''Amount'' (\<lambda>s m.
       bindO (CUnmarshal C s (Amount m)) (\<lambda>v. Ok (m\<lparr>Amount := v\<rparr>))))
     no_field)"

definition ref_Coin_Unmarshal :: "int option custom_type \<Rightarrow> bytes \<Rightarrow> coin \<Rightarrow> coin outcome" where
  "ref_Coin_Unmarshal C = proto_Unmarshal ''Coin'' (ref_Coin_fields C)"

definition ref_Coin_enc :: "(int option \<Rightarrow> bytes) \<Rightarrow> coin \<Rightarrow> bytes" where
  "ref_Coin_enc encC m =
     string_bytes_field 0x0A (str_bytes (Denom m)) @
     delimited 0x12 (encC (Amount m))"

lemma ref_Coin_codec:
  assumes C: "custom_laws C goodC encC"
  shows "message_codec (ref_Coin_MarshalToSizedBuffer C) (ref_Coin_Size C) (ref_Coin_Unmarshal C)
    \<lparr>Denom = '''', Amount = None\<rparr> (\<lambda>m. goodC (Amount m)) (ref_Coin_enc encC)"
proof
  fix m :: "coin" assume good: "goodC (Amount m)"
  have g1: "goodC (Amount m)" using good by simp
  note c1 = custom_lawsD(1-3) [OF C g1]
  show "sized (ref_Coin_MarshalToSizedBuffer C m) (ref_Coin_enc encC m)"
    unfolding ref_Coin_MarshalToSizedBuffer_def ref_Coin_enc_def c1(1,2)
    by (intro sized_marshal  writer_intros )
  show "ref_Coin_Size C m = int (length (ref_Coin_enc encC m))"
    by (simp add: ref_Coin_Size_def ref_Coin_enc_def field_lengths c1)
  have r1: "reads ''Coin'' (ref_Coin_fields C) (string_bytes_field 0x0A (str_bytes (Denom m)))
      (\<lambda>m0. Ok (if Denom m = [] then m0 else m0\<lparr>Denom := Denom m\<rparr>))"
    by (rule read_case_string [where fn = 1])
      (simp add: tag_of_def, simp add: ref_Coin_fields_def on_field_def, simp)
  have r2: "reads ''Coin'' (ref_Coin_fields C) (delimited 0x12 (encC (Amount m)))
      (\<lambda>m0. Ok (m0\<lparr>Amount := Amount m\<rparr>))"
    by (rule read_case_delimited [where fn = 2])
      (simp add: tag_of_def, simp add: ref_Coin_fields_def on_field_def, simp add: c1(3))
  assume l: "int (length (ref_Coin_enc encC m)) < 2 ^ 63"
  show "ref_Coin_Unmarshal C (ref_Coin_enc encC m) \<lparr>Denom = '''', Amount = None\<rparr> = Ok m"
    using proto_Unmarshal_reads [OF reads_append [OF r1 r2], of "\<lparr>Denom = '''', Amount = None\<rparr>"] l 
    by (cases m) (simp add: ref_Coin_Unmarshal_def ref_Coin_enc_def)
next
  fix d :: bytes and m :: "coin"
  assume "int (length d) < 2 ^ 63"
  then show "ref_Coin_Unmarshal C d m \<noteq> Panic"
    unfolding ref_Coin_Unmarshal_def ref_Coin_fields_def
    by (intro proto_Unmarshal_safe safe_intros) (auto simp: bindO_def custom_lawsD(4) [OF C] split: outcome.split)
qed

definition ref_CreateValidator_MarshalToSizedBuffer ::
  "int option custom_type \<Rightarrow> MsgCreateValidator \<Rightarrow> bytes \<Rightarrow> (int \<times> bytes) outcome" where
  "ref_CreateValidator_MarshalToSizedBuffer C m =
     marshal_sized (seqW (seqW (put_custom 0x22 (CSize C (MinSelfDelegation m)) (CMarshal C (MinSelfDelegation m)))
       (put_message 0x3A (ref_Coin_MarshalToSizedBuffer C (Value m))))
       (put_string 0x2A (str_bytes (ValidatorAddress m))))"

definition ref_CreateValidator_Size :: "int option custom_type \<Rightarrow> MsgCreateValidator \<Rightarrow> int" where
  "ref_CreateValidator_Size C m =
     size_string (str_bytes (ValidatorAddress m)) +
     size_bytes (ref_Coin_Size C (Value m)) +
     size_bytes (CSize C (MinSelfDelegation m))"

definition ref_CreateValidator_Marshal :: "int option custom_type \<Rightarrow> MsgCreateValidator \<Rightarrow> bytes outcome" where
  "ref_CreateValidator_Marshal C = proto_Marshal (ref_CreateValidator_Size C) (ref_CreateValidator_MarshalToSizedBuffer C)"

definition ref_CreateValidator_fields :: "int option custom_type \<Rightarrow> MsgCreateValidator handler" where
  "ref_CreateValidator_fields C =
     on_field 5 (delimited_field ''ValidatorAddress'' (\<lambda>s m. Ok (m\<lparr>ValidatorAddress := bytes_str s\<rparr>)))
     (on_field 7 (delimited_field ''Value'' (\<lambda>s m.
       bindO (ref_Coin_Unmarshal C s (Value m)) (\<lambda>v. Ok (m\<lparr>Value := v\<rparr>))))
     (on_field 4 (delimited_field ''MinSelfDelegation'' (\<lambda>s m.
       bindO (CUnmarshal C s (MinSelfDelegation m)) (\<lambda>v. Ok (m\<lparr>MinSelfDelegation := v\<rparr>))))
     no_field))"

definition ref_CreateValidator_Unmarshal :: "int option custom_type \<Rightarrow> bytes \<Rightarrow> MsgCreateValidator \<Rightarrow> MsgCreateValidator outcome" where
  "ref_CreateValidator_Unmarshal C = proto_Unmarshal ''MsgCreateValidator'' (ref_CreateValidator_fields C)"

definition ref_CreateValidator_enc :: "(int option \<Rightarrow> bytes) \<Rightarrow> MsgCreateValidator \<Rightarrow> bytes" where
  "ref_CreateValidator_enc encC m =
     string_bytes_field 0x2A (str_bytes (ValidatorAddress m)) @
     delimited 0x3A (ref_Coin_enc encC (Value m)) @
     delimited 0x22 (encC (MinSelfDelegation m))"

lemma ref_CreateValidator_codec:
  assumes C: "custom_laws C goodC encC"
  shows "message_codec (ref_CreateValidator_MarshalToSizedBuffer C) (ref_CreateValidator_Size C) (ref_CreateValidator_Unmarshal C)
    \<lparr>ValidatorAddress = '''', Value = \<lparr>Denom = '''', Amount = None\<rparr>, MinSelfDelegation = None\<rparr> (\<lambda>m. goodC (Amount (Value m)) \<and> goodC (MinSelfDelegation m)) (ref_CreateValidator_enc encC)"
proof
  fix m :: "MsgCreateValidator" assume good: "goodC (Amount (Value m)) \<and> goodC (MinSelfDelegation m)"
  have g1: "(\<lambda>c. goodC (Amount c)) (Value m)" using good by simp
  note c1 = message_codec.marshal_enc [OF ref_Coin_codec [OF C] g1] message_codec.size_enc [OF ref_Coin_codec [OF C] g1]
  have g2: "goodC (MinSelfDelegation m)" using good by simp
  note c2 = custom_lawsD(1-3) [OF C g2]
  show "sized (ref_CreateValidator_MarshalToSizedBuffer C m) (ref_CreateValidator_enc encC m)"
    unfolding ref_CreateValidator_MarshalToSizedBuffer_def ref_CreateValidator_enc_def c2(1,2)
    by (intro sized_marshal c1(1) writer_intros c1(1))
  show "ref_CreateValidator_Size C m = int (length (ref_CreateValidator_enc encC m))"
    by (simp add: ref_CreateValidator_Size_def ref_CreateValidator_enc_def field_lengths c1(2) c2)
  have r1: "reads ''MsgCreateValidator'' (ref_CreateValidator_fields C) (string_bytes_field 0x2A (str_bytes (ValidatorAddress m)))
      (\<lambda>m0. Ok (if ValidatorAddress m = [] then m0 else m0\<lparr>ValidatorAddress := ValidatorAddress m\<rparr>))"
    by (rule read_case_string [where fn = 5])
      (simp add: tag_of_def, simp add: ref_CreateValidator_fields_def on_field_def, simp)
  have r2: "reads ''MsgCreateValidator'' (ref_CreateValidator_fields C) (delimited 0x3A (ref_Coin_enc encC (Value m)))
      (\<lambda>m0. bindO (ref_Coin_Unmarshal C (ref_Coin_enc encC (Value m)) (Value m0)) (\<lambda>v. Ok (m0\<lparr>Value := v\<rparr>)))"
    by (rule read_case_delimited [where fn = 7])
      (simp add: tag_of_def, simp add: ref_CreateValidator_fields_def on_field_def, simp)
  have r3: "reads ''MsgCreateValidator'' (ref_CreateValidator_fields C) (delimited 0x22 (encC (MinSelfDelegation m)))
      (\<lambda>m0. Ok (m0\<lparr>MinSelfDelegation := MinSelfDelegation m\<rparr>))"
    by (rule read_case_delimited [where fn = 4])
      (simp add: tag_of_def, simp add: ref_CreateValidator_fields_def on_field_def, simp add: c2(3))
  assume l: "int (length (ref_CreateValidator_enc encC m)) < 2 ^ 63"
  have n2: "ref_Coin_Unmarshal C (ref_Coin_enc encC (Value m)) (\<lparr>Denom = '''', Amount = None\<rparr>) = Ok (Value m)"
    using l length_delimited_ge [of "ref_Coin_enc encC (Value m)" "0x3A"]
    by (intro message_codec.unmarshal_enc [OF ref_Coin_codec [OF C] g1]) (simp add: ref_CreateValidator_enc_def)
  show "ref_CreateValidator_Unmarshal C (ref_CreateValidator_enc encC m) \<lparr>ValidatorAddress = '''', Value = \<lparr>Denom = '''', Amount = None\<rparr>, MinSelfDelegation = None\<rparr> = Ok m"
    using proto_Unmarshal_reads [OF reads_append [OF r1 reads_append [OF r2 r3]], of "\<lparr>ValidatorAddress = '''', Value = \<lparr>Denom = '''', Amount = None\<rparr>, MinSelfDelegation = None\<rparr>"] l n2
    by (cases m) (simp add: ref_CreateValidator_Unmarshal_def ref_CreateValidator_enc_def)
next
  fix d :: bytes and m :: "MsgCreateValidator"
  assume "int (length d) < 2 ^ 63"
  then show "ref_CreateValidator_Unmarshal C d m \<noteq> Panic"
    unfolding ref_CreateValidator_Unmarshal_def ref_CreateValidator_fields_def
    by (intro proto_Unmarshal_safe safe_intros) (auto simp: bindO_def custom_lawsD(4) [OF C] message_codec.unmarshal_safe [OF ref_Coin_codec [OF C]] split: outcome.split)
qed

definition ref_coin_message :: "coin foreign_message" where
  "ref_coin_message =
     \<lparr>MMarshal = ref_Coin_MarshalToSizedBuffer ref_int, MSize = ref_Coin_Size ref_int,
      MUnmarshal = ref_Coin_Unmarshal ref_int\<rparr>"

definition ref_create_message :: "MsgCreateValidator foreign_message" where
  "ref_create_message =
     \<lparr>MMarshal = ref_CreateValidator_MarshalToSizedBuffer ref_int, MSize = ref_CreateValidator_Size ref_int,
      MUnmarshal = ref_CreateValidator_Unmarshal ref_int\<rparr>"

lemma ref_coin_codec:
  "message_codec (MMarshal ref_coin_message) (MSize ref_coin_message) (MUnmarshal ref_coin_message)
    \<lparr>Denom = '''', Amount = None\<rparr> (\<lambda>m. True) (ref_Coin_enc ref_int_bytes)"
  using ref_Coin_codec [OF ref_int_laws] by (simp add: ref_coin_message_def)

lemma ref_create_codec:
  "message_codec (MMarshal ref_create_message) (MSize ref_create_message) (MUnmarshal ref_create_message)
    \<lparr>ValidatorAddress = '''', Value = \<lparr>Denom = '''', Amount = None\<rparr>, MinSelfDelegation = None\<rparr>
    (\<lambda>m. True) (ref_CreateValidator_enc ref_int_bytes)"
  using ref_CreateValidator_codec [OF ref_int_laws] by (simp add: ref_create_message_def)

end
