(* ===== verification/Wire_Properties.thy ===== *)
theory Wire_Properties
  imports Wire_Instance
begin

text \<open>
  The properties of the generated codecs. The codecs of the types of other packages are parameters
  that keep their laws; the witnesses use those of \<open>Wire_Instance\<close>.
\<close>

section \<open>Integers\<close>

text \<open>
  Variable-length integers: for every 64-bit value \<open>encodeVarint\<close> writes exactly
  \<open>sov\<close> bytes (between 1 and 10) in front of the offset, touches no other byte of the buffer and
  returns the index of the first one; reading from there gives the value back and stops behind it.
\<close>

lemma varint_roundtrip:
  assumes "int (length old) = sov v"
  shows "1 \<le> sov v \<and> sov v \<le> 10 \<and>
    (\<exists>bs. int (length bs) = sov v \<and>
      encodeVarint (pre @ old @ post) (int (length pre) + sov v) v = Ok (pre @ bs @ post, int (length pre)) \<and>
      read_varint (pre @ bs @ post) (int (length pre)) = Ok (v, int (length pre) + sov v))"
proof -
  have "Len64 (v OR 1) \<le> 64"
    using bitlen_le_iff_power [of "uint (v OR 1)" 64] uint_lt2p [of "v OR 1"] by (simp add: Len64_def)
  then have "sov v \<le> 10" by (simp add: sov_def)
  moreover have "1 \<le> sov v"
    using length_varint_bytes [of v] length_varint_bytes_pos [of v] by linarith
  moreover have "encodeVarint (pre @ old @ post) (int (length pre) + sov v) v = Ok (pre @ varint_bytes v @ post, int (length pre))"
    using writesD [OF writes_varint, of old v pre post] assms by (simp add: length_varint_bytes [symmetric])
  ultimately show ?thesis
    using read_varint_bytes [of pre v post] length_varint_bytes [of v]
    by (intro conjI exI [of _ "varint_bytes v"]) auto
qed

lemma varint_roundtrip_witness:
  "sov 300 = 2 \<and> (\<exists>bs. length bs = 2 \<and> encodeVarint [9, 0, 0, 9] 3 300 = Ok ([9] @ bs @ [9], 1) \<and>
     read_varint ([9] @ bs @ [9]) 1 = Ok (300, 3))"
proof -
  have s: "sov 300 = 2" by code_simp
  then show ?thesis
    using varint_roundtrip [of "[0, 0]" 300 "[9]" "[9]"] by auto
qed

section \<open>Messages\<close>

text \<open>
  Claim C19. The wire round trip of a burn genesis state: \<open>Marshal\<close> fills a buffer of exactly
  \<open>Size\<close> bytes without leaving it, and \<open>Unmarshal\<close> into the zero value gives the same state back,
  parameters, counter, total and every account record in order.
\<close>

theorem genesis_wire_roundtrip:
  assumes "custom_laws D goodD encD" and "custom_laws C goodC encC"
    and "goodD (FeeBurnPercent (gen_Params g))" and "goodC (gen_Total g)"
    and "\<forall>r \<in> set (gen_AccountTotals g). goodC (rec_Total r)"
    and "burn_GenesisState_Size D C g < 2 ^ 63"
  shows "\<exists>bs. burn_GenesisState_Marshal D C g = Ok bs \<and> int (length bs) = burn_GenesisState_Size D C g \<and>
    burn_GenesisState_Unmarshal D C bs
      \<lparr>gen_Params = \<lparr>FeeBurnPercent = None\<rparr>, gen_Count = 0, gen_Total = None, gen_AccountTotals = []\<rparr> = Ok g"
  unfolding burn_GenesisState_Marshal_def
  by (rule message_codec.roundtrip [OF burn_GenesisState_codec [OF assms(1,2)]]) (use assms in auto)

theorem genesis_wire_roundtrip_witness:
  "\<exists>bs. burn_GenesisState_Marshal ref_int ref_int
      \<lparr>gen_Params = \<lparr>FeeBurnPercent = Some 3\<rparr>, gen_Count = 300, gen_Total = Some 5,
       gen_AccountTotals = [\<lparr>rec_Address = ''alice'', rec_Total = Some 5\<rparr>]\<rparr> = Ok bs \<and> length bs = 36"
proof -
  let ?g = "\<lparr>gen_Params = \<lparr>FeeBurnPercent = Some 3\<rparr>, gen_Count = 300, gen_Total = Some 5,
       gen_AccountTotals = [\<lparr>rec_Address = ''alice'', rec_Total = Some 5\<rparr>]\<rparr>"
  have sz: "burn_GenesisState_Size ref_int ref_int ?g = 36"
    by code_simp
  then show ?thesis
    using genesis_wire_roundtrip [OF ref_int_laws ref_int_laws, of ?g] by auto
qed

text \<open>
  Claim C20. The wire round trip of a registration: sender, the embedded message of x/staking and the
  burn survive \<open>Marshal\<close> and \<open>Unmarshal\<close>, whatever correct codecs the two foreign types have, and
  the bytes are exactly \<open>Size\<close> many.
\<close>

theorem register_wire_roundtrip:
  fixes V :: "'c MsgCreateValidator_scheme foreign_message"
  assumes "message_codec (MMarshal V) (MSize V) (MUnmarshal V) emptyV goodV encV"
    and "message_codec (MMarshal N) (MSize N) (MUnmarshal N) emptyN goodN encN"
    and "goodV (CreateValidator m)" and "goodN (Burn m)" and "MsgRegisterValidator_Size V N m < 2 ^ 63"
  shows "\<exists>bs. MsgRegisterValidator_Marshal V N m = Ok bs \<and> int (length bs) = MsgRegisterValidator_Size V N m \<and>
    MsgRegisterValidator_Unmarshal V N bs \<lparr>Sender = '''', CreateValidator = emptyV, Burn = emptyN\<rparr> = Ok m"
  unfolding MsgRegisterValidator_Marshal_def
  by (rule message_codec.roundtrip [OF MsgRegisterValidator_codec [OF assms(1,2)]]) (use assms in auto)

theorem register_wire_roundtrip_witness:
  "\<exists>bs. MsgRegisterValidator_Marshal ref_create_message ref_coin_message
      \<lparr>Sender = ''alice'',
       CreateValidator = \<lparr>ValidatorAddress = ''alice'', Value = \<lparr>Denom = ''alyth'', Amount = Some 5\<rparr>,
         MinSelfDelegation = Some 1\<rparr>,
       Burn = \<lparr>Denom = ''alyth'', Amount = Some 4\<rparr>\<rparr> = Ok bs \<and> length bs = 53"
proof -
  let ?m = "\<lparr>Sender = ''alice'',
       CreateValidator = \<lparr>ValidatorAddress = ''alice'', Value = \<lparr>Denom = ''alyth'', Amount = Some 5\<rparr>,
         MinSelfDelegation = Some 1\<rparr>,
       Burn = \<lparr>Denom = ''alyth'', Amount = Some 4\<rparr>\<rparr>"
  have sz: "MsgRegisterValidator_Size ref_create_message ref_coin_message ?m = 53"
    by code_simp
  then show ?thesis
    using register_wire_roundtrip [OF ref_create_codec ref_coin_codec, of ?m] by auto
qed

text \<open>
  Claim C21. Decoding never panics: on every slice of bytes a Go program can hold, and into every
  previous value, \<open>Unmarshal\<close> of a registration, of a burn and of a genesis state returns a message
  or an error; no index leaves the slice and no loop runs on for ever.
\<close>

theorem decoding_never_panics:
  fixes V :: "'c MsgCreateValidator_scheme foreign_message"
  assumes "message_codec (MMarshal V) (MSize V) (MUnmarshal V) emptyV goodV encV"
    and "message_codec (MMarshal N) (MSize N) (MUnmarshal N) emptyN goodN encN"
    and "custom_laws D goodD encD" and "custom_laws C goodC encC" and "int (length bs) < 2 ^ 63"
  shows "MsgRegisterValidator_Unmarshal V N bs r \<noteq> Panic \<and> MsgBurn_Unmarshal N bs b \<noteq> Panic \<and>
    burn_GenesisState_Unmarshal D C bs g \<noteq> Panic"
  using message_codec.unmarshal_safe [OF MsgRegisterValidator_codec [OF assms(1,2)] assms(5)]
    message_codec.unmarshal_safe [OF MsgBurn_codec [OF assms(2)] assms(5)]
    message_codec.unmarshal_safe [OF burn_GenesisState_codec [OF assms(3,4)] assms(5)] by blast

theorem decoding_never_panics_witness:
  "MsgBurn_Unmarshal ref_coin_message [0x0A, 0xFF, 0xFF, 0xFF, 0xFF, 0xFF, 0xFF, 0xFF, 0xFF, 0x7F]
     \<lparr>FromAddress = '''', BurnAmount = \<lparr>Denom = '''', Amount = None\<rparr>\<rparr> \<noteq> Panic"
  using decoding_never_panics [OF ref_create_codec ref_coin_codec ref_int_laws ref_int_laws,
      of "[0x0A, 0xFF, 0xFF, 0xFF, 0xFF, 0xFF, 0xFF, 0xFF, 0xFF, 0x7F]"] by simp

text \<open>
  Claim C22. Decoding terminates within its bound: every round of the loop of \<open>Unmarshal\<close> and of the
  loop that skips an unknown field consumes a byte, so on a slice of \<open>n\<close> bytes both are through in
  \<open>n + 1\<close> rounds, with a message or an error. The fuel of the model is no limit: any larger fuel gives
  the same result.
\<close>

theorem decoding_terminates:
  fixes V :: "'c MsgCreateValidator_scheme foreign_message"
  assumes "message_codec (MMarshal V) (MSize V) (MUnmarshal V) emptyV goodV encV"
    and "message_codec (MMarshal N) (MSize N) (MUnmarshal N) emptyN goodN encN"
    and "int (length bs) < 2 ^ 63" and "length bs < fuel"
  shows "unmarshal_loop ''MsgRegisterValidator'' (MsgRegisterValidator_fields V N) fuel bs 0 r =
      MsgRegisterValidator_Unmarshal V N bs r \<and> MsgRegisterValidator_Unmarshal V N bs r \<noteq> Panic \<and>
    skip_loop fuel bs 0 0 = skip_field bs \<and> skip_field bs \<noteq> Panic"
proof -
  have safe: "MsgRegisterValidator_Unmarshal V N bs r \<noteq> Panic"
    by (rule message_codec.unmarshal_safe [OF MsgRegisterValidator_codec [OF assms(1,2)] assms(3)])
  have skip: "skip_field bs \<noteq> Panic"
    using skip_loop_bounds [of 0 bs "Suc (length bs)" 0] assms(3) by (simp add: skip_field_def)
  have "unmarshal_loop ''MsgRegisterValidator'' (MsgRegisterValidator_fields V N) fuel bs 0 r =
      MsgRegisterValidator_Unmarshal V N bs r"
    using safe unfolding MsgRegisterValidator_Unmarshal_def proto_Unmarshal_def
    by (rule unmarshal_loop_more [OF _ Suc_leI [OF assms(4)]])
  moreover have "skip_loop fuel bs 0 0 = skip_field bs"
    using skip unfolding skip_field_def by (rule skip_loop_more [OF _ Suc_leI [OF assms(4)]])
  ultimately show ?thesis using safe skip by blast
qed

theorem decoding_terminates_witness:
  "skip_loop 99 [0x0A, 3, 1] 0 0 = skip_field [0x0A, 3, 1] \<and> skip_field [0x0A, 3, 1] \<noteq> Panic"
  using decoding_terminates [OF ref_create_codec ref_coin_codec, of "[0x0A, 3, 1]" 99] by simp

text \<open>
  What is signed determines the message: two burn messages with the same bytes are equal,
  so no two different burns share a wire form.
\<close>

lemma burn_message_bytes_injective:
  assumes "message_codec (MMarshal N) (MSize N) (MUnmarshal N) emptyN goodN encN"
    and "goodN (BurnAmount m)" and "goodN (BurnAmount m')" and "MsgBurn_Size N m < 2 ^ 63"
    and "MsgBurn_Marshal N m = Ok bs" and "MsgBurn_Marshal N m' = Ok bs"
  shows "m = m'"
proof -
  note codec = MsgBurn_codec [OF assms(1)]
  have "Ok (MsgBurn_enc encN m) = Ok bs"
    using message_codec.Marshal_enc [OF codec assms(2)] assms(5) unfolding MsgBurn_Marshal_def by (rule trans [OF sym])
  moreover have "Ok (MsgBurn_enc encN m') = Ok bs"
    using message_codec.Marshal_enc [OF codec assms(3)] assms(6) unfolding MsgBurn_Marshal_def by (rule trans [OF sym])
  ultimately have "MsgBurn_enc encN m = MsgBurn_enc encN m'" by (simp only: outcome.inject)
  then show ?thesis
    by (rule message_codec.enc_inject [OF codec assms(2,3) _ assms(4)])
qed

lemma burn_message_bytes_injective_witness:
  "MsgBurn_Marshal ref_coin_message \<lparr>FromAddress = ''a'', BurnAmount = \<lparr>Denom = ''x'', Amount = Some 1\<rparr>\<rparr> \<noteq>
     MsgBurn_Marshal ref_coin_message \<lparr>FromAddress = ''a'', BurnAmount = \<lparr>Denom = ''x'', Amount = Some 2\<rparr>\<rparr>"
    (is "MsgBurn_Marshal _ ?m \<noteq> MsgBurn_Marshal _ ?m'")
proof
  assume same: "MsgBurn_Marshal ref_coin_message ?m = MsgBurn_Marshal ref_coin_message ?m'"
  have fits: "MsgBurn_Size ref_coin_message ?m < 2 ^ 63" by code_simp
  have m: "MsgBurn_Marshal ref_coin_message ?m = Ok (MsgBurn_enc (ref_Coin_enc ref_int_bytes) ?m)"
    unfolding MsgBurn_Marshal_def by (rule message_codec.Marshal_enc [OF MsgBurn_codec [OF ref_coin_codec]]) simp
  have "?m = ?m'"
    by (rule burn_message_bytes_injective [OF ref_coin_codec _ _ fits m trans [OF same [symmetric] m]]) simp_all
  then show False by simp
qed



text \<open>
  The answer to \<open>BurnStats\<close> survives the wire: any counter and any text, in exactly
  \<open>Size\<close> bytes; zero values are left out, so the empty answer has no bytes at all.
\<close>

lemma stats_wire_roundtrip:
  assumes "BurnStatsResponse_Size m < 2 ^ 63"
  shows "(\<exists>bs. BurnStatsResponse_Marshal m = Ok bs \<and> int (length bs) = BurnStatsResponse_Size m \<and>
      BurnStatsResponse_Unmarshal bs \<lparr>TotalBurns = 0, TotalBurned = ''''\<rparr> = Ok m) \<and>
    BurnStatsResponse_Marshal \<lparr>TotalBurns = 0, TotalBurned = ''''\<rparr> = Ok []"
  using BurnStatsResponse.roundtrip [of m] assms BurnStatsResponse.Marshal_enc [of "\<lparr>TotalBurns = 0, TotalBurned = ''''\<rparr>"]
  by (simp add: BurnStatsResponse_Marshal_def BurnStatsResponse_enc_def uint64_field_def string_bytes_field_def)

lemma stats_wire_roundtrip_witness:
  "\<exists>bs. BurnStatsResponse_Marshal \<lparr>TotalBurns = 2, TotalBurned = ''45''\<rparr> = Ok bs \<and> length bs = 6"
proof -
  have sz: "BurnStatsResponse_Size \<lparr>TotalBurns = 2, TotalBurned = ''45''\<rparr> = 6" by code_simp
  then show ?thesis
    using stats_wire_roundtrip [of "\<lparr>TotalBurns = 2, TotalBurned = ''45''\<rparr>"] by auto
qed

end
