(* ===== verification/Chain_Id.thy ===== *)
theory Chain_Id
  imports Sdk_Interfaces "HOL-Library.Sublist"
begin

text \<open>
  The identifier of the network (\<^verbatim>\<open>cmd/monod/cmd/chain_id.go\<close>) and the flags of \<^verbatim>\<open>monod\<close> that carry it
  (\<^verbatim>\<open>mono_config.go\<close>, \<open>monoInitCmd\<close> and \<open>setNetworkIDFlag\<close> of \<^verbatim>\<open>commands.go\<close>, the
  pre-run hook of \<^verbatim>\<open>root.go\<close>). A Go string is the list of its bytes. The standard library functions
  the code uses on it (\<open>regexp\<close>, \<open>strings.TrimSpace\<close>, \<open>big.Int.SetString\<close>) are modelled for
  what the code asks of them; the flag set of the command-line library is a parameter.
\<close>

section \<open>Regular expressions\<close>

text \<open>
  The part of the expression syntax the pattern uses: a character class taken once, at least n times
  (\<open>{n,}\<close>, \<open>*\<close>) or exactly n times (\<open>{n}\<close>), concatenation, and a capturing group.
  \<open>rematch\<close> lists the ways to match a prefix, the preferred one first (a repetition takes as
  much as it can), each with the captured texts and the rest of the input.
\<close>

datatype regexp =
    AtLeast nat "char \<Rightarrow> bool"
  | Exactly nat "char \<Rightarrow> bool"
  | Concat regexp regexp
  | Group regexp

definition run_length :: "(char \<Rightarrow> bool) \<Rightarrow> string \<Rightarrow> nat" where
  "run_length P s = length (takeWhile P s)"

fun rematch :: "regexp \<Rightarrow> string \<Rightarrow> (string list \<times> string) list" where
  "rematch (AtLeast n P) s = map (\<lambda>k. ([], drop k s)) (rev [n ..< Suc (run_length P s)])"
| "rematch (Exactly n P) s = (if n \<le> run_length P s then [([], drop n s)] else [])"
| "rematch (Concat a b) s =
     concat (map (\<lambda>(g, r). map (\<lambda>(g', r'). (g @ g', r')) (rematch b r)) (rematch a s))"
| "rematch (Group a) s = map (\<lambda>(g, r). (take (length s - length r) s # g, r)) (rematch a s)"

text \<open>\<open>FindStringSubmatch\<close> of an expression between \<open>^\<close> and \<open>$\<close>: the whole text first, then the groups.\<close>

definition FindStringSubmatch :: "regexp \<Rightarrow> string \<Rightarrow> string list option" where
  "FindStringSubmatch re s =
     map_option (\<lambda>(g, r). s # g) (find (\<lambda>(g, r). r = []) (rematch re s))"

definition MatchString :: "regexp \<Rightarrow> string \<Rightarrow> bool" where
  "MatchString re s \<longleftrightarrow> FindStringSubmatch re s \<noteq> None"

section \<open>The pattern of a chain identifier\<close>

definition char_between :: "char \<Rightarrow> char \<Rightarrow> char \<Rightarrow> bool" where
  "char_between a b c \<longleftrightarrow> (of_char a :: nat) \<le> of_char c \<and> (of_char c :: nat) \<le> of_char b"

definition regexChainID :: regexp where
  "regexChainID = AtLeast 1 (char_between (CHR ''a'') (CHR ''z''))"

definition regexEIP155Separator :: regexp where
  "regexEIP155Separator = Exactly 1 ((=) (CHR ''_''))"

definition regexEIP155 :: regexp where
  "regexEIP155 = Concat (Exactly 1 (char_between (CHR ''1'') (CHR ''9'')))
     (AtLeast 0 (char_between (CHR ''0'') (CHR ''9'')))"

definition regexEpochSeparator :: regexp where
  "regexEpochSeparator = Exactly 1 ((=) (CHR ''-''))"

definition regexEpoch :: regexp where
  "regexEpoch = Concat (Exactly 1 (char_between (CHR ''1'') (CHR ''9'')))
     (AtLeast 0 (char_between (CHR ''0'') (CHR ''9'')))"

definition evmosChainID :: regexp where
  "evmosChainID =
     Concat (Group regexChainID) (Concat regexEIP155Separator (Concat (Group regexEIP155)
       (Concat regexEpochSeparator (Group regexEpoch))))"

definition IsValidChainID :: "string \<Rightarrow> bool" where
  "IsValidChainID chainID = (if length chainID > 48 then False else MatchString evmosChainID chainID)"

section \<open>White space\<close>

text \<open>The encodings of the characters \<open>unicode.IsSpace\<close> accepts.\<close>

definition space_encodings :: "string list" where
  "space_encodings =
     [[CHR 0x20], [CHR 0x09], [CHR 0x0A], [CHR 0x0B], [CHR 0x0C], [CHR 0x0D], [CHR 0xC2, CHR 0x85],
     [CHR 0xC2, CHR 0xA0], [CHR 0xE1, CHR 0x9A, CHR 0x80], [CHR 0xE2, CHR 0x80, CHR 0x80], [CHR
     0xE2, CHR 0x80, CHR 0x81], [CHR 0xE2, CHR 0x80, CHR 0x82], [CHR 0xE2, CHR 0x80, CHR 0x83], [CHR
     0xE2, CHR 0x80, CHR 0x84], [CHR 0xE2, CHR 0x80, CHR 0x85], [CHR 0xE2, CHR 0x80, CHR 0x86], [CHR
     0xE2, CHR 0x80, CHR 0x87], [CHR 0xE2, CHR 0x80, CHR 0x88], [CHR 0xE2, CHR 0x80, CHR 0x89], [CHR
     0xE2, CHR 0x80, CHR 0x8A], [CHR 0xE2, CHR 0x80, CHR 0xA8], [CHR 0xE2, CHR 0x80, CHR 0xA9], [CHR
     0xE2, CHR 0x80, CHR 0xAF], [CHR 0xE2, CHR 0x81, CHR 0x9F], [CHR 0xE3, CHR 0x80, CHR 0x80]]"

text \<open>Prefixes from a list are removed as long as there is one.\<close>

fun strip_first :: "string list \<Rightarrow> string \<Rightarrow> string option" where
  "strip_first [] s = None"
| "strip_first (w # ws) s =
     (if w \<noteq> [] \<and> take (length w) s = w then Some (drop (length w) s) else strip_first ws s)"

lemma strip_first_shorter: "strip_first ws s = Some s' \<Longrightarrow> length s' < length s"
proof (induction ws s rule: strip_first.induct)
  case (2 w ws s)
  then show ?case by (cases s) (auto split: if_splits)
qed simp

function strip :: "string list \<Rightarrow> string \<Rightarrow> string" where
  "strip ws s = (case strip_first ws s of None \<Rightarrow> s | Some s' \<Rightarrow> strip ws s')"
  by auto
termination
  by (relation "measure (\<lambda>(ws, s). length s)") (auto dest: strip_first_shorter)

declare strip.simps [simp del]

definition TrimSpace :: "string \<Rightarrow> string" where
  "TrimSpace s = rev (strip (map rev space_encodings) (rev (strip space_encodings s)))"

section \<open>\<open>ParseChainID\<close>\<close>

text \<open>\<open>new(big.Int).SetString(s, 10)\<close>: an optional sign and decimal digits.\<close>

fun digits_value :: "nat \<Rightarrow> string \<Rightarrow> nat option" where
  "digits_value acc [] = Some acc"
| "digits_value acc (c # cs) =
     (if char_between (CHR ''0'') (CHR ''9'') c then digits_value (10 * acc + (of_char c - 48)) cs else None)"

definition SetString10 :: "string \<Rightarrow> int option" where
  "SetString10 s =
     (case s of
        [] \<Rightarrow> None
      | c # cs \<Rightarrow>
          if c = CHR ''-'' then (if cs = [] then None else map_option (\<lambda>n. - int n) (digits_value 0 cs))
          else if c = CHR ''+'' then (if cs = [] then None else map_option int (digits_value 0 cs))
          else map_option int (digits_value 0 s))"

definition ParseChainID :: "string \<Rightarrow> int outcome" where
  "ParseChainID chainID0 =
     (let chainID = TrimSpace chainID0 in
      if length chainID > 48 then Err ErrInvalidChainID
      else
        (case FindStringSubmatch evmosChainID chainID of
           None \<Rightarrow> Err ErrInvalidChainID
         | Some matches \<Rightarrow>
             if length matches \<noteq> 4 \<or> matches ! 1 = [] then Err ErrInvalidChainID
             else
               (case SetString10 (matches ! 2) of
                  None \<Rightarrow> Err ErrInvalidChainID
                | Some chainIDInt \<Rightarrow> Ok chainIDInt)))"

section \<open>The flags\<close>

text \<open>A \<open>pflag.FlagSet\<close>: reading a string flag, whether it was given, setting it.\<close>

record 'f flag_ops =
  FlagGetString :: "string \<Rightarrow> 'f \<Rightarrow> string outcome"
  FlagChanged :: "string \<Rightarrow> 'f \<Rightarrow> bool"
  FlagSet :: "string \<Rightarrow> string \<Rightarrow> 'f \<Rightarrow> unit outcome \<times> 'f"

definition FlagNetworkID :: string where
  "FlagNetworkID = ''network-id''"

text \<open>The SDK's name of the flag that goes into the genesis file.\<close>

definition FlagChainID :: string where
  "FlagChainID = ''chain-id''"

definition resolveEVMChainID :: "'f flag_ops \<Rightarrow> 64 word \<Rightarrow> 'f \<Rightarrow> 64 word outcome" where
  "resolveEVMChainID F defaultEVMChainID fs =
     (case FlagGetString F FlagNetworkID fs of
        Err e \<Rightarrow> Ok defaultEVMChainID
      | Panic \<Rightarrow> Panic
      | Ok networkID \<Rightarrow>
          if networkID = [] then Ok defaultEVMChainID
          else
            bindO (ParseChainID networkID) (\<lambda>evmChainID.
              if \<not> (0 \<le> evmChainID \<and> evmChainID < 2 ^ 64) then Err (CmdErr ErrChainIDOverflow)
              else Ok (word_of_int evmChainID)))"

definition setNetworkIDFlag :: "'f flag_ops \<Rightarrow> 'f \<Rightarrow> unit outcome \<times> 'f" where
  "setNetworkIDFlag F =
     bindM (\<lambda>fs. (FlagGetString F FlagNetworkID fs, fs)) (\<lambda>networkID fs.
       if networkID = [] then (Ok (), fs)
       else if FlagChanged F FlagChainID fs then (Err (CmdErr ErrInvalidFlagsCombo), fs)
       else FlagSet F FlagChainID networkID fs)"

text \<open>The \<open>RunE\<close> that \<open>monoInitCmd\<close> puts in front of the SDK's own (\<open>originalRunE\<close>).\<close>

definition monoInit_RunE ::
  "'f flag_ops \<Rightarrow> ('f \<Rightarrow> unit outcome \<times> 'f) \<Rightarrow> 'f \<Rightarrow> unit outcome \<times> 'f" where
  "monoInit_RunE F originalRunE = bindM (setNetworkIDFlag F) (\<lambda>_. originalRunE)"

section \<open>The application's configuration\<close>

text \<open>The default configurations of the libraries are arguments; the fields set here are theirs.\<close>

record server_config =
  MinGasPrices :: string

record evm_config =
  EVMChainID :: "64 word"

record ('s, 'e, 'j, 't) MonoAppConfig =
  Config :: "'s server_config_scheme"
  EVM :: "'e evm_config_scheme"
  JSONRPC :: 'j
  TLS :: 't

definition InitAppConfig ::
  "'s server_config_scheme \<Rightarrow> 'e evm_config_scheme \<Rightarrow> 'j \<Rightarrow> 't \<Rightarrow> string \<Rightarrow> 64 word
     \<Rightarrow> string \<times> ('s, 'e, 'j, 't) MonoAppConfig" where
  "InitAppConfig defaultServer defaultEVM defaultJSONRPC defaultTLS MonoAppTemplate evmChainID =
     (let srvCfg = defaultServer\<lparr>MinGasPrices := ''0'' @ DefaultBondDenom\<rparr>;
          evmCfg = defaultEVM\<lparr>EVMChainID := evmChainID\<rparr> in
      (MonoAppTemplate, \<lparr>Config = srvCfg, EVM = evmCfg, JSONRPC = defaultJSONRPC, TLS = defaultTLS\<rparr>))"

section \<open>What the matcher accepts\<close>

text \<open>The texts an expression stands for, each with the captured groups.\<close>

fun in_lang :: "regexp \<Rightarrow> string \<Rightarrow> string list \<Rightarrow> bool" where
  "in_lang (AtLeast n P) p g \<longleftrightarrow> g = [] \<and> n \<le> length p \<and> list_all P p"
| "in_lang (Exactly n P) p g \<longleftrightarrow> g = [] \<and> n = length p \<and> list_all P p"
| "in_lang (Concat a b) p g \<longleftrightarrow>
     (\<exists>p1 p2 g1 g2. p = p1 @ p2 \<and> g = g1 @ g2 \<and> in_lang a p1 g1 \<and> in_lang b p2 g2)"
| "in_lang (Group a) p g \<longleftrightarrow> (\<exists>g'. g = p # g' \<and> in_lang a p g')"

lemma run_length_ge: "n \<le> run_length P s \<longleftrightarrow> (\<exists>p r. s = p @ r \<and> length p = n \<and> list_all P p)"
proof
  assume n: "n \<le> run_length P s"
  have "take n s = take n (takeWhile P s)"
    using n by (metis run_length_def take_all_iff take_take min.absorb1 takeWhile_eq_take)
  then have "list_all P (take n s)"
    by (metis list_all_iff in_set_takeD set_takeWhileD)
  moreover have "n \<le> length s"
    using n length_takeWhile_le [of P s] by (simp add: run_length_def)
  ultimately show "\<exists>p r. s = p @ r \<and> length p = n \<and> list_all P p"
    by (intro exI [of _ "take n s"] exI [of _ "drop n s"]) simp
next
  assume "\<exists>p r. s = p @ r \<and> length p = n \<and> list_all P p"
  then show "n \<le> run_length P s"
    by (auto simp: run_length_def list_all_iff takeWhile_append2)
qed

lemma rematch_iff: "(g, r) \<in> set (rematch re s) \<longleftrightarrow> (\<exists>p. s = p @ r \<and> in_lang re p g)"
proof (induction re arbitrary: s g r)
  case (AtLeast n P)
  have "(g, r) \<in> set (rematch (AtLeast n P) s) \<longleftrightarrow>
      g = [] \<and> (\<exists>k. n \<le> k \<and> k \<le> run_length P s \<and> r = drop k s)"
    by (auto simp: image_iff less_Suc_eq_le)
  also have "\<dots> \<longleftrightarrow> g = [] \<and> (\<exists>p. s = p @ r \<and> n \<le> length p \<and> list_all P p)"
    by (metis run_length_ge append_eq_conv_conj)
  finally show ?case by auto
next
  case (Exactly n P)
  have "(g, r) \<in> set (rematch (Exactly n P) s) \<longleftrightarrow> g = [] \<and> n \<le> run_length P s \<and> r = drop n s"
    by auto
  also have "\<dots> \<longleftrightarrow> g = [] \<and> (\<exists>p. s = p @ r \<and> length p = n \<and> list_all P p)"
    by (metis run_length_ge append_eq_conv_conj)
  finally show ?case by auto
next
  case (Concat a b)
  have "(g, r) \<in> set (rematch (Concat a b) s) \<longleftrightarrow>
      (\<exists>g1 r1 g2. (g1, r1) \<in> set (rematch a s) \<and> (g2, r) \<in> set (rematch b r1) \<and> g = g1 @ g2)"
    by (auto simp: image_iff) force+
  also have "\<dots> \<longleftrightarrow> (\<exists>g1 g2 p1 p2. s = p1 @ p2 @ r \<and> in_lang a p1 g1 \<and> in_lang b p2 g2 \<and> g = g1 @ g2)"
    unfolding Concat.IH by blast
  also have "\<dots> \<longleftrightarrow> (\<exists>p. s = p @ r \<and> in_lang (Concat a b) p g)"
    unfolding in_lang.simps by (metis append.assoc)
  finally show ?case .
next
  case (Group a)
  have "(g, r) \<in> set (rematch (Group a) s) \<longleftrightarrow>
      (\<exists>g'. (g', r) \<in> set (rematch a s) \<and> g = take (length s - length r) s # g')"
    by force
  also have "\<dots> \<longleftrightarrow> (\<exists>p g'. s = p @ r \<and> in_lang a p g' \<and> g = take (length s - length r) s # g')"
    unfolding Group.IH by blast
  also have "\<dots> \<longleftrightarrow> (\<exists>p. s = p @ r \<and> in_lang (Group a) p g)"
    by auto
  finally show ?case .
qed

lemma FindStringSubmatch_None: "FindStringSubmatch re s = None \<longleftrightarrow> (\<nexists>g. in_lang re s g)"
proof -
  have "FindStringSubmatch re s = None \<longleftrightarrow> (\<forall>g. (g, []) \<notin> set (rematch re s))"
    by (auto simp: FindStringSubmatch_def find_None_iff)
  then show ?thesis
    by (simp add: rematch_iff)
qed

lemma FindStringSubmatch_Some: "FindStringSubmatch re s = Some ms \<Longrightarrow> \<exists>g. ms = s # g \<and> in_lang re s g"
proof -
  assume "FindStringSubmatch re s = Some ms"
  then obtain g r where found: "find (\<lambda>(g, r). r = []) (rematch re s) = Some (g, r)" and ms: "ms = s # g"
    unfolding FindStringSubmatch_def by auto
  then have "(g, []) \<in> set (rematch re s)"
    unfolding find_Some_iff by (auto simp: in_set_conv_nth)
  then show ?thesis
    using ms by (simp add: rematch_iff)
qed

section \<open>What a chain identifier is\<close>

text \<open>
  A name of lower-case letters, an underscore, the number of the EVM chain, a hyphen, a revision;
  both numbers are decimal and do not start with a zero.
\<close>

abbreviation lower :: "char \<Rightarrow> bool" where
  "lower \<equiv> char_between (CHR ''a'') (CHR ''z'')"

abbreviation digit :: "char \<Rightarrow> bool" where
  "digit \<equiv> char_between (CHR ''0'') (CHR ''9'')"

definition numeric :: "string \<Rightarrow> bool" where
  "numeric n \<longleftrightarrow> (case n of [] \<Rightarrow> False | c # cs \<Rightarrow> char_between (CHR ''1'') (CHR ''9'') c \<and> list_all digit cs)"

definition chain_id_parts :: "string \<Rightarrow> string \<Rightarrow> string \<Rightarrow> string \<Rightarrow> bool" where
  "chain_id_parts name n epoch s \<longleftrightarrow>
     s = name @ CHR ''_'' # n @ CHR ''-'' # epoch \<and> name \<noteq> [] \<and> list_all lower name \<and> numeric n \<and> numeric epoch"

lemma in_lang_one: "in_lang (Exactly 1 P) p g \<longleftrightarrow> g = [] \<and> (\<exists>c. p = [c] \<and> P c)"
  by (cases p) (auto simp: Suc_eq_plus1 [symmetric] simp del: Suc_eq_plus1)

lemma in_lang_numeric:
  "in_lang regexEIP155 p g \<longleftrightarrow> g = [] \<and> numeric p" "in_lang regexEpoch p g \<longleftrightarrow> g = [] \<and> numeric p"
  unfolding regexEIP155_def regexEpoch_def in_lang.simps(3) in_lang_one numeric_def
  by (auto split: list.splits) (metis append_Cons append_Nil)+

lemma in_lang_evmosChainID:
  "in_lang evmosChainID s g \<longleftrightarrow> (\<exists>name n epoch. g = [name, n, epoch] \<and> chain_id_parts name n epoch s)"
proof -
  have name: "in_lang regexChainID p g' \<longleftrightarrow> g' = [] \<and> p \<noteq> [] \<and> list_all lower p" for p g'
    by (cases p) (auto simp: regexChainID_def)
  show ?thesis
    unfolding evmosChainID_def regexEIP155Separator_def regexEpochSeparator_def
      in_lang.simps(3,4) in_lang_one in_lang_numeric name chain_id_parts_def
    by fastforce
qed

lemma split_at_unique:
  "a @ c # x = b @ c # y \<Longrightarrow> c \<notin> set a \<Longrightarrow> c \<notin> set b \<Longrightarrow> a = b \<and> x = y"
proof (induction a arbitrary: b)
  case Nil then show ?case by (cases b) auto
next
  case (Cons d a) then show ?case by (cases b) auto
qed

lemma lower_no_separator: "list_all lower name \<Longrightarrow> CHR ''_'' \<notin> set name"
  by (auto simp: list_all_iff char_between_def)

lemma numeric_digits: "numeric n \<Longrightarrow> n \<noteq> [] \<and> list_all digit n"
  by (auto simp: numeric_def char_between_def split: list.splits)

lemma numeric_no_separator: "numeric n \<Longrightarrow> CHR ''-'' \<notin> set n"
  by (auto dest!: numeric_digits bspec [of "set n" _ "CHR ''-''"] simp: list_all_iff char_between_def)

text \<open>The parts are determined by the identifier.\<close>

lemma chain_id_parts_unique:
  assumes "chain_id_parts name n epoch s" and "chain_id_parts name' n' epoch' s"
  shows "name' = name \<and> n' = n \<and> epoch' = epoch"
proof -
  have "name' = name \<and> n' @ CHR ''-'' # epoch' = n @ CHR ''-'' # epoch"
    using assms by (intro split_at_unique [of _ "CHR ''_''"] lower_no_separator) (auto simp: chain_id_parts_def)
  moreover from this have "n' = n \<and> epoch' = epoch"
    using assms by (intro split_at_unique [of _ "CHR ''-''"] numeric_no_separator) (auto simp: chain_id_parts_def)
  ultimately show ?thesis by blast
qed

lemma FindStringSubmatch_parts:
  "chain_id_parts name n epoch s \<Longrightarrow> FindStringSubmatch evmosChainID s = Some [s, name, n, epoch]"
proof -
  assume parts: "chain_id_parts name n epoch s"
  then have "FindStringSubmatch evmosChainID s \<noteq> None"
    unfolding FindStringSubmatch_None in_lang_evmosChainID by blast
  then obtain ms where ms: "FindStringSubmatch evmosChainID s = Some ms" by blast
  with parts show ?thesis
    using FindStringSubmatch_Some [OF ms] chain_id_parts_unique [OF parts]
    unfolding in_lang_evmosChainID by blast
qed

section \<open>Decimal numbers\<close>

fun decimal :: "nat \<Rightarrow> string" where
  "decimal n = (if n < 10 then [char_of (48 + n)] else decimal (n div 10) @ [char_of (48 + n mod 10)])"

declare decimal.simps [simp del]

definition decimal_value :: "string \<Rightarrow> nat" where
  "decimal_value s = foldl (\<lambda>v c. 10 * v + (of_char c - 48)) 0 s"

lemma digits_value_foldl:
  "list_all digit s \<Longrightarrow> digits_value acc s = Some (foldl (\<lambda>v c. 10 * v + (of_char c - 48)) acc s)"
  by (induction acc s rule: digits_value.induct) auto

lemma SetString10_numeric: "numeric n \<Longrightarrow> SetString10 n = Some (int (decimal_value n))"
  by (auto dest: numeric_digits simp: numeric_def SetString10_def decimal_value_def digits_value_foldl char_between_def
      split: list.splits)

lemma foldl_digits_ge: "acc \<le> foldl (\<lambda>v c. 10 * v + (of_char c - 48)) acc (s :: string)" for acc :: nat
proof (induction s arbitrary: acc)
  case (Cons c s)
  have "acc \<le> 10 * acc + (of_char c - 48)" by simp
  also note Cons.IH
  finally show ?case by simp
qed simp

lemma decimal_value_pos: "numeric n \<Longrightarrow> 0 < decimal_value n"
proof -
  assume "numeric n"
  then obtain c cs where n: "n = c # cs" and c: "49 \<le> (of_char c :: nat)"
    by (auto simp: numeric_def char_between_def split: list.splits)
  have "0 < of_char c - (48 :: nat)" using c by simp
  also note foldl_digits_ge [of "of_char c - 48" cs]
  finally show ?thesis by (simp add: n decimal_value_def)
qed

lemma of_char_digit: "d < 10 \<Longrightarrow> of_char (char_of (48 + d) :: char) = 48 + (d :: nat)"
  by (simp add: of_char_of)

lemma decimal_numeric: "0 < n \<Longrightarrow> numeric (decimal n)"
proof (induction n rule: decimal.induct)
  case (1 n)
  show ?case
  proof (cases "n < 10")
    case True
    then show ?thesis
      using 1(2) by (simp add: decimal.simps [of n] numeric_def char_between_def of_char_digit)
  next
    case False
    then have "numeric (decimal (n div 10))" using 1 by simp
    then show ?thesis
      using False of_char_digit [of "n mod 10"]
      by (auto simp: decimal.simps [of n] numeric_def char_between_def split: list.splits)
  qed
qed

lemma decimal_value_decimal: "decimal_value (decimal n) = n"
proof (induction n rule: decimal.induct)
  case (1 n)
  then show ?case
    using of_char_digit [of n] of_char_digit [of "n mod 10"]
    by (auto simp: decimal.simps [of n] decimal_value_def)
qed

section \<open>Trimming\<close>

definition ascii_spaces :: "char list" where
  "ascii_spaces = [CHR 0x09, CHR 0x0A, CHR 0x0B, CHR 0x0C, CHR 0x0D, CHR 0x20]"

definition visible :: "char \<Rightarrow> bool" where
  "visible c \<longleftrightarrow> 32 < (of_char c :: nat) \<and> (of_char c :: nat) < 127"

lemma strip_first_stop: "\<forall>w \<in> set ws. w \<noteq> [] \<longrightarrow> hd w \<noteq> c \<Longrightarrow> strip_first ws (c # t) = None"
  by (induction ws) (auto simp: neq_Nil_conv)

lemma strip_pad: "\<forall>c \<in> set pad. \<forall>t. strip_first ws (c # t) = Some t \<Longrightarrow> strip ws (pad @ s) = strip ws s"
  by (induction pad) (simp_all add: strip.simps [of ws "_ # _"])

lemma strip_stop: "\<forall>w \<in> set ws. w \<noteq> [] \<longrightarrow> hd w \<noteq> c \<Longrightarrow> strip ws (c # t) = c # t"
  by (simp add: strip.simps strip_first_stop)

lemma space_encodings_ends:
  "list_all (\<lambda>w. w \<noteq> [] \<and> \<not> visible (hd w) \<and> \<not> visible (last w)) space_encodings"
  by (simp add: space_encodings_def visible_def)

lemma strip_first_single:
  "[c] \<in> set ws \<Longrightarrow> \<forall>w \<in> set ws. w \<noteq> [] \<longrightarrow> hd w = c \<longrightarrow> w = [c] \<Longrightarrow> strip_first ws (c # t) = Some t"
  by (induction ws) (auto simp: neq_Nil_conv)

lemma ascii_spaces_encoded:
  assumes "c \<in> set ascii_spaces"
  shows "[c] \<in> set space_encodings"
    and "\<forall>w \<in> set space_encodings. hd w = c \<longrightarrow> w = [c]" and "\<forall>w \<in> set space_encodings. last w = c \<longrightarrow> w = [c]"
  using assms by (auto simp: ascii_spaces_def space_encodings_def)

lemma strip_first_space:
  assumes "c \<in> set ascii_spaces"
  shows "strip_first space_encodings (c # t) = Some t"
    and "strip_first (map rev space_encodings) (c # t) = Some t"
proof -
  note c = ascii_spaces_encoded [OF assms]
  show "strip_first space_encodings (c # t) = Some t"
    using c by (intro strip_first_single) blast+
  have "[c] \<in> set (map rev space_encodings)"
    using imageI [OF c(1), of rev] by simp
  moreover have "\<forall>w \<in> set (map rev space_encodings). w \<noteq> [] \<longrightarrow> hd w = c \<longrightarrow> w = [c]"
    using c(3) by (metis (no_types, lifting) hd_rev imageE list.set_map rev.simps(1) rev_singleton_conv)
  ultimately show "strip_first (map rev space_encodings) (c # t) = Some t"
    by (rule strip_first_single)
qed

text \<open>ASCII white space around a text that starts and ends with a visible character is dropped.\<close>

lemma TrimSpace_padded:
  assumes "set l \<subseteq> set ascii_spaces" and "set r \<subseteq> set ascii_spaces"
    and "s \<noteq> []" and "visible (hd s)" and "visible (last s)"
  shows "TrimSpace (l @ s @ r) = s"
proof -
  obtain c t where s: "s = c # t" using assms(3) by (cases s) auto
  obtain d u where rev_s: "rev s = d # u" using assms(3) by (cases "rev s") auto
  have d: "d = last s" using rev_s assms(3) by (metis hd_rev list.sel(1))
  have "strip space_encodings (l @ s @ r) = strip space_encodings (s @ r)"
    using assms(1) by (intro strip_pad) (auto simp: strip_first_space)
  also have "\<dots> = s @ r"
    using assms(4) space_encodings_ends unfolding s append_Cons
    by (intro strip_stop) (auto simp: list_all_iff)
  finally have left: "strip space_encodings (l @ s @ r) = s @ r" .
  have "strip (map rev space_encodings) (rev r @ rev s) = strip (map rev space_encodings) (rev s)"
    using assms(2) by (intro strip_pad) (auto simp: strip_first_space)
  also have "\<dots> = rev s"
    using assms(5) space_encodings_ends unfolding rev_s
    by (intro strip_stop) (auto simp: list_all_iff d hd_rev)
  finally show ?thesis
    by (simp add: TrimSpace_def left)
qed

lemma chain_id_parts_visible: "chain_id_parts name n epoch s \<Longrightarrow> s \<noteq> [] \<and> visible (hd s) \<and> visible (last s)"
proof -
  assume parts: "chain_id_parts name n epoch s"
  then obtain c name' where name: "name = c # name'" by (auto simp: chain_id_parts_def neq_Nil_conv)
  have "list_all digit epoch" "epoch \<noteq> []"
    using parts numeric_digits by (auto simp: chain_id_parts_def)
  then have "digit (last epoch)"
    by (simp add: list_all_iff)
  then show ?thesis
    using parts \<open>epoch \<noteq> []\<close> name by (auto simp: chain_id_parts_def visible_def char_between_def)
qed

section \<open>Flags in the theorems\<close>

text \<open>An identifier written in decimal.\<close>

definition network_id :: "string \<Rightarrow> nat \<Rightarrow> nat \<Rightarrow> string" where
  "network_id name n epoch = name @ CHR ''_'' # decimal n @ CHR ''-'' # decimal epoch"

lemma ParseChainID_parts:
  assumes "chain_id_parts name n epoch (TrimSpace s)" and "length (TrimSpace s) \<le> 48"
  shows "ParseChainID s = Ok (int (decimal_value n))"
proof -
  have "name \<noteq> []" "numeric n" using assms(1) by (auto simp: chain_id_parts_def)
  then show ?thesis
    using assms(2) by (simp add: ParseChainID_def FindStringSubmatch_parts [OF assms(1)] SetString10_numeric)
qed

text \<open>A string flag that is declared can be set, and reads back what it was set to.\<close>

definition flag_laws :: "'f flag_ops \<Rightarrow> bool" where
  "flag_laws F \<longleftrightarrow>
     (\<forall>name old v fs. FlagGetString F name fs = Ok old \<longrightarrow>
        (\<exists>fs'. FlagSet F name v fs = (Ok (), fs') \<and> FlagGetString F name fs' = Ok v))"

text \<open>A flag set as a table of values, with the mark of those given.\<close>

definition ref_flags :: "(string \<Rightarrow> (string \<times> bool) option) flag_ops" where
  "ref_flags =
     \<lparr>FlagGetString = (\<lambda>name fs. case fs name of None \<Rightarrow> Err (OtherErr ''flag'') | Some (v, _) \<Rightarrow> Ok v),
      FlagChanged = (\<lambda>name fs. case fs name of None \<Rightarrow> False | Some (_, given) \<Rightarrow> given),
      FlagSet = (\<lambda>name v fs. case fs name of
         None \<Rightarrow> (Err (OtherErr ''flag''), fs) | Some _ \<Rightarrow> (Ok (), fs(name \<mapsto> (v, True))))\<rparr>"

lemma ref_flag_laws: "flag_laws ref_flags"
  by (auto simp: flag_laws_def ref_flags_def split: option.splits)

end
