(* ===== verification/Command_Properties.thy ===== *)
theory Command_Properties
  imports Chain_Id
begin

text \<open>
  The properties of the command line of \<^verbatim>\<open>monod\<close> (\<^verbatim>\<open>cmd/monod/cmd\<close>), each with its witness.
\<close>

section \<open>The identifier of the network\<close>

text \<open>
  Claim C34. Which identifiers \<open>ParseChainID\<close> reads: exactly those that are, white space around them
  dropped, a lower-case name, an underscore, a number, a hyphen and a number (neither starting with
  0), of at most 48 bytes; the result is the first number, so it is positive. Everything else is
  \<open>ErrInvalidChainID\<close>, nothing panics, and \<open>IsValidChainID\<close> accepts the same grammar without
  trimming.
\<close>

theorem chain_id_grammar:
  "(ParseChainID s = Ok v \<longleftrightarrow>
      (\<exists>name n epoch. chain_id_parts name n epoch (TrimSpace s) \<and> length (TrimSpace s) \<le> 48 \<and>
         v = int (decimal_value n) \<and> 0 < v)) \<and>
   (ParseChainID s = Err e \<longleftrightarrow> e = ErrInvalidChainID \<and> \<not> IsValidChainID (TrimSpace s)) \<and>
   ParseChainID s \<noteq> Panic \<and>
   (IsValidChainID s \<longleftrightarrow> length s \<le> 48 \<and> (\<exists>name n epoch. chain_id_parts name n epoch s))"
proof -
  have valid: "IsValidChainID t \<longleftrightarrow> length t \<le> 48 \<and> (\<exists>name n epoch. chain_id_parts name n epoch t)" for t
    using FindStringSubmatch_None [of evmosChainID t]
    by (auto simp: IsValidChainID_def MatchString_def in_lang_evmosChainID)
  have bad: "ParseChainID s = Err ErrInvalidChainID" if "\<not> IsValidChainID (TrimSpace s)"
    using that FindStringSubmatch_None [of evmosChainID "TrimSpace s"]
    by (auto simp: valid ParseChainID_def in_lang_evmosChainID Let_def)
  have good: "ParseChainID s = Ok (int (decimal_value n)) \<and> 0 < decimal_value n"
    if "chain_id_parts name n epoch (TrimSpace s)" "length (TrimSpace s) \<le> 48" for name n epoch
    using that by (auto simp: ParseChainID_parts decimal_value_pos chain_id_parts_def)
  show ?thesis
    using good bad unfolding valid
    by (cases "\<exists>name n epoch. chain_id_parts name n epoch (TrimSpace s) \<and> length (TrimSpace s) \<le> 48") fastforce+
qed

text \<open>
  Claim C26. The number of the EVM chain from \<^verbatim>\<open>--network-id\<close>: for every name, every chain number and
  every revision, written in decimal and surrounded by any white space, the number comes back
  unchanged when it fits 64 bits, and is \<open>ErrChainIDOverflow\<close> otherwise; it is never truncated.
\<close>

theorem network_id_resolves:
  assumes "FlagGetString F FlagNetworkID fs = Ok (l @ network_id name n epoch @ r)"
    and "name \<noteq> []" and "list_all lower name" and "0 < n" and "0 < epoch"
    and "set l \<subseteq> set ascii_spaces" and "set r \<subseteq> set ascii_spaces"
    and "length (network_id name n epoch) \<le> 48"
  shows "resolveEVMChainID F dflt fs = (if n < 2 ^ 64 then Ok (word_of_nat n) else Err (CmdErr ErrChainIDOverflow))"
proof -
  have parts: "chain_id_parts name (decimal n) (decimal epoch) (network_id name n epoch)"
    using assms(2-5) by (simp add: chain_id_parts_def network_id_def decimal_numeric)
  then have trim: "TrimSpace (l @ network_id name n epoch @ r) = network_id name n epoch"
    using TrimSpace_padded [OF assms(6,7)] chain_id_parts_visible by blast
  have "ParseChainID (l @ network_id name n epoch @ r) = Ok (int n)"
    using parts assms(8) ParseChainID_parts [of _ _ _ "l @ network_id name n epoch @ r"]
    by (simp add: trim decimal_value_decimal)
  moreover have "network_id name n epoch \<noteq> []"
    using chain_id_parts_visible [OF parts] by blast
  ultimately show ?thesis
    by (auto simp: resolveEVMChainID_def assms(1))
qed

theorem network_id_resolves_witness:
  "resolveEVMChainID ref_flags 9001 (\<lambda>k. if k = FlagNetworkID then Some ('' mono_6940-1'', True) else None) = Ok 6940 \<and>
   resolveEVMChainID ref_flags 9001 (\<lambda>k. if k = FlagNetworkID then Some (''x_18446744073709551616-1'', True) else None) =
     Err (CmdErr ErrChainIDOverflow)"
proof -
  have a: "'' '' @ network_id ''mono'' 6940 1 @ [] = '' mono_6940-1''"
    and b: "[] @ network_id ''x'' 18446744073709551616 1 @ [] = ''x_18446744073709551616-1''"
    by (simp_all add: network_id_def decimal.simps char_of_def bit_iff_odd)
  show ?thesis
    using network_id_resolves [of ref_flags "\<lambda>k. if k = FlagNetworkID then Some ('' mono_6940-1'', True) else None"
        "'' ''" "''mono''" 6940 1 "[]" 9001]
      network_id_resolves [of ref_flags "\<lambda>k. if k = FlagNetworkID then Some (''x_18446744073709551616-1'', True) else None"
        "[]" "''x''" 18446744073709551616 1 "[]" 9001]
    unfolding a b by (simp add: ref_flags_def ascii_spaces_def network_id_def char_between_def decimal.simps)
qed



text \<open>
  The two sides do not treat white space alike: with \<^verbatim>\<open>--network-id " mono_6940-1"\<close> the pre-run
  hook trims and reads 6940, but \<^verbatim>\<open>--chain-id\<close> is set to the text as it was given, which is not a valid
  identifier, so the genesis file carries a chain identifier that \<open>IsValidChainID\<close> rejects.
\<close>

lemma padded_network_id:
  assumes "FlagGetString F FlagNetworkID fs = Ok '' mono_6940-1''" and "\<not> FlagChanged F FlagChainID fs"
  shows "resolveEVMChainID F dflt fs = Ok 6940 \<and>
    setNetworkIDFlag F fs = FlagSet F FlagChainID '' mono_6940-1'' fs \<and> \<not> IsValidChainID '' mono_6940-1''"
proof (intro conjI)
  have "ParseChainID '' mono_6940-1'' = Ok 6940" by code_simp
  then show "resolveEVMChainID F dflt fs = Ok 6940"
    by (simp add: resolveEVMChainID_def assms(1))
  show "setNetworkIDFlag F fs = FlagSet F FlagChainID '' mono_6940-1'' fs"
    by (simp add: setNetworkIDFlag_def bindM_def assms)
  show "\<not> IsValidChainID '' mono_6940-1''" by code_simp
qed

lemma padded_network_id_witness:
  "resolveEVMChainID ref_flags 0 (\<lambda>k. if k = FlagNetworkID then Some ('' mono_6940-1'', True) else Some ('''', False)) = Ok 6940 \<and>
   \<not> IsValidChainID '' mono_6940-1''"
  using padded_network_id [of ref_flags "\<lambda>k. if k = FlagNetworkID then Some ('' mono_6940-1'', True) else Some ('''', False)"]
  by (simp add: ref_flags_def FlagNetworkID_def FlagChainID_def)

end
