(* ===== verification/Go_Loops.thy ===== *)
theory Go_Loops
  imports Mono_Prelude
begin

text \<open>
  The shapes of loop the application code uses: a \<open>for\<close> loop that returns its first error, a
  library iterator that calls a function on each element until it says stop, the idiom that carries
  an error out of such a callback in a captured variable, and calls whose error is ignored or ends
  the process.
\<close>

section \<open>Calls whose error is not returned\<close>

text \<open>\<^verbatim>\<open>_, _ = m(ctx)\<close>\<close>

definition ignoreM :: "('s \<Rightarrow> 'a outcome \<times> 's) \<Rightarrow> 's \<Rightarrow> unit outcome \<times> 's" where
  "ignoreM m s = (case m s of (Panic, s') \<Rightarrow> (Panic, s') | (_, s') \<Rightarrow> (Ok (), s'))"

text \<open>
  \<^verbatim>\<open>if err != nil { panic(err) }\<close>, a \<open>Must\<close> function, \<open>log.Fatal\<close>, \<open>os.Exit\<close>: the call does not
  come back.
\<close>

definition mustO :: "'a outcome \<Rightarrow> 'a outcome" where
  "mustO r = (case r of Ok x \<Rightarrow> Ok x | _ \<Rightarrow> Panic)"

definition mustM :: "('s \<Rightarrow> 'a outcome \<times> 's) \<Rightarrow> 's \<Rightarrow> 'a outcome \<times> 's" where
  "mustM m s = (case m s of (r, s') \<Rightarrow> (mustO r, s'))"

lemma mustO_simps [simp]: "mustO (Ok x) = Ok x" "mustO (Err e) = Panic" "mustO Panic = Panic"
  by (simp_all add: mustO_def)

lemma mustO_Ok_iff [simp]: "mustO r = Ok x \<longleftrightarrow> r = Ok x"
  by (cases r) simp_all

lemma mustM_Ok_iff: "mustM m s = (Ok x, s') \<longleftrightarrow> m s = (Ok x, s')"
  by (auto simp: mustM_def split: prod.splits)

lemma mustM_not_Err [simp]: "mustM m s \<noteq> (Err e, s')"
  by (auto simp: mustM_def mustO_def split: prod.splits outcome.splits)

section \<open>A loop that returns its first error\<close>

fun forM :: "('x \<Rightarrow> 's \<Rightarrow> unit outcome \<times> 's) \<Rightarrow> 'x list \<Rightarrow> 's \<Rightarrow> unit outcome \<times> 's" where
  "forM f [] = retM ()"
| "forM f (x # xs) = bindM (f x) (\<lambda>_. forM f xs)"

lemma forM_append: "forM f (xs @ ys) = bindM (forM f xs) (\<lambda>_. forM f ys)"
proof (induction xs)
  case (Cons x xs)
  show ?case
    by (rule ext) (auto simp: Cons.IH bindM_def split: prod.splits outcome.splits)
qed (simp add: bindM_def fun_eq_iff)

lemma preserves_forM: "(\<And>x. x \<in> set xs \<Longrightarrow> preserves P (f x)) \<Longrightarrow> preserves P (forM f xs)"
  by (induction xs) (auto intro!: preserves_bindM)

text \<open>An invariant of the loop that depends on the elements already seen.\<close>

lemma forM_Ok_rule:
  assumes "forM f xs s = (Ok u, s')" and "I [] s"
    and "\<And>done x todo s s'. xs = done @ x # todo \<Longrightarrow> I done s \<Longrightarrow> f x s = (Ok (), s') \<Longrightarrow> I (done @ [x]) s'"
  shows "I xs s'"
  using assms
proof (induction xs arbitrary: s I)
  case (Cons x xs)
  then obtain s1 where s1: "f x s = (Ok (), s1)" "forM f xs s1 = (Ok u, s')"
    by (auto simp: bindM_Ok_iff)
  have "I [x] s1" using Cons.prems(3) [of "[]" x xs] Cons.prems(2) s1(1) by simp
  then show ?case
    using Cons.prems(3) by (intro Cons.IH [OF s1(2), of "\<lambda>d. I (x # d)"]) (metis append_Cons)+
qed simp

lemma forM_total:
  assumes "I [] s"
    and "\<And>done x todo s. xs = done @ x # todo \<Longrightarrow> I done s \<Longrightarrow> \<exists>s'. f x s = (Ok (), s') \<and> I (done @ [x]) s'"
  shows "\<exists>s'. forM f xs s = (Ok (), s') \<and> I xs s'"
  using assms
proof (induction xs arbitrary: s I)
  case (Cons x xs)
  then obtain s1 where s1: "f x s = (Ok (), s1)" "I [x] s1"
    using Cons.prems(2) [of "[]" x xs s] by auto
  have "\<exists>s'. forM f xs s1 = (Ok (), s') \<and> I (x # xs) s'"
    using Cons.prems(2) s1(2) by (intro Cons.IH [of "\<lambda>d. I (x # d)"]) (metis append_Cons)+
  then show ?case
    using s1(1) by (simp add: bindM_Ok)
qed simp

section \<open>An iterator with a callback\<close>

text \<open>What an iterator of the SDK does with its elements: the callback runs until it returns true.\<close>

fun visit :: "('x \<Rightarrow> 's \<Rightarrow> bool outcome \<times> 's) \<Rightarrow> 'x list \<Rightarrow> 's \<Rightarrow> unit outcome \<times> 's" where
  "visit f [] = retM ()"
| "visit f (x # xs) = bindM (f x) (\<lambda>stop. if stop then retM () else visit f xs)"

text \<open>\<^verbatim>\<open>if err != nil { return true }\<close> inside a callback.\<close>

definition or_stop :: "('s \<Rightarrow> 'a outcome \<times> 's) \<Rightarrow> ('a \<Rightarrow> 's \<Rightarrow> bool outcome \<times> 's) \<Rightarrow> 's \<Rightarrow> bool outcome \<times> 's" where
  "or_stop m k s =
     (case m s of
        (Ok x, s') \<Rightarrow> k x s'
      | (Err e, s') \<Rightarrow> (Ok True, s')
      | (Panic, s') \<Rightarrow> (Panic, s'))"

text \<open>
  A callback that assigns a variable of the function around it: the variable travels with the
  store. \<open>capture m\<close> is \<^verbatim>\<open>if iterErr = m(ctx); iterErr != nil { return true }; return false\<close>, and
  \<open>raise_captured\<close> is \<^verbatim>\<open>if iterErr != nil { return iterErr }\<close> after the iteration.
\<close>

type_synonym 'c frame = "'c \<times> error option"

definition on_store :: "('c \<Rightarrow> 'a outcome \<times> 'c) \<Rightarrow> 'c frame \<Rightarrow> 'a outcome \<times> 'c frame" where
  "on_store m s = (case m (fst s) of (r, c) \<Rightarrow> (r, (c, snd s)))"

definition capture :: "('c \<Rightarrow> unit outcome \<times> 'c) \<Rightarrow> 'c frame \<Rightarrow> bool outcome \<times> 'c frame" where
  "capture m s =
     (case m (fst s) of
        (Ok _, c) \<Rightarrow> (Ok False, (c, None))
      | (Err e, c) \<Rightarrow> (Ok True, (c, Some e))
      | (Panic, c) \<Rightarrow> (Panic, (c, snd s)))"

definition raise_captured :: "'c frame \<Rightarrow> unit outcome \<times> 'c frame" where
  "raise_captured s = (case snd s of None \<Rightarrow> (Ok (), s) | Some e \<Rightarrow> (Err e, s))"

text \<open>With the variable nil before, the idiom is the loop that returns its first error.\<close>

lemma capture_forM:
  assumes "forM f xs c = (r, c')"
  shows "bindM (visit (\<lambda>x. capture (f x)) xs) (\<lambda>_. raise_captured) (c, None) =
    (r, (c', case r of Err e \<Rightarrow> Some e | _ \<Rightarrow> None))"
  using assms
proof (induction xs arbitrary: c)
  case Nil then show ?case by (auto simp: bindM_def raise_captured_def)
next
  case (Cons x xs)
  obtain q c1 where step: "f x c = (q, c1)" by fastforce
  show ?case
  proof (cases q)
    case (Ok u)
    then have "forM f xs c1 = (r, c')" using Cons.prems step by (simp add: bindM_def)
    from Cons.IH [OF this] show ?thesis
      using step Ok by (simp add: bindM_def capture_def)
  next
    case (Err e)
    then show ?thesis
      using Cons.prems step by (auto simp: bindM_def capture_def raise_captured_def)
  next
    case Panic
    then show ?thesis
      using Cons.prems step by (auto simp: bindM_def capture_def)
  qed
qed

end
