(* ===== verification/Export_Zero.thy ===== *)
theory Export_Zero
  imports Go_Loops Sdk_Interfaces
begin

text \<open>
  The export of the chain's state (\<^verbatim>\<open>app/export.go\<close>): \<open>ExportAppStateAndValidators\<close> and the rewriting
  of distribution, staking and slashing state that a restart at height 0 needs. The keepers of the
  SDK are the fields of \<open>export_env\<close>; each takes the block height of the context it is called
  with (the code changes it on the way) and the store, which is one state for all modules. What the
  iterators do with their callback is a hypothesis of the theorems (\<open>iterates\<close>).
\<close>

section \<open>The values the code reads and writes\<close>

record staking_validator =
  OperatorAddress :: string
  Jailed :: bool
  UnbondingHeight :: int

record delegation =
  DelegatorAddress :: string
  DelegatedTo :: string

record stamped =
  CreationHeight :: int

text \<open>A redelegation and an unbonding delegation: entries with a height, and the rest.\<close>

record 'e unbonding =
  Entries :: "'e stamped_scheme list"

record signing_info =
  StartHeight :: int

text \<open>
  The calls. \<open>'v\<close>, \<open>'e\<close>, \<open>'r\<close>, \<open>'u\<close>, \<open>'i\<close> stand for what the SDK's types hold besides,
  \<open>'w\<close> for decimal coins, \<open>'c\<close> for the store.
\<close>

type_synonym ('c, 'a) iterator = "('a \<Rightarrow> 'c frame \<Rightarrow> bool outcome \<times> 'c frame) \<Rightarrow> int \<Rightarrow> 'c frame \<Rightarrow> unit outcome \<times> 'c frame"

record ('c, 'v, 'e, 'r, 'u, 'i, 'w) export_env =
  ValAddressFromBech32 :: "string \<Rightarrow> addr outcome"
  AccAddressFromBech32 :: "string \<Rightarrow> addr outcome"
  ValAddressString :: "addr \<Rightarrow> string"
  IterateValidators :: "('c, 'v staking_validator_scheme) iterator"
  WithdrawValidatorCommission :: "int \<Rightarrow> addr \<Rightarrow> 'c \<Rightarrow> unit outcome \<times> 'c"
  GetAllDelegations :: "int \<Rightarrow> 'c \<Rightarrow> delegation list outcome \<times> 'c"
  WithdrawDelegationRewards :: "int \<Rightarrow> addr \<Rightarrow> addr \<Rightarrow> 'c \<Rightarrow> unit outcome \<times> 'c"
  BeforeDelegationCreated :: "int \<Rightarrow> addr \<Rightarrow> addr \<Rightarrow> 'c \<Rightarrow> unit outcome \<times> 'c"
  AfterDelegationModified :: "int \<Rightarrow> addr \<Rightarrow> addr \<Rightarrow> 'c \<Rightarrow> unit outcome \<times> 'c"
  DeleteAllValidatorSlashEvents :: "int \<Rightarrow> 'c \<Rightarrow> unit outcome \<times> 'c"
  DeleteAllValidatorHistoricalRewards :: "int \<Rightarrow> 'c \<Rightarrow> unit outcome \<times> 'c"
  GetValidatorOutstandingRewardsCoins :: "int \<Rightarrow> addr \<Rightarrow> 'c \<Rightarrow> 'w outcome \<times> 'c"
  FeePool_Get :: "int \<Rightarrow> 'c \<Rightarrow> 'w outcome \<times> 'c"
  FeePool_Set :: "int \<Rightarrow> 'w \<Rightarrow> 'c \<Rightarrow> unit outcome \<times> 'c"
  DecCoinsAdd :: "'w \<Rightarrow> 'w \<Rightarrow> 'w outcome"
  AfterValidatorCreated :: "int \<Rightarrow> addr \<Rightarrow> 'c \<Rightarrow> unit outcome \<times> 'c"
  IterateRedelegations :: "('c, ('e, 'r) unbonding_scheme) iterator"
  SetRedelegation :: "int \<Rightarrow> ('e, 'r) unbonding_scheme \<Rightarrow> 'c \<Rightarrow> unit outcome \<times> 'c"
  IterateUnbondingDelegations :: "('c, ('e, 'u) unbonding_scheme) iterator"
  SetUnbondingDelegation :: "int \<Rightarrow> ('e, 'u) unbonding_scheme \<Rightarrow> 'c \<Rightarrow> unit outcome \<times> 'c"
  ValidatorsKeysReversed :: "'c \<Rightarrow> bytes list"
  AddressFromValidatorsKey :: "bytes \<Rightarrow> addr"
  IteratorClose :: "'c \<Rightarrow> unit outcome"
  GetValidator :: "int \<Rightarrow> addr \<Rightarrow> 'c \<Rightarrow> 'v staking_validator_scheme outcome \<times> 'c"
  SetValidator :: "int \<Rightarrow> 'v staking_validator_scheme \<Rightarrow> 'c \<Rightarrow> unit outcome \<times> 'c"
  ApplyAndReturnValidatorSetUpdates :: "int \<Rightarrow> 'c \<Rightarrow> unit outcome \<times> 'c"
  IterateValidatorSigningInfos :: "('c, addr \<times> 'i signing_info_scheme) iterator"
  SetValidatorSigningInfo :: "int \<Rightarrow> addr \<Rightarrow> 'i signing_info_scheme \<Rightarrow> 'c \<Rightarrow> unit outcome \<times> 'c"

section \<open>\<open>prepForZeroHeightGenesis\<close>, phase by phase\<close>

text \<open>The list of operators that stay unjailed: an entry that is not an address ends the process.\<close>

definition allowed_addresses ::
  "('c, 'v, 'e, 'r, 'u, 'i, 'w) export_env \<Rightarrow> string list \<Rightarrow> 'c frame \<Rightarrow> unit outcome \<times> 'c frame" where
  "allowed_addresses E jailAllowedAddrs =
     forM (\<lambda>addr. liftM (bindO (mustO (ValAddressFromBech32 E addr)) (\<lambda>_. Ok ()))) jailAllowedAddrs"

definition withdraw_commissions ::
  "('c, 'v, 'e, 'r, 'u, 'i, 'w) export_env \<Rightarrow> int \<Rightarrow> 'c frame \<Rightarrow> unit outcome \<times> 'c frame" where
  "withdraw_commissions E height =
     IterateValidators E
       (\<lambda>val. bindM (liftM (mustO (ValAddressFromBech32 E (OperatorAddress val)))) (\<lambda>valAddr.
          bindM (ignoreM (on_store (WithdrawValidatorCommission E height valAddr))) (\<lambda>_.
          retM False)))
       height"

definition withdraw_rewards ::
  "('c, 'v, 'e, 'r, 'u, 'i, 'w) export_env \<Rightarrow> int \<Rightarrow> delegation list \<Rightarrow> 'c frame \<Rightarrow> unit outcome \<times> 'c frame" where
  "withdraw_rewards E height dels =
     forM (\<lambda>del.
       bindM (liftM (mustO (ValAddressFromBech32 E (DelegatedTo del)))) (\<lambda>valAddr.
       bindM (liftM (mustO (AccAddressFromBech32 E (DelegatorAddress del)))) (\<lambda>delAddr.
       ignoreM (on_store (WithdrawDelegationRewards E height delAddr valAddr))))) dels"

definition reinit_delegations ::
  "('c, 'v, 'e, 'r, 'u, 'i, 'w) export_env \<Rightarrow> int \<Rightarrow> delegation list \<Rightarrow> 'c frame \<Rightarrow> unit outcome \<times> 'c frame" where
  "reinit_delegations E height dels =
     forM (\<lambda>del.
       bindM (liftM (mustO (ValAddressFromBech32 E (DelegatedTo del)))) (\<lambda>valAddr.
       bindM (liftM (mustO (AccAddressFromBech32 E (DelegatorAddress del)))) (\<lambda>delAddr.
       bindM (mustM (on_store (BeforeDelegationCreated E height delAddr valAddr))) (\<lambda>_.
       mustM (on_store (AfterDelegationModified E height delAddr valAddr)))))) dels"

text \<open>
  One validator starts over at height 0: what it never withdrew goes to the community pool. Its
  errors are those of the callback, not of the function around it.
\<close>

definition reinit_validator ::
  "('c, 'v, 'e, 'r, 'u, 'i, 'w) export_env \<Rightarrow> int \<Rightarrow> 'v staking_validator_scheme \<Rightarrow> 'c frame \<Rightarrow> bool outcome \<times> 'c frame" where
  "reinit_validator E height val =
     or_stop (liftM (ValAddressFromBech32 E (OperatorAddress val))) (\<lambda>valAddr.
     or_stop (on_store (GetValidatorOutstandingRewardsCoins E height valAddr)) (\<lambda>rewards.
     or_stop (on_store (FeePool_Get E height)) (\<lambda>communityPool.
     bindM (liftM (DecCoinsAdd E communityPool rewards)) (\<lambda>communityPool.
     or_stop (on_store (FeePool_Set E height communityPool)) (\<lambda>_.
     or_stop (on_store (AfterValidatorCreated E height valAddr)) (\<lambda>_.
     retM False))))))"

definition reinit_validators ::
  "('c, 'v, 'e, 'r, 'u, 'i, 'w) export_env \<Rightarrow> int \<Rightarrow> 'c frame \<Rightarrow> unit outcome \<times> 'c frame" where
  "reinit_validators E height = IterateValidators E (reinit_validator E height) height"

text \<open>The entries of redelegations and unbonding delegations lose the height they were made at.\<close>

definition reset_entries :: "('e, 'r) unbonding_scheme \<Rightarrow> ('e, 'r) unbonding_scheme" where
  "reset_entries red = red\<lparr>Entries := map (\<lambda>e. e\<lparr>CreationHeight := 0\<rparr>) (Entries red)\<rparr>"

definition reset_redelegations ::
  "('c, 'v, 'e, 'r, 'u, 'i, 'w) export_env \<Rightarrow> int \<Rightarrow> 'c frame \<Rightarrow> unit outcome \<times> 'c frame" where
  "reset_redelegations E height =
     bindM (IterateRedelegations E (\<lambda>red. capture (SetRedelegation E height (reset_entries red))) height) (\<lambda>_.
     raise_captured)"

definition reset_unbonding_delegations ::
  "('c, 'v, 'e, 'r, 'u, 'i, 'w) export_env \<Rightarrow> int \<Rightarrow> 'c frame \<Rightarrow> unit outcome \<times> 'c frame" where
  "reset_unbonding_delegations E height =
     bindM (IterateUnbondingDelegations E (\<lambda>ubd. capture (SetUnbondingDelegation E height (reset_entries ubd))) height)
       (\<lambda>_. raise_captured)"

text \<open>
  The validators, by their keys in descending order: the height they left the bonded set is reset,
  and those that are not on the list are jailed (when there is a list). The 16-bit \<open>counter\<close> of
  the loop is never read.
\<close>

definition reset_validator ::
  "('c, 'v, 'e, 'r, 'u, 'i, 'w) export_env \<Rightarrow> int \<Rightarrow> string list \<Rightarrow> bytes \<Rightarrow> 'c \<Rightarrow> unit outcome \<times> 'c" where
  "reset_validator E height jailAllowedAddrs key =
     (let addr = AddressFromValidatorsKey E key in
      bindM (GetValidator E height addr) (\<lambda>validator.
      let validator = validator\<lparr>UnbondingHeight := 0\<rparr>;
          validator =
            (if jailAllowedAddrs \<noteq> [] \<and> ValAddressString E addr \<notin> set jailAllowedAddrs
             then validator\<lparr>Jailed := True\<rparr> else validator) in
      SetValidator E height validator))"

definition reset_validators ::
  "('c, 'v, 'e, 'r, 'u, 'i, 'w) export_env \<Rightarrow> int \<Rightarrow> string list \<Rightarrow> 'c \<Rightarrow> unit outcome \<times> 'c" where
  "reset_validators E height jailAllowedAddrs c =
     forM (reset_validator E height jailAllowedAddrs) (ValidatorsKeysReversed E c) c"

definition reset_signing_infos ::
  "('c, 'v, 'e, 'r, 'u, 'i, 'w) export_env \<Rightarrow> int \<Rightarrow> 'c frame \<Rightarrow> unit outcome \<times> 'c frame" where
  "reset_signing_infos E height =
     bindM (IterateValidatorSigningInfos E
       (\<lambda>(addr, info). capture (SetValidatorSigningInfo E height addr (info\<lparr>StartHeight := 0\<rparr>))) height) (\<lambda>_.
     raise_captured)"

text \<open>
  After the loop over the validators. An iterator that cannot be closed ends the function early with no
  error: the validator set and the signing records are then left as they are.
\<close>

definition finish_preparation ::
  "('c, 'v, 'e, 'r, 'u, 'i, 'w) export_env \<Rightarrow> int \<Rightarrow> 'c frame \<Rightarrow> unit outcome \<times> 'c frame" where
  "finish_preparation E height s =
     (case IteratorClose E (fst s) of
        Err e \<Rightarrow> (Ok (), s)
      | Panic \<Rightarrow> (Panic, s)
      | Ok _ \<Rightarrow>
          bindM (mustM (on_store (ApplyAndReturnValidatorSetUpdates E height))) (\<lambda>_.
          reset_signing_infos E height) s)"

text \<open>The whole.\<close>

definition prepForZeroHeightGenesis ::
  "('c, 'v, 'e, 'r, 'u, 'i, 'w) export_env \<Rightarrow> int \<Rightarrow> string list \<Rightarrow> 'c frame \<Rightarrow> unit outcome \<times> 'c frame" where
  "prepForZeroHeightGenesis E height jailAllowedAddrs =
     bindM (allowed_addresses E jailAllowedAddrs) (\<lambda>_.
     bindM (withdraw_commissions E height) (\<lambda>_.
     bindM (on_store (GetAllDelegations E height)) (\<lambda>dels.
     bindM (withdraw_rewards E height dels) (\<lambda>_.
     bindM (reinit_delegations E height dels) (\<lambda>_.
     bindM (on_store (DeleteAllValidatorSlashEvents E height)) (\<lambda>_.
     bindM (on_store (DeleteAllValidatorHistoricalRewards E height)) (\<lambda>_.
     bindM (reinit_validators E 0) (\<lambda>_.
     bindM (reset_redelegations E height) (\<lambda>_.
     bindM (reset_unbonding_delegations E height) (\<lambda>_.
     bindM (on_store (reset_validators E height jailAllowedAddrs)) (\<lambda>_.
     finish_preparation E height)))))))))))"

section \<open>\<open>ExportAppStateAndValidators\<close>\<close>

record ('j, 'l, 'p) exported_app =
  AppState :: 'j
  ExportedValidators :: 'l
  ExportedHeight :: int
  ConsensusParams :: 'p

text \<open>The module manager, the JSON encoder and the base application.\<close>

record ('c, 'g, 'j, 'l, 'p) export_base =
  LastBlockHeight :: int
  ExportGenesisForModules :: "int \<Rightarrow> string list \<Rightarrow> 'c \<Rightarrow> 'g outcome \<times> 'c"
  MarshalIndent :: "'g \<Rightarrow> 'j outcome"
  WriteValidators :: "int \<Rightarrow> 'c \<Rightarrow> 'l outcome \<times> 'c"
  GetConsensusParams :: "int \<Rightarrow> 'c \<Rightarrow> 'p"

definition ExportAppStateAndValidators ::
  "('c, 'v, 'e, 'r, 'u, 'i, 'w) export_env \<Rightarrow> ('c, 'g, 'j, 'l, 'p) export_base \<Rightarrow>
     bool \<Rightarrow> string list \<Rightarrow> string list \<Rightarrow> 'c \<Rightarrow> ('j, 'l, 'p) exported_app outcome \<times> 'c" where
  "ExportAppStateAndValidators E A forZeroHeight jailAllowedAddrs modulesToExport =
     (let ctx = LastBlockHeight A;
          height = (if forZeroHeight then 0 else LastBlockHeight A + 1) in
      bindM (\<lambda>c.
        if forZeroHeight
        then (case prepForZeroHeightGenesis E ctx jailAllowedAddrs (c, None) of (r, s) \<Rightarrow> (r, fst s))
        else (Ok (), c)) (\<lambda>_.
      bindM (ExportGenesisForModules A ctx modulesToExport) (\<lambda>genState.
      bindM (liftM (MarshalIndent A genState)) (\<lambda>appState.
      bindM (WriteValidators A ctx) (\<lambda>validators c.
        (Ok \<lparr>AppState = appState, ExportedValidators = validators, ExportedHeight = height,
             ConsensusParams = GetConsensusParams A ctx c\<rparr>, c))))))"

end
