(* ===== verification/Export_Properties.thy ===== *)
theory Export_Properties
  imports Export_Zero
begin

text \<open>
  What the export for height zero does to the stores: the laws of the SDK's iterators and of the
  staking store the theorems rest on, a concrete store that satisfies them, and the properties.
\<close>

section \<open>What the keepers promise\<close>

text \<open>An iterator calls back on the elements the store holds when it starts, until told to stop.\<close>

definition iterates :: "('c, 'a) iterator \<Rightarrow> ('c \<Rightarrow> 'a list) \<Rightarrow> bool" where
  "iterates it elems \<longleftrightarrow> (\<forall>f h s. it f h s = visit f (elems (fst s)) s)"

lemma iterates_capture:
  assumes "iterates it elems" and "forM f (elems c) c = (r, c')"
  shows "bindM (it (\<lambda>x. capture (f x)) h) (\<lambda>_. raise_captured) (c, None) =
    (r, (c', case r of Err e \<Rightarrow> Some e | _ \<Rightarrow> None))"
proof -
  have "it (\<lambda>x. capture (f x)) h (c, None) = visit (\<lambda>x. capture (f x)) (elems c) (c, None)"
    using assms(1) by (simp add: iterates_def)
  then have "bindM (it (\<lambda>x. capture (f x)) h) (\<lambda>_. raise_captured) (c, None) =
      bindM (visit (\<lambda>x. capture (f x)) (elems c)) (\<lambda>_. raise_captured) (c, None)"
    by (simp add: bindM_def)
  with capture_forM [OF assms(2)] show ?thesis by simp
qed

lemma iterates_capture_eq:
  assumes "iterates it elems"
  shows "map_prod id fst (bindM (it (\<lambda>x. capture (f x)) h) (\<lambda>_. raise_captured) (c, None)) = forM f (elems c) c"
  using iterates_capture [OF assms, of f c "fst (forM f (elems c) c)" "snd (forM f (elems c) c)" h] by simp

text \<open>
  The staking store holds the validators by address: reading finds what is there, writing a
  validator that is there replaces it, and the keys are those of the validators.
\<close>

definition validator_store ::
  "('c, 'v, 'e, 'r, 'u, 'i, 'w) export_env \<Rightarrow> ('c \<Rightarrow> addr \<Rightarrow> 'v staking_validator_scheme option) \<Rightarrow> bool" where
  "validator_store E vals \<longleftrightarrow>
     (\<forall>h a c v. vals c a = Some v \<longrightarrow> GetValidator E h a c = (Ok v, c)) \<and>
     (\<forall>h a c v v'. vals c a = Some v \<longrightarrow> OperatorAddress v' = OperatorAddress v \<longrightarrow>
        (\<exists>c'. SetValidator E h v' c = (Ok (), c') \<and> vals c' = (vals c)(a \<mapsto> v'))) \<and>
     (\<forall>c. AddressFromValidatorsKey E ` set (ValidatorsKeysReversed E c) = dom (vals c))"

lemma validator_storeD:
  assumes "validator_store E vals"
  shows "vals c a = Some v \<Longrightarrow> GetValidator E h a c = (Ok v, c)"
    and "vals c a = Some v \<Longrightarrow> OperatorAddress v' = OperatorAddress v \<Longrightarrow>
      \<exists>c'. SetValidator E h v' c = (Ok (), c') \<and> vals c' = (vals c)(a \<mapsto> v')"
    and "AddressFromValidatorsKey E ` set (ValidatorsKeysReversed E c) = dom (vals c)"
  using assms unfolding validator_store_def by blast+

text \<open>What becomes of one validator.\<close>

definition restarted ::
  "('c, 'v, 'e, 'r, 'u, 'i, 'w) export_env \<Rightarrow> string list \<Rightarrow> addr \<Rightarrow> 'v staking_validator_scheme \<Rightarrow> 'v staking_validator_scheme" where
  "restarted E allowed a v =
     v\<lparr>UnbondingHeight := 0, Jailed := Jailed v \<or> allowed \<noteq> [] \<and> ValAddressString E a \<notin> set allowed\<rparr>"

lemma restarted_simps [simp]:
  "OperatorAddress (restarted E allowed a v) = OperatorAddress v"
  "restarted E allowed a (restarted E allowed a v) = restarted E allowed a v"
  by (auto simp: restarted_def)

lemma reset_validator_restarts:
  assumes "validator_store E vals" and "vals c (AddressFromValidatorsKey E key) = Some v"
  shows "\<exists>c'. reset_validator E h allowed key c = (Ok (), c') \<and>
    vals c' = (vals c)(AddressFromValidatorsKey E key \<mapsto> restarted E allowed (AddressFromValidatorsKey E key) v)"
proof -
  let ?a = "AddressFromValidatorsKey E key"
  have "reset_validator E h allowed key c = SetValidator E h (restarted E allowed ?a v) c"
    using validator_storeD(1) [OF assms]
    by (simp add: reset_validator_def restarted_def bindM_def Let_def)
  then show ?thesis
    using validator_storeD(2) [OF assms, of "restarted E allowed ?a v" h] by simp
qed

text \<open>
  After the loop over the validators every one of them is still there, with the height at
  which it left the bonded set back to 0, and jailed exactly when it was jailed before or when a list of
  operators was given and it is not on it; nothing else about it has changed.
\<close>

lemma validators_restart_all:
  assumes "validator_store E vals"
  shows "\<exists>c'. reset_validators E h allowed c = (Ok (), c') \<and>
    (\<forall>a. vals c' a = map_option (restarted E allowed a) (vals c a))"
proof -
  let ?addr = "AddressFromValidatorsKey E"
  define fresh where "fresh = (\<lambda>keys c'. \<forall>a. vals c' a =
    (if a \<in> ?addr ` set keys then map_option (restarted E allowed a) (vals c a) else vals c a))"
  have "\<exists>c'. forM (reset_validator E h allowed) (ValidatorsKeysReversed E c) c = (Ok (), c') \<and>
      fresh (ValidatorsKeysReversed E c) c'"
  proof (rule forM_total)
    show "fresh [] c" by (simp add: fresh_def)
  next
    fix seen key todo c1
    assume keys: "ValidatorsKeysReversed E c = seen @ key # todo" and seen: "fresh seen c1"
    have "?addr key \<in> dom (vals c)"
      using validator_storeD(3) [OF assms, of c] keys by auto
    then obtain v where v: "vals c (?addr key) = Some v" by blast
    then obtain w where w: "vals c1 (?addr key) = Some w" "restarted E allowed (?addr key) w = restarted E allowed (?addr key) v"
      using seen by (cases "?addr key \<in> ?addr ` set seen") (auto simp: fresh_def)
    obtain c2 where c2: "reset_validator E h allowed key c1 = (Ok (), c2)"
        "vals c2 = (vals c1)(?addr key \<mapsto> restarted E allowed (?addr key) w)"
      using reset_validator_restarts [OF assms w(1)] by blast
    then show "\<exists>s'. reset_validator E h allowed key c1 = (Ok (), s') \<and> fresh (seen @ [key]) s'"
      using seen v w(2) by (auto simp: fresh_def)
  qed
  then show ?thesis
    using validator_storeD(3) [OF assms, of c]
    by (auto simp: reset_validators_def fresh_def dom_def)
qed

section \<open>A store\<close>

record ref_store =
  RValidators :: "staking_validator list"
  RRedelegations :: "unit unbonding list"
  RInfos :: "(addr \<times> signing_info) list"

definition ref_address :: "string \<Rightarrow> addr" where
  "ref_address s = map (\<lambda>c. word_of_nat (of_char c)) s"

definition ref_validators :: "ref_store \<Rightarrow> addr \<Rightarrow> staking_validator option" where
  "ref_validators c a = find (\<lambda>v. ref_address (OperatorAddress v) = a) (RValidators c)"

definition ref_export :: "(ref_store, unit, unit, unit, unit, unit, int) export_env" where
  "ref_export =
     \<lparr>ValAddressFromBech32 = (\<lambda>s. Ok (ref_address s)), AccAddressFromBech32 = (\<lambda>s. Ok (ref_address s)),
      ValAddressString = (\<lambda>a. map (\<lambda>b. char_of (unat b)) a),
      IterateValidators = (\<lambda>f h s. visit f (RValidators (fst s)) s),
      WithdrawValidatorCommission = (\<lambda>_ _. retM ()), GetAllDelegations = (\<lambda>_. retM []),
      WithdrawDelegationRewards = (\<lambda>_ _ _. retM ()), BeforeDelegationCreated = (\<lambda>_ _ _. retM ()),
      AfterDelegationModified = (\<lambda>_ _ _. retM ()), DeleteAllValidatorSlashEvents = (\<lambda>_. retM ()),
      DeleteAllValidatorHistoricalRewards = (\<lambda>_. retM ()),
      GetValidatorOutstandingRewardsCoins = (\<lambda>_ _. failM ErrNotFound),
      FeePool_Get = (\<lambda>_. retM 0), FeePool_Set = (\<lambda>_ _. retM ()), DecCoinsAdd = (\<lambda>x y. Ok (x + y)),
      AfterValidatorCreated = (\<lambda>_ _. retM ()),
      IterateRedelegations = (\<lambda>f h s. visit f (RRedelegations (fst s)) s),
      SetRedelegation = (\<lambda>h red c. (Ok (), c\<lparr>RRedelegations := red # RRedelegations c\<rparr>)),
      IterateUnbondingDelegations = (\<lambda>f h s. visit f [] s), SetUnbondingDelegation = (\<lambda>h ubd. retM ()),
      ValidatorsKeysReversed = (\<lambda>c. map (\<lambda>v. ref_address (OperatorAddress v)) (rev (RValidators c))),
      AddressFromValidatorsKey = (\<lambda>k. k), IteratorClose = (\<lambda>_. Ok ()),
      GetValidator = (\<lambda>h a c. (case ref_validators c a of None \<Rightarrow> Err ErrNotFound | Some v \<Rightarrow> Ok v, c)),
      SetValidator = (\<lambda>h v c. (Ok (), c\<lparr>RValidators :=
        map (\<lambda>w. if ref_address (OperatorAddress w) = ref_address (OperatorAddress v) then v else w) (RValidators c)\<rparr>)),
      ApplyAndReturnValidatorSetUpdates = (\<lambda>_. retM ()),
      IterateValidatorSigningInfos = (\<lambda>f h s. visit f (RInfos (fst s)) s),
      SetValidatorSigningInfo = (\<lambda>h a info. failM ErrNotFound)\<rparr>"

lemma find_replaced:
  assumes "find (\<lambda>w. k w = a) ws = Some v" and "k v' = a"
  shows "find (\<lambda>w. k w = b) (map (\<lambda>w. if k w = a then v' else w) ws) = (if b = a then Some v' else find (\<lambda>w. k w = b) ws)"
proof -
  have "find (\<lambda>w. k w = b) (map (\<lambda>w. if k w = a then v' else w) ws) =
      (if b = a \<and> (\<exists>w \<in> set ws. k w = a) then Some v' else find (\<lambda>w. k w = b) ws)"
    using assms(2) by (induction ws) auto
  moreover have "\<exists>w \<in> set ws. k w = a"
    using assms(1) by (auto simp: find_Some_iff)
  ultimately show ?thesis by auto
qed

section \<open>Properties\<close>

text \<open>
  Claim C33. Resetting redelegations, unbonding delegations and signing records through a callback
  that stores its error in a variable is the same as a plain loop that returns its first error: every
  element is written back with all its heights 0 (and nothing else changed) until one write fails,
  and that error is what the function returns.
\<close>

theorem reset_loops_return_errors:
  assumes "iterates (IterateRedelegations E) reds" and "iterates (IterateUnbondingDelegations E) ubds"
    and "iterates (IterateValidatorSigningInfos E) infos"
  shows "map_prod id fst (reset_redelegations E h (c, None)) =
      forM (\<lambda>red. SetRedelegation E h (reset_entries red)) (reds c) c \<and>
    map_prod id fst (reset_unbonding_delegations E h (c, None)) =
      forM (\<lambda>ubd. SetUnbondingDelegation E h (reset_entries ubd)) (ubds c) c \<and>
    map_prod id fst (reset_signing_infos E h (c, None)) =
      forM (\<lambda>(a, info). SetValidatorSigningInfo E h a (info\<lparr>StartHeight := 0\<rparr>)) (infos c) c \<and>
    map CreationHeight (Entries (reset_entries red)) = replicate (length (Entries red)) 0"
proof (intro conjI)
  show "map_prod id fst (reset_redelegations E h (c, None)) =
      forM (\<lambda>red. SetRedelegation E h (reset_entries red)) (reds c) c"
    unfolding reset_redelegations_def by (rule iterates_capture_eq [OF assms(1)])
  show "map_prod id fst (reset_unbonding_delegations E h (c, None)) =
      forM (\<lambda>ubd. SetUnbondingDelegation E h (reset_entries ubd)) (ubds c) c"
    unfolding reset_unbonding_delegations_def by (rule iterates_capture_eq [OF assms(2)])
  show "map_prod id fst (reset_signing_infos E h (c, None)) =
      forM (\<lambda>(a, info). SetValidatorSigningInfo E h a (info\<lparr>StartHeight := 0\<rparr>)) (infos c) c"
    using iterates_capture_eq [OF assms(3), of "\<lambda>(a, info). SetValidatorSigningInfo E h a (info\<lparr>StartHeight := 0\<rparr>)" h c]
    by (simp add: reset_signing_infos_def split_def)
  show "map CreationHeight (Entries (reset_entries red)) = replicate (length (Entries red)) 0"
    by (simp add: reset_entries_def comp_def map_replicate_const)
qed

theorem reset_loops_return_errors_witness:
  "reset_redelegations ref_export 5
      (\<lparr>RValidators = [], RRedelegations = [\<lparr>Entries = [\<lparr>CreationHeight = 3\<rparr>, \<lparr>CreationHeight = 4\<rparr>]\<rparr>], RInfos = []\<rparr>, None) =
    (Ok (), \<lparr>RValidators = [], RRedelegations = [\<lparr>Entries = [\<lparr>CreationHeight = 0\<rparr>, \<lparr>CreationHeight = 0\<rparr>]\<rparr>,
       \<lparr>Entries = [\<lparr>CreationHeight = 3\<rparr>, \<lparr>CreationHeight = 4\<rparr>]\<rparr>], RInfos = []\<rparr>, None) \<and>
   fst (reset_signing_infos ref_export 5 (\<lparr>RValidators = [], RRedelegations = [], RInfos = [([1], \<lparr>StartHeight = 2\<rparr>)]\<rparr>, None)) =
     Err ErrNotFound"
proof -
  let ?c = "\<lparr>RValidators = [], RRedelegations = [\<lparr>Entries = [\<lparr>CreationHeight = 3\<rparr>, \<lparr>CreationHeight = 4\<rparr>]\<rparr>], RInfos = []\<rparr>"
  let ?d = "\<lparr>RValidators = [], RRedelegations = [], RInfos = [([1], \<lparr>StartHeight = 2\<rparr>)]\<rparr>"
  have it: "iterates (IterateRedelegations ref_export) RRedelegations"
    "iterates (IterateUnbondingDelegations ref_export) (\<lambda>_. [])"
    "iterates (IterateValidatorSigningInfos ref_export) RInfos"
    by (simp_all add: iterates_def ref_export_def)
  have "map_prod id fst (reset_signing_infos ref_export 5 (?d, None)) =
      forM (\<lambda>(a, info). SetValidatorSigningInfo ref_export 5 a (info\<lparr>StartHeight := 0\<rparr>)) (RInfos ?d) ?d"
    by (rule reset_loops_return_errors [OF it, THEN conjunct2, THEN conjunct2, THEN conjunct1])
  also have "\<dots> = (Err ErrNotFound, ?d)"
    by (simp add: ref_export_def bindM_def)
  finally have "fst (reset_signing_infos ref_export 5 (?d, None)) = Err ErrNotFound"
    by (cases "reset_signing_infos ref_export 5 (?d, None)") simp
  then show ?thesis
    by (simp add: reset_redelegations_def ref_export_def bindM_def capture_def raise_captured_def reset_entries_def)
qed



end
