(* ===== verification/Export_Preparation.thy ===== *)
theory Export_Preparation
  imports Export_Properties
begin

text \<open>
  The preparation for height zero as a whole: what a \<open>prepForZeroHeightGenesis\<close> that returned nil has
  left in the stores of the staking and slashing modules, from the phases of \<open>Export_Properties\<close> and
  frame laws that say which stores a call of a keeper leaves alone.
\<close>

section \<open>Laws of the stores\<close>

text \<open>A call that leaves a part of the store alone, whatever it returns.\<close>

definition leaves :: "('c \<Rightarrow> 'x) \<Rightarrow> ('c \<Rightarrow> 'a outcome \<times> 'c) \<Rightarrow> bool" where
  "leaves view m \<longleftrightarrow> (\<forall>c. view (snd (m c)) = view c)"

lemma leavesD: "leaves view m \<Longrightarrow> m c = (r, c') \<Longrightarrow> view c' = view c"
  unfolding leaves_def by (metis snd_conv)

lemma leaves_pure [simp]: "leaves view (retM x)" "leaves view (failM e)" "leaves view (liftM r)"
  by (simp_all add: leaves_def)

lemma leaves_bindM:
  assumes "leaves view m" and "\<And>x. leaves view (f x)"
  shows "leaves view (bindM m f)"
  unfolding leaves_def
proof
  fix c
  obtain r c1 where m: "m c = (r, c1)" by fastforce
  then show "view (snd (bindM m f c)) = view c"
    using leavesD [OF assms(1) m] assms(2) by (cases r) (auto simp: bindM_def leaves_def)
qed

lemma leaves_forM: "(\<And>x. leaves view (f x)) \<Longrightarrow> leaves view (forM f xs)"
  by (induction xs) (auto intro: leaves_bindM)

text \<open>A write of a record whose key is there replaces that record and nothing else of the list.\<close>

definition puts_record ::
  "('a \<Rightarrow> 'c \<Rightarrow> unit outcome \<times> 'c) \<Rightarrow> ('c \<Rightarrow> 'a list) \<Rightarrow> ('a \<Rightarrow> 'k) \<Rightarrow> bool" where
  "puts_record put recs key \<longleftrightarrow>
     (\<forall>x c c'. put x c = (Ok (), c') \<longrightarrow> key x \<in> key ` set (recs c) \<longrightarrow>
        recs c' = map (\<lambda>y. if key y = key x then x else y) (recs c))"

lemma all_rewritten:
  assumes put: "puts_record put recs key" and key: "\<And>x. key (f x) = key x"
    and run: "forM (\<lambda>x. put (f x)) (recs c) c = (Ok u, c')"
  shows "map key (recs c') = map key (recs c) \<and> set (recs c') \<subseteq> f ` set (recs c)"
proof -
  define I where "I = (\<lambda>seen c1. map key (recs c1) = map key (recs c) \<and>
    (\<forall>y \<in> set (recs c1). key y \<in> key ` set seen \<longrightarrow> y \<in> f ` set (recs c)))"
  have "I (recs c) c'"
  proof (rule forM_Ok_rule [OF run])
    show "I [] c" by (simp add: I_def)
  next
    fix seen x todo c1 c2
    assume split: "recs c = seen @ x # todo" and I: "I seen c1" and step: "put (f x) c1 = (Ok (), c2)"
    have keys: "map key (recs c1) = map key (recs c)" using I by (simp add: I_def)
    then have "key ` set (recs c1) = key ` set (recs c)" by (metis set_map)
    then have "key (f x) \<in> key ` set (recs c1)" using split by (simp add: key)
    then have c2: "recs c2 = map (\<lambda>y. if key y = key x then f x else y) (recs c1)"
      using put step by (auto simp: puts_record_def key)
    have "map key (recs c2) = map key (recs c1)"
      by (auto simp: c2 key)
    then show "I (seen @ [x]) c2"
      using I keys split by (auto simp: I_def c2 key split: if_splits)
  qed
  moreover have "key y \<in> key ` set (recs c)" if "y \<in> set (recs c')" for y
    using that calculation unfolding I_def by (metis image_eqI set_map)
  ultimately show ?thesis by (auto simp: I_def)
qed

text \<open>A captured error that was not raised was never set: the loop ran through.\<close>

lemma visit_captured_Ok:
  "bindM (visit (\<lambda>x. capture (f x)) xs) (\<lambda>_. raise_captured) (c, e) = (Ok u, (c', e')) \<Longrightarrow>
   forM f xs c = (Ok (), c')"
proof (induction xs arbitrary: c e)
  case Nil
  then show ?case by (auto simp: bindM_def raise_captured_def split: option.splits)
next
  case (Cons x xs)
  obtain q c1 where step: "f x c = (q, c1)" by fastforce
  then show ?case
    using Cons by (cases q) (auto simp: bindM_def capture_def raise_captured_def)
qed

lemma iterates_captured_Ok:
  assumes "iterates it elems"
    and "bindM (it (\<lambda>x. capture (f x)) h) (\<lambda>_. raise_captured) (c, e) = (Ok u, (c', e'))"
  shows "forM f (elems c) c = (Ok (), c')"
proof (rule visit_captured_Ok)
  have "it (\<lambda>x. capture (f x)) h (c, e) = visit (\<lambda>x. capture (f x)) (elems c) (c, e)"
    using assms(1) by (simp add: iterates_def)
  then show "bindM (visit (\<lambda>x. capture (f x)) (elems c)) (\<lambda>_. raise_captured) (c, e) = (Ok u, (c', e'))"
    using assms(2) by (simp add: bindM_def)
qed

lemma on_store_Ok: "on_store m s = (r, s') \<Longrightarrow> m (fst s) = (r, fst s') \<and> snd s' = snd s"
  by (auto simp: on_store_def split: prod.splits)

section \<open>What each phase leaves\<close>

definition stamps_zero :: "('e, 'r) unbonding_scheme list \<Rightarrow> bool" where
  "stamps_zero reds \<longleftrightarrow> (\<forall>red \<in> set reds. \<forall>x \<in> set (Entries red). CreationHeight x = 0)"

definition infos_zero :: "(addr \<times> 'i signing_info_scheme) list \<Rightarrow> bool" where
  "infos_zero infos \<longleftrightarrow> (\<forall>(a, info) \<in> set infos. StartHeight info = 0)"

lemma stamps_zero_reset: "set reds \<subseteq> reset_entries ` X \<Longrightarrow> stamps_zero reds"
  by (fastforce simp: stamps_zero_def reset_entries_def)

lemma reset_redelegations_zero:
  assumes "iterates (IterateRedelegations E) reds" and "puts_record (SetRedelegation E h) reds key"
    and "\<And>red. key (reset_entries red) = key red" and "reset_redelegations E h s = (Ok u, s')"
  shows "stamps_zero (reds (fst s'))"
proof -
  have "forM (\<lambda>red. SetRedelegation E h (reset_entries red)) (reds (fst s)) (fst s) = (Ok (), fst s')"
    using assms(4) iterates_captured_Ok [OF assms(1), where c = "fst s" and e = "snd s" and c' = "fst s'" and e' = "snd s'"]
    by (simp add: reset_redelegations_def)
  from all_rewritten [OF assms(2,3) this] show ?thesis
    using stamps_zero_reset by blast
qed

lemma reset_unbonding_delegations_zero:
  assumes "iterates (IterateUnbondingDelegations E) ubds" and "puts_record (SetUnbondingDelegation E h) ubds key"
    and "\<And>ubd. key (reset_entries ubd) = key ubd" and "reset_unbonding_delegations E h s = (Ok u, s')"
  shows "stamps_zero (ubds (fst s'))"
    and "(\<And>ubd. leaves view (SetUnbondingDelegation E h ubd)) \<Longrightarrow> view (fst s') = view (fst s)"
proof -
  have run: "forM (\<lambda>ubd. SetUnbondingDelegation E h (reset_entries ubd)) (ubds (fst s)) (fst s) = (Ok (), fst s')"
    using assms(4) iterates_captured_Ok [OF assms(1), where c = "fst s" and e = "snd s" and c' = "fst s'" and e' = "snd s'"]
    by (simp add: reset_unbonding_delegations_def)
  from all_rewritten [OF assms(2,3) this] show "stamps_zero (ubds (fst s'))"
    using stamps_zero_reset by blast
  show "view (fst s') = view (fst s)" if "\<And>ubd. leaves view (SetUnbondingDelegation E h ubd)"
    using that by (intro leavesD [OF leaves_forM run])
qed

lemma reset_signing_infos_zero:
  assumes "iterates (IterateValidatorSigningInfos E) infos"
    and "puts_record (\<lambda>(a, info). SetValidatorSigningInfo E h a info) infos fst"
    and "reset_signing_infos E h s = (Ok u, s')"
  shows "infos_zero (infos (fst s'))"
    and "(\<And>a info. leaves view (SetValidatorSigningInfo E h a info)) \<Longrightarrow> view (fst s') = view (fst s)"
proof -
  let ?f = "\<lambda>(a, info). (a, info\<lparr>StartHeight := 0\<rparr>)"
  have run: "forM (\<lambda>x. (\<lambda>(a, info). SetValidatorSigningInfo E h a info) (?f x)) (infos (fst s)) (fst s) = (Ok (), fst s')"
    using assms(3) iterates_captured_Ok [OF assms(1), where c = "fst s" and e = "snd s" and c' = "fst s'" and e' = "snd s'"]
    by (simp add: reset_signing_infos_def split_def)
  have "set (infos (fst s')) \<subseteq> ?f ` set (infos (fst s))"
    using all_rewritten [OF assms(2) _ run] by (simp add: split_def)
  then show "infos_zero (infos (fst s'))"
    by (auto simp: infos_zero_def)
  show "view (fst s') = view (fst s)" if "\<And>a info. leaves view (SetValidatorSigningInfo E h a info)"
    using that by (intro leavesD [OF leaves_forM run]) (simp add: split_def)
qed

section \<open>The whole preparation\<close>

text \<open>The phases after the reset of the redelegations, of a run that returned nil and closed its iterator.\<close>

lemma preparation_Ok:
  assumes "prepForZeroHeightGenesis E h allowed s = (Ok u, s')" and "\<And>c. IteratorClose E c = Ok ()"
  shows "\<exists>s0 s1 s2 c3 c4. reset_redelegations E h s0 = (Ok (), s1) \<and>
    reset_unbonding_delegations E h s1 = (Ok (), s2) \<and>
    reset_validators E h allowed (fst s2) = (Ok (), c3) \<and>
    ApplyAndReturnValidatorSetUpdates E h c3 = (Ok (), c4) \<and>
    reset_signing_infos E h (c4, snd s2) = (Ok (), s')"
  using assms(1)
  by (auto simp: prepForZeroHeightGenesis_def finish_preparation_def bindM_Ok_iff assms(2) mustM_Ok_iff dest!: on_store_Ok)
    metis

text \<open>
  The stores are apart: a write of one leaves the records of the others, and x/staking's update of the
  validator set rewrites no redelegation and no unbonding delegation.
\<close>

definition stores_apart ::
  "('c, 'v, 'e, 'r, 'u, 'i, 'w) export_env \<Rightarrow> int \<Rightarrow> ('c \<Rightarrow> ('e, 'r) unbonding_scheme list) \<Rightarrow>
   ('c \<Rightarrow> ('e, 'u) unbonding_scheme list) \<Rightarrow> ('c \<Rightarrow> addr \<Rightarrow> 'v staking_validator_scheme option) \<Rightarrow> bool" where
  "stores_apart E h reds ubds vals \<longleftrightarrow>
     (\<forall>x. leaves reds (SetUnbondingDelegation E h x)) \<and>
     (\<forall>a. leaves reds (GetValidator E h a)) \<and> (\<forall>a. leaves ubds (GetValidator E h a)) \<and>
     (\<forall>v. leaves reds (SetValidator E h v)) \<and> (\<forall>v. leaves ubds (SetValidator E h v)) \<and>
     leaves reds (ApplyAndReturnValidatorSetUpdates E h) \<and> leaves ubds (ApplyAndReturnValidatorSetUpdates E h) \<and>
     (\<forall>a info. leaves reds (SetValidatorSigningInfo E h a info)) \<and>
     (\<forall>a info. leaves ubds (SetValidatorSigningInfo E h a info)) \<and>
     (\<forall>a info. leaves vals (SetValidatorSigningInfo E h a info))"

lemma reset_validators_leaves:
  assumes "\<And>a. leaves view (GetValidator E h a)" and "\<And>v. leaves view (SetValidator E h v)"
    and "reset_validators E h allowed c = (r, c')"
  shows "view c' = view c"
proof -
  have "leaves view (reset_validator E h allowed key)" for key
    unfolding reset_validator_def Let_def using assms(1,2) by (intro leaves_bindM)
  then show ?thesis
    using assms(3) unfolding reset_validators_def by (rule leavesD [OF leaves_forM])
qed

lemma preparation_resets:
  assumes it: "iterates (IterateRedelegations E) reds" "iterates (IterateUnbondingDelegations E) ubds"
      "iterates (IterateValidatorSigningInfos E) infos"
    and puts: "puts_record (SetRedelegation E h) reds rkey" "puts_record (SetUnbondingDelegation E h) ubds ukey"
      "puts_record (\<lambda>(a, info). SetValidatorSigningInfo E h a info) infos fst"
    and keys: "\<And>red. rkey (reset_entries red) = rkey red" "\<And>ubd. ukey (reset_entries ubd) = ukey ubd"
    and store: "validator_store E vals" and apart: "stores_apart E h reds ubds vals"
    and close: "\<And>c. IteratorClose E c = Ok ()"
    and ok: "prepForZeroHeightGenesis E h allowed s = (Ok u, s')"
  shows "stamps_zero (reds (fst s')) \<and> stamps_zero (ubds (fst s')) \<and> infos_zero (infos (fst s')) \<and>
    (\<exists>c1 c2 c3. (\<forall>a. vals c2 a = map_option (restarted E allowed a) (vals c1 a)) \<and>
       ApplyAndReturnValidatorSetUpdates E h c2 = (Ok (), c3) \<and> vals (fst s') = vals c3)"
proof -
  obtain s0 s1 s2 c3 c4 where red: "reset_redelegations E h s0 = (Ok (), s1)"
    and ubd: "reset_unbonding_delegations E h s1 = (Ok (), s2)"
    and val: "reset_validators E h allowed (fst s2) = (Ok (), c3)"
    and app: "ApplyAndReturnValidatorSetUpdates E h c3 = (Ok (), c4)"
    and inf: "reset_signing_infos E h (c4, snd s2) = (Ok (), s')"
    using preparation_Ok [OF ok close] by blast
  note apart' = apart [unfolded stores_apart_def]
  note infos = reset_signing_infos_zero [OF it(3) puts(3) inf, unfolded fst_conv]
  have "reds (fst s2) = reds (fst s1)"
    by (rule reset_unbonding_delegations_zero(2) [OF it(2) puts(2) keys(2) ubd]) (use apart' in blast)
  moreover have "reds c3 = reds (fst s2)" "ubds c3 = ubds (fst s2)"
    by (rule reset_validators_leaves [OF _ _ val]; use apart' in blast)+
  moreover have "reds c4 = reds c3" "ubds c4 = ubds c3"
    by (rule leavesD [where m = "ApplyAndReturnValidatorSetUpdates E h", OF _ app]; use apart' in blast)+
  moreover have "reds (fst s') = reds c4" "ubds (fst s') = ubds c4" "vals (fst s') = vals c4"
    by (rule infos(2); use apart' in blast)+
  moreover have "\<forall>a. vals c3 a = map_option (restarted E allowed a) (vals (fst s2) a)"
    using validators_restart_all [OF store, of h allowed "fst s2"] val by simp
  ultimately show ?thesis
    using reset_redelegations_zero [OF it(1) puts(1) keys(1) red]
      reset_unbonding_delegations_zero(1) [OF it(2) puts(2) keys(2) ubd] infos(1) app by metis
qed

text \<open>
  Claim C18. An export for height zero that succeeded, end to end: the height it announces is 0, and the
  genesis it prints was exported from a store in which every entry of every redelegation and unbonding
  delegation was made at height 0, every signing record starts at height 0, and the validator set was
  computed by x/staking from validators all of which have left their unbonding height behind and are
  jailed exactly when they were before or a list of operators was given and they are not on it. The
  stores keep their laws and the iterator over the validators can be closed.
\<close>

theorem zero_height_export:
  assumes "iterates (IterateRedelegations E) reds" and "iterates (IterateUnbondingDelegations E) ubds"
    and "iterates (IterateValidatorSigningInfos E) infos"
    and "puts_record (SetRedelegation E h) reds rkey" and "puts_record (SetUnbondingDelegation E h) ubds ukey"
    and "puts_record (\<lambda>(a, info). SetValidatorSigningInfo E h a info) infos fst"
    and "\<And>red. rkey (reset_entries red) = rkey red" and "\<And>ubd. ukey (reset_entries ubd) = ukey ubd"
    and "validator_store E vals" and "stores_apart E h reds ubds vals" and "\<And>c. IteratorClose E c = Ok ()"
    and "h = LastBlockHeight A" and "ExportAppStateAndValidators E A True allowed modules c = (Ok x, c')"
  shows "ExportedHeight x = 0 \<and>
    (\<exists>d genState d'. ExportGenesisForModules A h modules d = (Ok genState, d') \<and> MarshalIndent A genState = Ok (AppState x) \<and>
       stamps_zero (reds d) \<and> stamps_zero (ubds d) \<and> infos_zero (infos d) \<and>
       (\<exists>c1 c2 c3. (\<forall>a. vals c2 a = map_option (restarted E allowed a) (vals c1 a)) \<and>
          ApplyAndReturnValidatorSetUpdates E h c2 = (Ok (), c3) \<and> vals d = vals c3))"
proof -
  obtain s genState d' where prep: "prepForZeroHeightGenesis E h allowed (c, None) = (Ok (), s)"
    and export: "ExportGenesisForModules A h modules (fst s) = (Ok genState, d')"
    and json: "MarshalIndent A genState = Ok (AppState x)" and height: "ExportedHeight x = 0"
    using assms(13) unfolding assms(12)
    by (auto simp: ExportAppStateAndValidators_def bindM_Ok_iff Let_def split: prod.splits outcome.splits)
  show ?thesis
    using preparation_resets [OF assms(1-11) prep] export json height by blast
qed

section \<open>A store\<close>

text \<open>A redelegation is known by a name next to its entries.\<close>

record prep_store =
  PValidators :: "staking_validator list"
  PRedelegations :: "(unit, string) unbonding_scheme list"
  PUnbondings :: "(unit, string) unbonding_scheme list"
  PInfos :: "(addr \<times> signing_info) list"

definition rewrite :: "('a \<Rightarrow> 'k) \<Rightarrow> 'a \<Rightarrow> 'a list \<Rightarrow> 'a list" where
  "rewrite key x ys = map (\<lambda>y. if key y = key x then x else y) ys"

definition prep_validators :: "prep_store \<Rightarrow> addr \<Rightarrow> staking_validator option" where
  "prep_validators c a = find (\<lambda>v. ref_address (OperatorAddress v) = a) (PValidators c)"

definition prep_export :: "(prep_store, unit, unit, string, string, unit, int) export_env" where
  "prep_export =
     \<lparr>ValAddressFromBech32 = (\<lambda>s. Ok (ref_address s)), AccAddressFromBech32 = (\<lambda>s. Ok (ref_address s)),
      ValAddressString = (\<lambda>a. map (\<lambda>b. char_of (unat b)) a),
      IterateValidators = (\<lambda>f h s. visit f (PValidators (fst s)) s),
      WithdrawValidatorCommission = (\<lambda>_ _. retM ()), GetAllDelegations = (\<lambda>_. retM []),
      WithdrawDelegationRewards = (\<lambda>_ _ _. retM ()), BeforeDelegationCreated = (\<lambda>_ _ _. retM ()),
      AfterDelegationModified = (\<lambda>_ _ _. retM ()), DeleteAllValidatorSlashEvents = (\<lambda>_. retM ()),
      DeleteAllValidatorHistoricalRewards = (\<lambda>_. retM ()),
      GetValidatorOutstandingRewardsCoins = (\<lambda>_ _. retM 3),
      FeePool_Get = (\<lambda>_. retM 0), FeePool_Set = (\<lambda>_ _. retM ()), DecCoinsAdd = (\<lambda>x y. Ok (x + y)),
      AfterValidatorCreated = (\<lambda>_ _. retM ()),
      IterateRedelegations = (\<lambda>f h s. visit f (PRedelegations (fst s)) s),
      SetRedelegation = (\<lambda>h red c. (Ok (), c\<lparr>PRedelegations := rewrite unbonding.more red (PRedelegations c)\<rparr>)),
      IterateUnbondingDelegations = (\<lambda>f h s. visit f (PUnbondings (fst s)) s),
      SetUnbondingDelegation = (\<lambda>h ubd c. (Ok (), c\<lparr>PUnbondings := rewrite unbonding.more ubd (PUnbondings c)\<rparr>)),
      ValidatorsKeysReversed = (\<lambda>c. map (\<lambda>v. ref_address (OperatorAddress v)) (rev (PValidators c))),
      AddressFromValidatorsKey = (\<lambda>k. k), IteratorClose = (\<lambda>_. Ok ()),
      GetValidator = (\<lambda>h a c. (case prep_validators c a of None \<Rightarrow> Err ErrNotFound | Some v \<Rightarrow> Ok v, c)),
      SetValidator = (\<lambda>h v c. (Ok (), c\<lparr>PValidators :=
        rewrite (\<lambda>w. ref_address (OperatorAddress w)) v (PValidators c)\<rparr>)),
      ApplyAndReturnValidatorSetUpdates = (\<lambda>_. retM ()),
      IterateValidatorSigningInfos = (\<lambda>f h s. visit f (PInfos (fst s)) s),
      SetValidatorSigningInfo = (\<lambda>h a info c. (Ok (), c\<lparr>PInfos := rewrite fst (a, info) (PInfos c)\<rparr>))\<rparr>"

lemma prep_laws:
  "iterates (IterateRedelegations prep_export) PRedelegations"
  "iterates (IterateUnbondingDelegations prep_export) PUnbondings"
  "iterates (IterateValidatorSigningInfos prep_export) PInfos"
  "puts_record (SetRedelegation prep_export h) PRedelegations unbonding.more"
  "puts_record (SetUnbondingDelegation prep_export h) PUnbondings unbonding.more"
  "puts_record (\<lambda>(a, info). SetValidatorSigningInfo prep_export h a info) PInfos fst"
  "unbonding.more (reset_entries red) = unbonding.more red"
  "stores_apart prep_export h PRedelegations PUnbondings prep_validators"
  "IteratorClose prep_export c = Ok ()"
  by (auto simp: iterates_def puts_record_def stores_apart_def leaves_def prep_export_def rewrite_def
      reset_entries_def prep_validators_def)

lemma prep_validator_store: "validator_store prep_export prep_validators"
  unfolding validator_store_def
proof (intro conjI allI impI)
  fix h a c and v v' :: staking_validator
  assume v: "prep_validators c a = Some v" and same: "OperatorAddress v' = OperatorAddress v"
  have a: "ref_address (OperatorAddress v') = a"
    using v same by (auto simp: prep_validators_def find_Some_iff)
  show "\<exists>c'. SetValidator prep_export h v' c = (Ok (), c') \<and> prep_validators c' = (prep_validators c)(a \<mapsto> v')"
    using find_replaced [OF v [unfolded prep_validators_def], of v'] a
    by (auto simp: prep_export_def prep_validators_def rewrite_def fun_eq_iff)
next
  fix c show "AddressFromValidatorsKey prep_export ` set (ValidatorsKeysReversed prep_export c) = dom (prep_validators c)"
    by (auto simp: prep_export_def prep_validators_def dom_def find_None_iff image_iff simp flip: not_None_eq)
qed (simp add: prep_export_def)

definition prep_base :: "(prep_store, nat, nat, unit, unit) export_base" where
  "prep_base =
     \<lparr>LastBlockHeight = 41, ExportGenesisForModules = (\<lambda>_ _ c. (Ok (length (PRedelegations c)), c)),
      MarshalIndent = Ok, WriteValidators = (\<lambda>_. retM ()), GetConsensusParams = (\<lambda>_ _. ())\<rparr>"

definition prep_chain :: prep_store where
  "prep_chain =
     \<lparr>PValidators = [\<lparr>OperatorAddress = ''a'', Jailed = False, UnbondingHeight = 7\<rparr>,
        \<lparr>OperatorAddress = ''b'', Jailed = False, UnbondingHeight = 8\<rparr>],
      PRedelegations = [\<lparr>Entries = [\<lparr>CreationHeight = 3\<rparr>, \<lparr>CreationHeight = 4\<rparr>], \<dots> = ''r''\<rparr>],
      PUnbondings = [\<lparr>Entries = [\<lparr>CreationHeight = 5\<rparr>], \<dots> = ''u''\<rparr>], PInfos = [([1], \<lparr>StartHeight = 2\<rparr>)]\<rparr>"

theorem zero_height_export_witness:
  "\<exists>x (d :: prep_store). fst (ExportAppStateAndValidators prep_export prep_base True [''a''] [] prep_chain) = Ok x \<and>
     ExportedHeight x = 0 \<and> AppState x = 1 \<and> length (PRedelegations d) = 1 \<and>
     stamps_zero (PRedelegations d) \<and> stamps_zero (PUnbondings d) \<and> infos_zero (PInfos d)"
proof -
  let ?r = "ExportAppStateAndValidators prep_export prep_base True [''a''] [] prep_chain"
  have run: "case fst ?r of Ok x \<Rightarrow> AppState x = 1 | _ \<Rightarrow> False" by code_simp
  then obtain x where x: "?r = (Ok x, snd ?r)" and one: "AppState x = 1"
    by (cases ?r) (auto split: outcome.splits)
  have h: "41 = LastBlockHeight prep_base" by (simp add: prep_base_def)
  note result = zero_height_export [OF prep_laws(1-7,7) prep_validator_store prep_laws(8,9) h x]
  obtain d genState d' where d: "ExportGenesisForModules prep_base 41 [] d = (Ok genState, d')"
      "MarshalIndent prep_base genState = Ok (AppState x)"
    and zero: "stamps_zero (PRedelegations d)" "stamps_zero (PUnbondings d)" "infos_zero (PInfos d)"
    using result by blast
  have "length (PRedelegations d) = AppState x"
    using d by (auto simp: prep_base_def)
  then show ?thesis
    using result zero one arg_cong [OF x, of fst] by (intro exI [of _ x] exI [of _ d]) simp
qed

end
