(* ===== verification/Gateway.thy ===== *)
theory Gateway
  imports Burn_Keeper Validator_Keeper
begin

text \<open>
  The HTTP gateways of the query services (\<^verbatim>\<open>x/burn/types/query.pb.gw.go\<close>,
  \<^verbatim>\<open>x/validator/types/query.pb.gw.go\<close>): a request is decoded from the path, answered by the query
  server (registered in the process) or by a client of it (over a connection), and forwarded. The
  routing library is a parameter: what it does with a request before and after (\<open>gateway_env\<close>) and
  how a compiled pattern matches a path. Registration is the list of routes in the order the code
  hands them to the multiplexer.
\<close>

section \<open>The parts of the routing library\<close>

text \<open>A compiled pattern: version, operations with their operands, string pool, verb.\<close>

datatype pattern = Pattern nat "nat list" "string list" string

text \<open>Header and trailer metadata of a call.\<close>

type_synonym header = "(string \<times> string) list"

record server_metadata =
  HeaderMD :: header
  TrailerMD :: header

definition no_metadata :: server_metadata where
  "no_metadata = \<lparr>HeaderMD = [], TrailerMD = []\<rparr>"

text \<open>
  What goes back: an error (with the metadata, once there is any) or the message, handed to the
  forwarding function of the library.
\<close>

datatype 'm http_reply =
    HTTPError "server_metadata option" error
  | ForwardResponseMessage server_metadata 'm
  | HandlerPanic

type_synonym path_params = "string \<Rightarrow> string option"

record ('q, 'x) gateway_env =
  AnnotateIncomingContext :: "'q \<Rightarrow> 'x outcome"
  AnnotateContext :: "'q \<Rightarrow> 'x outcome"
  StreamHeader :: "'x \<Rightarrow> header"
  StreamTrailer :: "'x \<Rightarrow> header"
  RuntimeString :: "string \<Rightarrow> string outcome"

text \<open>A route: the method, the pattern, the handler.\<close>

type_synonym ('q, 'm) route = "string \<times> pattern \<times> ('q \<Rightarrow> path_params \<Rightarrow> 'm http_reply)"

section \<open>Requests of x/burn\<close>

datatype burn_reply =
    ParamsReply burn_params
  | BurnStatsReply BurnStatsResponse
  | AccountBurnsReply string

text \<open>
  The generated interfaces \<open>QueryServer\<close> and \<open>QueryClient\<close>. A client call also fills in the metadata
  of the call.
\<close>

record 'x burn_QueryServer =
  Server_Params :: "'x \<Rightarrow> burn_params outcome"
  Server_BurnStats :: "'x \<Rightarrow> BurnStatsResponse outcome"
  Server_AccountBurns :: "'x \<Rightarrow> string option \<Rightarrow> string outcome"

record 'x burn_QueryClient =
  Client_Params :: "'x \<Rightarrow> burn_params outcome \<times> server_metadata"
  Client_BurnStats :: "'x \<Rightarrow> BurnStatsResponse outcome \<times> server_metadata"
  Client_AccountBurns :: "'x \<Rightarrow> string option \<Rightarrow> string outcome \<times> server_metadata"

text \<open>\<open>keeper.NewQueryServerImpl\<close>: the queries of the keeper, on the store the context holds.\<close>

definition burn_NewQueryServerImpl :: "'b burn_keeper \<Rightarrow> ('x \<Rightarrow> burn_store) \<Rightarrow> 'x burn_QueryServer" where
  "burn_NewQueryServerImpl K unwrap =
     \<lparr>Server_Params = (\<lambda>ctx. burn_query_Params (unwrap ctx)),
      Server_BurnStats = (\<lambda>ctx. query_BurnStats K (unwrap ctx)),
      Server_AccountBurns = (\<lambda>ctx req. query_AccountBurns K req (unwrap ctx))\<rparr>"

definition replied :: "('a \<Rightarrow> 'm) \<Rightarrow> 'a outcome \<Rightarrow> 'm outcome" where
  "replied f r = bindO r (\<lambda>x. Ok (f x))"

definition request_Query_Params_0 ::
  "'x burn_QueryClient \<Rightarrow> 'x \<Rightarrow> path_params \<Rightarrow> burn_reply outcome \<times> server_metadata" where
  "request_Query_Params_0 client ctx pathParams =
     (case Client_Params client ctx of (msg, metadata) \<Rightarrow> (replied ParamsReply msg, metadata))"

definition local_request_Query_Params_0 ::
  "'x burn_QueryServer \<Rightarrow> 'x \<Rightarrow> path_params \<Rightarrow> burn_reply outcome \<times> server_metadata" where
  "local_request_Query_Params_0 server ctx pathParams =
     (replied ParamsReply (Server_Params server ctx), no_metadata)"

definition request_Query_BurnStats_0 ::
  "'x burn_QueryClient \<Rightarrow> 'x \<Rightarrow> path_params \<Rightarrow> burn_reply outcome \<times> server_metadata" where
  "request_Query_BurnStats_0 client ctx pathParams =
     (case Client_BurnStats client ctx of (msg, metadata) \<Rightarrow> (replied BurnStatsReply msg, metadata))"

definition local_request_Query_BurnStats_0 ::
  "'x burn_QueryServer \<Rightarrow> 'x \<Rightarrow> path_params \<Rightarrow> burn_reply outcome \<times> server_metadata" where
  "local_request_Query_BurnStats_0 server ctx pathParams =
     (replied BurnStatsReply (Server_BurnStats server ctx), no_metadata)"

definition request_Query_AccountBurns_0 ::
  "('q, 'x) gateway_env \<Rightarrow> 'x burn_QueryClient \<Rightarrow> 'x \<Rightarrow> path_params \<Rightarrow> burn_reply outcome \<times> server_metadata" where
  "request_Query_AccountBurns_0 E client ctx pathParams =
     (case pathParams ''address'' of
        None \<Rightarrow> (Err InvalidArgument, no_metadata)
      | Some val \<Rightarrow>
          (case RuntimeString E val of
             Err e \<Rightarrow> (Err InvalidArgument, no_metadata)
           | Panic \<Rightarrow> (Panic, no_metadata)
           | Ok address \<Rightarrow>
               (case Client_AccountBurns client ctx (Some address) of (msg, metadata) \<Rightarrow>
                  (replied AccountBurnsReply msg, metadata))))"

definition local_request_Query_AccountBurns_0 ::
  "('q, 'x) gateway_env \<Rightarrow> 'x burn_QueryServer \<Rightarrow> 'x \<Rightarrow> path_params \<Rightarrow> burn_reply outcome \<times> server_metadata" where
  "local_request_Query_AccountBurns_0 E server ctx pathParams =
     (case pathParams ''address'' of
        None \<Rightarrow> (Err InvalidArgument, no_metadata)
      | Some val \<Rightarrow>
          (case RuntimeString E val of
             Err e \<Rightarrow> (Err InvalidArgument, no_metadata)
           | Panic \<Rightarrow> (Panic, no_metadata)
           | Ok address \<Rightarrow>
               (replied AccountBurnsReply (Server_AccountBurns server ctx (Some address)), no_metadata)))"

section \<open>Handlers\<close>

text \<open>
  The function literal every \<open>mux.Handle\<close> of \<open>RegisterQueryHandlerServer\<close> passes: annotate the
  context, answer, join the metadata of the stream, send the error or the message.
\<close>

definition serve_local ::
  "('q, 'x) gateway_env \<Rightarrow> ('x \<Rightarrow> path_params \<Rightarrow> 'm outcome \<times> server_metadata) \<Rightarrow> 'q \<Rightarrow> path_params \<Rightarrow> 'm http_reply" where
  "serve_local E local_request req pathParams =
     (case AnnotateIncomingContext E req of
        Err e \<Rightarrow> HTTPError None e
      | Panic \<Rightarrow> HandlerPanic
      | Ok rctx \<Rightarrow>
          (case local_request rctx pathParams of (resp, md) \<Rightarrow>
             let md = \<lparr>HeaderMD = HeaderMD md @ StreamHeader E rctx, TrailerMD = TrailerMD md @ StreamTrailer E rctx\<rparr> in
             (case resp of
                Err e \<Rightarrow> HTTPError (Some md) e
              | Panic \<Rightarrow> HandlerPanic
              | Ok msg \<Rightarrow> ForwardResponseMessage md msg)))"

text \<open>The same for \<open>RegisterQueryHandlerClient\<close>.\<close>

definition serve_client ::
  "('q, 'x) gateway_env \<Rightarrow> ('x \<Rightarrow> path_params \<Rightarrow> 'm outcome \<times> server_metadata) \<Rightarrow> 'q \<Rightarrow> path_params \<Rightarrow> 'm http_reply" where
  "serve_client E request req pathParams =
     (case AnnotateContext E req of
        Err e \<Rightarrow> HTTPError None e
      | Panic \<Rightarrow> HandlerPanic
      | Ok rctx \<Rightarrow>
          (case request rctx pathParams of (resp, md) \<Rightarrow>
             (case resp of
                Err e \<Rightarrow> HTTPError (Some md) e
              | Panic \<Rightarrow> HandlerPanic
              | Ok msg \<Rightarrow> ForwardResponseMessage md msg)))"

section \<open>Patterns and registration\<close>

definition burn_pattern_Query_Params_0 :: pattern where
  "burn_pattern_Query_Params_0 =
     Pattern 1 [2, 0, 2, 1, 2, 2, 2, 3, 2, 4] [''monolythium'', ''mono-chain'', ''burn'', ''v1'', ''params''] ''''"

definition pattern_Query_BurnStats_0 :: pattern where
  "pattern_Query_BurnStats_0 =
     Pattern 1 [2, 0, 2, 1, 2, 2, 2, 3, 2, 4] [''monolythium'', ''mono-chain'', ''burn'', ''v1'', ''stats''] ''''"

definition pattern_Query_AccountBurns_0 :: pattern where
  "pattern_Query_AccountBurns_0 =
     Pattern 1 [2, 0, 2, 1, 2, 2, 2, 3, 2, 4, 1, 0, 4, 1, 5, 5, 2, 6]
       [''monolythium'', ''mono-chain'', ''burn'', ''v1'', ''accounts'', ''address'', ''burns''] ''''"

definition burn_RegisterQueryHandlerServer ::
  "('q, 'x) gateway_env \<Rightarrow> 'x burn_QueryServer \<Rightarrow> ('q, burn_reply) route list" where
  "burn_RegisterQueryHandlerServer E server =
     [(''GET'', burn_pattern_Query_Params_0, serve_local E (local_request_Query_Params_0 server)),
      (''GET'', pattern_Query_BurnStats_0, serve_local E (local_request_Query_BurnStats_0 server)),
      (''GET'', pattern_Query_AccountBurns_0, serve_local E (local_request_Query_AccountBurns_0 E server))]"

definition burn_RegisterQueryHandlerClient ::
  "('q, 'x) gateway_env \<Rightarrow> 'x burn_QueryClient \<Rightarrow> ('q, burn_reply) route list" where
  "burn_RegisterQueryHandlerClient E client =
     [(''GET'', burn_pattern_Query_Params_0, serve_client E (request_Query_Params_0 client)),
      (''GET'', pattern_Query_BurnStats_0, serve_client E (request_Query_BurnStats_0 client)),
      (''GET'', pattern_Query_AccountBurns_0, serve_client E (request_Query_AccountBurns_0 E client))]"

text \<open>
  Over a connection: \<open>NewQueryClient\<close> and \<open>grpc.Dial\<close> are the library's. Registration cannot fail, so
  a connection that was made is handed to the goroutine that closes it when the context ends.
\<close>

datatype 'k connection = CloseWhenDone 'k

definition burn_RegisterQueryHandler ::
  "('q, 'x) gateway_env \<Rightarrow> ('k \<Rightarrow> 'x burn_QueryClient) \<Rightarrow> 'k \<Rightarrow> ('q, burn_reply) route list" where
  "burn_RegisterQueryHandler E newClient conn = burn_RegisterQueryHandlerClient E (newClient conn)"

definition burn_RegisterQueryHandlerFromEndpoint ::
  "('q, 'x) gateway_env \<Rightarrow> ('k \<Rightarrow> 'x burn_QueryClient) \<Rightarrow> (string \<Rightarrow> 'k outcome) \<Rightarrow> string
     \<Rightarrow> (('q, burn_reply) route list \<times> 'k connection) outcome" where
  "burn_RegisterQueryHandlerFromEndpoint E newClient dial endpoint =
     bindO (dial endpoint) (\<lambda>conn. Ok (burn_RegisterQueryHandler E newClient conn, CloseWhenDone conn))"

section \<open>The gateway of x/validator\<close>

text \<open>One query, the parameters.\<close>

definition validator_local_request_Query_Params_0 ::
  "('x \<Rightarrow> validator_params outcome) \<Rightarrow> 'x \<Rightarrow> path_params \<Rightarrow> validator_params outcome \<times> server_metadata" where
  "validator_local_request_Query_Params_0 server ctx pathParams = (server ctx, no_metadata)"

definition validator_request_Query_Params_0 ::
  "('x \<Rightarrow> validator_params outcome \<times> server_metadata) \<Rightarrow> 'x \<Rightarrow> path_params
     \<Rightarrow> validator_params outcome \<times> server_metadata" where
  "validator_request_Query_Params_0 client ctx pathParams = client ctx"

definition validator_pattern_Query_Params_0 :: pattern where
  "validator_pattern_Query_Params_0 =
     Pattern 1 [2, 0, 2, 1, 2, 2, 2, 3, 2, 4] [''monolythium'', ''mono-chain'', ''validator'', ''v1'', ''params''] ''''"

definition validator_RegisterQueryHandlerServer ::
  "('q, 'x) gateway_env \<Rightarrow> ('x \<Rightarrow> validator_params outcome) \<Rightarrow> ('q, validator_params) route list" where
  "validator_RegisterQueryHandlerServer E server =
     [(''GET'', validator_pattern_Query_Params_0, serve_local E (validator_local_request_Query_Params_0 server))]"

definition validator_RegisterQueryHandlerClient ::
  "('q, 'x) gateway_env \<Rightarrow> ('x \<Rightarrow> validator_params outcome \<times> server_metadata) \<Rightarrow> ('q, validator_params) route list" where
  "validator_RegisterQueryHandlerClient E client =
     [(''GET'', validator_pattern_Query_Params_0, serve_client E (validator_request_Query_Params_0 client))]"

definition validator_RegisterQueryHandler ::
  "('q, 'x) gateway_env \<Rightarrow> ('k \<Rightarrow> 'x \<Rightarrow> validator_params outcome \<times> server_metadata) \<Rightarrow> 'k
     \<Rightarrow> ('q, validator_params) route list" where
  "validator_RegisterQueryHandler E newClient conn = validator_RegisterQueryHandlerClient E (newClient conn)"

definition validator_RegisterQueryHandlerFromEndpoint ::
  "('q, 'x) gateway_env \<Rightarrow> ('k \<Rightarrow> 'x \<Rightarrow> validator_params outcome \<times> server_metadata) \<Rightarrow> (string \<Rightarrow> 'k outcome)
     \<Rightarrow> string \<Rightarrow> (('q, validator_params) route list \<times> 'k connection) outcome" where
  "validator_RegisterQueryHandlerFromEndpoint E newClient dial endpoint =
     bindO (dial endpoint) (\<lambda>conn. Ok (validator_RegisterQueryHandler E newClient conn, CloseWhenDone conn))"

end
