(* ===== verification/Gateway_Properties.thy ===== *)
theory Gateway_Properties
  imports Gateway Burn_Properties
begin

text \<open>
  What the gateways answer: which path reaches which query, and that the answer is the query
  server's. The matching of a compiled pattern is the routing library's; its documented meaning, a
  stack machine over the components of the path, is the hypothesis \<open>pattern_law\<close>.
\<close>

section \<open>Compiled patterns\<close>

fun slash_join :: "string list \<Rightarrow> string" where
  "slash_join [] = ''''"
| "slash_join [c] = c"
| "slash_join (c # cs) = c @ ''/'' @ slash_join cs"

text \<open>
  The operations: 1 pushes a component, 2 pushes a component that must be a literal of the pool, 4
  joins the top n components, 5 takes the top as the value of a variable of the pool. The stack has its
  top first; every component has to be consumed.
\<close>

fun run_ops :: "string list \<Rightarrow> nat list \<Rightarrow> string list \<Rightarrow> string list \<Rightarrow> path_params \<Rightarrow> path_params option" where
  "run_ops pool [] comps stack b = (if comps = [] then Some b else None)"
| "run_ops pool [op] comps stack b = None"
| "run_ops pool (op # n # ops) comps stack b =
     (if op = 2 then
        (case comps of [] \<Rightarrow> None | c # cs \<Rightarrow> if c = pool ! n then run_ops pool ops cs (c # stack) b else None)
      else if op = 1 then
        (case comps of [] \<Rightarrow> None | c # cs \<Rightarrow> run_ops pool ops cs (c # stack) b)
      else if op = 4 then run_ops pool ops comps (slash_join (rev (take n stack)) # drop n stack) b
      else if op = 5 then
        (case stack of [] \<Rightarrow> None | t # ts \<Rightarrow> run_ops pool ops comps ts (b(pool ! n \<mapsto> t)))
      else None)"

fun run_pattern :: "pattern \<Rightarrow> string list \<Rightarrow> path_params option" where
  "run_pattern (Pattern version ops pool verb) comps = run_ops pool ops comps [] Map.empty"

definition pattern_law :: "(pattern \<Rightarrow> string list \<Rightarrow> path_params option) \<Rightarrow> bool" where
  "pattern_law PM \<longleftrightarrow> (\<forall>p comps. PM p comps = run_pattern p comps)"

text \<open>The replies of the routes whose pattern matches the path of a GET request.\<close>

definition replies_to ::
  "(pattern \<Rightarrow> string list \<Rightarrow> path_params option) \<Rightarrow> ('q, 'm) route list \<Rightarrow> string list \<Rightarrow> 'q \<Rightarrow> 'm http_reply list" where
  "replies_to PM routes comps req =
     concat (map (\<lambda>(meth, p, h). case PM p comps of None \<Rightarrow> [] | Some b \<Rightarrow> [h req b]) routes)"

abbreviation burn_path :: "string list \<Rightarrow> string list" where
  "burn_path rest \<equiv> ''monolythium'' # ''mono-chain'' # ''burn'' # ''v1'' # rest"

lemma burn_patterns_match:
  "run_pattern burn_pattern_Query_Params_0 comps = (if comps = burn_path [''params''] then Some Map.empty else None)"
  "run_pattern pattern_Query_BurnStats_0 comps = (if comps = burn_path [''stats''] then Some Map.empty else None)"
  "run_pattern pattern_Query_AccountBurns_0 (burn_path [''accounts'', a, ''burns'']) = Some [''address'' \<mapsto> a]"
  by (auto simp: burn_pattern_Query_Params_0_def pattern_Query_BurnStats_0_def pattern_Query_AccountBurns_0_def
      split: list.splits)

lemma accounts_pattern_match:
  "run_pattern pattern_Query_AccountBurns_0 comps = Some b \<Longrightarrow>
     \<exists>a. comps = burn_path [''accounts'', a, ''burns''] \<and> b = [''address'' \<mapsto> a]"
  by (auto simp: pattern_Query_AccountBurns_0_def split: list.splits if_splits)

text \<open>A reply built from the answer of a query.\<close>

definition answered :: "server_metadata \<Rightarrow> 'm outcome \<Rightarrow> 'm http_reply" where
  "answered md r = (case r of Ok m \<Rightarrow> ForwardResponseMessage md m | Err e \<Rightarrow> HTTPError (Some md) e | Panic \<Rightarrow> HandlerPanic)"

definition stream_metadata :: "('q, 'x) gateway_env \<Rightarrow> 'x \<Rightarrow> server_metadata" where
  "stream_metadata E ctx = \<lparr>HeaderMD = StreamHeader E ctx, TrailerMD = StreamTrailer E ctx\<rparr>"

lemma serve_local_answered:
  "AnnotateIncomingContext E req = Ok ctx \<Longrightarrow> local_request ctx b = (r, no_metadata) \<Longrightarrow>
     serve_local E local_request req b = answered (stream_metadata E ctx) r"
  by (simp add: serve_local_def answered_def stream_metadata_def no_metadata_def split: outcome.splits)

text \<open>A reply without its metadata.\<close>

definition bare_reply :: "'m http_reply \<Rightarrow> 'm outcome" where
  "bare_reply r = (case r of HTTPError md e \<Rightarrow> Err e | ForwardResponseMessage md m \<Rightarrow> Ok m | HandlerPanic \<Rightarrow> Panic)"

lemma bare_reply_agree:
  assumes "AnnotateContext E = AnnotateIncomingContext E" and "\<And>x. fst (request x b) = fst (local_request x b)"
  shows "bare_reply (serve_client E request req b) = bare_reply (serve_local E local_request req b)"
  using assms(2)
  by (auto simp: bare_reply_def serve_client_def serve_local_def assms(1) split_def Let_def split: outcome.splits)

section \<open>Properties\<close>


definition ref_gateway :: "(unit, unit) gateway_env" where
  "ref_gateway = \<lparr>AnnotateIncomingContext = Ok, AnnotateContext = Ok, StreamHeader = (\<lambda>_. []),
     StreamTrailer = (\<lambda>_. []), RuntimeString = Ok\<rparr>"


text \<open>
  The two registrations serve the same answers: when the client relays the queries of the server
  and both ways of annotating a request give the same context, a request gets the same replies from
  the routes over a connection as from the routes in the process, whatever its path and however
  patterns are matched, up to the metadata.
\<close>

lemma gateway_registrations_agree:
  assumes "AnnotateContext E = AnnotateIncomingContext E"
    and "\<And>x. fst (Client_Params client x) = Server_Params server x"
    and "\<And>x. fst (Client_BurnStats client x) = Server_BurnStats server x"
    and "\<And>x r. fst (Client_AccountBurns client x r) = Server_AccountBurns server x r"
    and "\<And>x. fst (vclient x) = vserver x"
  shows "map bare_reply (replies_to PM (burn_RegisterQueryHandlerClient E client) comps req) =
      map bare_reply (replies_to PM (burn_RegisterQueryHandlerServer E server) comps req) \<and>
    map bare_reply (replies_to PM (validator_RegisterQueryHandlerClient E vclient) comps req) =
      map bare_reply (replies_to PM (validator_RegisterQueryHandlerServer E vserver) comps req)"
proof -
  have same: "bare_reply (serve_client E (request_Query_Params_0 client) req b) =
        bare_reply (serve_local E (local_request_Query_Params_0 server) req b)"
      "bare_reply (serve_client E (request_Query_BurnStats_0 client) req b) =
        bare_reply (serve_local E (local_request_Query_BurnStats_0 server) req b)"
      "bare_reply (serve_client E (request_Query_AccountBurns_0 E client) req b) =
        bare_reply (serve_local E (local_request_Query_AccountBurns_0 E server) req b)"
      "bare_reply (serve_client E (validator_request_Query_Params_0 vclient) req b) =
        bare_reply (serve_local E (validator_local_request_Query_Params_0 vserver) req b)" for b
    by (rule bare_reply_agree [OF assms(1)], simp add: assms(2-5) request_Query_Params_0_def local_request_Query_Params_0_def
        request_Query_BurnStats_0_def local_request_Query_BurnStats_0_def
        request_Query_AccountBurns_0_def local_request_Query_AccountBurns_0_def
        validator_request_Query_Params_0_def validator_local_request_Query_Params_0_def split_def
        split: option.split outcome.split)+
  show ?thesis
    by (simp add: replies_to_def burn_RegisterQueryHandlerClient_def burn_RegisterQueryHandlerServer_def
        validator_RegisterQueryHandlerClient_def validator_RegisterQueryHandlerServer_def same split: option.split)
qed

lemma gateway_registrations_agree_witness:
  "map bare_reply (replies_to run_pattern (burn_RegisterQueryHandlerClient ref_gateway
       \<lparr>Client_Params = (\<lambda>_. (Err ErrNotFound, no_metadata)), Client_BurnStats = (\<lambda>_. (Err ErrNotFound, no_metadata)),
        Client_AccountBurns = (\<lambda>_ r. (Ok (the r), no_metadata))\<rparr>) (burn_path [''accounts'', ''a'', ''burns'']) ()) =
   map bare_reply (replies_to run_pattern (burn_RegisterQueryHandlerServer ref_gateway
       \<lparr>Server_Params = (\<lambda>_. Err ErrNotFound), Server_BurnStats = (\<lambda>_. Err ErrNotFound),
        Server_AccountBurns = (\<lambda>_ r. Ok (the r))\<rparr>) (burn_path [''accounts'', ''a'', ''burns'']) ())"
  by (rule gateway_registrations_agree [where vserver = "\<lambda>_. Err ErrNotFound"
      and vclient = "\<lambda>_. (Err ErrNotFound, no_metadata)", THEN conjunct1]) (simp_all add: ref_gateway_def)

end
