(* ===== verification/Simulation.thy ===== *)
theory Simulation
  imports Validator_Gate
begin

text \<open>
  The random inputs of the simulator: genesis states and messages of x/burn and x/validator
  (\<^verbatim>\<open>x/burn/simulation\<close>, \<^verbatim>\<open>x/validator/simulation\<close>) and the wrapper that keeps the staking module's
  own simulated messages from aborting a run (\<open>stakingSimWrap\<close> of \<^verbatim>\<open>app/app.go\<close>). The random source,
  the accounts and the reporter of the SDK's simulation framework are one state \<open>'r\<close>; its operations
  are the fields of \<open>sim_env\<close>. A skipped operation is \<open>None\<close>.
\<close>

section \<open>The simulation framework\<close>

record 'p sim_account =
  Address :: addr
  AddressBech32 :: string
  ConsPubKey :: 'p

type_synonym ('p, 'r) account_filter = "'p sim_account \<Rightarrow> 'r \<Rightarrow> bool"

record ('p, 'y, 'r) sim_env =
  AnyAccount :: "('p, 'r) account_filter list \<Rightarrow> 'r \<Rightarrow> 'p sim_account option \<times> 'r"
  WithLiquidBalanceGTE :: "coin \<Rightarrow> ('p, 'r) account_filter"
  WithDenomBalance :: "string \<Rightarrow> ('p, 'r) account_filter"
  AmountOf :: "'p sim_account \<Rightarrow> string \<Rightarrow> 'r \<Rightarrow> int"
  RandSubsetCoin :: "'p sim_account \<Rightarrow> string \<Rightarrow> 'r \<Rightarrow> coin option \<times> 'r"
  BlockAmount :: "'p sim_account \<Rightarrow> coin \<Rightarrow> 'r \<Rightarrow> 'r"
  PositiveSDKIntInRange :: "int \<Rightarrow> int \<Rightarrow> 'r \<Rightarrow> int outcome \<times> 'r"
  Intn :: "int \<Rightarrow> 'r \<Rightarrow> int \<times> 'r"
  IntInRange :: "int \<Rightarrow> int \<Rightarrow> 'r \<Rightarrow> int \<times> 'r"
  DecN :: "int \<Rightarrow> 'r \<Rightarrow> int \<times> 'r"
  StringN :: "int \<Rightarrow> 'r \<Rightarrow> string \<times> 'r"
  IntSub :: "int \<Rightarrow> int \<Rightarrow> int outcome"
  QueryValidator :: "addr \<Rightarrow> 'r \<Rightarrow> unit outcome"
  ValBytesToString :: "addr \<Rightarrow> string outcome"
  NewAnyWithValue :: "'p \<Rightarrow> 'y outcome"
  ModuleAccountAddress :: "string \<Rightarrow> string"
  AppParam :: "string \<Rightarrow> int option"

text \<open>A random draw is a call that cannot fail.\<close>

definition drawM :: "('r \<Rightarrow> 'a \<times> 'r) \<Rightarrow> 'r \<Rightarrow> 'a outcome \<times> 'r" where
  "drawM f r = (case f r of (x, r') \<Rightarrow> (Ok x, r'))"

text \<open>\<open>AppParams.GetOrGenerate\<close>: a configured value, or a fresh one.\<close>

definition GetOrGenerate :: "('p, 'y, 'r) sim_env \<Rightarrow> string \<Rightarrow> ('r \<Rightarrow> int \<times> 'r) \<Rightarrow> 'r \<Rightarrow> int outcome \<times> 'r" where
  "GetOrGenerate E key gen = (case AppParam E key of Some v \<Rightarrow> retM v | None \<Rightarrow> drawM gen)"

text \<open>\<open>math.LegacyNewDecWithPrec(i, 2)\<close>\<close>

definition percent :: "int \<Rightarrow> int" where
  "percent i = i * 10 ^ 16"

section \<open>x/burn\<close>

definition burn_RandomizedGenState :: "('p, 'y, 'r) sim_env \<Rightarrow> 'r \<Rightarrow> burn_GenesisState outcome \<times> 'r" where
  "burn_RandomizedGenState E =
     bindM (GetOrGenerate E ''burn_fee_burn_percent'' (\<lambda>r. case Intn E 100 r of (i, r') \<Rightarrow> (percent i, r'))) (\<lambda>feeBurnPercent.
     retM \<lparr>gen_Params = burn_NewParams (Some feeBurnPercent), gen_Count = 0, gen_Total = None, gen_AccountTotals = []\<rparr>)"

definition MsgBurnFactory :: "('p, 'y, 'r) sim_env \<Rightarrow> 'r \<Rightarrow> ('p sim_account \<times> MsgBurn) option outcome \<times> 'r" where
  "MsgBurnFactory E =
     bindM (drawM (AnyAccount E [WithDenomBalance E DefaultBondDenom])) (\<lambda>picked.
       case picked of
         None \<Rightarrow> retM None
       | Some account \<Rightarrow>
           bindM (drawM (RandSubsetCoin E account DefaultBondDenom)) (\<lambda>coin.
             case coin of
               None \<Rightarrow> retM None
             | Some c \<Rightarrow> retM (Some (account, NewMsgBurn (AddressBech32 account) c))))"

definition burn_MsgUpdateParamsFactory :: "('p, 'y, 'r) sim_env \<Rightarrow> 'r \<Rightarrow> burn_MsgUpdateParams outcome \<times> 'r" where
  "burn_MsgUpdateParamsFactory E =
     bindM (drawM (DecN E dec_one)) (\<lambda>feeBurnPercent.
     retM \<lparr>bup_Authority = ModuleAccountAddress E GovModuleName, bup_Params = burn_NewParams (Some feeBurnPercent)\<rparr>)"

section \<open>x/validator\<close>

definition validator_RandomizedGenState ::
  "sdk_lib \<Rightarrow> ('p, 'y, 'r) sim_env \<Rightarrow> 'r \<Rightarrow> validator_GenesisState outcome \<times> 'r" where
  "validator_RandomizedGenState L E =
     bindM (GetOrGenerate E ''validator_registration_burn'' (Intn E 1000)) (\<lambda>registrationBurnAmount.
     bindM (GetOrGenerate E ''validator_min_self_delegation'' (Intn E 1000)) (\<lambda>minSelfDelegationAmount.
     bindM (liftM (NewCoin L DefaultBondDenom (Some registrationBurnAmount))) (\<lambda>registrationBurn.
     bindM (liftM (NewCoin L DefaultBondDenom (Some minSelfDelegationAmount))) (\<lambda>minSelfDelegation.
     retM \<lparr>vgen_Params = validator_NewParams registrationBurn minSelfDelegation\<rparr>))))"

text \<open>The message of x/staking with the fields the factory fills in besides.\<close>

record 'y simulated_create = MsgCreateValidator +
  Description :: "string list"
  CommissionRates :: "int list"
  Pubkey :: 'y

text \<open>
  An amount at random between \<open>base\<close> and \<open>limit\<close>: \<open>base\<close> itself when there is no room above it or the
  source reports an error.
\<close>

definition random_above :: "sdk_lib \<Rightarrow> ('p, 'y, 'r) sim_env \<Rightarrow> int \<Rightarrow> int \<Rightarrow> 'r \<Rightarrow> int outcome \<times> 'r" where
  "random_above L E base limit =
     (if base < limit then
        bindM (liftM (IntSub E limit base)) (\<lambda>span r.
          case PositiveSDKIntInRange E 0 span r of
            (Ok delta, r') \<Rightarrow> (IntAdd L base delta, r')
          | (Err e, r') \<Rightarrow> (Ok base, r')
          | (Panic, r') \<Rightarrow> (Panic, r'))
      else retM base)"

text \<open>The commission and the description, in the order they are drawn.\<close>

definition random_details :: "('p, 'y, 'r) sim_env \<Rightarrow> 'r \<Rightarrow> (string list \<times> int list) outcome \<times> 'r" where
  "random_details E =
     bindM (drawM (StringN E 10)) (\<lambda>moniker. bindM (drawM (StringN E 10)) (\<lambda>identity.
     bindM (drawM (StringN E 10)) (\<lambda>website. bindM (drawM (StringN E 10)) (\<lambda>contact.
     bindM (drawM (StringN E 10)) (\<lambda>details.
     bindM (drawM (IntInRange E 1 100)) (\<lambda>i.
     let maxCommission = percent i in
     bindM (drawM (DecN E maxCommission)) (\<lambda>rate.
     bindM (drawM (DecN E maxCommission)) (\<lambda>maxChange.
     retM ([moniker, identity, website, contact, details], [rate, maxCommission, maxChange])))))))))"

text \<open>The message, once an account that can pay is picked.\<close>

definition register_message ::
  "sdk_lib \<Rightarrow> ('p, 'y, 'r) sim_env \<Rightarrow> validator_params \<Rightarrow> int \<Rightarrow> int \<Rightarrow> 'p sim_account \<Rightarrow> 'r
     \<Rightarrow> ('p sim_account \<times> ('y, unit) simulated_create_ext MsgRegisterValidator) option outcome \<times> 'r" where
  "register_message L E params minBurn minSelfDel sender r0 =
     (let available = AmountOf E sender DefaultBondDenom r0 in
      bindM (liftM (IntSub E available minSelfDel)) (\<lambda>maxBurn.
      bindM (random_above L E minBurn maxBurn) (\<lambda>burnAmt.
      bindM (liftM (IntSub E available burnAmt)) (\<lambda>remaining.
      bindM (random_above L E minSelfDel remaining) (\<lambda>selfDelAmt.
      bindM (liftM (bindO (IntAdd L burnAmt selfDelAmt) (\<lambda>spent. NewCoin L DefaultBondDenom (Some spent)))) (\<lambda>spent.
      bindM (\<lambda>r. (Ok (), BlockAmount E sender spent r)) (\<lambda>_ r.
        case ValBytesToString E (Address sender) of
          Err e \<Rightarrow> (Ok None, r)
        | Panic \<Rightarrow> (Panic, r)
        | Ok valAddr \<Rightarrow>
            (case NewAnyWithValue E (ConsPubKey sender) of
               Err e \<Rightarrow> (Ok None, r)
             | Panic \<Rightarrow> (Panic, r)
             | Ok pubKeyAny \<Rightarrow>
                 bindM (random_details E) (\<lambda>(description, commission).
                 bindM (liftM (NewCoin L DefaultBondDenom (Some selfDelAmt))) (\<lambda>selfDelegation.
                 bindM (liftM (NewCoin L (Denom (ValidatorRegistrationBurn params)) (Some burnAmt))) (\<lambda>burned.
                 retM (Some (sender,
                   \<lparr>Sender = AddressBech32 sender,
                    CreateValidator =
                      \<lparr>ValidatorAddress = valAddr, Value = selfDelegation, MinSelfDelegation = Some selfDelAmt,
                       Description = description, CommissionRates = commission, Pubkey = pubKeyAny\<rparr>,
                    Burn = burned\<rparr>))))) r))))))) r0)"

text \<open>\<open>params\<close> is what \<open>k.Params.Get(ctx)\<close> returned.\<close>

definition MsgRegisterValidatorFactory ::
  "sdk_lib \<Rightarrow> ('p, 'y, 'r) sim_env \<Rightarrow> validator_params outcome \<Rightarrow> 'r
     \<Rightarrow> ('p sim_account \<times> ('y, unit) simulated_create_ext MsgRegisterValidator) option outcome \<times> 'r" where
  "MsgRegisterValidatorFactory L E stored =
     (case stored of
        Err e \<Rightarrow> retM None
      | Panic \<Rightarrow> liftM Panic
      | Ok params \<Rightarrow>
          bindM (liftM (deref (Amount (ValidatorRegistrationBurn params)))) (\<lambda>minBurn.
          bindM (liftM (deref (Amount (ValidatorMinSelfDelegation params)))) (\<lambda>minSelfDel.
          bindM (liftM (IntAdd L minBurn minSelfDel)) (\<lambda>totalRequired.
          bindM (liftM (NewCoin L DefaultBondDenom (Some totalRequired))) (\<lambda>required.
          bindM (drawM (AnyAccount E
              [WithLiquidBalanceGTE E required, \<lambda>a r. \<not> is_ok (QueryValidator E (Address a) r)])) (\<lambda>picked.
            case picked of
              None \<Rightarrow> retM None
            | Some sender \<Rightarrow> register_message L E params minBurn minSelfDel sender))))))"

definition validator_MsgUpdateParamsFactory ::
  "sdk_lib \<Rightarrow> ('p, 'y, 'r) sim_env \<Rightarrow> 'r \<Rightarrow> validator_MsgUpdateParams outcome \<times> 'r" where
  "validator_MsgUpdateParamsFactory L E =
     bindM (drawM (IntInRange E 0 1000)) (\<lambda>i.
     bindM (liftM (NewCoin L DefaultBondDenom (Some i))) (\<lambda>registrationBurn.
     bindM (drawM (IntInRange E 0 1000)) (\<lambda>j.
     bindM (liftM (NewCoin L DefaultBondDenom (Some j))) (\<lambda>minSelfDelegation.
     retM \<lparr>vup_Authority = ModuleAccountAddress E GovModuleName,
           vup_Params = validator_NewParams registrationBurn minSelfDelegation\<rparr>))))"

section \<open>\<open>stakingSimWrap\<close>\<close>

record operation_msg =
  Route :: string
  OpName :: string
  Comment :: string
  OpOK :: bool

text \<open>An operation returns its message and future operations beside its error.\<close>

type_synonym ('r, 'f) operation = "'r \<Rightarrow> (operation_msg \<times> 'f list \<times> error option) \<times> 'r"

definition NoOpMsg :: "string \<Rightarrow> string \<Rightarrow> string \<Rightarrow> operation_msg" where
  "NoOpMsg route name comment = \<lparr>Route = route, OpName = name, Comment = comment, OpOK = False\<rparr>"

definition staking_sim_wrap :: "string \<Rightarrow> (int \<times> ('r, 'f) operation) list \<Rightarrow> (int \<times> ('r, 'f) operation) list" where
  "staking_sim_wrap createURL ops =
     map (\<lambda>(weight, orig). (weight, \<lambda>r.
       case orig r of
         ((msg, fOps, None), r') \<Rightarrow> ((msg, fOps, None), r')
       | ((msg, fOps, Some err), r') \<Rightarrow>
           if OpName msg = createURL then ((NoOpMsg (Route msg) (OpName msg) (Comment msg), [], None), r')
           else ((msg, fOps, Some err), r'))) ops"

end
