(* ===== verification/Simulation_Properties.thy ===== *)
theory Simulation_Properties
  imports Simulation Ledger_Instance
begin

text \<open>
  The messages the simulator makes up are ones the chain accepts: what the theorems rely on of the
  simulation framework (\<open>sim_laws\<close>), an instance of it, and the properties.
\<close>

section \<open>What the framework promises\<close>

definition sim_laws :: "('p, 'y, 'r) sim_env \<Rightarrow> bool" where
  "sim_laws E \<longleftrightarrow>
     (\<forall>a b c. IntSub E a b = Ok c \<longrightarrow> c = a - b) \<and>
     (\<forall>lo hi r d r'. PositiveSDKIntInRange E lo hi r = (Ok d, r') \<longrightarrow> lo \<le> d \<and> d \<le> hi) \<and>
     (\<forall>fs r a r'. AnyAccount E fs r = (Some a, r') \<longrightarrow> (\<forall>f \<in> set fs. f a r')) \<and>
     (\<forall>c a r i. WithLiquidBalanceGTE E c a r \<longrightarrow> Amount c = Some i \<longrightarrow> i \<le> AmountOf E a (Denom c) r)"

lemma sim_lawsD:
  assumes "sim_laws E"
  shows "IntSub E a b = Ok c \<Longrightarrow> c = a - b"
    and "PositiveSDKIntInRange E lo hi r = (Ok d, r') \<Longrightarrow> lo \<le> d \<and> d \<le> hi"
    and "AnyAccount E fs r = (Some acc, r') \<Longrightarrow> \<forall>f \<in> set fs. f acc r'"
    and "WithLiquidBalanceGTE E cn acc r \<Longrightarrow> Amount cn = Some i \<Longrightarrow> i \<le> AmountOf E acc (Denom cn) r"
proof -
  note law = assms [unfolded sim_laws_def]
  show "IntSub E a b = Ok c \<Longrightarrow> c = a - b"
    by (rule law [THEN conjunct1, rule_format])
  show "PositiveSDKIntInRange E lo hi r = (Ok d, r') \<Longrightarrow> lo \<le> d \<and> d \<le> hi"
    by (rule law [THEN conjunct2, THEN conjunct1, THEN spec, THEN spec, THEN spec, THEN spec, THEN spec, THEN mp])
  show "AnyAccount E fs r = (Some acc, r') \<Longrightarrow> \<forall>f \<in> set fs. f acc r'"
    by (rule law [THEN conjunct2, THEN conjunct2, THEN conjunct1, THEN spec, THEN spec, THEN spec, THEN spec, THEN mp])
  show "WithLiquidBalanceGTE E cn acc r \<Longrightarrow> Amount cn = Some i \<Longrightarrow> i \<le> AmountOf E acc (Denom cn) r"
    by (rule law [THEN conjunct2, THEN conjunct2, THEN conjunct2, rule_format])
qed

lemma drawM_Ok_iff: "drawM f r = (Ok x, r') \<longleftrightarrow> f r = (x, r')"
  by (auto simp: drawM_def split: prod.splits)

text \<open>An operation that was not skipped got past its errors.\<close>

lemma not_skipped_iff:
  "(case q of Ok x \<Rightarrow> f x | Err e \<Rightarrow> (Ok None, r) | Panic \<Rightarrow> (Panic, r)) = (Ok (Some y), r') \<longleftrightarrow>
     (\<exists>x. q = Ok x \<and> f x = (Ok (Some y), r'))"
  by (cases q) auto

lemma random_above_bounds:
  assumes "sdk_laws L" and "sim_laws E" and "random_above L E base limit r = (Ok x, r')"
  shows "base \<le> x \<and> (base \<le> limit \<longrightarrow> x \<le> limit)"
proof (cases "base < limit")
  case True
  then obtain span where span: "IntSub E limit base = Ok span"
      and drawn: "(case PositiveSDKIntInRange E 0 span r of (Ok delta, r') \<Rightarrow> (IntAdd L base delta, r')
        | (Err e, r') \<Rightarrow> (Ok base, r') | (Panic, r') \<Rightarrow> (Panic, r')) = (Ok x, r')"
    using assms(3) by (auto simp: random_above_def bindM_Ok_iff)
  obtain q r1 where q: "PositiveSDKIntInRange E 0 span r = (q, r1)" by fastforce
  have "span = limit - base" using span by (rule sim_lawsD(1) [OF assms(2)])
  then show ?thesis
    using True drawn q sim_lawsD(2) [OF assms(2), of 0 span r] sdk_lawsD(1) [OF assms(1), of base _ x]
    by (cases q) fastforce+
next
  case False
  then show ?thesis
    using assms(3) by (simp add: random_above_def)
qed

text \<open>The parts of a message the factory returned.\<close>

lemma register_message_Ok:
  assumes "sdk_laws L" and "sim_laws E"
    and "register_message L E params minBurn minSelfDel sender r0 = (Ok (Some (account, msg)), r')"
    and "minBurn + minSelfDel \<le> AmountOf E sender DefaultBondDenom r0"
  shows "\<exists>b d coin_b coin_d. account = sender \<and> Sender msg = AddressBech32 sender \<and> Burn msg = coin_b \<and>
    ValBytesToString E (Address sender) = Ok (ValidatorAddress (CreateValidator msg)) \<and>
    Value (CreateValidator msg) = coin_d \<and> MinSelfDelegation (CreateValidator msg) = Some d \<and>
    NewCoin L DefaultBondDenom (Some d) = Ok coin_d \<and>
    NewCoin L (Denom (ValidatorRegistrationBurn params)) (Some b) = Ok coin_b \<and>
    minBurn \<le> b \<and> minSelfDel \<le> d \<and> b + d \<le> AmountOf E sender DefaultBondDenom r0"
proof -
  let ?available = "AmountOf E sender DefaultBondDenom r0"
  obtain maxBurn b r1 remaining d r2 valAddr cd cb where
      step: "IntSub E ?available minSelfDel = Ok maxBurn" "random_above L E minBurn maxBurn r0 = (Ok b, r1)"
        "IntSub E ?available b = Ok remaining" "random_above L E minSelfDel remaining r1 = (Ok d, r2)"
      and parts: "ValBytesToString E (Address sender) = Ok valAddr" "NewCoin L DefaultBondDenom (Some d) = Ok cd"
        "NewCoin L (Denom (ValidatorRegistrationBurn params)) (Some b) = Ok cb"
        "account = sender" "Sender msg = AddressBech32 sender" "Burn msg = cb"
        "ValidatorAddress (CreateValidator msg) = valAddr" "Value (CreateValidator msg) = cd"
        "MinSelfDelegation (CreateValidator msg) = Some d"
    using assms(3) unfolding register_message_def Let_def
    by (auto simp: bindM_Ok_iff not_skipped_iff split_def)
  have "maxBurn = ?available - minSelfDel" "remaining = ?available - b"
    using step(1,3) sim_lawsD(1) [OF assms(2)] by blast+
  then show ?thesis
    using random_above_bounds [OF assms(1,2) step(2)] random_above_bounds [OF assms(1,2) step(4)] assms(4) parts
    by auto
qed

text \<open>A simulator with one rich account that draws the smallest value each time.\<close>

definition ref_sim :: "(unit, unit, unit) sim_env" where
  "ref_sim =
     \<lparr>AnyAccount = (\<lambda>fs r.
        let a = \<lparr>Address = ref_bytes ''alice'', AddressBech32 = ''alice'', ConsPubKey = ()\<rparr> in
        (if list_all (\<lambda>f. f a r) fs then Some a else None, r)),
      WithLiquidBalanceGTE = (\<lambda>c a r. case Amount c of None \<Rightarrow> False | Some i \<Rightarrow> i \<le> 100),
      WithDenomBalance = (\<lambda>d a r. True), AmountOf = (\<lambda>a d r. 100),
      RandSubsetCoin = (\<lambda>a d r. (None, r)), BlockAmount = (\<lambda>a c r. r),
      PositiveSDKIntInRange = (\<lambda>lo hi r. (if lo \<le> hi then Ok lo else Err (OtherErr ''range''), r)),
      Intn = (\<lambda>n r. (0, r)), IntInRange = (\<lambda>lo hi r. (lo, r)), DecN = (\<lambda>n r. (0, r)), StringN = (\<lambda>n r. (''s'', r)),
      IntSub = (\<lambda>a b. Ok (a - b)), QueryValidator = (\<lambda>a r. Err ErrNotFound),
      ValBytesToString = ref_BytesToString, NewAnyWithValue = Ok, ModuleAccountAddress = (\<lambda>m. m),
      AppParam = (\<lambda>k. None)\<rparr>"

lemma ref_sim_laws: "sim_laws ref_sim"
  by (auto simp: sim_laws_def ref_sim_def Let_def list_all_iff split: if_splits option.splits)

section \<open>Properties\<close>

text \<open>
  A simulated registration passes the chain's checks: whenever the factory returns a message (the
  requirements being native and not negative), it offers at least the required burn and the required
  self-delegation, in the right denominations, the account it was made for can pay both together out
  of its liquid balance and is not a validator yet, and the message names that account as sender and operator.
\<close>

lemma simulated_registration_accepted:
  assumes "sdk_laws L" and "sim_laws E"
    and "ValidatorRegistrationBurn params = \<lparr>Denom = DefaultBondDenom, Amount = Some minBurn\<rparr>" and "0 \<le> minBurn"
    and "ValidatorMinSelfDelegation params = \<lparr>Denom = DefaultBondDenom, Amount = Some minSelfDel\<rparr>" and "0 \<le> minSelfDel"
    and "MsgRegisterValidatorFactory L E (Ok params) r = (Ok (Some (sender, msg)), r')"
  shows "validateRegistrationFunds msg params = Ok () \<and> Sender msg = AddressBech32 sender \<and>
    ValBytesToString E (Address sender) = Ok (ValidatorAddress (CreateValidator msg)) \<and>
    (\<exists>b d r1. Amount (Burn msg) = Some b \<and> Amount (Value (CreateValidator msg)) = Some d \<and>
       b + d \<le> AmountOf E sender DefaultBondDenom r1 \<and> \<not> is_ok (QueryValidator E (Address sender) r1))"
proof -
  obtain total required a r1 where total: "IntAdd L minBurn minSelfDel = Ok total"
      and required: "NewCoin L DefaultBondDenom (Some total) = Ok required"
      and picked: "AnyAccount E [WithLiquidBalanceGTE E required, \<lambda>a r. \<not> is_ok (QueryValidator E (Address a) r)] r = (Some a, r1)"
      and made: "register_message L E params minBurn minSelfDel a r1 = (Ok (Some (sender, msg)), r')"
    using assms(7) by (auto simp: MsgRegisterValidatorFactory_def assms(3,5) bindM_Ok_iff drawM_Ok_iff split: option.splits)
  have t: "total = minBurn + minSelfDel" using total by (rule sdk_lawsD(1) [OF assms(1)])
  then have "required = \<lparr>Denom = DefaultBondDenom, Amount = Some (minBurn + minSelfDel)\<rparr>"
    using required assms(4,6) by (simp add: sdk_lawsD(9) [OF assms(1)])
  then have funds: "minBurn + minSelfDel \<le> AmountOf E a DefaultBondDenom r1"
    using sim_lawsD(3) [OF assms(2) picked] sim_lawsD(4) [OF assms(2), of required a r1] by simp
  have fresh: "\<not> is_ok (QueryValidator E (Address a) r1)"
    using sim_lawsD(3) [OF assms(2) picked] by simp
  obtain b d cb cd where parts: "sender = a" "Sender msg = AddressBech32 a" "Burn msg = cb"
      "ValBytesToString E (Address a) = Ok (ValidatorAddress (CreateValidator msg))"
      "Value (CreateValidator msg) = cd" "MinSelfDelegation (CreateValidator msg) = Some d"
      "NewCoin L DefaultBondDenom (Some d) = Ok cd" "NewCoin L DefaultBondDenom (Some b) = Ok cb"
      "minBurn \<le> b" "minSelfDel \<le> d" "b + d \<le> AmountOf E a DefaultBondDenom r1"
    using register_message_Ok [OF assms(1,2) made funds] by (auto simp: assms(3))
  have coins: "cb = \<lparr>Denom = DefaultBondDenom, Amount = Some b\<rparr>" "cd = \<lparr>Denom = DefaultBondDenom, Amount = Some d\<rparr>"
    using parts(7-10) assms(4,6) sdk_lawsD(9) [OF assms(1), of b] sdk_lawsD(9) [OF assms(1), of d] by simp_all
  have "offers msg params minBurn minSelfDel"
    using parts coins by (simp add: offers_def assms(3,5) at_least_def)
  then show ?thesis
    using parts coins fresh validateRegistrationFunds_Ok [of params minBurn minSelfDel msg] by (auto simp: assms(3,5))
qed

lemma simulated_registration_accepted_witness:
  "\<exists>msg. MsgRegisterValidatorFactory ref_lib ref_sim (Ok
       \<lparr>ValidatorRegistrationBurn = \<lparr>Denom = DefaultBondDenom, Amount = Some 10\<rparr>,
        ValidatorMinSelfDelegation = \<lparr>Denom = DefaultBondDenom, Amount = Some 20\<rparr>\<rparr>) () =
      (Ok (Some (\<lparr>Address = ref_bytes ''alice'', AddressBech32 = ''alice'', ConsPubKey = ()\<rparr>, msg)), ()) \<and>
    validateRegistrationFunds msg
      \<lparr>ValidatorRegistrationBurn = \<lparr>Denom = DefaultBondDenom, Amount = Some 10\<rparr>,
       ValidatorMinSelfDelegation = \<lparr>Denom = DefaultBondDenom, Amount = Some 20\<rparr>\<rparr> = Ok ()"
proof -
  let ?p = "\<lparr>ValidatorRegistrationBurn = \<lparr>Denom = DefaultBondDenom, Amount = Some 10\<rparr>,
        ValidatorMinSelfDelegation = \<lparr>Denom = DefaultBondDenom, Amount = Some 20\<rparr>\<rparr>"
  have "\<exists>msg. MsgRegisterValidatorFactory ref_lib ref_sim (Ok ?p) () =
      (Ok (Some (\<lparr>Address = ref_bytes ''alice'', AddressBech32 = ''alice'', ConsPubKey = ()\<rparr>, msg)), ())"
    by (simp add: MsgRegisterValidatorFactory_def register_message_def random_above_def random_details_def ref_sim_def
        ref_lib_def ref_NewCoin_def DefaultBondDenom_def ref_BytesToString_def ref_bytes_def bindM_def drawM_def Let_def)
  then obtain msg where made: "MsgRegisterValidatorFactory ref_lib ref_sim (Ok ?p) () =
      (Ok (Some (\<lparr>Address = ref_bytes ''alice'', AddressBech32 = ''alice'', ConsPubKey = ()\<rparr>, msg)), ())" by blast
  from simulated_registration_accepted [OF ref_sdk_laws ref_sim_laws _ _ _ _ made]
  show ?thesis using made by auto
qed

end
