(* ===== verification/App_Modules.thy ===== *)
theory App_Modules
  imports Gateway Simulation Burn_Genesis Go_Loops
begin

text \<open>
  \<^verbatim>\<open>x/burn/module.go\<close>, \<^verbatim>\<open>x/validator/module.go\<close> and the two \<^verbatim>\<open>autocli.go\<close>: what the application
  calls. A module reads and prints its genesis state through a JSON codec of the SDK (a parameter),
  turns every error of \<open>InitGenesis\<close> and \<open>ExportGenesis\<close> into a panic, registers its message and query
  servers, its gateway routes and the factories of the simulator.
\<close>

section \<open>What the application passes in\<close>

text \<open>\<open>codec.JSONCodec\<close> at one message type \<open>'g\<close>, with raw JSON \<open>'j\<close>.\<close>

record ('g, 'j) json_codec =
  MarshalJSON :: "'g \<Rightarrow> 'j outcome"
  UnmarshalJSON :: "'j \<Rightarrow> 'g outcome"

text \<open>Protobuf JSON prints every message of these types and reads back what it printed.\<close>

definition json_laws :: "('g, 'j) json_codec \<Rightarrow> bool" where
  "json_laws J \<longleftrightarrow>
     (\<forall>g. \<exists>bz. MarshalJSON J g = Ok bz) \<and>
     (\<forall>g bz. MarshalJSON J g = Ok bz \<longrightarrow> UnmarshalJSON J bz = Ok g)"

lemma json_lawsD:
  assumes "json_laws J"
  shows "\<exists>bz. MarshalJSON J g = Ok bz" and "MarshalJSON J g = Ok bz \<Longrightarrow> UnmarshalJSON J bz = Ok g"
  using assms by (auto simp: json_laws_def)

text \<open>The services a module hands to \<open>RegisterServices\<close>, in the order it hands them.\<close>

datatype ('m, 'q) service = MsgServer 'm | QueryServer 'q

text \<open>
  \<open>simsx.WeightSource\<close> gives the weight of a named operation (the second argument is the default);
  \<open>simsx.Registry\<close> collects factories.
\<close>

type_synonym weight_source = "string \<Rightarrow> nat \<Rightarrow> nat"
type_synonym 'f sim_registry = "(nat \<times> 'f) list"

section \<open>x/burn\<close>

definition burn_ConsensusVersion :: "64 word" where
  "burn_ConsensusVersion = 1"

record 'b burn_AppModule =
  burn_am_keeper :: "'b burn_keeper"
  burn_am_addressCodec :: sdk_lib

definition burn_NewAppModule :: "'b burn_keeper \<Rightarrow> sdk_lib \<Rightarrow> 'b burn_AppModule" where
  "burn_NewAppModule K addressCodec = \<lparr>burn_am_keeper = K, burn_am_addressCodec = addressCodec\<rparr>"

definition burn_Name :: string where
  "burn_Name = burn_ModuleName"

text \<open>The generated registration reports no error here, so the panic behind it is not reached.\<close>

definition burn_RegisterGRPCGatewayRoutes ::
  "('q, 'x) gateway_env \<Rightarrow> 'x burn_QueryClient \<Rightarrow> ('q, burn_reply) route list \<Rightarrow> ('q, burn_reply) route list" where
  "burn_RegisterGRPCGatewayRoutes E client mux = mux @ burn_RegisterQueryHandlerClient E client"

record 's burn_MsgServer =
  Serve_Burn :: "MsgBurn \<Rightarrow> 's \<Rightarrow> unit outcome \<times> 's"
  Serve_UpdateParams :: "burn_MsgUpdateParams \<Rightarrow> 's \<Rightarrow> unit outcome \<times> 's"

definition burn_NewMsgServerImpl :: "'b burn_keeper \<Rightarrow> ('b, 'z) chain_scheme burn_MsgServer" where
  "burn_NewMsgServerImpl K = \<lparr>Serve_Burn = msg_Burn K, Serve_UpdateParams = burn_UpdateParams K\<rparr>"

definition burn_RegisterServices ::
  "'b burn_AppModule \<Rightarrow> ('x \<Rightarrow> burn_store)
     \<Rightarrow> (('b, 'z) chain_scheme burn_MsgServer, 'x burn_QueryServer) service list
     \<Rightarrow> unit outcome \<times> (('b, 'z) chain_scheme burn_MsgServer, 'x burn_QueryServer) service list" where
  "burn_RegisterServices am unwrap registrar =
     (Ok (), registrar @ [MsgServer (burn_NewMsgServerImpl (burn_am_keeper am)),
                          QueryServer (burn_NewQueryServerImpl (burn_am_keeper am) unwrap)])"

definition burn_module_DefaultGenesis :: "(burn_GenesisState, 'j) json_codec \<Rightarrow> 'j outcome" where
  "burn_module_DefaultGenesis J = mustO (MarshalJSON J burn_DefaultGenesisState)"

definition burn_module_ValidateGenesis ::
  "'b burn_AppModule \<Rightarrow> (burn_GenesisState, 'j) json_codec \<Rightarrow> 'j \<Rightarrow> unit outcome" where
  "burn_module_ValidateGenesis am J bz =
     bindO (UnmarshalJSON J bz) (burn_GenesisState_Validate (burn_am_addressCodec am))"

definition burn_module_InitGenesis ::
  "'b burn_AppModule \<Rightarrow> (burn_GenesisState, 'j) json_codec \<Rightarrow> 'j \<Rightarrow> burn_store \<Rightarrow> unit outcome \<times> burn_store" where
  "burn_module_InitGenesis am J gs =
     bindM (liftM (mustO (UnmarshalJSON J gs))) (\<lambda>genState.
     mustM (burn_InitGenesis (burn_am_keeper am) genState))"

definition burn_module_ExportGenesis ::
  "'b burn_AppModule \<Rightarrow> (burn_GenesisState, 'j) json_codec \<Rightarrow> burn_store \<Rightarrow> 'j outcome" where
  "burn_module_ExportGenesis am J st =
     bindO (mustO (burn_ExportGenesis (burn_am_keeper am) st)) (\<lambda>genState.
     mustO (MarshalJSON J genState))"

definition burn_GenerateGenesisState ::
  "(burn_GenesisState, 'j) json_codec \<Rightarrow> ('p, 'y, 'r) sim_env \<Rightarrow> (string \<rightharpoonup> 'j) \<Rightarrow> 'r
     \<Rightarrow> (string \<rightharpoonup> 'j) outcome \<times> 'r" where
  "burn_GenerateGenesisState J E genState =
     bindM (burn_RandomizedGenState E) (\<lambda>g.
     bindM (liftM (mustO (MarshalJSON J g))) (\<lambda>bz.
     retM (genState(burn_ModuleName \<mapsto> bz))))"

definition burn_RegisterStoreDecoder :: "'d \<Rightarrow> (string \<rightharpoonup> 'd) \<Rightarrow> (string \<rightharpoonup> 'd)" where
  "burn_RegisterStoreDecoder schemaDecoder sdr = sdr(burn_ModuleName \<mapsto> schemaDecoder)"

definition burn_WeightedOperations :: "'o list" where
  "burn_WeightedOperations = []"

text \<open>The registry holds factories of any message; \<open>wrap\<close> is the injection of this one.\<close>

definition burn_WeightedOperationsX ::
  "(('r \<Rightarrow> ('p sim_account \<times> MsgBurn) option outcome \<times> 'r) \<Rightarrow> 'f) \<Rightarrow> ('p, 'y, 'r) sim_env
     \<Rightarrow> weight_source \<Rightarrow> 'f sim_registry \<Rightarrow> 'f sim_registry" where
  "burn_WeightedOperationsX wrap E weights reg = reg @ [(weights ''msg_burn'' 100, wrap (MsgBurnFactory E))]"

definition burn_ProposalMsgsX ::
  "(('r \<Rightarrow> burn_MsgUpdateParams outcome \<times> 'r) \<Rightarrow> 'f) \<Rightarrow> ('p, 'y, 'r) sim_env
     \<Rightarrow> weight_source \<Rightarrow> 'f sim_registry \<Rightarrow> 'f sim_registry" where
  "burn_ProposalMsgsX wrap E weights reg =
     reg @ [(weights ''msg_update_burn_params'' 100, wrap (burn_MsgUpdateParamsFactory E))]"

section \<open>x/validator\<close>

definition validator_ConsensusVersion :: "64 word" where
  "validator_ConsensusVersion = 1"

record ('c, 's, 'k) validator_AppModule =
  validator_am_keeper :: "('c, 's) validator_keeper"
  validator_am_stakingKeeper :: 'k

definition validator_NewAppModule :: "('c, 's) validator_keeper \<Rightarrow> 'k \<Rightarrow> ('c, 's, 'k) validator_AppModule" where
  "validator_NewAppModule K sk = \<lparr>validator_am_keeper = K, validator_am_stakingKeeper = sk\<rparr>"

definition validator_Name :: string where
  "validator_Name = validator_ModuleName"

definition validator_RegisterGRPCGatewayRoutes ::
  "('q, 'x) gateway_env \<Rightarrow> ('x \<Rightarrow> validator_params outcome \<times> server_metadata)
     \<Rightarrow> ('q, validator_params) route list \<Rightarrow> ('q, validator_params) route list" where
  "validator_RegisterGRPCGatewayRoutes E client mux = mux @ validator_RegisterQueryHandlerClient E client"

record ('c, 's) validator_MsgServer =
  Serve_RegisterValidator :: "'c MsgRegisterValidator \<Rightarrow> 's \<Rightarrow> unit outcome \<times> 's"
  Serve_Validator_UpdateParams :: "validator_MsgUpdateParams \<Rightarrow> 's \<Rightarrow> unit outcome \<times> 's"

definition validator_NewMsgServerImpl ::
  "('c, ('b, 'k, 'z) vchain_scheme) validator_keeper \<Rightarrow> ('c, ('b, 'k, 'z) vchain_scheme) validator_MsgServer" where
  "validator_NewMsgServerImpl K =
     \<lparr>Serve_RegisterValidator = msg_RegisterValidator K, Serve_Validator_UpdateParams = validator_UpdateParams K\<rparr>"

text \<open>The query server of the module has one method, the parameters.\<close>

definition validator_NewQueryServerImpl :: "('x \<Rightarrow> validator_params item) \<Rightarrow> 'x \<Rightarrow> validator_params outcome" where
  "validator_NewQueryServerImpl unwrap ctx = validator_query_Params (unwrap ctx)"

definition validator_RegisterServices ::
  "('c, ('b, 'k, 'z) vchain_scheme, 'w) validator_AppModule \<Rightarrow> ('x \<Rightarrow> validator_params item)
     \<Rightarrow> (('c, ('b, 'k, 'z) vchain_scheme) validator_MsgServer, 'x \<Rightarrow> validator_params outcome) service list
     \<Rightarrow> unit outcome \<times> (('c, ('b, 'k, 'z) vchain_scheme) validator_MsgServer, 'x \<Rightarrow> validator_params outcome) service list" where
  "validator_RegisterServices am unwrap registrar =
     (Ok (), registrar @ [MsgServer (validator_NewMsgServerImpl (validator_am_keeper am)),
                          QueryServer (validator_NewQueryServerImpl unwrap)])"

definition validator_module_DefaultGenesis ::
  "sdk_lib \<Rightarrow> (validator_GenesisState, 'j) json_codec \<Rightarrow> 'j outcome" where
  "validator_module_DefaultGenesis L J =
     bindO (validator_DefaultGenesisState L) (\<lambda>g. mustO (MarshalJSON J g))"

definition validator_module_ValidateGenesis ::
  "sdk_lib \<Rightarrow> (validator_GenesisState, 'j) json_codec \<Rightarrow> 'j \<Rightarrow> unit outcome" where
  "validator_module_ValidateGenesis L J bz = bindO (UnmarshalJSON J bz) (validator_GenesisState_Validate L)"

definition validator_module_InitGenesis ::
  "('c, 's, 'k) validator_AppModule \<Rightarrow> (validator_GenesisState, 'j) json_codec \<Rightarrow> 'j
     \<Rightarrow> validator_params item \<Rightarrow> unit outcome \<times> validator_params item" where
  "validator_module_InitGenesis am J gs =
     bindM (liftM (mustO (UnmarshalJSON J gs))) (\<lambda>genState.
     mustM (validator_InitGenesis (validator_am_keeper am) genState))"

definition validator_module_ExportGenesis ::
  "(validator_GenesisState, 'j) json_codec \<Rightarrow> validator_params item \<Rightarrow> 'j outcome" where
  "validator_module_ExportGenesis J st =
     bindO (mustO (validator_ExportGenesis st)) (\<lambda>genState. mustO (MarshalJSON J genState))"

definition validator_GenerateGenesisState ::
  "sdk_lib \<Rightarrow> (validator_GenesisState, 'j) json_codec \<Rightarrow> ('p, 'y, 'r) sim_env \<Rightarrow> (string \<rightharpoonup> 'j) \<Rightarrow> 'r
     \<Rightarrow> (string \<rightharpoonup> 'j) outcome \<times> 'r" where
  "validator_GenerateGenesisState L J E genState =
     bindM (validator_RandomizedGenState L E) (\<lambda>g.
     bindM (liftM (mustO (MarshalJSON J g))) (\<lambda>bz.
     retM (genState(validator_ModuleName \<mapsto> bz))))"

definition validator_RegisterStoreDecoder :: "'d \<Rightarrow> (string \<rightharpoonup> 'd) \<Rightarrow> (string \<rightharpoonup> 'd)" where
  "validator_RegisterStoreDecoder schemaDecoder sdr = sdr(validator_ModuleName \<mapsto> schemaDecoder)"

definition validator_WeightedOperations :: "'o list" where
  "validator_WeightedOperations = []"

definition validator_WeightedOperationsX ::
  "(('r \<Rightarrow> ('p sim_account \<times> ('y, unit) simulated_create_ext MsgRegisterValidator) option outcome \<times> 'r) \<Rightarrow> 'f)
     \<Rightarrow> sdk_lib \<Rightarrow> ('p, 'y, 'r) sim_env \<Rightarrow> validator_params outcome \<Rightarrow> weight_source \<Rightarrow> 'f sim_registry \<Rightarrow> 'f sim_registry" where
  "validator_WeightedOperationsX wrap L E stored weights reg =
     reg @ [(weights ''msg_register_validator'' 100, wrap (MsgRegisterValidatorFactory L E stored))]"

definition validator_ProposalMsgsX ::
  "(('r \<Rightarrow> validator_MsgUpdateParams outcome \<times> 'r) \<Rightarrow> 'f) \<Rightarrow> sdk_lib \<Rightarrow> ('p, 'y, 'r) sim_env
     \<Rightarrow> weight_source \<Rightarrow> 'f sim_registry \<Rightarrow> 'f sim_registry" where
  "validator_ProposalMsgsX wrap L E weights reg =
     reg @ [(weights ''msg_update_validator_params'' 100, wrap (validator_MsgUpdateParamsFactory L E))]"

end
