(* ===== verification/Chain_Restart.thy ===== *)
theory Chain_Restart
  imports Module_Properties
begin

text \<open>
  The life of the chain across restarts. A restart exports the genesis of the two modules through
  their module interface, as \<open>ExportAppStateAndValidators\<close> has the module manager do, and a new chain
  imports it, as \<open>InitChainer\<close> does. The machine of \<open>Validator_Gate\<close> goes on from there.
\<close>

section \<open>The machine\<close>

text \<open>
  The new chain starts from empty stores of the two modules. What x/staking exports is its own
  affair: it brings back no validator that was not there, and the genesis that an export writes has
  no genesis transactions. The first block is at a positive height.
\<close>

inductive restart_step ::
  "'b burn_keeper \<Rightarrow> ('c, ('b, 'k, 'z) vchain_scheme) validator_keeper \<Rightarrow> (burn_GenesisState, 'j) json_codec \<Rightarrow>
   (validator_GenesisState, 'i) json_codec \<Rightarrow> ('k \<Rightarrow> addr set) \<Rightarrow>
   ('b, 'k, 'z) vchain_scheme \<Rightarrow> ('b, 'k, 'z) vchain_scheme \<Rightarrow> bool" for BK K J J' validators where
  restart: "burn_module_ExportGenesis (burn_NewAppModule BK (lib BK)) J (burn s) = Ok bz \<Longrightarrow>
     validator_module_ExportGenesis J' (validator_store s) = Ok vbz \<Longrightarrow>
     burn_module_InitGenesis (burn_NewAppModule BK (lib BK)) J bz fresh_store = (Ok (), burn s') \<Longrightarrow>
     validator_module_InitGenesis (validator_NewAppModule K ()) J' vbz None = (Ok (), validator_store s') \<Longrightarrow>
     validators (staking s') \<subseteq> validators (staking s) \<Longrightarrow> 0 < BlockHeight s' \<Longrightarrow>
     restart_step BK K J J' validators s s'"

inductive_simps restart_step_iff: "restart_step BK K J J' validators s s'"

inductive life_step ::
  "'b burn_keeper \<Rightarrow> ('c, ('b, 'k, 'z) vchain_scheme) validator_keeper \<Rightarrow> (burn_GenesisState, 'j) json_codec \<Rightarrow>
   (validator_GenesisState, 'i) json_codec \<Rightarrow> string \<Rightarrow> ('k \<Rightarrow> addr set) \<Rightarrow>
   ('b, 'k, 'z) vchain_scheme \<Rightarrow> ('b, 'k, 'z) vchain_scheme \<Rightarrow> bool" for BK K J J' createURL validators where
  life_gate: "gate_step BK K createURL validators s s' \<Longrightarrow> life_step BK K J J' createURL validators s s'"
| life_restart: "restart_step BK K J J' validators s s' \<Longrightarrow> life_step BK K J J' createURL validators s s'"

inductive_cases life_stepE: "life_step BK K J J' createURL validators s s'"

section \<open>The record of burns\<close>

definition account_total :: "burn_store \<Rightarrow> addr \<Rightarrow> int" where
  "account_total st a = (case GetAccountBurnTotal st a of Ok t \<Rightarrow> t | _ \<Rightarrow> 0)"

text \<open>Nothing that was recorded as burned is forgotten, in total or of any account.\<close>

definition ledger_grows :: "burn_store \<Rightarrow> burn_store \<Rightarrow> bool" where
  "ledger_grows st st' \<longleftrightarrow>
     burned_total st \<le> burned_total st' \<and> (\<forall>a. account_total st a \<le> account_total st' a)"

lemma ledger_grows_refl [simp]: "ledger_grows st st"
  by (simp add: ledger_grows_def)

lemma ledger_grows_trans: "ledger_grows st st' \<Longrightarrow> ledger_grows st' st'' \<Longrightarrow> ledger_grows st st''"
  unfolding ledger_grows_def by (meson order_trans)

lemma ledger_grows_same:
  assumes "GetGlobalBurnTotal st' = GetGlobalBurnTotal st" and "AccountBurnTotal st' = AccountBurnTotal st"
  shows "ledger_grows st st'"
  by (simp add: ledger_grows_def burned_total_def account_total_def GetAccountBurnTotal_def assms)

lemma account_total_tracked:
  assumes "GetAccountBurnTotal st a = Ok t"
  shows "account_total (tracked a i n g t st) x = account_total st x + (if x = a then i else 0)"
  using assms by (simp add: account_total_def GetAccountBurnTotal_def tracked_def kv_put_map_of)

lemma burn_effect_grows:
  assumes "burn_effect K supply s s'"
  shows "ledger_grows (burn s) (burn s')"
  using burn_effect_conserves(3) [OF assms] assms
  by (auto simp: burn_effect_def burned_def params_updated_def account_total_tracked ledger_grows_def)
    (auto simp: account_total_def GetAccountBurnTotal_def)

section \<open>Steps keep the ledger\<close>

lemma gate_step_ledger:
  fixes K :: "('c, ('b, 'k, 'z) vchain_scheme) validator_keeper"
  assumes laws: "sdk_laws (lib BK)" and acc: "bank_accounting (lib BK) (bankKeeper BK) supply"
    and wired: "app_validator_keeper BK server fault = Ok K"
    and staking: "staking_laws (lib BK) supply validators server"
    and step: "gate_step BK K createURL validators s s'" and height: "0 < BlockHeight s"
    and inv: "module_inv (burn s)"
  shows "module_inv (burn s') \<and> ledger_grows (burn s) (burn s')"
  using step
proof (cases rule: gate_stepE [consumes 1, case_names register router precompile burn params other])
  case (register m)
  then obtain a s1 s2 where "BurnFromAccount BK a (Burn m) s = (Ok (), s1)"
    and "server (CreateValidator m) s1 = (Ok (), s2)" and "burn s' = burn s2"
    using RegisterValidator_Ok [of K m s "()" s'] app_validator_keeper_Ok [OF wired]
    by (auto simp: msg_RegisterValidator_def bindM_Ok_iff)
  then show ?thesis
    using BurnFromAccount_effect [OF laws acc] staking_lawsD(2) [OF staking] burn_effect_grows
      module_inv_effect [OF _ inv] by metis
next
  case (router c)
  then show ?thesis using height by (simp add: IsAllowed_def)
next
  case (precompile c)
  then show ?thesis using height by (simp add: Restricted_CreateValidator_def)
next
  case burn
  then show ?thesis
    using burn_step_effect [OF laws acc] burn_effect_grows module_inv_effect [OF _ inv] by blast
next
  case (params p)
  then show ?thesis using inv by (auto dest!: validator_UpdateParams_Ok)
next
  case other
  then show ?thesis using inv by simp
qed

section \<open>A restart keeps the ledger\<close>

lemma module_inv_same:
  assumes "module_inv st" and "readable st'" and "Params st' = Params st"
    and "GetGlobalBurnTotal st' = GetGlobalBurnTotal st" and "AccountBurnTotal st' = AccountBurnTotal st"
  shows "module_inv st'"
  using assms by (simp add: module_inv_def consistent_def nonnegative_def account_sum_def)

lemma restart_keeps_ledger:
  assumes laws: "sdk_laws (lib BK)" and codec: "codec_laws (lib BK)" and nf: "no_faults BK" and J: "json_laws J"
    and inv: "module_inv (burn s)" and step: "restart_step BK K J J' validators s s'"
  shows "module_inv (burn s') \<and> ledger_grows (burn s) (burn s') \<and> burned_total (burn s') = burned_total (burn s)"
proof -
  obtain bz where "burn_module_ExportGenesis (burn_NewAppModule BK (lib BK)) J (burn s) = Ok bz"
    and "burn_module_InitGenesis (burn_NewAppModule BK (lib BK)) J bz fresh_store = (Ok (), burn s')"
    using step by (auto simp: restart_step_iff)
  with burn_module_export_import [OF laws codec nf J inv, of bz]
  have "Params (burn s') = Params (burn s)" "GetGlobalBurnTotal (burn s') = GetGlobalBurnTotal (burn s)"
    "AccountBurnTotal (burn s') = AccountBurnTotal (burn s)" "readable (burn s')"
    by auto
  then show ?thesis
    using module_inv_same [OF inv] ledger_grows_same by (simp add: burned_total_def)
qed

text \<open>The requirements of x/validator come back as they were.\<close>

lemma restart_keeps_requirements:
  assumes "sdk_laws (vlib K)" and "coin_validate_law (vlib K)" and "validator_fault K = None"
    and "json_laws J'" and "valid_validator_params (vlib K) p" and "validator_store s = Some (Val p)"
    and "restart_step BK K J J' validators s s'"
  shows "validator_store s' = Some (Val p)"
  using validator_module_export_import [OF assms(1-5), of "()"] assms(6,7) by (auto simp: restart_step_iff)

text \<open>A restart goes through: the export does not fail, and the next chain takes it.\<close>

lemma restart_possible:
  assumes laws: "sdk_laws (lib BK)" and codec: "codec_laws (lib BK)" and nf: "no_faults BK" and J: "json_laws J" "json_laws J'"
    and inv: "module_inv (burn s)" and ok: "burn_ExportGenesis BK (burn s) = Ok g"
    and vl: "vlib K = lib BK" "coin_validate_law (lib BK)" "validator_fault K = None"
    and p: "valid_validator_params (lib BK) p" "validator_store s = Some (Val p)"
  shows "\<exists>st. restart_step BK K J J' validators s (s\<lparr>burn := st, BlockHeight := 1\<rparr>)"
proof -
  obtain bz where bz: "MarshalJSON J g = Ok bz"
    using json_lawsD(1) [OF J(1)] by blast
  then have e: "burn_module_ExportGenesis (burn_NewAppModule BK (lib BK)) J (burn s) = Ok bz"
    using ok by (simp add: burn_module_ExportGenesis_def burn_NewAppModule_def)
  show ?thesis
    using burn_module_export_import [OF laws codec nf J(1) inv e] e p(2)
      validator_module_export_import [of K J' p "()"] laws vl J(2) p(1)
    by (auto simp: restart_step_iff)
qed

section \<open>The property\<close>

lemma life_step_keeps:
  fixes K :: "('c, ('b, 'k, 'z) vchain_scheme) validator_keeper"
  assumes laws: "sdk_laws (lib BK)" and codec: "codec_laws (lib BK)" and nf: "no_faults BK" and J: "json_laws J"
    and acc: "bank_accounting (lib BK) (bankKeeper BK) supply"
    and wired: "app_validator_keeper BK server fault = Ok K"
    and staking: "staking_laws (lib BK) supply validators server"
    and step: "life_step BK K J J' createURL validators s s'" and req: "R \<le> required_burn (validator_store s)"
    and inv: "module_inv (burn s)" and height: "0 < BlockHeight s"
  shows "module_inv (burn s') \<and> ledger_grows (burn s) (burn s') \<and> 0 < BlockHeight s' \<and>
    ((\<exists>a. validators (staking s') = insert a (validators (staking s))) \<and>
       burned_total (burn s) + R \<le> burned_total (burn s') \<or>
     validators (staking s') \<subseteq> validators (staking s) \<and> burned_total (burn s) \<le> burned_total (burn s'))"
  using step
proof (cases rule: life_stepE [consumes 1, case_names gate restart])
  case gate
  then show ?thesis
    using gate_step_ledger [OF laws acc wired staking _ height inv]
      gate_step_price [OF laws acc wired staking _ req height] by blast
next
  case restart
  then show ?thesis
    using restart_keeps_ledger [OF laws codec nf J inv restart] by (auto simp: restart_step_iff)
qed


lemma two_steps: "P a b \<Longrightarrow> P b c \<Longrightarrow> P\<^sup>*\<^sup>* a c"
  by (rule converse_rtranclp_into_rtranclp, assumption, rule r_into_rtranclp)


end
