(* ===== verification/Test_Doubles.thy ===== *)
theory Test_Doubles
  imports Module_Properties
begin

text \<open>
  What the tests of the repository put in the place of the real parts: the generated mocks of the two
  interfaces (\<^verbatim>\<open>x/*/testutil\<close>) and the failing store, codec and registrar of \<^verbatim>\<open>testutil\<close>. The modules
  are run over them: which calls \<open>RegisterValidator\<close> makes, and what a store that refuses writes does.
\<close>

section \<open>Mocks\<close>

text \<open>
  A value that crosses \<open>Controller.Call\<close> is a Go \<open>any\<close>. A context and a response are opaque; a nil
  interface is \<open>VNil\<close>.
\<close>

datatype ('x, 'c) mock_value =
    VNil
  | VContext 'x
  | VAddress addr
  | VString string
  | VCoin coin
  | VCoins "coin list"
  | VCreate "'c MsgCreateValidator_scheme"
  | VCreateResponse
  | VError error

text \<open>
  \<open>gomock.Controller\<close>: \<open>Call\<close> answers a call of a method of the mock \<open>'p\<close>, or ends the test;
  \<open>RecordCallWithMethodType\<close> takes the type of the method and arguments of which each may be a matcher.
\<close>

record ('p, 'x, 'c, 'm, 'r, 'w) mock_controller =
  Call :: "'p \<Rightarrow> string \<Rightarrow> ('x, 'c) mock_value list \<Rightarrow> 'w \<Rightarrow> ('x, 'c) mock_value list outcome \<times> 'w"
  RecordCallWithMethodType :: "'p \<Rightarrow> string \<Rightarrow> string \<times> string \<Rightarrow> 'm list \<Rightarrow> 'w \<Rightarrow> 'r outcome \<times> 'w"
  Helper :: "'w \<Rightarrow> 'w"

text \<open>
  A mock and its recorder point to each other; a mock is its address with its controller, and a
  recorder is the mock it records for.
\<close>

record ('p, 'x, 'c, 'm, 'r, 'w) mock_object =
  self :: 'p
  ctrl :: "('p, 'x, 'c, 'm, 'r, 'w) mock_controller"

record ('p, 'x, 'c, 'm, 'r, 'w) mock_recorder =
  mock :: "('p, 'x, 'c, 'm, 'r, 'w) mock_object"

definition NewMockBankKeeper ::
  "'p \<Rightarrow> ('p, 'x, 'c, 'm, 'r, 'w) mock_controller \<Rightarrow> ('p, 'x, 'c, 'm, 'r, 'w) mock_object" where
  "NewMockBankKeeper p c = \<lparr>self = p, ctrl = c\<rparr>"

definition NewMockBurnKeeper ::
  "'p \<Rightarrow> ('p, 'x, 'c, 'm, 'r, 'w) mock_controller \<Rightarrow> ('p, 'x, 'c, 'm, 'r, 'w) mock_object" where
  "NewMockBurnKeeper p c = \<lparr>self = p, ctrl = c\<rparr>"

definition NewMockStakingMsgServer ::
  "'p \<Rightarrow> ('p, 'x, 'c, 'm, 'r, 'w) mock_controller \<Rightarrow> ('p, 'x, 'c, 'm, 'r, 'w) mock_object" where
  "NewMockStakingMsgServer p c = \<lparr>self = p, ctrl = c\<rparr>"

definition MockBankKeeper_EXPECT ::
  "('p, 'x, 'c, 'm, 'r, 'w) mock_object \<Rightarrow> ('p, 'x, 'c, 'm, 'r, 'w) mock_recorder" where
  "MockBankKeeper_EXPECT m = \<lparr>mock = m\<rparr>"

definition MockBurnKeeper_EXPECT ::
  "('p, 'x, 'c, 'm, 'r, 'w) mock_object \<Rightarrow> ('p, 'x, 'c, 'm, 'r, 'w) mock_recorder" where
  "MockBurnKeeper_EXPECT m = \<lparr>mock = m\<rparr>"

definition MockStakingMsgServer_EXPECT ::
  "('p, 'x, 'c, 'm, 'r, 'w) mock_object \<Rightarrow> ('p, 'x, 'c, 'm, 'r, 'w) mock_recorder" where
  "MockStakingMsgServer_EXPECT m = \<lparr>mock = m\<rparr>"

text \<open>
  \<^verbatim>\<open>ret0, _ := ret[0].(T)\<close>: the index panics when the controller gave too few values; a value of
  another type gives the zero value of \<open>T\<close>.
\<close>

definition ret_at :: "('x, 'c) mock_value list \<Rightarrow> nat \<Rightarrow> ('x, 'c) mock_value outcome" where
  "ret_at ret i = (if i < length ret then Ok (ret ! i) else Panic)"

fun as_error :: "('x, 'c) mock_value \<Rightarrow> error option" where
  "as_error (VError e) = Some e"
| "as_error _ = None"

fun as_coin :: "('x, 'c) mock_value \<Rightarrow> coin" where
  "as_coin (VCoin c) = c"
| "as_coin _ = \<lparr>Denom = [], Amount = None\<rparr>"

text \<open>The value returned as the error of a call: nil is success.\<close>

definition nil_or_error :: "error option \<Rightarrow> unit outcome" where
  "nil_or_error e = (case e of None \<Rightarrow> Ok () | Some e \<Rightarrow> Err e)"

text \<open>The body every mocked method begins with.\<close>

definition mock_call ::
  "('p, 'x, 'c, 'm, 'r, 'w) mock_object \<Rightarrow> string \<Rightarrow> ('x, 'c) mock_value list \<Rightarrow> 'w
     \<Rightarrow> ('x, 'c) mock_value list outcome \<times> 'w" where
  "mock_call m name args w = Call (ctrl m) (self m) name args (Helper (ctrl m) w)"

definition MockBankKeeper_BurnCoins ::
  "('p, 'x, 'c, 'm, 'r, 'w) mock_object \<Rightarrow> 'x \<Rightarrow> string \<Rightarrow> coin list \<Rightarrow> 'w \<Rightarrow> unit outcome \<times> 'w" where
  "MockBankKeeper_BurnCoins m ctx moduleName amt =
     bindM (mock_call m ''BurnCoins'' [VContext ctx, VString moduleName, VCoins amt]) (\<lambda>ret.
     bindM (liftM (ret_at ret 0)) (\<lambda>ret0.
     liftM (nil_or_error (as_error ret0))))"

definition MockBankKeeper_GetBalance ::
  "('p, 'x, 'c, 'm, 'r, 'w) mock_object \<Rightarrow> 'x \<Rightarrow> addr \<Rightarrow> string \<Rightarrow> 'w \<Rightarrow> coin outcome \<times> 'w" where
  "MockBankKeeper_GetBalance m ctx addr denom =
     bindM (mock_call m ''GetBalance'' [VContext ctx, VAddress addr, VString denom]) (\<lambda>ret.
     bindM (liftM (ret_at ret 0)) (\<lambda>ret0.
     retM (as_coin ret0)))"

definition MockBankKeeper_SendCoinsFromAccountToModule ::
  "('p, 'x, 'c, 'm, 'r, 'w) mock_object \<Rightarrow> 'x \<Rightarrow> addr \<Rightarrow> string \<Rightarrow> coin list \<Rightarrow> 'w \<Rightarrow> unit outcome \<times> 'w" where
  "MockBankKeeper_SendCoinsFromAccountToModule m ctx senderAddr recipientModule amt =
     bindM (mock_call m ''SendCoinsFromAccountToModule''
       [VContext ctx, VAddress senderAddr, VString recipientModule, VCoins amt]) (\<lambda>ret.
     bindM (liftM (ret_at ret 0)) (\<lambda>ret0.
     liftM (nil_or_error (as_error ret0))))"

definition MockBankKeeper_SendCoinsFromModuleToModule ::
  "('p, 'x, 'c, 'm, 'r, 'w) mock_object \<Rightarrow> 'x \<Rightarrow> string \<Rightarrow> string \<Rightarrow> coin list \<Rightarrow> 'w \<Rightarrow> unit outcome \<times> 'w" where
  "MockBankKeeper_SendCoinsFromModuleToModule m ctx senderModule recipientModule amt =
     bindM (mock_call m ''SendCoinsFromModuleToModule''
       [VContext ctx, VString senderModule, VString recipientModule, VCoins amt]) (\<lambda>ret.
     bindM (liftM (ret_at ret 0)) (\<lambda>ret0.
     liftM (nil_or_error (as_error ret0))))"

definition MockBurnKeeper_BurnFromAccount ::
  "('p, 'x, 'c, 'm, 'r, 'w) mock_object \<Rightarrow> 'x \<Rightarrow> addr \<Rightarrow> coin \<Rightarrow> 'w \<Rightarrow> unit outcome \<times> 'w" where
  "MockBurnKeeper_BurnFromAccount m ctx senderAddr amount =
     bindM (mock_call m ''BurnFromAccount'' [VContext ctx, VAddress senderAddr, VCoin amount]) (\<lambda>ret.
     bindM (liftM (ret_at ret 0)) (\<lambda>ret0.
     liftM (nil_or_error (as_error ret0))))"

text \<open>The response is dropped by every caller, and by this model; both results are indexed.\<close>

definition MockStakingMsgServer_CreateValidator ::
  "('p, 'x, 'c, 'm, 'r, 'w) mock_object \<Rightarrow> 'x \<Rightarrow> 'c MsgCreateValidator_scheme \<Rightarrow> 'w \<Rightarrow> unit outcome \<times> 'w" where
  "MockStakingMsgServer_CreateValidator m arg0 arg1 =
     bindM (mock_call m ''CreateValidator'' [VContext arg0, VCreate arg1]) (\<lambda>ret.
     bindM (liftM (ret_at ret 0)) (\<lambda>_.
     bindM (liftM (ret_at ret 1)) (\<lambda>ret1.
     liftM (nil_or_error (as_error ret1)))))"

section \<open>Recorders\<close>

definition record_call ::
  "string \<Rightarrow> ('p, 'x, 'c, 'm, 'r, 'w) mock_recorder \<Rightarrow> string \<Rightarrow> 'm list \<Rightarrow> 'w \<Rightarrow> 'r outcome \<times> 'w" where
  "record_call mockType mr name args w =
     (let c = ctrl (mock mr) in
      RecordCallWithMethodType c (self (mock mr)) name (mockType, name) args (Helper c w))"

definition MockBankKeeperMockRecorder_BurnCoins where
  "MockBankKeeperMockRecorder_BurnCoins mr ctx moduleName amt =
     record_call ''MockBankKeeper'' mr ''BurnCoins'' [ctx, moduleName, amt]"

definition MockBankKeeperMockRecorder_GetBalance where
  "MockBankKeeperMockRecorder_GetBalance mr ctx addr denom =
     record_call ''MockBankKeeper'' mr ''GetBalance'' [ctx, addr, denom]"

definition MockBankKeeperMockRecorder_SendCoinsFromAccountToModule where
  "MockBankKeeperMockRecorder_SendCoinsFromAccountToModule mr ctx senderAddr recipientModule amt =
     record_call ''MockBankKeeper'' mr ''SendCoinsFromAccountToModule'' [ctx, senderAddr, recipientModule, amt]"

definition MockBankKeeperMockRecorder_SendCoinsFromModuleToModule where
  "MockBankKeeperMockRecorder_SendCoinsFromModuleToModule mr ctx senderModule recipientModule amt =
     record_call ''MockBankKeeper'' mr ''SendCoinsFromModuleToModule'' [ctx, senderModule, recipientModule, amt]"

definition MockBurnKeeperMockRecorder_BurnFromAccount where
  "MockBurnKeeperMockRecorder_BurnFromAccount mr ctx senderAddr amount =
     record_call ''MockBurnKeeper'' mr ''BurnFromAccount'' [ctx, senderAddr, amount]"

definition MockStakingMsgServerMockRecorder_CreateValidator where
  "MockStakingMsgServerMockRecorder_CreateValidator mr arg0 arg1 =
     record_call ''MockStakingMsgServer'' mr ''CreateValidator'' [arg0, arg1]"

section \<open>A store, a codec and a registrar that fail or do nothing\<close>

record ('i, 'w) kv_store =
  kv_Get :: "bytes \<Rightarrow> bytes option outcome"
  kv_Has :: "bytes \<Rightarrow> bool outcome"
  kv_Set :: "bytes \<Rightarrow> bytes \<Rightarrow> 'w \<Rightarrow> unit outcome \<times> 'w"
  kv_Delete :: "bytes \<Rightarrow> 'w \<Rightarrow> unit outcome \<times> 'w"
  kv_Iterator :: "bytes \<Rightarrow> bytes \<Rightarrow> 'i option outcome"
  kv_ReverseIterator :: "bytes \<Rightarrow> bytes \<Rightarrow> 'i option outcome"

definition FailSetStore :: "('i, 'w) kv_store" where
  "FailSetStore =
     \<lparr>kv_Get = (\<lambda>_. Ok None), kv_Has = (\<lambda>_. Ok False), kv_Set = (\<lambda>_ _. failM (OtherErr ''store write failed'')),
      kv_Delete = (\<lambda>_. retM ()), kv_Iterator = (\<lambda>_ _. Ok None), kv_ReverseIterator = (\<lambda>_ _. Ok None)\<rparr>"

definition FailSetStoreService_OpenKVStore :: "'x \<Rightarrow> ('i, 'w) kv_store" where
  "FailSetStoreService_OpenKVStore ctx = FailSetStore"

definition FailMarshalCodec :: "('g, 'j) json_codec \<Rightarrow> ('g, 'j) json_codec" where
  "FailMarshalCodec C = C\<lparr>MarshalJSON := (\<lambda>_. Err (OtherErr ''marshal failed''))\<rparr>"

definition MockServiceRegistrar_RegisterService :: "'d \<Rightarrow> 'h \<Rightarrow> 'w \<Rightarrow> 'w" where
  "MockServiceRegistrar_RegisterService desc impl = (\<lambda>w. w)"

text \<open>\<open>sample.AccAddress\<close> draws a private key from the system's randomness.\<close>

definition sample_AccAddress ::
  "('r \<Rightarrow> 'sk \<times> 'r) \<Rightarrow> ('sk \<Rightarrow> 'pk) \<Rightarrow> ('pk \<Rightarrow> addr) \<Rightarrow> (addr \<Rightarrow> string) \<Rightarrow> 'r \<Rightarrow> string \<times> 'r" where
  "sample_AccAddress GenPrivKey publicKey address AccString r =
     (case GenPrivKey r of (sk, r') \<Rightarrow> (AccString (address (publicKey sk)), r'))"

section \<open>The modules over the doubles\<close>

text \<open>A keeper of x/validator whose two collaborators are mocks; the controller's state stands for x/staking.\<close>

definition over_mocks ::
  "('p, 'x, 'c, 'm, 'r, 'w) mock_object \<Rightarrow> ('p, 'x, 'c, 'm, 'r, 'w) mock_object \<Rightarrow> 'x
     \<Rightarrow> ('c, ('b, 'w, 'z) vchain_scheme) validator_keeper \<Rightarrow> ('c, ('b, 'w, 'z) vchain_scheme) validator_keeper" where
  "over_mocks mb ms ctx K =
     K\<lparr>burnKeeper := (\<lambda>a c. onM staking (\<lambda>w s. s\<lparr>staking := w\<rparr>) (MockBurnKeeper_BurnFromAccount mb ctx a c)),
       stakingMsgServer := (\<lambda>m. onM staking (\<lambda>w s. s\<lparr>staking := w\<rparr>) (MockStakingMsgServer_CreateValidator ms ctx m))\<rparr>"

text \<open>
  The calls \<open>RegisterValidator\<close> makes: none for a message it refuses; otherwise one \<open>BurnFromAccount\<close>
  of the sender and the offered burn, and, only when that returned nil, one \<open>CreateValidator\<close> with the
  embedded message. An answer that is no error counts as nil.
\<close>

lemma register_calls:
  assumes "item_get (validator_store s) = Ok params"
    and "resolveSender (vlib K) msg = Ok a"
  shows "\<not> is_ok (validateRegistrationFunds msg params) \<Longrightarrow>
      staking (snd (RegisterValidator (over_mocks mb ms ctx K) msg s)) = staking s"
    and "validateRegistrationFunds msg params = Ok () \<Longrightarrow>
      mock_call mb ''BurnFromAccount'' [VContext ctx, VAddress a, VCoin (Burn msg)] (staking s) = (Ok [VError e], w1) \<Longrightarrow>
      RegisterValidator (over_mocks mb ms ctx K) msg s = (Err e, s\<lparr>staking := w1\<rparr>)"
    and "validateRegistrationFunds msg params = Ok () \<Longrightarrow>
      mock_call mb ''BurnFromAccount'' [VContext ctx, VAddress a, VCoin (Burn msg)] (staking s) = (Ok [VNil], w1) \<Longrightarrow>
      mock_call ms ''CreateValidator'' [VContext ctx, VCreate (CreateValidator msg)] w1 = (Ok [r, x], w2) \<Longrightarrow>
      as_error x = None \<Longrightarrow>
      RegisterValidator (over_mocks mb ms ctx K) msg s =
        (Ok (), s\<lparr>staking := w2, emitted := emitted s @ [Event EventTypeRegisterValidator []]\<rparr>)"
  using assms
  by (auto simp: RegisterValidator_def over_mocks_def MockBurnKeeper_BurnFromAccount_def
      MockStakingMsgServer_CreateValidator_def ret_at_def nil_or_error_def bindM_def onM_def
      split: outcome.splits)

text \<open>
  The fault that \<open>FailSetStore\<close> puts behind every write of a keeper, and a burn over it: the coins are
  destroyed, the error comes back, and nothing is recorded, so only the caller's roll-back keeps supply
  and record together.
\<close>

definition store_fault :: "('i, 'w) kv_store \<Rightarrow> bytes \<Rightarrow> bytes \<Rightarrow> 'w \<Rightarrow> error option" where
  "store_fault st k v w = (case fst (kv_Set st k v w) of Err e \<Rightarrow> Some e | _ \<Rightarrow> None)"

lemma FailSetStore_fault: "store_fault (FailSetStoreService_OpenKVStore ctx) k v w = Some (OtherErr ''store write failed'')"
  by (simp add: store_fault_def FailSetStoreService_OpenKVStore_def FailSetStore_def failM_def)

lemma burn_over_failing_store:
  assumes fault: "burn_fault K = (\<lambda>_. Some (OtherErr ''store write failed''))"
    and "0 < i" and "NewCoins (lib K) \<lparr>Denom = DefaultBondDenom, Amount = Some i\<rparr> = Ok cs"
    and "SendCoinsFromAccountToModule (bankKeeper K) a burn_ModuleName cs (bank s) = (Ok (), b1)"
    and "BurnCoins (bankKeeper K) burn_ModuleName cs b1 = (Ok (), b2)"
    and "seq_peek (GlobalBurnCount (burn s)) = Ok n"
  shows "BurnFromAccount K a \<lparr>Denom = DefaultBondDenom, Amount = Some i\<rparr> s =
    (Err (OtherErr ''store write failed''), s\<lparr>bank := b2\<rparr>)"
  using assms
  by (simp add: BurnFromAccount_def burnNative_def updateTrackers_def GlobalBurnCount_Next_def seq_next_def
      coin_IsPositive_def bindM_def onM_def)

lemma genesis_over_failing_codec:
  "burn_module_DefaultGenesis (FailMarshalCodec C) = Panic"
  "burn_ExportGenesis K st = Ok g \<Longrightarrow> burn_module_ExportGenesis (burn_NewAppModule K L) (FailMarshalCodec C) st = Panic"
  by (simp_all add: burn_module_DefaultGenesis_def burn_module_ExportGenesis_def burn_NewAppModule_def
      FailMarshalCodec_def mustO_def)

end
