(* ===== verification/Go_Paths.thy ===== *)
theory Go_Paths
  imports Chain_Id
begin

text \<open>
  The parts of Go's \<^verbatim>\<open>strconv\<close>, \<^verbatim>\<open>strings\<close> and \<^verbatim>\<open>path/filepath\<close> that the testnet commands use: decimal
  numbers, splitting and joining, and slash-separated paths taken apart lexically (\<open>Clean\<close>, \<open>Join\<close>,
  \<open>Base\<close>, \<open>Abs\<close>, \<open>Rel\<close>).
\<close>

section \<open>\<open>strconv.Itoa\<close>, \<open>strings.Split\<close>, \<open>strings.Join\<close>\<close>

definition Itoa :: "int \<Rightarrow> string" where
  "Itoa i = (if i < 0 then CHR ''-'' # decimal (nat (- i)) else decimal (nat i))"

fun split_on :: "char \<Rightarrow> string \<Rightarrow> string list" where
  "split_on sep [] = [[]]"
| "split_on sep (c # s) =
     (if c = sep then [] # split_on sep s
      else (case split_on sep s of [] \<Rightarrow> [[c]] | p # ps \<Rightarrow> (c # p) # ps))"

fun join_with :: "string \<Rightarrow> string list \<Rightarrow> string" where
  "join_with sep [] = []"
| "join_with sep [s] = s"
| "join_with sep (s # t # ts) = s @ sep @ join_with sep (t # ts)"

definition HasPrefix :: "string \<Rightarrow> string \<Rightarrow> bool" where
  "HasPrefix s pre \<longleftrightarrow> take (length pre) s = pre"

section \<open>\<open>path/filepath\<close>\<close>

definition IsAbs :: "string \<Rightarrow> bool" where
  "IsAbs s \<longleftrightarrow> HasPrefix s ''/''"

text \<open>
  \<open>Clean\<close> on the elements between the slashes, the ones kept so far in reverse: empty elements and
  dots go, a double dot takes the element before it, and is dropped at the root.
\<close>

fun clean_elems :: "bool \<Rightarrow> string list \<Rightarrow> string list \<Rightarrow> string list" where
  "clean_elems rooted kept [] = rev kept"
| "clean_elems rooted kept (e # es) =
     (if e = [] \<or> e = ''.'' then clean_elems rooted kept es
      else if e = ''..'' then
        (case kept of
           [] \<Rightarrow> clean_elems rooted (if rooted then [] else [''..'']) es
         | k # ks \<Rightarrow> clean_elems rooted (if k = ''..'' then ''..'' # kept else ks) es)
      else clean_elems rooted (e # kept) es)"

text \<open>A path is rooted or not, and a list of elements.\<close>

definition elems :: "string \<Rightarrow> string list" where
  "elems s = clean_elems (IsAbs s) [] (split_on CHR ''/'' s)"

definition path_string :: "bool \<Rightarrow> string list \<Rightarrow> string" where
  "path_string rooted es =
     (if rooted then CHR ''/'' # join_with ''/'' es else if es = [] then ''.'' else join_with ''/'' es)"

definition Clean :: "string \<Rightarrow> string" where
  "Clean s = path_string (IsAbs s) (elems s)"

text \<open>\<open>Join\<close>: leading empty elements are skipped, the others joined and cleaned.\<close>

definition Join :: "string list \<Rightarrow> string" where
  "Join ss = (case dropWhile (\<lambda>s. s = []) ss of [] \<Rightarrow> [] | ts \<Rightarrow> Clean (join_with ''/'' ts))"

definition Base :: "string \<Rightarrow> string" where
  "Base s =
     (if s = [] then ''.''
      else
        (case dropWhile (\<lambda>c. c = CHR ''/'') (rev s) of
           [] \<Rightarrow> ''/''
         | t \<Rightarrow> rev (takeWhile (\<lambda>c. c \<noteq> CHR ''/'') t)))"

text \<open>\<open>cwd\<close> is what \<open>os.Getwd\<close> gives.\<close>

definition Abs :: "string outcome \<Rightarrow> string \<Rightarrow> string outcome" where
  "Abs cwd s = (if IsAbs s then Ok (Clean s) else bindO cwd (\<lambda>wd. Ok (Join [wd, s])))"

text \<open>
  \<open>Rel\<close>: what is left of both after their common elements. Going up over a double dot is an
  error, and so is a relative path against an absolute one.
\<close>

fun strip_common :: "string list \<Rightarrow> string list \<Rightarrow> string list \<times> string list" where
  "strip_common (b # bs) (t # ts) = (if b = t then strip_common bs ts else (b # bs, t # ts))"
| "strip_common bs ts = (bs, ts)"

definition Rel :: "string \<Rightarrow> string \<Rightarrow> string outcome" where
  "Rel basepath targpath =
     (if IsAbs basepath \<noteq> IsAbs targpath then Err (OtherErr ''Rel: can't make relative'')
      else
        (case strip_common (elems basepath) (elems targpath) of
           (bs, ts) \<Rightarrow>
             if bs \<noteq> [] \<and> hd bs = ''..'' then Err (OtherErr ''Rel: can't make relative'')
             else Ok (path_string False (replicate (length bs) ''..'' @ ts))))"

section \<open>Numbers and elements\<close>

lemma decimal_not_Nil [simp]: "decimal n \<noteq> []"
  by (simp add: decimal.simps [of n])

lemma decimal_digits: "list_all digit (decimal n)"
proof (induction n rule: decimal.induct)
  case (1 n)
  then show ?case
    using of_char_digit [of n] of_char_digit [of "n mod 10"]
    by (auto simp: decimal.simps [of n] char_between_def)
qed

lemma decimal_inject [simp]: "decimal m = decimal n \<longleftrightarrow> m = n"
  by (metis decimal_value_decimal)

lemma Itoa_inject: "0 \<le> i \<Longrightarrow> 0 \<le> j \<Longrightarrow> Itoa i = Itoa j \<longleftrightarrow> i = j"
  by (auto simp: Itoa_def)


section \<open>Paths taken apart\<close>

text \<open>An element that is the name of a file or directory.\<close>

definition plain :: "string \<Rightarrow> bool" where
  "plain e \<longleftrightarrow> e \<noteq> [] \<and> e \<noteq> ''.'' \<and> e \<noteq> ''..'' \<and> CHR ''/'' \<notin> set e"

text \<open>What \<open>Clean\<close> leaves: names, after double dots if the path is not rooted.\<close>

definition elem_ok :: "string \<Rightarrow> bool" where
  "elem_ok e \<longleftrightarrow> e \<noteq> [] \<and> e \<noteq> ''.'' \<and> CHR ''/'' \<notin> set e"

definition cleaned :: "bool \<Rightarrow> string list \<Rightarrow> bool" where
  "cleaned rooted es \<longleftrightarrow>
     list_all elem_ok es \<and> sorted_wrt (\<lambda>a b. b = ''..'' \<longrightarrow> a = ''..'') es \<and> (rooted \<longrightarrow> ''..'' \<notin> set es)"

lemma split_on_no_sep: "sep \<notin> set s \<Longrightarrow> split_on sep s = [s]"
  by (induction s) auto

lemma split_on_not_Nil [simp]: "split_on sep s \<noteq> []"
  by (induction s) (auto split: list.splits)

lemma split_on_append: "split_on sep (s @ sep # t) = split_on sep s @ split_on sep t"
  by (induction s) (auto split: list.splits simp: neq_Nil_conv)

lemma split_on_elems: "list_all (\<lambda>e. sep \<notin> set e) (split_on sep s)"
  by (induction s) (auto split: list.splits)

lemma split_on_join:
  "es \<noteq> [] \<Longrightarrow> list_all (\<lambda>e. sep \<notin> set e) es \<Longrightarrow> split_on sep (join_with [sep] es) = es"
  by (induction "[sep]" es rule: join_with.induct) (auto simp: split_on_no_sep split_on_append)

lemma clean_elems_append:
  "clean_elems r kept (es @ fs) = clean_elems r (rev (clean_elems r kept es)) fs"
  by (induction r kept es rule: clean_elems.induct) (auto split: list.splits)

lemma clean_elems_plain: "list_all plain ns \<Longrightarrow> clean_elems r kept ns = rev kept @ ns"
  by (induction ns arbitrary: kept) (auto simp: plain_def)

lemma clean_elems_cleaned: "cleaned r (rev kept @ es) \<Longrightarrow> clean_elems r kept es = rev kept @ es"
proof (induction es arbitrary: kept)
  case (Cons e es)
  then have IH: "clean_elems r (e # kept) es = rev kept @ e # es" by simp
  have ok: "e \<noteq> []" "e \<noteq> ''.''" using Cons.prems by (simp_all add: cleaned_def elem_ok_def)
  show ?case
  proof (cases "e = ''..''")
    case True
    then have "\<not> r" "\<And>k ks. kept = k # ks \<Longrightarrow> k = ''..''"
      using Cons.prems by (auto simp: cleaned_def sorted_wrt_append)
    then show ?thesis using IH True by (cases kept) simp_all
  next
    case False
    then show ?thesis using IH ok by simp
  qed
qed simp

lemma cleaned_clean_elems:
  "cleaned r (rev kept) \<Longrightarrow> list_all (\<lambda>e. CHR ''/'' \<notin> set e) es \<Longrightarrow> cleaned r (clean_elems r kept es)"
proof (induction r kept es rule: clean_elems.induct)
  case (2 rooted kept e es)
  show ?case
  proof (cases "e = [] \<or> e = ''.'' \<or> e = ''..''")
    case False
    then show ?thesis using 2 by (auto simp: cleaned_def elem_ok_def sorted_wrt_append)
  next
    case True
    then show ?thesis
      using 2 by (cases kept) (auto simp: cleaned_def elem_ok_def sorted_wrt_append)
  qed
qed simp

lemma cleaned_elems: "cleaned (IsAbs s) (elems s)"
  unfolding elems_def by (rule cleaned_clean_elems [OF _ split_on_elems]) (simp add: cleaned_def)

lemma cleaned_no_slash: "cleaned r es \<Longrightarrow> list_all (\<lambda>e. CHR ''/'' \<notin> set e) es"
  by (auto simp: cleaned_def elem_ok_def list_all_iff)

lemma IsAbs_iff: "IsAbs s \<longleftrightarrow> (\<exists>t. s = CHR ''/'' # t)"
  by (cases s) (auto simp: IsAbs_def HasPrefix_def)

lemma IsAbs_join: "e \<noteq> [] \<Longrightarrow> CHR ''/'' \<notin> set e \<Longrightarrow> \<not> IsAbs (join_with ''/'' (e # es))"
  by (cases es; cases e) (auto simp: IsAbs_iff)

lemma IsAbs_path_string:
  assumes "cleaned r es"
  shows "IsAbs (path_string r es) = r"
proof (cases es)
  case Nil
  then show ?thesis by (simp add: path_string_def IsAbs_iff)
next
  case (Cons e es')
  then show ?thesis
    using assms IsAbs_join [of e es'] by (auto simp: path_string_def IsAbs_iff cleaned_def elem_ok_def)
qed

lemma elems_path_string:
  assumes "cleaned r es"
  shows "elems (path_string r es) = es"
proof -
  have "elems (path_string r es) = clean_elems r [] (split_on CHR ''/'' (path_string r es))"
    by (simp add: elems_def IsAbs_path_string [OF assms])
  also have "\<dots> = es"
  proof (cases "es = []")
    case False
    then show ?thesis
      using split_on_join [OF False cleaned_no_slash [OF assms]] clean_elems_cleaned [of r "[]" es] assms
      by (auto simp: path_string_def)
  qed (simp add: path_string_def)
  finally show ?thesis .
qed

lemma Clean_laws: "IsAbs (Clean s) = IsAbs s" "elems (Clean s) = elems s"
  unfolding Clean_def by (rule IsAbs_path_string elems_path_string, rule cleaned_elems)+


section \<open>Directories below a directory\<close>

lemma elems_append: "elems (s @ CHR ''/'' # t) = clean_elems (IsAbs (s @ [CHR ''/''])) [] (split_on CHR ''/'' s @ split_on CHR ''/'' t)"
proof -
  have "IsAbs (s @ CHR ''/'' # t) = IsAbs (s @ [CHR ''/''])"
    by (cases s) (simp_all add: IsAbs_iff)
  then show ?thesis by (simp add: elems_def split_on_append)
qed

lemma join_with_Cons: "ns \<noteq> [] \<Longrightarrow> join_with sep (s # ns) = s @ sep @ join_with sep ns"
  by (cases ns) simp_all

lemma plain_no_slash: "list_all plain ns \<Longrightarrow> list_all (\<lambda>e. CHR ''/'' \<notin> set e) ns"
  by (auto simp: plain_def list_all_iff)

text \<open>Names joined to a directory are appended to its elements.\<close>

lemma Join_names:
  assumes "list_all plain ns" and "ns \<noteq> []"
  shows "IsAbs (Join (out # ns)) = IsAbs out" and "elems (Join (out # ns)) = elems out @ ns"
proof -
  obtain n ns' where ns: "ns = n # ns'" and n: "n \<noteq> []" "CHR ''/'' \<notin> set n"
    using assms by (cases ns) (auto simp: plain_def)
  note sp = split_on_join [OF assms(2) plain_no_slash [OF assms(1)]]
  have t: "IsAbs (Join (out # ns)) = IsAbs out \<and> elems (Join (out # ns)) = elems out @ ns"
  proof (cases "out = []")
    case True
    have "Join (out # ns) = Clean (join_with ''/'' ns)"
      using True n by (simp add: Join_def ns)
    moreover have "\<not> IsAbs (join_with ''/'' ns)" "\<not> IsAbs out"
      using IsAbs_join [OF n] True by (simp_all add: ns IsAbs_iff)
    ultimately show ?thesis
      using True sp clean_elems_plain [OF assms(1)] by (simp add: Clean_laws) (simp add: elems_def IsAbs_iff)
  next
    case False
    have J: "Join (out # ns) = Clean (out @ CHR ''/'' # join_with ''/'' ns)"
      using False assms(2) by (simp add: Join_def join_with_Cons)
    have abs: "IsAbs (out @ CHR ''/'' # t) = IsAbs out" for t
      using False by (cases out) (simp_all add: IsAbs_iff)
    show ?thesis
      using sp abs clean_elems_plain [OF assms(1)]
      by (simp add: J Clean_laws elems_append abs clean_elems_append) (simp add: elems_def)
  qed
  from t show "IsAbs (Join (out # ns)) = IsAbs out" "elems (Join (out # ns)) = elems out @ ns" by blast+
qed

lemma Join_is_Clean:
  assumes "list_all plain ns" and "ns \<noteq> []"
  shows "Join (out # ns) = path_string (IsAbs out) (elems out @ ns)"
proof -
  obtain t where t: "Join (out # ns) = Clean t"
    using assms by (cases ns; cases "out = []") (auto simp: Join_def plain_def)
  then have "IsAbs t = IsAbs out" "elems t = elems out @ ns"
    using Join_names [OF assms, of out] by (simp_all add: Clean_laws)
  with t show ?thesis by (simp add: Clean_def)
qed

lemma Abs_names:
  assumes "IsAbs wd"
  shows "\<exists>X. \<forall>ns. list_all plain ns \<longrightarrow> ns \<noteq> [] \<longrightarrow>
    (\<exists>p. Abs (Ok wd) (Join (out # ns)) = Ok p \<and> IsAbs p \<and> elems p = X @ ns)"
proof (cases "IsAbs out")
  case True
  then show ?thesis
    using Join_names [of _ out] by (intro exI [of _ "elems out"]) (auto simp: Abs_def Clean_laws)
next
  case False
  have wd: "wd \<noteq> []" using assms by (auto simp: IsAbs_iff)
  have "\<exists>p. Abs (Ok wd) (Join (out # ns)) = Ok p \<and> IsAbs p \<and>
      elems p = clean_elems True (rev (elems wd)) (elems out) @ ns"
    if ns: "list_all plain ns" "ns \<noteq> []" for ns
  proof -
    let ?s = "Join (out # ns)"
    have cl: "cleaned False (elems out @ ns)"
      using cleaned_elems [of ?s] Join_names [OF ns, of out] False by simp
    have "split_on CHR ''/'' ?s = elems out @ ns"
      using split_on_join [OF _ cleaned_no_slash [OF cl]] ns False by (simp add: Join_is_Clean path_string_def)
    moreover have "Abs (Ok wd) ?s = Ok (Clean (wd @ CHR ''/'' # ?s))"
      using False Join_names [OF ns, of out] wd by (simp add: Abs_def Join_def [of "[wd, ?s]"])
    moreover have "IsAbs (wd @ CHR ''/'' # t)" for t
      using assms by (auto simp: IsAbs_iff)
    ultimately show ?thesis
      using clean_elems_plain [OF ns(1)] assms
      by (simp add: Clean_laws elems_append clean_elems_append) (simp add: elems_def)
  qed
  then show ?thesis by blast
qed

lemma strip_common_append: "strip_common (xs @ bs) (xs @ ts) = strip_common bs ts"
  by (induction xs) simp_all

lemma Rel_below:
  assumes "IsAbs p" and "IsAbs q" and "elems p = X @ bs" and "elems q = X @ ts"
  shows "Rel p q = (case strip_common bs ts of
     (bs, ts) \<Rightarrow>
       if bs \<noteq> [] \<and> hd bs = ''..'' then Err (OtherErr ''Rel: can't make relative'')
       else Ok (path_string False (replicate (length bs) ''..'' @ ts)))"
  using assms by (simp add: Rel_def strip_common_append)

lemma path_string_up: "HasPrefix (path_string False (''..'' # es)) ''..''"
  by (cases es) (simp_all add: path_string_def HasPrefix_def)

end
