(* ===== verification/Testnet_Plan.thy ===== *)
theory Testnet_Plan
  imports Go_Paths Sdk_Interfaces
begin

text \<open>
  \<^verbatim>\<open>cmd/monod/cmd/testnet_multi_node.go\<close>, what the \<open>multi-node\<close> command computes before it touches a
  file: its arguments, read from the flags, the addresses of each node, the directories and peers.
  Indices of nodes are natural numbers. A flag that cannot be read counts as its zero value, as in
  the code.
\<close>

section \<open>Arguments\<close>

record initArgs =
  algo :: string
  chainID :: string
  keyringBackend :: string
  minGasPrices :: string
  nodeDirPrefix :: string
  numValidators :: int
  outputDir :: string
  startingIPAddress :: string
  validatorsStakesAmount :: "nat \<rightharpoonup> coin"
  ports :: "nat \<rightharpoonup> string"

record 'f testnet_flag_ops = "'f flag_ops" +
  FlagGetInt :: "string \<Rightarrow> 'f \<Rightarrow> int outcome"

definition string_flag :: "('f, 'z) testnet_flag_ops_scheme \<Rightarrow> string \<Rightarrow> 'f \<Rightarrow> string" where
  "string_flag F name fs = (case FlagGetString F name fs of Ok s \<Rightarrow> s | _ \<Rightarrow> [])"

definition int_flag :: "('f, 'z) testnet_flag_ops_scheme \<Rightarrow> string \<Rightarrow> 'f \<Rightarrow> int" where
  "int_flag F name fs = (case FlagGetInt F name fs of Ok i \<Rightarrow> i | _ \<Rightarrow> 0)"

text \<open>
  The stakes: entries that are no number are skipped, the others get the next index. \<open>NewIntFromString\<close>
  is the number parser of the SDK.
\<close>

fun parse_stakes ::
  "sdk_lib \<Rightarrow> (string \<Rightarrow> int option) \<Rightarrow> string list \<Rightarrow> nat \<Rightarrow> (nat \<rightharpoonup> coin) \<Rightarrow> (nat \<rightharpoonup> coin) outcome" where
  "parse_stakes L NewIntFromString [] idx m = Ok m"
| "parse_stakes L NewIntFromString (amount # amounts) idx m =
     (case NewIntFromString amount of
        None \<Rightarrow> parse_stakes L NewIntFromString amounts idx m
      | Some a \<Rightarrow>
          bindO (NewCoin L DefaultBondDenom (Some a)) (\<lambda>coin.
          parse_stakes L NewIntFromString amounts (idx + 1) (m(idx \<mapsto> coin))))"

text \<open>The RPC ports: the default ones, or the listed ones as they are.\<close>

definition rpc_port :: "nat \<Rightarrow> int" where
  "rpc_port i = 26657 - 3 * int i"

fun number_from :: "nat \<Rightarrow> 'a list \<Rightarrow> (nat \<rightharpoonup> 'a) \<Rightarrow> (nat \<rightharpoonup> 'a)" where
  "number_from idx [] m = m"
| "number_from idx (x # xs) m = number_from (idx + 1) xs (m(idx \<mapsto> x))"

definition parse_ports :: "string \<Rightarrow> int \<Rightarrow> (nat \<rightharpoonup> string)" where
  "parse_ports s n =
     (if s = [] then number_from 0 (map (\<lambda>i. Itoa (rpc_port i)) [0..<nat n]) Map.empty
      else number_from 0 (split_on CHR '','' s) Map.empty)"

text \<open>The body of \<open>RunE\<close>, up to the call of \<open>initTestnetFiles\<close>.\<close>

definition testnet_args ::
  "sdk_lib \<Rightarrow> (string \<Rightarrow> int option) \<Rightarrow> ('f, 'z) testnet_flag_ops_scheme \<Rightarrow> 'f \<Rightarrow> initArgs outcome" where
  "testnet_args L NewIntFromString F fs =
     bindO (case FlagGetString F ''validators-stake-amount'' fs of
              Ok s \<Rightarrow> parse_stakes L NewIntFromString (split_on CHR '','' s) 0 Map.empty
            | _ \<Rightarrow> Ok Map.empty) (\<lambda>stakes.
     Ok \<lparr>algo = string_flag F ''key-type'' fs, chainID = string_flag F ''chain-id'' fs,
         keyringBackend = string_flag F ''keyring-backend'' fs,
         minGasPrices = string_flag F ''minimum-gas-prices'' fs,
         nodeDirPrefix = string_flag F ''node-dir-prefix'' fs,
         numValidators = int_flag F ''v'' fs,
         outputDir = string_flag F ''output-dir'' fs,
         startingIPAddress = string_flag F ''starting-ip-address'' fs,
         validatorsStakesAmount = stakes,
         ports = (case FlagGetString F ''list-ports'' fs of
                    Ok s \<Rightarrow> parse_ports s (int_flag F ''v'' fs)
                  | _ \<Rightarrow> Map.empty)\<rparr>)"

text \<open>The flags \<open>NewTestnetMultiNodeCmd\<close> and \<open>addTestnetFlagsToCmd\<close> declare, with their defaults.\<close>

datatype flag_default = StringFlag string | IntFlag int

definition multi_node_flags :: "(string \<times> flag_default) list" where
  "multi_node_flags =
     [(''list-ports'', StringFlag []),
      (''node-dir-prefix'', StringFlag ''validator''),
      (''validators-stake-amount'', StringFlag ''100000000,100000000,100000000,100000000''),
      (''starting-ip-address'', StringFlag ''localhost''),
      (''keyring-backend'', StringFlag ''test'')]"

definition addTestnetFlagsToCmd :: "string \<Rightarrow> (string \<times> flag_default) list" where
  "addTestnetFlagsToCmd ethSecp256k1 =
     [(''v'', IntFlag 4),
      (''output-dir'', StringFlag ''./.testnets''),
      (''chain-id'', StringFlag []),
      (''minimum-gas-prices'', StringFlag (''0.0001'' @ DefaultBondDenom)),
      (''key-type'', StringFlag ethSecp256k1)]"

text \<open>The old name of a flag.\<close>

definition normalize_flag :: "string \<Rightarrow> string" where
  "normalize_flag name = (if name = ''algo'' then ''key-type'' else name)"

section \<open>Names and addresses of a node\<close>

definition node_dir_name :: "initArgs \<Rightarrow> nat \<Rightarrow> string" where
  "node_dir_name args i = nodeDirPrefix args @ decimal i"

definition node_dir :: "initArgs \<Rightarrow> nat \<Rightarrow> string" where
  "node_dir args i = Join [outputDir args, node_dir_name args i]"

definition gentxs_dir :: "initArgs \<Rightarrow> nat \<Rightarrow> string" where
  "gentxs_dir args i = Join [outputDir args, node_dir_name args i, ''config'', ''gentx'']"

text \<open>The same directory as the copy and collect loops write it.\<close>

definition gentxs_dir_of_node :: "initArgs \<Rightarrow> nat \<Rightarrow> string" where
  "gentxs_dir_of_node args i = Join [node_dir args i, ''config'', ''gentx'']"

definition gentx_file :: "initArgs \<Rightarrow> nat \<Rightarrow> string \<Rightarrow> string" where
  "gentx_file args i nodeID = Join [gentxs_dir args i, ''gentx-'' @ nodeID @ ''.json'']"

text \<open>A missing entry of a Go map reads as the zero value, here the empty string.\<close>

definition port_of :: "initArgs \<Rightarrow> nat \<Rightarrow> string" where
  "port_of args i = (case ports args i of None \<Rightarrow> [] | Some p \<Rightarrow> p)"

definition p2p_port :: "nat \<Rightarrow> int" where
  "p2p_port i = 26656 - 3 * int i"

definition proxy_port :: "nat \<Rightarrow> int" where
  "proxy_port i = 26658 - 3 * int i"

definition prometheus_port :: "nat \<Rightarrow> int" where
  "prometheus_port i = 26660 + int i"

definition grpc_port :: "nat \<Rightarrow> int" where
  "grpc_port i = 9090 - 2 * int i"

definition api_port :: "nat \<Rightarrow> int" where
  "api_port i = 1317 - int i"

definition node_memo :: "initArgs \<Rightarrow> nat \<Rightarrow> string \<Rightarrow> string" where
  "node_memo args i nodeID = nodeID @ ''@'' @ startingIPAddress args @ '':'' @ Itoa (26656 - 3 * int i)"

definition add_peer :: "string \<Rightarrow> string \<Rightarrow> string" where
  "add_peer persistentPeers memo =
     (if persistentPeers = [] then memo else persistentPeers @ '','' @ memo)"

section \<open>\<open>isSubDir\<close>, \<open>generateRandomString\<close>\<close>

definition isSubDir :: "string outcome \<Rightarrow> string \<Rightarrow> string \<Rightarrow> bool outcome" where
  "isSubDir cwd src dstDir =
     bindO (Abs cwd src) (\<lambda>absSrc.
     bindO (Abs cwd dstDir) (\<lambda>absDstDir.
     bindO (Rel absDstDir absSrc) (\<lambda>relativePath.
     Ok (\<not> HasPrefix relativePath ''..'' \<and> \<not> IsAbs relativePath))))"

definition charset :: string where
  "charset = ''abcdefghijklmnopqrstuvwxyz0123456789''"

text \<open>\<open>Intn\<close> is the draw of a seeded source below a bound.\<close>

fun generateRandomString :: "(nat \<Rightarrow> 'r \<Rightarrow> nat \<times> 'r) \<Rightarrow> nat \<Rightarrow> 'r \<Rightarrow> string \<times> 'r" where
  "generateRandomString Intn 0 r = ([], r)"
| "generateRandomString Intn (Suc n) r =
     (case Intn (length charset) r of
        (i, r') \<Rightarrow> (case generateRandomString Intn n r' of (s, r'') \<Rightarrow> (charset ! i # s, r'')))"

end
