(* ===== verification/Testnet_Files.thy ===== *)
theory Testnet_Files
  imports Testnet_Plan Go_Loops
begin

text \<open>
  \<^verbatim>\<open>cmd/monod/cmd/testnet_multi_node.go\<close>, what the \<open>multi-node\<close> command does: the directory, keys,
  account, signed transaction and \<^verbatim>\<open>app.toml\<close> of every node, the shared genesis file, the copies of
  the transactions, the final genesis and \<^verbatim>\<open>config.toml\<close>. The world \<open>'w\<close> (files, random source, key
  rings) changes through the calls in \<open>testnet_env\<close>; the values the libraries hand back (keys, key
  rings, messages, transactions, JSON) are of one type \<open>'v\<close> that the code only passes on.
\<close>

section \<open>State\<close>

text \<open>The fields of \<open>cmtconfig.Config\<close> and \<open>srvconfig.Config\<close> that the command sets.\<close>

record node_config =
  RootDir :: string
  Moniker :: string
  RPC_ListenAddress :: string
  PersistentPeers :: string
  AllowDuplicateIP :: bool
  P2P_ListenAddress :: string
  ProxyApp :: string
  PrometheusListenAddr :: string
  Prometheus :: bool

text \<open>
  \<open>MinGasPrices\<close> is a field of the embedded \<open>BaseConfig\<close>: \<open>appConfig.MinGasPrices\<close> and
  \<open>appConfig.BaseConfig.MinGasPrices\<close> are one field.
\<close>

record app_toml =
  BaseConfig_MinGasPrices :: string
  API_Enable :: bool
  EnableHostnameLabel :: bool
  Telemetry_Enabled :: bool
  PrometheusRetentionTime :: int
  GRPC_Address :: string
  API_Address :: string

record gen_balance =
  BalanceAddress :: string
  Coins :: "coin list"

record bank_genesis =
  Balances :: "gen_balance list"
  Supply :: "coin list"

record ('w, 'v) testnet_env =
  MkdirAll :: "string \<Rightarrow> 'w \<Rightarrow> unit outcome \<times> 'w"
  RemoveAll :: "string \<Rightarrow> 'w \<Rightarrow> unit outcome \<times> 'w"
  OsWriteFile :: "string \<Rightarrow> 'v \<Rightarrow> 'w \<Rightarrow> unit outcome \<times> 'w"
  OsOpen :: "string \<Rightarrow> 'w \<Rightarrow> 'v outcome \<times> 'w"
  OsCreate :: "string \<Rightarrow> 'w \<Rightarrow> 'v outcome \<times> 'w"
  IoCopy :: "'v \<Rightarrow> 'v \<Rightarrow> 'w \<Rightarrow> int outcome \<times> 'w"
  FileSync :: "'v \<Rightarrow> 'w \<Rightarrow> unit outcome \<times> 'w"
  FileClose :: "'v \<Rightarrow> 'w \<Rightarrow> 'w"
  Getwd :: "'w \<Rightarrow> string outcome"
  RandIntn :: "nat \<Rightarrow> 'w \<Rightarrow> nat \<times> 'w"
  Now :: "'w \<Rightarrow> 'v"
  PrintSuccess :: "int \<Rightarrow> 'w \<Rightarrow> 'w"
  GenesisFile :: "node_config \<Rightarrow> string"
  InitializeNodeValidatorFiles :: "node_config \<Rightarrow> 'w \<Rightarrow> (string \<times> 'v) outcome \<times> 'w"
  NewKeyring :: "string \<Rightarrow> string \<Rightarrow> 'w \<Rightarrow> 'v outcome \<times> 'w"
  NewSigningAlgo :: "'v \<Rightarrow> string \<Rightarrow> 'v outcome"
  GenerateSaveCoinKey :: "'v \<Rightarrow> string \<Rightarrow> 'v \<Rightarrow> 'w \<Rightarrow> (addr \<times> string) outcome \<times> 'w"
  SecretJSON :: "string \<Rightarrow> 'v outcome"
  TokensFromConsensusPower :: "int \<Rightarrow> int"
  SortCoins :: "coin list \<Rightarrow> coin list"
  AccAddressString :: "addr \<Rightarrow> string"
  ValAddressString :: "addr \<Rightarrow> string"
  NewBaseAccount :: "addr \<Rightarrow> 'v"
  NewMsgCreateValidator :: "string \<Rightarrow> 'v \<Rightarrow> coin \<Rightarrow> string \<Rightarrow> 'v outcome"
  TxWithMsg :: "'v \<Rightarrow> 'v outcome"
  TxWithMemo :: "string \<Rightarrow> 'v \<Rightarrow> 'v"
  TxSign :: "string \<Rightarrow> string \<Rightarrow> 'v \<Rightarrow> string \<Rightarrow> 'v \<Rightarrow> 'w \<Rightarrow> 'v outcome \<times> 'w"
  TxJSON :: "'v \<Rightarrow> 'v outcome"
  WriteAppToml :: "string \<Rightarrow> app_toml \<Rightarrow> 'w \<Rightarrow> unit outcome \<times> 'w"
  WriteConfigToml :: "string \<Rightarrow> node_config \<Rightarrow> 'w \<Rightarrow> unit outcome \<times> 'w"
  ModulesDefaultGenesis :: "string \<rightharpoonup> 'v"
  UnmarshalAuth :: "'v option \<Rightarrow> 'v outcome"
  PackAccounts :: "'v list \<Rightarrow> 'v outcome"
  WithAccounts :: "'v \<Rightarrow> 'v \<Rightarrow> 'v"
  MarshalAuth :: "'v \<Rightarrow> 'v outcome"
  UnmarshalBank :: "'v option \<Rightarrow> bank_genesis outcome"
  MarshalBank :: "bank_genesis \<Rightarrow> 'v outcome"
  SanitizeGenesisBalances :: "gen_balance list \<Rightarrow> gen_balance list"
  CoinsAdd :: "coin list \<Rightarrow> coin list \<Rightarrow> coin list outcome"
  GenStateJSON :: "(string \<rightharpoonup> 'v) \<Rightarrow> 'v outcome"
  GenDocSaveAs :: "string \<Rightarrow> string \<Rightarrow> 'v \<Rightarrow> 'w \<Rightarrow> unit outcome \<times> 'w"
  AppGenesisFromFile :: "string \<Rightarrow> 'w \<Rightarrow> 'v outcome \<times> 'w"
  GenAppStateFromConfig :: "string \<Rightarrow> string \<Rightarrow> string \<Rightarrow> 'v option \<Rightarrow> 'v \<Rightarrow> node_config \<Rightarrow> 'w \<Rightarrow> ('v option \<times> node_config) outcome \<times> 'w"
  ExportGenesisFileWithTime :: "string \<Rightarrow> string \<Rightarrow> 'v option \<Rightarrow> 'v \<Rightarrow> 'w \<Rightarrow> unit outcome \<times> 'w"

text \<open>The local variables of \<open>initTestnetFiles\<close> that its loops change, with the world.\<close>

record ('w, 'v) testnet_run =
  world :: 'w
  nodeConfig :: node_config
  appConfig :: app_toml
  nodeIDs :: "string list"
  valPubKeys :: "'v option list"
  genAccounts :: "'v list"
  genBalances :: "gen_balance list"
  genFiles :: "string list"
  persistentPeers :: string
  gentxsFiles :: "string list"

abbreviation on_world ::
  "('w \<Rightarrow> 'a outcome \<times> 'w) \<Rightarrow> ('w, 'v) testnet_run \<Rightarrow> 'a outcome \<times> ('w, 'v) testnet_run" where
  "on_world \<equiv> onM world (\<lambda>w s. s\<lparr>world := w\<rparr>)"

abbreviation on_fst :: "('w \<Rightarrow> 'a outcome \<times> 'w) \<Rightarrow> 'w \<times> 'y \<Rightarrow> 'a outcome \<times> 'w \<times> 'y" where
  "on_fst \<equiv> onM fst (\<lambda>w s. (w, snd s))"

abbreviation assignM :: "('s \<Rightarrow> 's) \<Rightarrow> 's \<Rightarrow> unit outcome \<times> 's" where
  "assignM f \<equiv> (\<lambda>s. (Ok (), f s))"

text \<open>\<^verbatim>\<open>_ = os.RemoveAll(args.outputDir); return err\<close>\<close>

definition or_remove ::
  "('w, 'v) testnet_env \<Rightarrow> string \<Rightarrow> (('w, 'v) testnet_run \<Rightarrow> 'a outcome \<times> ('w, 'v) testnet_run)
     \<Rightarrow> ('w, 'v) testnet_run \<Rightarrow> 'a outcome \<times> ('w, 'v) testnet_run" where
  "or_remove E dir m s =
     (case m s of
        (Err e, s') \<Rightarrow> (Err e, snd (on_world (RemoveAll E dir) s'))
      | r \<Rightarrow> r)"

section \<open>One node\<close>

definition writeFile :: "('w, 'v) testnet_env \<Rightarrow> string \<Rightarrow> string \<Rightarrow> 'v \<Rightarrow> 'w \<Rightarrow> unit outcome \<times> 'w" where
  "writeFile E file dir contents = bindM (MkdirAll E dir) (\<lambda>_. OsWriteFile E file contents)"

text \<open>The balances every node starts with.\<close>

definition node_coins :: "sdk_lib \<Rightarrow> ('w, 'v) testnet_env \<Rightarrow> coin list outcome" where
  "node_coins L E =
     bindO (NewCoin L ''alyth'' (Some (TokensFromConsensusPower E 1000))) (\<lambda>c.
     bindO (NewCoin L DefaultBondDenom (Some (TokensFromConsensusPower E 500))) (\<lambda>c'.
     Ok [c, c']))"

definition node_stake :: "sdk_lib \<Rightarrow> ('w, 'v) testnet_env \<Rightarrow> initArgs \<Rightarrow> nat \<Rightarrow> coin outcome" where
  "node_stake L E args i =
     (case validatorsStakesAmount args i of
        Some c \<Rightarrow> Ok c
      | None \<Rightarrow> NewCoin L DefaultBondDenom (Some (TokensFromConsensusPower E 100)))"

text \<open>Directory and validator keys; the result is the memo of the node.\<close>

definition node_files ::
  "('w, 'v) testnet_env \<Rightarrow> initArgs \<Rightarrow> nat \<Rightarrow> ('w, 'v) testnet_run \<Rightarrow> (string \<times> string \<times> 'v) outcome \<times> ('w, 'v) testnet_run" where
  "node_files E args i =
     bindM (assignM (\<lambda>s. s\<lparr>nodeConfig := (nodeConfig s)\<lparr>RootDir := node_dir args i, Moniker := node_dir_name args i,
       RPC_ListenAddress := ''tcp://0.0.0.0:'' @ port_of args i\<rparr>\<rparr>)) (\<lambda>_.
     bindM (or_remove E (outputDir args) (on_world (MkdirAll E (Join [node_dir args i, ''config''])))) (\<lambda>_.
     bindM (or_remove E (outputDir args) (\<lambda>s. on_world (InitializeNodeValidatorFiles E (nodeConfig s)) s)) (\<lambda>(nodeID, valPubKey).
     let memo = node_memo args i nodeID in
     bindM (assignM (\<lambda>s. s\<lparr>nodeIDs := (nodeIDs s)[i := nodeID], valPubKeys := (valPubKeys s)[i := Some valPubKey],
       persistentPeers := add_peer (persistentPeers s) memo,
       genFiles := genFiles s @ [GenesisFile E (nodeConfig s)]\<rparr>)) (\<lambda>_.
     retM (nodeID, memo, valPubKey)))))"

text \<open>The account key, its seed file, balance and genesis account.\<close>

definition node_account ::
  "sdk_lib \<Rightarrow> ('w, 'v) testnet_env \<Rightarrow> initArgs \<Rightarrow> nat \<Rightarrow> ('w, 'v) testnet_run \<Rightarrow> ('v \<times> addr) outcome \<times> ('w, 'v) testnet_run" where
  "node_account L E args i =
     bindM (on_world (NewKeyring E (keyringBackend args) (node_dir args i))) (\<lambda>kb.
     bindM (liftM (NewSigningAlgo E kb (algo args))) (\<lambda>algorithm.
     bindM (or_remove E (outputDir args) (on_world (GenerateSaveCoinKey E kb (node_dir_name args i) algorithm))) (\<lambda>(addr, secret).
     bindM (liftM (SecretJSON E secret)) (\<lambda>cliPrint.
     bindM (on_world (writeFile E (Join [node_dir args i, ''key_seed.json'']) (node_dir args i) cliPrint)) (\<lambda>_.
     bindM (liftM (node_coins L E)) (\<lambda>coins.
     bindM (assignM (\<lambda>s. s\<lparr>genBalances := genBalances s @ [\<lparr>BalanceAddress = AccAddressString E addr, Coins = SortCoins E coins\<rparr>],
       genAccounts := genAccounts s @ [NewBaseAccount E addr]\<rparr>)) (\<lambda>_.
     retM (kb, addr))))))))"

text \<open>The transaction that creates the validator, signed and written.\<close>

definition node_gentx ::
  "sdk_lib \<Rightarrow> ('w, 'v) testnet_env \<Rightarrow> initArgs \<Rightarrow> nat \<Rightarrow> string \<Rightarrow> string \<Rightarrow> 'v \<Rightarrow> 'v \<Rightarrow> addr
     \<Rightarrow> ('w, 'v) testnet_run \<Rightarrow> unit outcome \<times> ('w, 'v) testnet_run" where
  "node_gentx L E args i nodeID memo valPubKey kb addr =
     bindM (liftM (node_stake L E args i)) (\<lambda>valTokens.
     bindM (liftM (NewMsgCreateValidator E (ValAddressString E addr) valPubKey valTokens (node_dir_name args i))) (\<lambda>createValMsg.
     bindM (liftM (TxWithMsg E createValMsg)) (\<lambda>txBuilder.
     bindM (on_world (TxSign E (chainID args) memo kb (node_dir_name args i) (TxWithMemo E memo txBuilder))) (\<lambda>signed.
     bindM (liftM (TxJSON E signed)) (\<lambda>txBz.
     let file = gentx_file args i nodeID in
     bindM (assignM (\<lambda>s. s\<lparr>gentxsFiles := gentxsFiles s @ [file]\<rparr>)) (\<lambda>_.
     on_world (writeFile E file (gentxs_dir args i) txBz)))))))"

definition node_app_toml ::
  "('w, 'v) testnet_env \<Rightarrow> initArgs \<Rightarrow> nat \<Rightarrow> ('w, 'v) testnet_run \<Rightarrow> unit outcome \<times> ('w, 'v) testnet_run" where
  "node_app_toml E args i =
     bindM (assignM (\<lambda>s. s\<lparr>appConfig := (appConfig s)\<lparr>
       GRPC_Address := startingIPAddress args @ '':'' @ Itoa (grpc_port i),
       API_Address := ''tcp://localhost:'' @ Itoa (api_port i)\<rparr>\<rparr>)) (\<lambda>_ s.
     on_world (WriteAppToml E (Join [node_dir args i, ''config'', ''app.toml'']) (appConfig s)) s)"

definition init_node ::
  "sdk_lib \<Rightarrow> ('w, 'v) testnet_env \<Rightarrow> initArgs \<Rightarrow> nat \<Rightarrow> ('w, 'v) testnet_run \<Rightarrow> unit outcome \<times> ('w, 'v) testnet_run" where
  "init_node L E args i =
     bindM (node_files E args i) (\<lambda>(nodeID, memo, valPubKey).
     bindM (node_account L E args i) (\<lambda>(kb, addr).
     bindM (node_gentx L E args i nodeID memo valPubKey kb addr) (\<lambda>_.
     node_app_toml E args i)))"

section \<open>Genesis\<close>

fun add_supply :: "('w, 'v) testnet_env \<Rightarrow> gen_balance list \<Rightarrow> coin list \<Rightarrow> coin list outcome" where
  "add_supply E [] supply = Ok supply"
| "add_supply E (bal # bals) supply = bindO (CoinsAdd E supply (Coins bal)) (add_supply E bals)"

text \<open>The application state of the shared genesis file.\<close>

definition genesis_app_state :: "('w, 'v) testnet_env \<Rightarrow> 'v list \<Rightarrow> gen_balance list \<Rightarrow> 'v outcome" where
  "genesis_app_state E accounts balances =
     (let appGenState = ModulesDefaultGenesis E in
      bindO (mustO (UnmarshalAuth E (appGenState ''auth''))) (\<lambda>authGenState.
      bindO (PackAccounts E accounts) (\<lambda>packed.
      bindO (mustO (MarshalAuth E (WithAccounts E packed authGenState))) (\<lambda>auth.
      let appGenState = appGenState(''auth'' \<mapsto> auth) in
      bindO (mustO (UnmarshalBank E (appGenState ''bank''))) (\<lambda>bankGenState.
      let sanitized = SanitizeGenesisBalances E balances in
      bindO (add_supply E sanitized (Supply bankGenState)) (\<lambda>supply.
      bindO (mustO (MarshalBank E (bankGenState\<lparr>Balances := sanitized, Supply := supply\<rparr>))) (\<lambda>bank.
      GenStateJSON E (appGenState(''bank'' \<mapsto> bank)))))))))"

definition initGenFiles ::
  "('w, 'v) testnet_env \<Rightarrow> string \<Rightarrow> 'v list \<Rightarrow> gen_balance list \<Rightarrow> string list \<Rightarrow> nat \<Rightarrow> 'w \<Rightarrow> unit outcome \<times> 'w" where
  "initGenFiles E chain accounts balances files n =
     bindM (liftM (genesis_app_state E accounts balances)) (\<lambda>appGenStateJSON.
     forM (\<lambda>i. GenDocSaveAs E (files ! i) chain appGenStateJSON) [0..<n])"

text \<open>\<open>copyFile\<close>: the deferred calls close what was opened.\<close>

definition copyFile :: "('w, 'v) testnet_env \<Rightarrow> string \<Rightarrow> string \<Rightarrow> 'w \<Rightarrow> int outcome \<times> 'w" where
  "copyFile E src dstDir =
     (let dst = Join [dstDir, Base src] in
      bindM (OsOpen E src) (\<lambda>sourceFile w.
      case bindM (OsCreate E dst) (\<lambda>destinationFile w.
             case bindM (IoCopy E destinationFile sourceFile) (\<lambda>bytesCopied.
                    bindM (FileSync E destinationFile) (\<lambda>_. retM bytesCopied)) w of
               (r, w') \<Rightarrow> (r, FileClose E destinationFile w')) w of
        (r, w') \<Rightarrow> (r, FileClose E sourceFile w')))"

text \<open>Every node gets the transactions of the others; what cannot be located is skipped.\<close>

definition copy_gentx :: "('w, 'v) testnet_env \<Rightarrow> string \<Rightarrow> string \<Rightarrow> 'w \<Rightarrow> unit outcome \<times> 'w" where
  "copy_gentx E gentxsDir file w =
     (case isSubDir (Getwd E w) file gentxsDir of
        Ok False \<Rightarrow> bindM (copyFile E file gentxsDir) (\<lambda>_. retM ()) w
      | _ \<Rightarrow> (Ok (), w))"

definition copy_gentxs :: "('w, 'v) testnet_env \<Rightarrow> initArgs \<Rightarrow> string list \<Rightarrow> nat \<Rightarrow> 'w \<Rightarrow> unit outcome \<times> 'w" where
  "copy_gentxs E args files n =
     forM (\<lambda>i. forM (copy_gentx E (gentxs_dir_of_node args i)) files) [0..<n]"

text \<open>The final \<^verbatim>\<open>config.toml\<close> of a node.\<close>

definition collect_config :: "initArgs \<Rightarrow> string \<Rightarrow> nat \<Rightarrow> node_config \<Rightarrow> node_config" where
  "collect_config args peers i cfg = cfg\<lparr>PersistentPeers := peers, AllowDuplicateIP := True,
     P2P_ListenAddress := ''tcp://0.0.0.0:'' @ Itoa (p2p_port i),
     RPC_ListenAddress := ''tcp://127.0.0.1:'' @ port_of args i,
     ProxyApp := ''tcp://127.0.0.1:'' @ Itoa (proxy_port i),
     PrometheusListenAddr := '':'' @ Itoa (prometheus_port i), Prometheus := True\<rparr>"

text \<open>One node of \<open>collectGenFiles\<close>; the state carries the node configuration and the canonical application state.\<close>

definition collect_node ::
  "('w, 'v) testnet_env \<Rightarrow> initArgs \<Rightarrow> string list \<Rightarrow> 'v option list \<Rightarrow> string \<Rightarrow> 'v \<Rightarrow> nat
     \<Rightarrow> 'w \<times> node_config \<times> 'v option \<Rightarrow> unit outcome \<times> 'w \<times> node_config \<times> 'v option" where
  "collect_node E args ids keys peers genTime i =
     (\<lambda>(w, cfg, appState).
       let cfg = cfg\<lparr>Moniker := node_dir_name args i, RootDir := node_dir args i\<rparr> in
       bindM (on_fst (AppGenesisFromFile E (GenesisFile E cfg))) (\<lambda>appGenesis.
       bindM (on_fst (GenAppStateFromConfig E (chainID args) (gentxs_dir_of_node args i) (ids ! i) (keys ! i) appGenesis cfg))
         (\<lambda>(nodeAppState, cfg).
       let cfg = collect_config args peers i cfg;
           appState = (if appState = None then nodeAppState else appState) in
       bindM (on_fst (WriteConfigToml E (Join [RootDir cfg, ''config'', ''config.toml'']) cfg)) (\<lambda>_.
       bindM (assignM (\<lambda>s. (fst s, cfg, appState))) (\<lambda>_.
       on_fst (ExportGenesisFileWithTime E (GenesisFile E cfg) (chainID args) appState genTime))))) (w, cfg, appState))"

definition collectGenFiles ::
  "('w, 'v) testnet_env \<Rightarrow> initArgs \<Rightarrow> string list \<Rightarrow> 'v option list \<Rightarrow> string \<Rightarrow> nat
     \<Rightarrow> 'w \<times> node_config \<Rightarrow> unit outcome \<times> 'w \<times> node_config" where
  "collectGenFiles E args ids keys peers n = (\<lambda>(w, cfg).
     case forM (collect_node E args ids keys peers (Now E w)) [0..<n] (w, cfg, None) of
       (r, (w', cfg', _)) \<Rightarrow> (r, (w', cfg')))"

section \<open>\<open>initTestnetFiles\<close>\<close>

definition testnet_app_toml :: "initArgs \<Rightarrow> app_toml \<Rightarrow> app_toml" where
  "testnet_app_toml args defaultConfig =
     (defaultConfig\<lparr>BaseConfig_MinGasPrices := minGasPrices args\<rparr>)\<lparr>API_Enable := False,
       BaseConfig_MinGasPrices := ''0.0001'' @ DefaultBondDenom, EnableHostnameLabel := False,
       Telemetry_Enabled := False, PrometheusRetentionTime := 0\<rparr>"

definition with_chain_id :: "('w, 'v) testnet_env \<Rightarrow> initArgs \<Rightarrow> 'w \<Rightarrow> initArgs \<times> 'w" where
  "with_chain_id E args w =
     (if chainID args = [] then
        (case generateRandomString (RandIntn E) 6 w of (s, w') \<Rightarrow> (args\<lparr>chainID := ''chain-'' @ s\<rparr>, w'))
      else (args, w))"

text \<open>\<^verbatim>\<open>make([]string, n)\<close> panics when \<open>n\<close> is negative.\<close>

definition start_run ::
  "initArgs \<Rightarrow> node_config \<Rightarrow> app_toml \<Rightarrow> 'w \<Rightarrow> ('w, 'v) testnet_run" where
  "start_run args cfg defaultConfig w =
     \<lparr>world = w, nodeConfig = cfg, appConfig = testnet_app_toml args defaultConfig,
      nodeIDs = replicate (nat (numValidators args)) [], valPubKeys = replicate (nat (numValidators args)) None,
      genAccounts = [], genBalances = [], genFiles = [], persistentPeers = [], gentxsFiles = []\<rparr>"

text \<open>After the loop over the nodes: genesis, exchange of the transactions, collection, the final message.\<close>

definition finish_testnet ::
  "('w, 'v) testnet_env \<Rightarrow> initArgs \<Rightarrow> nat \<Rightarrow> ('w, 'v) testnet_run \<Rightarrow> unit outcome \<times> ('w, 'v) testnet_run" where
  "finish_testnet E args n =
     bindM (\<lambda>s. on_world (initGenFiles E (chainID args) (genAccounts s) (genBalances s) (genFiles s) n) s) (\<lambda>_.
     bindM (\<lambda>s. on_world (copy_gentxs E args (gentxsFiles s) n) s) (\<lambda>_.
     bindM (\<lambda>s. onM (\<lambda>s. (world s, nodeConfig s)) (\<lambda>(w, cfg) s. s\<lparr>world := w, nodeConfig := cfg\<rparr>)
       (collectGenFiles E args (nodeIDs s) (valPubKeys s) (persistentPeers s) n) s) (\<lambda>_.
     on_world (\<lambda>w. (Ok (), PrintSuccess E (numValidators args) w)))))"

definition initTestnetFiles ::
  "sdk_lib \<Rightarrow> ('w, 'v) testnet_env \<Rightarrow> node_config \<Rightarrow> app_toml \<Rightarrow> initArgs \<Rightarrow> 'w \<Rightarrow> unit outcome \<times> 'w" where
  "initTestnetFiles L E cfg defaultConfig args0 w0 =
     (case with_chain_id E args0 w0 of (args, w) \<Rightarrow>
      if numValidators args < 0 then (Panic, w)
      else
        let n = nat (numValidators args) in
        case bindM (forM (init_node L E args) [0..<n]) (\<lambda>_. finish_testnet E args n)
             (start_run args cfg defaultConfig w) of
          (r, s) \<Rightarrow> (r, world s))"

end
