(* ===== verification/Testnet_Properties.thy ===== *)
theory Testnet_Properties
  imports Testnet_Files Ledger_Instance
begin

text \<open>
  What the \<open>multi-node\<close> command sets up: which ports of the nodes can be used together, who gets
  which stake, that the nodes name each other as peers and that every node receives exactly the
  transactions of the other nodes.
\<close>

section \<open>Ports\<close>

text \<open>All ports one node listens on, with the default RPC ports.\<close>

definition node_ports :: "nat \<Rightarrow> int list" where
  "node_ports i = [p2p_port i, rpc_port i, proxy_port i, prometheus_port i, grpc_port i, api_port i]"

definition testnet_ports :: "nat \<Rightarrow> int list" where
  "testnet_ports n = concat (map node_ports [0..<n])"

text \<open>TCP ports run from 1 to 65535.\<close>

definition usable_ports :: "int list \<Rightarrow> bool" where
  "usable_ports ps \<longleftrightarrow> distinct ps \<and> list_all (\<lambda>p. 0 < p \<and> p < 65536) ps"

lemmas port_defs = node_ports_def p2p_port_def rpc_port_def proxy_port_def prometheus_port_def grpc_port_def api_port_def

lemma testnet_ports_Suc: "testnet_ports (Suc n) = testnet_ports n @ node_ports n"
  by (simp add: testnet_ports_def)

lemma node_ports_distinct: "i \<le> 1316 \<Longrightarrow> distinct (node_ports i)"
  by (auto simp: port_defs)

lemma node_ports_disjoint:
  assumes "i < j" and "j \<le> 1316"
  shows "set (node_ports i) \<inter> set (node_ports j) = {}"
  using assms by (auto simp: port_defs)

lemma node_ports_range: "list_all (\<lambda>p. 0 < p \<and> p < 65536) (node_ports i) \<longleftrightarrow> i \<le> 1316"
  by (auto simp: port_defs)

lemma testnet_ports_range: "list_all (\<lambda>p. 0 < p \<and> p < 65536) (testnet_ports n) \<longleftrightarrow> n \<le> 1317"
  by (induction n) (auto simp: testnet_ports_Suc node_ports_range, simp add: testnet_ports_def)

lemma testnet_ports_distinct: "n \<le> 1317 \<Longrightarrow> distinct (testnet_ports n)"
proof (induction n)
  case (Suc n)
  have "set (testnet_ports n) \<inter> set (node_ports n) = {}"
    using node_ports_disjoint [of _ n] Suc.prems by (fastforce simp: testnet_ports_def)
  then show ?case using Suc node_ports_distinct [of n] by (simp add: testnet_ports_Suc)
qed (simp add: testnet_ports_def)

text \<open>
  The default ports of a testnet of \<open>n\<close> nodes (P2P, RPC, ABCI, Prometheus, gRPC and API of
  every node) are valid and pairwise different exactly up to 1317 nodes: the command puts no bound on
  \<open>--v\<close>, and the API port of node 1317 is 0.
\<close>

lemma testnet_ports_usable: "usable_ports (testnet_ports n) \<longleftrightarrow> n \<le> 1317"
  using testnet_ports_range [of n] testnet_ports_distinct [of n] unfolding usable_ports_def by blast


section \<open>Stakes\<close>

lemma number_from_apply:
  "number_from k xs m i = (if k \<le> i \<and> i < k + length xs then Some (xs ! (i - k)) else m i)"
proof (induction k xs m rule: number_from.induct)
  case (2 k x xs m)
  show ?case
    by (simp only: number_from.simps 2) (auto simp: nth_Cons')
qed auto

text \<open>Entries that do not parse leave no gap: the next one that does takes their place.\<close>

lemma parse_stakes_eq:
  assumes "sdk_laws L" and "list_all (\<lambda>a. 0 \<le> a) (List.map_filter N amounts)"
  shows "parse_stakes L N amounts k m =
    Ok (number_from k (map (\<lambda>a. \<lparr>Denom = DefaultBondDenom, Amount = Some a\<rparr>) (List.map_filter N amounts)) m)"
  using assms(2)
  by (induction amounts arbitrary: k m)
    (auto simp: List.map_filter_simps sdk_lawsD(9) [OF assms(1)] split: option.splits)

text \<open>
  The voting power behind a stake. \<open>reduction\<close> is \<open>sdk.DefaultPowerReduction\<close>, the tokens of one unit of
  power; \<^verbatim>\<open>app/config.go\<close> sets it to a constant of the EVM library, 10 to the 18 by \<^verbatim>\<open>app/app_test.go\<close>.
\<close>

definition consensus_power :: "int \<Rightarrow> coin \<Rightarrow> int" where
  "consensus_power reduction c = (case Amount c of None \<Rightarrow> 0 | Some a \<Rightarrow> a div reduction)"

text \<open>A flag set in which nobody has set a flag.\<close>

definition has_default :: "('f, 'z) testnet_flag_ops_scheme \<Rightarrow> 'f \<Rightarrow> string \<times> flag_default \<Rightarrow> bool" where
  "has_default F fs flag =
     (case snd flag of
        StringFlag s \<Rightarrow> FlagGetString F (fst flag) fs = Ok s
      | IntFlag i \<Rightarrow> FlagGetInt F (fst flag) fs = Ok i)"

lemma default_amounts:
  "split_on CHR '','' ''100000000,100000000,100000000,100000000'' = replicate 4 ''100000000''"
  by code_simp

text \<open>
  Run with its default flags, \<open>multi-node\<close> sets up four validators of 100000000 base units
  each. That is less than one unit of voting power wherever a unit takes more tokens (here 10 to the 18),
  so every one of them has power 0, while a validator without an entry gets 100 units.
\<close>

lemma default_testnet_has_no_power:
  assumes "sdk_laws L" and "N ''100000000'' = Some 100000000"
    and "list_all (has_default F fs) (multi_node_flags @ addTestnetFlagsToCmd keyType)"
    and "\<And>p. TokensFromConsensusPower E p = p * reduction" and "100000000 < reduction"
  shows "\<exists>args. testnet_args L N F fs = Ok args \<and> numValidators args = 4 \<and>
    map (\<lambda>i. map_option (consensus_power reduction) (validatorsStakesAmount args i)) [0..<5] = replicate 4 (Some 0) @ [None] \<and>
    (\<exists>c. node_stake L E args 4 = Ok c \<and> consensus_power reduction c = 100)"
proof -
  let ?c = "\<lparr>Denom = DefaultBondDenom, Amount = Some 100000000\<rparr>"
  have amounts: "FlagGetString F ''validators-stake-amount'' fs = Ok ''100000000,100000000,100000000,100000000''"
    and count: "FlagGetInt F ''v'' fs = Ok 4"
    using assms(3) by (simp_all add: has_default_def multi_node_flags_def addTestnetFlagsToCmd_def)
  have "List.map_filter N (replicate 4 ''100000000'') = replicate 4 100000000"
    using assms(2) by (simp add: numeral_eq_Suc List.map_filter_simps)
  then have stakes: "parse_stakes L N (replicate 4 ''100000000'') 0 Map.empty = Ok (number_from 0 (replicate 4 ?c) Map.empty)"
    using parse_stakes_eq [OF assms(1), of N "replicate 4 ''100000000''" 0 Map.empty] by (simp add: list_all_iff)
  have power: "consensus_power reduction ?c = 0"
    using assms(5) by (simp add: consensus_power_def)
  let ?args = "\<lparr>algo = string_flag F ''key-type'' fs, chainID = string_flag F ''chain-id'' fs,
      keyringBackend = string_flag F ''keyring-backend'' fs, minGasPrices = string_flag F ''minimum-gas-prices'' fs,
      nodeDirPrefix = string_flag F ''node-dir-prefix'' fs, numValidators = int_flag F ''v'' fs,
      outputDir = string_flag F ''output-dir'' fs, startingIPAddress = string_flag F ''starting-ip-address'' fs,
      validatorsStakesAmount = number_from 0 (replicate 4 ?c) Map.empty,
      ports = (case FlagGetString F ''list-ports'' fs of
        Ok s \<Rightarrow> parse_ports s (int_flag F ''v'' fs) | _ \<Rightarrow> Map.empty)\<rparr>"
  have args: "testnet_args L N F fs = Ok ?args"
    by (simp only: testnet_args_def amounts default_amounts stakes outcome.case bindO_simps)
  have "map (\<lambda>i. map_option (consensus_power reduction) (validatorsStakesAmount ?args i)) [0..<5] = replicate 4 (Some 0) @ [None]"
    by (rule nth_equalityI) (simp_all add: number_from_apply power nth_append)
  moreover have "\<exists>c. node_stake L E ?args 4 = Ok c \<and> consensus_power reduction c = 100"
    using assms(5)
    by (simp add: node_stake_def number_from_apply assms(4) sdk_lawsD(9) [OF assms(1)] consensus_power_def)
  ultimately show ?thesis
    using args count by (intro exI [of _ ?args]) (simp add: int_flag_def)
qed

section \<open>Two flags and a denomination\<close>

text \<open>The minimum gas price of the flag is overwritten before any file is written.\<close>

lemma min_gas_prices_flag_ignored:
  "BaseConfig_MinGasPrices (appConfig (start_run args cfg defaultConfig w)) = ''0.0001alyth''"
  by (simp add: start_run_def testnet_app_toml_def DefaultBondDenom_def)

text \<open>The balance of a node names the same denomination twice, which no valid list of coins does.\<close>

lemma node_coins_same_denom:
  assumes "sdk_laws L" and "\<And>p. 0 \<le> p \<Longrightarrow> 0 \<le> TokensFromConsensusPower E p"
  shows "\<exists>cs. node_coins L E = Ok cs \<and> \<not> distinct (map Denom cs)"
  using sdk_lawsD(9) [OF assms(1)] assms(2)
  by (simp add: node_coins_def DefaultBondDenom_def)


section \<open>The loop over the nodes\<close>

lemma or_remove_Ok: "or_remove E dir m s = (Ok x, s') \<longleftrightarrow> m s = (Ok x, s')"
  by (auto simp: or_remove_def split: prod.splits outcome.splits)

lemma node_files_Ok:
  assumes "node_files E args i s = (Ok (nodeID, memo, key), s')"
  shows "memo = node_memo args i nodeID \<and> nodeIDs s' = (nodeIDs s)[i := nodeID] \<and>
    persistentPeers s' = add_peer (persistentPeers s) memo \<and> gentxsFiles s' = gentxsFiles s \<and>
    (\<exists>c w w'. InitializeNodeValidatorFiles E c w = (Ok (nodeID, key), w'))"
  using assms by (auto simp: node_files_def bindM_Ok_iff or_remove_Ok onM_iff Let_def)

lemma node_account_Ok:
  assumes "node_account L E args i s = (Ok r, s')"
  shows "nodeIDs s' = nodeIDs s \<and> persistentPeers s' = persistentPeers s \<and> gentxsFiles s' = gentxsFiles s"
  using assms by (auto simp: node_account_def bindM_Ok_iff or_remove_Ok onM_iff split: prod.splits)

lemma node_gentx_Ok:
  assumes "node_gentx L E args i nodeID memo key kb addr s = (Ok u, s')"
  shows "nodeIDs s' = nodeIDs s \<and> persistentPeers s' = persistentPeers s \<and>
    gentxsFiles s' = gentxsFiles s @ [gentx_file args i nodeID]"
  using assms by (auto simp: node_gentx_def bindM_Ok_iff onM_iff Let_def)

lemma node_app_toml_Ok:
  assumes "node_app_toml E args i s = (Ok u, s')"
  shows "nodeIDs s' = nodeIDs s \<and> persistentPeers s' = persistentPeers s \<and> gentxsFiles s' = gentxsFiles s"
  using assms by (auto simp: node_app_toml_def bindM_Ok_iff onM_iff)

lemma init_node_Ok:
  assumes "init_node L E args i s = (Ok u, s')"
  shows "\<exists>nodeID key c w w'. InitializeNodeValidatorFiles E c w = (Ok (nodeID, key), w') \<and>
    nodeIDs s' = (nodeIDs s)[i := nodeID] \<and>
    persistentPeers s' = add_peer (persistentPeers s) (node_memo args i nodeID) \<and>
    gentxsFiles s' = gentxsFiles s @ [gentx_file args i nodeID]"
proof -
  obtain nodeID memo key kb addr s1 s2 s3
    where "node_files E args i s = (Ok (nodeID, memo, key), s1)" "node_account L E args i s1 = (Ok (kb, addr), s2)"
      "node_gentx L E args i nodeID memo key kb addr s2 = (Ok (), s3)" "node_app_toml E args i s3 = (Ok u, s')"
    using assms by (auto simp: init_node_def bindM_Ok_iff)
  then show ?thesis
    using node_files_Ok node_account_Ok node_gentx_Ok node_app_toml_Ok by metis
qed

lemma join_with_snoc: "join_with sep (ss @ [t]) = (if ss = [] then t else join_with sep ss @ sep @ t)"
  by (induction sep ss rule: join_with.induct) auto

lemma node_memo_not_Nil [simp]: "node_memo args i nodeID \<noteq> []"
  by (simp add: node_memo_def)

lemma add_peer_join:
  assumes "list_all (\<lambda>s. s \<noteq> []) ms"
  shows "add_peer (join_with '','' ms) m = join_with '','' (ms @ [m])"
proof -
  have "ms \<noteq> [] \<Longrightarrow> join_with '','' ms \<noteq> []"
    using assms by (induction "'',''" ms rule: join_with.induct) auto
  then show ?thesis by (auto simp: add_peer_def join_with_snoc)
qed

text \<open>What the first nodes have left: their identities, the list of peers, the files of transactions.\<close>

definition nodes_ready :: "('w, 'v) testnet_env \<Rightarrow> initArgs \<Rightarrow> nat \<Rightarrow> nat \<Rightarrow> ('w, 'v) testnet_run \<Rightarrow> bool" where
  "nodes_ready E args n k s \<longleftrightarrow>
     length (nodeIDs s) = n \<and>
     (\<forall>i<k. \<exists>key c w w'. InitializeNodeValidatorFiles E c w = (Ok (nodeIDs s ! i, key), w')) \<and>
     persistentPeers s = join_with '','' (map (\<lambda>i. node_memo args i (nodeIDs s ! i)) [0..<k]) \<and>
     gentxsFiles s = map (\<lambda>i. gentx_file args i (nodeIDs s ! i)) [0..<k]"

lemma nodes_ready_step:
  assumes "nodes_ready E args n k s" and "k < n" and "init_node L E args k s = (Ok u, s')"
  shows "nodes_ready E args n (Suc k) s'"
proof -
  obtain nodeID key c w w' where new: "InitializeNodeValidatorFiles E c w = (Ok (nodeID, key), w')"
    "nodeIDs s' = (nodeIDs s)[k := nodeID]"
    "persistentPeers s' = add_peer (persistentPeers s) (node_memo args k nodeID)"
    "gentxsFiles s' = gentxsFiles s @ [gentx_file args k nodeID]"
    using init_node_Ok [OF assms(3)] by blast
  have old: "map (\<lambda>i. f i (nodeIDs s' ! i)) [0..<Suc k] = map (\<lambda>i. f i (nodeIDs s ! i)) [0..<k] @ [f k nodeID]"
    for f :: "nat \<Rightarrow> string \<Rightarrow> string"
    using assms(1,2) by (simp add: new(2) nodes_ready_def)
  have "list_all (\<lambda>s. s \<noteq> []) (map (\<lambda>i. node_memo args i (nodeIDs s ! i)) [0..<k])"
    by (simp add: list_all_iff)
  then have "persistentPeers s' = join_with '','' (map (\<lambda>i. node_memo args i (nodeIDs s' ! i)) [0..<Suc k])"
    using add_peer_join assms(1) unfolding old by (simp add: nodes_ready_def new(3))
  moreover have "gentxsFiles s' = map (\<lambda>i. gentx_file args i (nodeIDs s' ! i)) [0..<Suc k]"
    using assms(1) unfolding old by (simp add: nodes_ready_def new(4))
  moreover have "\<exists>key c w w'. InitializeNodeValidatorFiles E c w = (Ok (nodeIDs s' ! i, key), w')" if "i < Suc k" for i
    using assms(1,2) new(1) that by (cases "i = k") (auto simp: nodes_ready_def new(2))
  ultimately show ?thesis
    using assms(1) by (simp add: nodes_ready_def new(2))
qed

lemma nodes_ready_loop:
  assumes "forM (init_node L E args) [0..<nat (numValidators args)] (start_run args cfg defaultConfig w) = (Ok u, s)"
  shows "nodes_ready E args (nat (numValidators args)) (nat (numValidators args)) s"
proof -
  let ?n = "nat (numValidators args)"
  have "nodes_ready E args ?n (length [0..<?n]) s"
  proof (rule forM_Ok_rule [OF assms])
    show "nodes_ready E args ?n (length []) (start_run args cfg defaultConfig w)"
      by (simp add: nodes_ready_def start_run_def)
  next
    fix before i after s1 s2
    assume split: "[0..<?n] = before @ i # after" and I: "nodes_ready E args ?n (length before) s1"
      and step: "init_node L E args i s1 = (Ok (), s2)"
    have "length before < ?n" using arg_cong [OF split, of length] by simp
    moreover have "i = length before"
      using arg_cong [OF split, of "\<lambda>xs. xs ! length before"] calculation by simp
    ultimately show "nodes_ready E args ?n (length (before @ [i])) s2"
      using nodes_ready_step [OF I] step by simp
  qed
  then show ?thesis by simp
qed

section \<open>Who gets which transaction\<close>

lemma plain_node_dir_name: "CHR ''/'' \<notin> set (nodeDirPrefix args) \<Longrightarrow> plain (node_dir_name args i)"
proof -
  assume p: "CHR ''/'' \<notin> set (nodeDirPrefix args)"
  have d: "digit (last (decimal i))" "CHR ''/'' \<notin> set (decimal i)"
    using decimal_digits [of i] decimal_not_Nil [of i] by (auto simp: list_all_iff char_between_def)
  have "last (node_dir_name args i) = last (decimal i)"
    by (simp add: node_dir_name_def)
  moreover have "\<not> digit CHR ''.''" by (simp add: char_between_def)
  ultimately have "node_dir_name args i \<noteq> xs" if "last xs = CHR ''.''" for xs
    using that d(1) by metis
  then have "node_dir_name args i \<noteq> ''.''" "node_dir_name args i \<noteq> ''..''"
    by simp_all
  then show ?thesis
    using p d by (simp add: plain_def) (simp add: node_dir_name_def)
qed

lemma node_dir_name_inject [simp]: "node_dir_name args i = node_dir_name args j \<longleftrightarrow> i = j"
  by (simp add: node_dir_name_def)

text \<open>The transaction of a node lies in the directory of that node and of no other.\<close>

lemma gentx_in_own_dir:
  assumes "IsAbs wd" and "CHR ''/'' \<notin> set (nodeDirPrefix args)" and "CHR ''/'' \<notin> set nodeID"
  shows "isSubDir (Ok wd) (gentx_file args j nodeID) (gentxs_dir_of_node args i) = Ok (i = j)"
proof -
  let ?file = "''gentx-'' @ nodeID @ ''.json''"
  have names: "list_all plain [node_dir_name args i, ''config'', ''gentx'']" for i
    using plain_node_dir_name [OF assms(2)] by (simp add: plain_def)
  have leaf: "plain ?file" using assms(3) by (simp add: plain_def)
  have flat: "Join (Join (outputDir args # ns) # ms) = Join (outputDir args # ns @ ms)"
    if "list_all plain ns" "ns \<noteq> []" "list_all plain ms" "ms \<noteq> []" for ns ms
    using that Join_names [OF that(1,2)] Join_is_Clean [of ms] Join_is_Clean [of "ns @ ms"] by simp
  have src: "gentx_file args j nodeID = Join (outputDir args # [node_dir_name args j, ''config'', ''gentx'', ?file])"
    using flat [of "[node_dir_name args j, ''config'', ''gentx'']" "[?file]"] names [of j] leaf
    by (simp add: gentx_file_def gentxs_dir_def)
  have dest: "gentxs_dir_of_node args i = Join (outputDir args # [node_dir_name args i, ''config'', ''gentx''])"
    using flat [of "[node_dir_name args i]" "[''config'', ''gentx'']"] names [of i]
    by (simp add: gentxs_dir_of_node_def node_dir_def)
  obtain X where X: "\<And>ns. list_all plain ns \<Longrightarrow> ns \<noteq> [] \<Longrightarrow>
      \<exists>p. Abs (Ok wd) (Join (outputDir args # ns)) = Ok p \<and> IsAbs p \<and> elems p = X @ ns"
    using Abs_names [OF assms(1), of "outputDir args"] by blast
  obtain p where p: "Abs (Ok wd) (gentx_file args j nodeID) = Ok p" "IsAbs p"
      "elems p = X @ [node_dir_name args j, ''config'', ''gentx'', ?file]"
    using X [of "[node_dir_name args j, ''config'', ''gentx'', ?file]"] names [of j] leaf src by auto
  obtain q where q: "Abs (Ok wd) (gentxs_dir_of_node args i) = Ok q" "IsAbs q"
      "elems q = X @ [node_dir_name args i, ''config'', ''gentx'']"
    using X [OF names [of i]] dest by auto
  have sub: "isSubDir (Ok wd) (gentx_file args j nodeID) (gentxs_dir_of_node args i) =
      bindO (Rel q p) (\<lambda>relativePath. Ok (\<not> HasPrefix relativePath ''..'' \<and> \<not> IsAbs relativePath))"
    by (simp add: isSubDir_def p(1) q(1))
  show ?thesis
  proof (cases "i = j")
    case True
    have "path_string False [?file] = ?file" "\<not> HasPrefix ?file ''..''" "\<not> IsAbs ?file"
      by (simp_all add: path_string_def HasPrefix_def IsAbs_def)
    then show ?thesis
      unfolding sub using True by (simp add: Rel_below [OF q(2) p(2) q(3) p(3)])
  next
    case False
    have "node_dir_name args i \<noteq> ''..''"
      using plain_node_dir_name [OF assms(2)] by (auto simp: plain_def)
    then show ?thesis
      using False path_string_up
      by (simp add: sub Rel_below [OF q(2) p(2) q(3) p(3)] numeral_eq_Suc)
  qed
qed

section \<open>Peers and transactions\<close>

text \<open>
  Once the loop over the nodes is through, the list of persistent peers names every node with
  its identity and the P2P port its \<^verbatim>\<open>config.toml\<close> will listen on; and the copy loop gives every node the
  transaction file of every other node and leaves its own alone (the copy would truncate it first).
  Node identities are hexadecimal, and the prefix of the directory names holds no slash.
\<close>

lemma testnet_nodes_connected:
  assumes "forM (init_node L E args) [0..<n] (start_run args cfg defaultConfig w0) = (Ok (), s)"
    and "n = nat (numValidators args)"
    and "\<And>c w nodeID key w'. InitializeNodeValidatorFiles E c w = (Ok (nodeID, key), w') \<Longrightarrow> CHR ''/'' \<notin> set nodeID"
    and "CHR ''/'' \<notin> set (nodeDirPrefix args)" and "Getwd E w = Ok wd" and "IsAbs wd"
    and "i < n" and "j < n"
  shows "persistentPeers s = join_with '','' (map (\<lambda>i. nodeIDs s ! i @ ''@'' @ startingIPAddress args @ '':'' @
      Itoa (p2p_port i)) [0..<n]) \<and>
    P2P_ListenAddress (collect_config args (persistentPeers s) i cfg') = ''tcp://0.0.0.0:'' @ Itoa (p2p_port i) \<and>
    copy_gentx E (gentxs_dir_of_node args i) (gentxsFiles s ! j) w =
      (if i = j then (Ok (), w)
       else bindM (copyFile E (gentxsFiles s ! j) (gentxs_dir_of_node args i)) (\<lambda>_. retM ()) w)"
proof -
  have ready: "nodes_ready E args n n s"
    using nodes_ready_loop [of L E args cfg defaultConfig w0 "()" s] assms(1,2) by simp
  then have stored: "gentxsFiles s ! j = gentx_file args j (nodeIDs s ! j)" and "CHR ''/'' \<notin> set (nodeIDs s ! j)"
    using assms(3,8) by (auto simp: nodes_ready_def)
  then have "isSubDir (Getwd E w) (gentxsFiles s ! j) (gentxs_dir_of_node args i) = Ok (i = j)"
    using gentx_in_own_dir [OF assms(6,4)] assms(5) by simp
  then show ?thesis
    using ready by (simp add: nodes_ready_def node_memo_def p2p_port_def collect_config_def copy_gentx_def)
qed

section \<open>A concrete run\<close>

text \<open>A command line on which nobody has set a flag.\<close>

definition ref_testnet_flags :: "unit testnet_flag_ops" where
  "ref_testnet_flags =
     \<lparr>FlagGetString = (\<lambda>name _. case map_of (multi_node_flags @ addTestnetFlagsToCmd ''eth_secp256k1'') name of
        Some (StringFlag s) \<Rightarrow> Ok s | _ \<Rightarrow> Err (OtherErr ''flag'')),
      FlagChanged = (\<lambda>_ _. False), FlagSet = (\<lambda>_ _ fs. (Ok (), fs)),
      FlagGetInt = (\<lambda>name _. case map_of (multi_node_flags @ addTestnetFlagsToCmd ''eth_secp256k1'') name of
        Some (IntFlag i) \<Rightarrow> Ok i | _ \<Rightarrow> Err (OtherErr ''flag''))\<rparr>"

text \<open>
  Libraries that always succeed, over a world that is the log of the files copied; the identity of a
  node is its name.
\<close>

definition ref_testnet_env :: "(string list, string) testnet_env" where
  "ref_testnet_env =
     \<lparr>MkdirAll = (\<lambda>_. retM ()), RemoveAll = (\<lambda>_. retM ()), OsWriteFile = (\<lambda>_ _. retM ()), OsOpen = retM, OsCreate = retM,
      IoCopy = (\<lambda>dst src w. (Ok 0, w @ [dst])), FileSync = (\<lambda>_. retM ()), FileClose = (\<lambda>_ w. w),
      Getwd = (\<lambda>_. Ok ''/home''), RandIntn = (\<lambda>_ w. (0, w)), Now = (\<lambda>_. []), PrintSuccess = (\<lambda>_ w. w),
      GenesisFile = (\<lambda>cfg. Join [RootDir cfg, ''config'', ''genesis.json'']),
      InitializeNodeValidatorFiles = (\<lambda>cfg. if CHR ''/'' \<in> set (Moniker cfg) then failM (OtherErr ''moniker'') else retM (Moniker cfg, [])),
      NewKeyring = (\<lambda>_ _. retM []), NewSigningAlgo = (\<lambda>_. Ok), GenerateSaveCoinKey = (\<lambda>_ _ _. retM ([1], [])),
      SecretJSON = Ok, TokensFromConsensusPower = (\<lambda>p. p * 10 ^ 18), SortCoins = (\<lambda>cs. cs),
      AccAddressString = (\<lambda>_. []), ValAddressString = (\<lambda>_. []), NewBaseAccount = (\<lambda>_. []),
      NewMsgCreateValidator = (\<lambda>_ _ _ _. Ok []), TxWithMsg = Ok, TxWithMemo = (\<lambda>_ tx. tx),
      TxSign = (\<lambda>_ _ _ _. retM), TxJSON = Ok, WriteAppToml = (\<lambda>_ _. retM ()), WriteConfigToml = (\<lambda>_ _. retM ()),
      ModulesDefaultGenesis = (\<lambda>_. Some []), UnmarshalAuth = (\<lambda>_. Ok []), PackAccounts = (\<lambda>_. Ok []),
      WithAccounts = (\<lambda>_ auth. auth), MarshalAuth = Ok,
      UnmarshalBank = (\<lambda>_. Ok \<lparr>Balances = [], Supply = []\<rparr>), MarshalBank = (\<lambda>_. Ok []),
      SanitizeGenesisBalances = (\<lambda>bs. bs), CoinsAdd = (\<lambda>cs cs'. Ok (cs @ cs')), GenStateJSON = (\<lambda>_. Ok []),
      GenDocSaveAs = (\<lambda>_ _ _. retM ()), AppGenesisFromFile = (\<lambda>_. retM []),
      GenAppStateFromConfig = (\<lambda>_ _ _ _ _ cfg. retM (None, cfg)), ExportGenesisFileWithTime = (\<lambda>_ _ _ _. retM ())\<rparr>"

lemma default_testnet_has_no_power_witness:
  "\<exists>args. testnet_args ref_lib (\<lambda>s. if s = ''100000000'' then Some 100000000 else None) ref_testnet_flags () = Ok args \<and>
     numValidators args = 4"
proof -
  have flags: "list_all (has_default ref_testnet_flags ()) (multi_node_flags @ addTestnetFlagsToCmd ''eth_secp256k1'')"
    by code_simp
  have tokens: "\<And>p. TokensFromConsensusPower ref_testnet_env p = p * 10 ^ 18"
    by (simp add: ref_testnet_env_def)
  let ?N = "\<lambda>s. if s = ''100000000'' then Some 100000000 else None"
  show ?thesis
    using default_testnet_has_no_power [where N = ?N, OF ref_sdk_laws _ flags tokens] by auto
qed

definition ref_testnet_args :: initArgs where
  "ref_testnet_args =
     \<lparr>algo = [], chainID = ''mono_6940-1'', keyringBackend = ''test'', minGasPrices = [], nodeDirPrefix = ''validator'',
      numValidators = 2, outputDir = ''./.testnets'', startingIPAddress = ''localhost'', validatorsStakesAmount = Map.empty,
      ports = parse_ports [] 2\<rparr>"

definition ref_node_config :: node_config where
  "ref_node_config =
     \<lparr>RootDir = [], Moniker = [], RPC_ListenAddress = [], PersistentPeers = [], AllowDuplicateIP = False,
      P2P_ListenAddress = [], ProxyApp = [], PrometheusListenAddr = [], Prometheus = False\<rparr>"

definition ref_app_toml :: app_toml where
  "ref_app_toml =
     \<lparr>BaseConfig_MinGasPrices = [], API_Enable = True, EnableHostnameLabel = True, Telemetry_Enabled = True,
      PrometheusRetentionTime = 0, GRPC_Address = [], API_Address = []\<rparr>"

lemma ref_testnet_calls:
  "MkdirAll ref_testnet_env dir w = (Ok (), w)" "OsWriteFile ref_testnet_env dir v w = (Ok (), w)"
  "InitializeNodeValidatorFiles ref_testnet_env cfg w =
     (if CHR ''/'' \<in> set (Moniker cfg) then (Err (OtherErr ''moniker''), w) else (Ok (Moniker cfg, []), w))"
  "NewKeyring ref_testnet_env b dir w = (Ok [], w)" "NewSigningAlgo ref_testnet_env kb alg = Ok alg"
  "GenerateSaveCoinKey ref_testnet_env kb n alg w = (Ok ([1], []), w)" "SecretJSON ref_testnet_env t = Ok t"
  "NewMsgCreateValidator ref_testnet_env t v c n = Ok []" "TxWithMsg ref_testnet_env v = Ok v"
  "TxSign ref_testnet_env cid m kb n tx w = (Ok tx, w)" "TxJSON ref_testnet_env tx = Ok tx"
  "WriteAppToml ref_testnet_env t cnf w = (Ok (), w)" "TokensFromConsensusPower ref_testnet_env p = p * 10 ^ 18"
  by (simp_all add: ref_testnet_env_def)

lemma ref_init_node:
  assumes "CHR ''/'' \<notin> set (node_dir_name args i)" and "validatorsStakesAmount args i = None"
  shows "\<exists>s'. init_node ref_lib ref_testnet_env args i s = (Ok (), s') \<and>
    nodeIDs s' = (nodeIDs s)[i := node_dir_name args i]"
proof -
  have coin: "\<exists>c. NewCoin ref_lib ''alyth'' (Some (p * 10 ^ 18)) = Ok c" if "0 < p" for p
    using that sdk_lawsD(9) [OF ref_sdk_laws] by (simp add: DefaultBondDenom_def)
  obtain cs where cs: "node_coins ref_lib ref_testnet_env = Ok cs"
    using coin [of 1000] coin [of 500] by (auto simp: node_coins_def ref_testnet_calls DefaultBondDenom_def bindO_Ok_iff)
  obtain c where stake: "node_stake ref_lib ref_testnet_env args i = Ok c"
    using assms(2) coin [of 100] by (auto simp: node_stake_def ref_testnet_calls DefaultBondDenom_def)
  show ?thesis
    using assms(1)
    by (simp add: init_node_def node_files_def node_account_def node_gentx_def node_app_toml_def writeFile_def
      cs stake bindM_def or_remove_def onM_def Let_def ref_testnet_calls)
qed

lemma ref_digits: "decimal 0 = ''0''" "decimal 1 = ''1''" "decimal (Suc 0) = ''1''"
  by code_simp+

lemma ref_ports: "Itoa 26656 = ''26656''" "Itoa 26653 = ''26653''"
  by (simp_all add: Itoa_def decimal.simps char_of_def bit_iff_odd)

lemma ref_testnet_loop:
  "\<exists>s. forM (init_node ref_lib ref_testnet_env ref_testnet_args) [0..<2]
       (start_run ref_testnet_args ref_node_config ref_app_toml []) = (Ok (), s) \<and>
     nodeIDs s = [''validator0'', ''validator1'']"
proof -
  have names: "CHR ''/'' \<notin> set (node_dir_name ref_testnet_args i)" for i
    using plain_node_dir_name [of ref_testnet_args i] by (simp add: plain_def ref_testnet_args_def)
  have stakes: "validatorsStakesAmount ref_testnet_args i = None" for i
    by (simp add: ref_testnet_args_def)
  have fresh: "nodeIDs (start_run ref_testnet_args ref_node_config ref_app_toml [] :: (string list, string) testnet_run) = [[], []]"
    by (simp add: start_run_def ref_testnet_args_def numeral_2_eq_2)
  obtain s1 where s1: "init_node ref_lib ref_testnet_env ref_testnet_args 0
        (start_run ref_testnet_args ref_node_config ref_app_toml []) = (Ok (), s1)"
      "nodeIDs s1 = [node_dir_name ref_testnet_args 0, []]"
    using ref_init_node [OF names stakes, of 0 "start_run ref_testnet_args ref_node_config ref_app_toml []"] fresh by auto
  obtain s where s: "init_node ref_lib ref_testnet_env ref_testnet_args 1 s1 = (Ok (), s)"
      "nodeIDs s = [node_dir_name ref_testnet_args 0, node_dir_name ref_testnet_args 1]"
    using ref_init_node [OF names stakes, of 1 s1] s1(2) by auto
  then have "nodeIDs s = [''validator0'', ''validator1'']"
    by (simp add: node_dir_name_def ref_testnet_args_def ref_digits)
  then show ?thesis
    using s1(1) s(1) by (simp add: numeral_2_eq_2 bindM_def)
qed

lemma ref_testnet_ids:
  "InitializeNodeValidatorFiles ref_testnet_env c w = (Ok (nodeID, key), w') \<Longrightarrow> CHR ''/'' \<notin> set nodeID"
  by (auto simp: ref_testnet_env_def split: if_splits)

lemma ref_testnet_paths:
  "CHR ''/'' \<notin> set (nodeDirPrefix ref_testnet_args)" "Getwd ref_testnet_env w = Ok ''/home''" "IsAbs ''/home''"
  by (simp_all add: ref_testnet_args_def ref_testnet_env_def IsAbs_def HasPrefix_def)

end
