(* ===== verification/Testnet_Command.thy ===== *)
theory Testnet_Command
  imports Testnet_Properties
begin

text \<open>
  \<open>initTestnetFiles\<close> as a whole: a run that returned nil went through its five parts in order, the
  nodes name each other as peers, and the loop that copies transactions is the exchange of each node's
  transaction with every other node.
\<close>

section \<open>The exchange of transactions\<close>

text \<open>Node \<open>i\<close> gets the transaction of every node \<open>j\<close> but its own.\<close>

definition exchange_gentxs :: "('w, 'v) testnet_env \<Rightarrow> initArgs \<Rightarrow> string list \<Rightarrow> nat \<Rightarrow> 'w \<Rightarrow> unit outcome \<times> 'w" where
  "exchange_gentxs E args ids n =
     forM (\<lambda>i. forM (\<lambda>j. if i = j then retM ()
       else bindM (copyFile E (gentx_file args j (ids ! j)) (gentxs_dir_of_node args i)) (\<lambda>_. retM ())) [0..<n]) [0..<n]"

lemma forM_map: "forM f (map g xs) = forM (\<lambda>x. f (g x)) xs"
  by (induction xs) simp_all

lemma forM_cong: "(\<And>x. x \<in> set xs \<Longrightarrow> f x = g x) \<Longrightarrow> forM f xs = forM g xs"
  by (induction xs) simp_all

lemma copy_is_exchange:
  assumes ready: "nodes_ready E args n n s" and "\<And>w. Getwd E w = Ok wd" and "IsAbs wd"
    and "CHR ''/'' \<notin> set (nodeDirPrefix args)"
    and ids: "\<And>c w nodeID key w'. InitializeNodeValidatorFiles E c w = (Ok (nodeID, key), w') \<Longrightarrow> CHR ''/'' \<notin> set nodeID"
  shows "copy_gentxs E args (gentxsFiles s) n = exchange_gentxs E args (nodeIDs s) n"
proof -
  have "copy_gentx E (gentxs_dir_of_node args i) (gentx_file args j (nodeIDs s ! j)) =
      (if i = j then retM () else bindM (copyFile E (gentx_file args j (nodeIDs s ! j)) (gentxs_dir_of_node args i)) (\<lambda>_. retM ()))"
    if "j < n" for i j
  proof -
    have "CHR ''/'' \<notin> set (nodeIDs s ! j)"
      using ready that ids unfolding nodes_ready_def by blast
    from gentx_in_own_dir [OF assms(3,4) this, of j i] show ?thesis
      by (simp add: copy_gentx_def assms(2) fun_eq_iff)
  qed
  then have "forM (copy_gentx E (gentxs_dir_of_node args i)) (gentxsFiles s) =
      forM (\<lambda>j. if i = j then retM () else bindM (copyFile E (gentx_file args j (nodeIDs s ! j)) (gentxs_dir_of_node args i)) (\<lambda>_. retM ())) [0..<n]"
    for i
    using ready by (auto simp: nodes_ready_def forM_map intro!: forM_cong)
  then show ?thesis
    by (simp add: copy_gentxs_def exchange_gentxs_def)
qed

lemma with_chain_id_same:
  "with_chain_id E args w = (args', w') \<Longrightarrow> nodeDirPrefix args' = nodeDirPrefix args \<and> numValidators args' = numValidators args"
  by (auto simp: with_chain_id_def split: if_splits prod.splits)

lemma initTestnetFiles_Ok:
  assumes "initTestnetFiles L E cfg defaultConfig args0 w0 = (Ok u, w')" and "with_chain_id E args0 w0 = (args, w)"
    and "n = nat (numValidators args)"
  shows "0 \<le> numValidators args \<and> (\<exists>s w1 w2 w3 cfg'.
    forM (init_node L E args) [0..<n] (start_run args cfg defaultConfig w) = (Ok (), s) \<and>
    initGenFiles E (chainID args) (genAccounts s) (genBalances s) (genFiles s) n (world s) = (Ok (), w1) \<and>
    copy_gentxs E args (gentxsFiles s) n w1 = (Ok (), w2) \<and>
    collectGenFiles E args (nodeIDs s) (valPubKeys s) (persistentPeers s) n (w2, nodeConfig s) = (Ok (), w3, cfg') \<and>
    w' = PrintSuccess E (numValidators args) w3)"
  using assms(1)
  by (auto simp: initTestnetFiles_def finish_testnet_def assms(2,3) bindM_Ok_iff onM_iff Let_def split: if_splits prod.splits)

section \<open>The property\<close>

text \<open>
  Claim C27. What \<open>initTestnetFiles\<close> has done when it returns nil, for a number \<open>n\<close> of nodes that is not
  negative: it prepared the nodes one by one, wrote the shared genesis for their accounts and balances,
  exchanged the transactions so that every node got the file of every other node and none its own (the
  copy would truncate it first), and collected the genesis of every node with a list of persistent peers
  that names each node with its identity and the P2P port its \<^verbatim>\<open>config.toml\<close> listens on. Node
  identities are hexadecimal, and the prefix of the directory names holds no slash.
\<close>

theorem testnet_initialized:
  assumes "initTestnetFiles L E cfg defaultConfig args0 w0 = (Ok (), w')"
    and "with_chain_id E args0 w0 = (args, w)" and "n = nat (numValidators args)"
    and "\<And>c w nodeID key w'. InitializeNodeValidatorFiles E c w = (Ok (nodeID, key), w') \<Longrightarrow> CHR ''/'' \<notin> set nodeID"
    and "CHR ''/'' \<notin> set (nodeDirPrefix args0)" and "\<And>w. Getwd E w = Ok wd" and "IsAbs wd"
  shows "0 \<le> numValidators args0 \<and> (\<exists>s w1 w2 w3 cfg'.
    forM (init_node L E args) [0..<n] (start_run args cfg defaultConfig w) = (Ok (), s) \<and>
    initGenFiles E (chainID args) (genAccounts s) (genBalances s) (genFiles s) n (world s) = (Ok (), w1) \<and>
    exchange_gentxs E args (nodeIDs s) n w1 = (Ok (), w2) \<and>
    collectGenFiles E args (nodeIDs s) (valPubKeys s) (persistentPeers s) n (w2, nodeConfig s) = (Ok (), w3, cfg') \<and>
    w' = PrintSuccess E (numValidators args) w3 \<and>
    length (nodeIDs s) = n \<and>
    persistentPeers s = join_with '','' (map (\<lambda>i. nodeIDs s ! i @ ''@'' @ startingIPAddress args @ '':'' @
      Itoa (p2p_port i)) [0..<n]) \<and>
    (\<forall>i cfg. PersistentPeers (collect_config args (persistentPeers s) i cfg) = persistentPeers s \<and>
       P2P_ListenAddress (collect_config args (persistentPeers s) i cfg) = ''tcp://0.0.0.0:'' @ Itoa (p2p_port i)))"
proof -
  note same = with_chain_id_same [OF assms(2)]
  obtain s w1 w2 w3 cfg' where loop: "forM (init_node L E args) [0..<n] (start_run args cfg defaultConfig w) = (Ok (), s)"
    and rest: "initGenFiles E (chainID args) (genAccounts s) (genBalances s) (genFiles s) n (world s) = (Ok (), w1)"
      "copy_gentxs E args (gentxsFiles s) n w1 = (Ok (), w2)"
      "collectGenFiles E args (nodeIDs s) (valPubKeys s) (persistentPeers s) n (w2, nodeConfig s) = (Ok (), w3, cfg')"
      "w' = PrintSuccess E (numValidators args) w3"
    and pos: "0 \<le> numValidators args"
    using initTestnetFiles_Ok [OF assms(1-3)] by blast
  have ready: "nodes_ready E args n n s"
    using nodes_ready_loop [of L E args cfg defaultConfig w "()" s] loop assms(3) by simp
  have "copy_gentxs E args (gentxsFiles s) n = exchange_gentxs E args (nodeIDs s) n"
    using copy_is_exchange [OF ready assms(6,7) _ assms(4)] assms(5) same by simp
  then show ?thesis
    using ready loop rest pos same
    by (intro conjI exI [of _ s] exI [of _ w1] exI [of _ w2] exI [of _ w3] exI [of _ cfg'])
      (simp_all add: nodes_ready_def node_memo_def p2p_port_def collect_config_def)
qed

lemma forM_ok: "(\<And>x s. \<exists>s'. f x s = (Ok (), s')) \<Longrightarrow> \<exists>s'. forM f xs s = (Ok (), s')"
  using forM_total [of "\<lambda>_ _. True" s xs f] by simp

lemma ref_rest_ok:
  "\<exists>w'. initGenFiles ref_testnet_env chain accounts balances files n w = (Ok (), w')"
  "\<exists>w'. exchange_gentxs ref_testnet_env args ids n w = (Ok (), w')"
  "\<exists>w' cfg'. collectGenFiles ref_testnet_env args ids keys peers n (w, cfg) = (Ok (), w', cfg')"
proof -
  have "\<exists>cs'. add_supply ref_testnet_env bals cs = Ok cs'" for bals cs
    by (induction bals arbitrary: cs) (simp_all add: ref_testnet_env_def)
  then have "\<exists>v. genesis_app_state ref_testnet_env accounts balances = Ok v"
    by (auto simp: genesis_app_state_def ref_testnet_env_def bindO_Ok_iff Let_def)
  moreover have "\<exists>w'. forM (\<lambda>i. GenDocSaveAs ref_testnet_env (files ! i) chain v) [0..<n] w = (Ok (), w')" for v
    by (rule forM_ok) (simp add: ref_testnet_env_def)
  ultimately show "\<exists>w'. initGenFiles ref_testnet_env chain accounts balances files n w = (Ok (), w')"
    by (auto simp: initGenFiles_def bindM_Ok_iff)
  have "\<exists>w'. bindM (copyFile ref_testnet_env path dir) (\<lambda>_. retM ()) w = (Ok (), w')" for path dir w
    by (simp add: copyFile_def ref_testnet_env_def bindM_def Let_def)
  then show "\<exists>w'. exchange_gentxs ref_testnet_env args ids n w = (Ok (), w')"
    unfolding exchange_gentxs_def by (intro forM_ok) auto
  have "\<exists>s'. forM (collect_node ref_testnet_env args ids keys peers t) [0..<n] s = (Ok (), s')" for t s
    by (rule forM_ok) (auto simp: collect_node_def ref_testnet_env_def bindM_def onM_def Let_def)
  then obtain s' where "forM (collect_node ref_testnet_env args ids keys peers (Now ref_testnet_env w)) [0..<n] (w, cfg, None) = (Ok (), s')"
    by blast
  then show "\<exists>w' cfg'. collectGenFiles ref_testnet_env args ids keys peers n (w, cfg) = (Ok (), w', cfg')"
    by (cases s') (simp add: collectGenFiles_def)
qed

theorem testnet_initialized_witness:
  "\<exists>s w'. initTestnetFiles ref_lib ref_testnet_env ref_node_config ref_app_toml ref_testnet_args [] = (Ok (), w') \<and>
     forM (init_node ref_lib ref_testnet_env ref_testnet_args) [0..<2]
       (start_run ref_testnet_args ref_node_config ref_app_toml []) = (Ok (), s) \<and>
     persistentPeers s = ''validator0@localhost:26656,validator1@localhost:26653''"
proof -
  let ?A = ref_testnet_args and ?E = ref_testnet_env
  obtain s where run: "forM (init_node ref_lib ?E ?A) [0..<2] (start_run ?A ref_node_config ref_app_toml []) = (Ok (), s)"
    and ids: "nodeIDs s = [''validator0'', ''validator1'']"
    using ref_testnet_loop by blast
  have id: "with_chain_id ?E ?A [] = (?A, [])" and n: "2 = nat (numValidators ?A)" and pos: "0 \<le> numValidators ?A"
    by (simp_all add: with_chain_id_def ref_testnet_args_def)
  have ready: "nodes_ready ?E ?A 2 2 s"
    using nodes_ready_loop [of ref_lib ?E ?A ref_node_config ref_app_toml "[]" "()" s] run n by simp
  note rename = copy_is_exchange [OF ready ref_testnet_paths(2,3,1) ref_testnet_ids]
  obtain w1 w2 w3 cfg' where "initGenFiles ?E (chainID ?A) (genAccounts s) (genBalances s) (genFiles s) 2 (world s) = (Ok (), w1)"
    and "exchange_gentxs ?E ?A (nodeIDs s) 2 w1 = (Ok (), w2)"
    and "collectGenFiles ?E ?A (nodeIDs s) (valPubKeys s) (persistentPeers s) 2 (w2, nodeConfig s) = (Ok (), w3, cfg')"
    using ref_rest_ok by metis
  then have "\<exists>w'. initTestnetFiles ref_lib ?E ref_node_config ref_app_toml ?A [] = (Ok (), w')"
    using run pos by (simp add: initTestnetFiles_def finish_testnet_def id n [symmetric] rename bindM_def onM_def)
  then obtain w' where all: "initTestnetFiles ref_lib ?E ref_node_config ref_app_toml ?A [] = (Ok (), w')" by blast
  have "[0..<2] = [0, 1::nat]" by (simp add: numeral_2_eq_2)
  then have peers: "join_with '','' (map (\<lambda>i. [''validator0'', ''validator1''] ! i @ ''@'' @ startingIPAddress ?A @ '':'' @
      Itoa (p2p_port i)) [0..<2]) = ''validator0@localhost:26656,validator1@localhost:26653''"
    by (simp add: p2p_port_def ref_testnet_args_def ref_ports)
  have "persistentPeers s = join_with '','' (map (\<lambda>i. nodeIDs s ! i @ ''@'' @ startingIPAddress ?A @ '':'' @
      Itoa (p2p_port i)) [0..<2])"
    using testnet_initialized [OF all id n _ ref_testnet_paths] ref_testnet_ids run by fastforce
  then show ?thesis
    using all run peers by (simp add: ids)
qed

end
