(* ===== verification/In_Place_Testnet.thy ===== *)
theory In_Place_Testnet
  imports Go_Paths Go_Loops Sdk_Interfaces
begin

text \<open>
  \<^verbatim>\<open>cmd/monod/cmd/testnet.go\<close>, \<^verbatim>\<open>commands.go\<close> and \<^verbatim>\<open>root.go\<close>: the \<open>in-place-testnet\<close> command, which replaces
  the validator set of a local copy of the chain, the construction of the application for the
  server and export commands, and the hook that runs before every command. \<open>handleErr\<close> ends the
  process, so it is \<open>mustM\<close>. The staking store is explicit: the command deletes from it key by key.
\<close>

section \<open>Options\<close>

text \<open>What \<open>appOpts.Get\<close> hands back: the dynamic types the code asserts.\<close>

datatype 'v opt_value = HexBytesOpt bytes | PubKeyOpt 'v | StringOpt string | OtherOpt

record 'v valArgs =
  newValAddr :: bytes
  newOperatorAddress :: string
  newValPubKey :: 'v
  accountsToFund :: "string list"
  upgradeToTrigger :: string
  homeDir :: string

text \<open>\<open>ToString\<close> is \<open>cast.ToString\<close>; the keys are those of the SDK's server package.\<close>

definition getCommandArgs ::
  "('v opt_value \<Rightarrow> string) \<Rightarrow> (string \<Rightarrow> 'v opt_value) \<Rightarrow> 'v valArgs outcome" where
  "getCommandArgs ToString get =
     (case get ''newValAddr'' of
        HexBytesOpt valAddr \<Rightarrow>
          (case get ''user-pub-key'' of
             PubKeyOpt pubKey \<Rightarrow>
               (case get ''newOperatorAddress'' of
                  StringOpt operator \<Rightarrow>
                    (case get ''trigger-testnet-upgrade'' of
                       StringOpt upgrade \<Rightarrow>
                         (let home = ToString (get ''home'') in
                          if home = [] then Err (OtherErr ''invalid home dir'')
                          else Ok \<lparr>newValAddr = valAddr, newOperatorAddress = operator, newValPubKey = pubKey,
                            accountsToFund = split_on CHR '','' (ToString (get ''accounts-to-fund'')),
                            upgradeToTrigger = upgrade, homeDir = home\<rparr>)
                     | _ \<Rightarrow> Err (OtherErr ''upgradeToTrigger is not of type string''))
                | _ \<Rightarrow> Err (OtherErr ''newOperatorAddress is not of type string''))
           | _ \<Rightarrow> Err (OtherErr ''newValPubKey is not of type crypto.PubKey''))
      | _ \<Rightarrow> Err (OtherErr ''newValAddr is not of type bytes.HexBytes''))"

section \<open>The new validator\<close>

datatype bond_status = Bonded | Unbonding | Unbonded

text \<open>Decimals are integers scaled by 10 to the 18, as everywhere.\<close>

record 'v testnet_validator =
  OperatorAddress :: string
  ConsensusPubkey :: 'v
  Jailed :: bool
  Status :: bond_status
  Tokens :: int
  DelegatorShares :: int
  Moniker :: string
  Rate :: int
  MaxRate :: int
  MaxChangeRate :: int
  MinSelfDelegation :: int

definition valVotingPower :: "64 word" where
  "valVotingPower = 900000000000000"

definition new_testnet_validator :: "string \<Rightarrow> 'v \<Rightarrow> 'v testnet_validator" where
  "new_testnet_validator operator pubkeyAny =
     \<lparr>OperatorAddress = operator, ConsensusPubkey = pubkeyAny, Jailed = False, Status = Bonded,
      Tokens = sint valVotingPower, DelegatorShares = 10000000 * dec_one, Moniker = ''Testnet Validator'',
      Rate = 5 * 10 ^ 16, MaxRate = 10 ^ 17, MaxChangeRate = 5 * 10 ^ 16, MinSelfDelegation = 1\<rparr>"

section \<open>The application\<close>

text \<open>The state the command works on: the staking store, byte keys in order, and everything else.\<close>

record 'c testnet_app =
  staking_kv :: "(bytes \<times> bytes) list"
  other_state :: 'c

type_synonym 'c app_call = "'c testnet_app \<Rightarrow> unit outcome \<times> 'c testnet_app"

record ('c, 'v) testnet_keepers =
  NewAnyWithValue :: "'v \<Rightarrow> 'v outcome"
  ValAddressStringToBytes :: "string \<Rightarrow> addr outcome"
  ValidatorsPowerStoreIterator :: "'c testnet_app \<Rightarrow> bytes list outcome"
  LastValidatorsIterator :: "'c testnet_app \<Rightarrow> bytes list outcome"
  ValidatorsKey :: bytes
  ValidatorQueueKey :: bytes
  SetValidator :: "'v testnet_validator \<Rightarrow> 'c app_call"
  SetValidatorByConsAddr :: "'v testnet_validator \<Rightarrow> 'c app_call"
  SetValidatorByPowerIndex :: "'v testnet_validator \<Rightarrow> 'c app_call"
  SetLastValidatorPower :: "addr \<Rightarrow> int \<Rightarrow> 'c app_call"
  AfterValidatorCreated :: "addr \<Rightarrow> 'c app_call"
  SetValidatorHistoricalRewards :: "addr \<Rightarrow> nat \<Rightarrow> nat \<Rightarrow> 'c app_call"
  SetValidatorCurrentRewards :: "addr \<Rightarrow> nat \<Rightarrow> 'c app_call"
  SetValidatorAccumulatedCommission :: "addr \<Rightarrow> 'c app_call"
  SetValidatorOutstandingRewards :: "addr \<Rightarrow> 'c app_call"
  BondDenom :: "'c testnet_app \<Rightarrow> string outcome"
  MintCoins :: "string \<Rightarrow> coin list \<Rightarrow> 'c app_call"
  AccStringToBytes :: "string \<Rightarrow> addr outcome"
  SendCoinsFromModuleToAccount :: "string \<Rightarrow> addr \<Rightarrow> coin list \<Rightarrow> 'c app_call"

text \<open>A prefix iterator: the keys that start with the prefix.\<close>

definition prefix_keys :: "bytes \<Rightarrow> (bytes \<times> bytes) list \<Rightarrow> bytes list" where
  "prefix_keys pre st = filter (\<lambda>k. take (length pre) k = pre) (map fst st)"

definition store_delete :: "bytes \<Rightarrow> 'c app_call" where
  "store_delete key = (\<lambda>s. (Ok (), s\<lparr>staking_kv := filter (\<lambda>e. fst e \<noteq> key) (staking_kv s)\<rparr>))"

definition delete_all :: "('c testnet_app \<Rightarrow> bytes list outcome) \<Rightarrow> 'c app_call" where
  "delete_all iterator =
     bindM (mustM (\<lambda>s. (iterator s, s))) (forM store_delete)"

definition remove_validators :: "('c, 'v) testnet_keepers \<Rightarrow> 'c app_call" where
  "remove_validators E =
     bindM (delete_all (ValidatorsPowerStoreIterator E)) (\<lambda>_.
     bindM (delete_all (LastValidatorsIterator E)) (\<lambda>_.
     bindM (delete_all (\<lambda>s. Ok (prefix_keys (ValidatorsKey E) (staking_kv s)))) (\<lambda>_.
     delete_all (\<lambda>s. Ok (prefix_keys (ValidatorQueueKey E) (staking_kv s))))))"

definition add_validator :: "('c, 'v) testnet_keepers \<Rightarrow> 'v testnet_validator \<Rightarrow> addr \<Rightarrow> 'c app_call" where
  "add_validator E newVal validator =
     bindM (mustM (SetValidator E newVal)) (\<lambda>_.
     bindM (mustM (SetValidatorByConsAddr E newVal)) (\<lambda>_.
     bindM (mustM (SetValidatorByPowerIndex E newVal)) (\<lambda>_.
     bindM (mustM (SetLastValidatorPower E validator 0)) (\<lambda>_.
     mustM (AfterValidatorCreated E validator)))))"

text \<open>The distribution records of the validator, all without rewards; the first two start at period 0 and 1.\<close>

definition init_rewards :: "('c, 'v) testnet_keepers \<Rightarrow> addr \<Rightarrow> 'c app_call" where
  "init_rewards E validator =
     bindM (mustM (SetValidatorHistoricalRewards E validator 0 1)) (\<lambda>_.
     bindM (mustM (SetValidatorCurrentRewards E validator 1)) (\<lambda>_.
     bindM (mustM (SetValidatorAccumulatedCommission E validator)) (\<lambda>_.
     mustM (SetValidatorOutstandingRewards E validator))))"

text \<open>Mint for every account, then decode its address, then pay it.\<close>

definition fund_account :: "('c, 'v) testnet_keepers \<Rightarrow> coin list \<Rightarrow> string \<Rightarrow> 'c app_call" where
  "fund_account E defaultCoins accountStr =
     bindM (mustM (MintCoins E ''mint'' defaultCoins)) (\<lambda>_.
     bindM (liftM (mustO (AccStringToBytes E accountStr))) (\<lambda>account.
     mustM (SendCoinsFromModuleToAccount E ''mint'' account defaultCoins)))"

definition initAppForTestnet :: "sdk_lib \<Rightarrow> ('c, 'v) testnet_keepers \<Rightarrow> 'v valArgs \<Rightarrow> 'c app_call" where
  "initAppForTestnet L E args =
     bindM (liftM (mustO (NewAnyWithValue E (newValPubKey args)))) (\<lambda>pubkeyAny.
     let newVal = new_testnet_validator (newOperatorAddress args) pubkeyAny in
     bindM (liftM (mustO (ValAddressStringToBytes E (OperatorAddress newVal)))) (\<lambda>validator.
     bindM (remove_validators E) (\<lambda>_.
     bindM (add_validator E newVal validator) (\<lambda>_.
     bindM (init_rewards E validator) (\<lambda>_.
     bindM (mustM (\<lambda>s. (BondDenom E s, s))) (\<lambda>bondDenom.
     bindM (liftM (bindO (mustO (NewCoin L bondDenom (Some 1000000000))) (\<lambda>c. mustO (NewCoins L c)))) (\<lambda>defaultCoins.
     forM (fund_account E defaultCoins) (accountsToFund args))))))))"

section \<open>Construction of the application\<close>

text \<open>\<open>New\<close> is \<open>app.New\<close>, with the flag that loads the latest version.\<close>

definition newApp :: "(bool \<Rightarrow> 'o \<Rightarrow> 'b list \<Rightarrow> 'a outcome) \<Rightarrow> ('o \<Rightarrow> 'b list) \<Rightarrow> 'o \<Rightarrow> 'a outcome" where
  "newApp New DefaultBaseappOptions appOpts = New True appOpts (DefaultBaseappOptions appOpts)"

definition newTestnetApp ::
  "sdk_lib \<Rightarrow> ('c, 'v) testnet_keepers \<Rightarrow> ('v opt_value \<Rightarrow> string) \<Rightarrow>
     (bool \<Rightarrow> (string \<Rightarrow> 'v opt_value) \<Rightarrow> 'b list \<Rightarrow> 'c testnet_app outcome) \<Rightarrow>
     ((string \<Rightarrow> 'v opt_value) \<Rightarrow> 'b list) \<Rightarrow> (string \<Rightarrow> 'v opt_value) \<Rightarrow> 'c testnet_app outcome" where
  "newTestnetApp L E ToString New DefaultBaseappOptions appOpts =
     bindO (newApp New DefaultBaseappOptions appOpts) (\<lambda>testApp.
     bindO (mustO (getCommandArgs ToString appOpts)) (\<lambda>args.
     case initAppForTestnet L E args testApp of
       (Ok _, app) \<Rightarrow> Ok app
     | (Err e, _) \<Rightarrow> Err e
     | (Panic, _) \<Rightarrow> Panic))"

text \<open>
  \<open>appExport\<close>: the home directory must be set and the options must come from viper; a height other
  than -1 is loaded into an application that has not loaded the latest version.
\<close>

definition appExport ::
  "(bool \<Rightarrow> 'o \<Rightarrow> 'b list \<Rightarrow> 'a outcome) \<Rightarrow> (int \<Rightarrow> 'a \<Rightarrow> 'a outcome) \<Rightarrow>
     (bool \<Rightarrow> string list \<Rightarrow> string list \<Rightarrow> 'a \<Rightarrow> 'x outcome) \<Rightarrow> (string \<Rightarrow> 'o \<Rightarrow> 'v opt_value) \<Rightarrow> ('o \<Rightarrow> bool) \<Rightarrow>
     int \<Rightarrow> bool \<Rightarrow> string list \<Rightarrow> 'o \<Rightarrow> string list \<Rightarrow> 'x outcome" where
  "appExport New LoadHeight Export get is_viper height forZeroHeight jailAllowedAddrs appOpts modulesToExport =
     (case get ''home'' appOpts of
        StringOpt homePath \<Rightarrow>
          if homePath = [] then Err (OtherErr ''application home not set'')
          else if \<not> is_viper appOpts then Err (OtherErr ''appOpts is not viper.Viper'')
          else
            bindO (if height \<noteq> -1 then bindO (New False appOpts []) (LoadHeight height)
                   else New True appOpts [])
              (Export forZeroHeight jailAllowedAddrs modulesToExport)
      | _ \<Rightarrow> Err (OtherErr ''application home not set''))"

section \<open>The hook before every command\<close>

text \<open>
  \<open>PersistentPreRunE\<close>: three steps of the client library, the EVM chain id from the flags, the
  configuration files. \<open>Intercept\<close> is \<open>server.InterceptConfigsPreRunHandler\<close>.
\<close>

definition persistent_pre_run ::
  "'f flag_ops \<Rightarrow> 64 word \<Rightarrow> (64 word \<Rightarrow> string \<times> ('s, 'e, 'j, 't) MonoAppConfig) \<Rightarrow>
     ('x \<Rightarrow> 'f \<Rightarrow> 'x outcome) \<Rightarrow> ('x \<Rightarrow> 'x outcome) \<Rightarrow> ('x \<Rightarrow> 'w \<Rightarrow> unit outcome \<times> 'w) \<Rightarrow>
     (string \<times> ('s, 'e, 'j, 't) MonoAppConfig \<Rightarrow> 'k \<Rightarrow> 'w \<Rightarrow> unit outcome \<times> 'w) \<Rightarrow> 'k \<Rightarrow> 'x \<Rightarrow> 'f \<Rightarrow>
     'w \<Rightarrow> unit outcome \<times> 'w" where
  "persistent_pre_run F defaultEVMChainID appConfig ReadFlags ReadConfig SetContext Intercept cometConfig initClientCtx fs =
     bindM (liftM (bindO (ReadFlags initClientCtx fs) ReadConfig)) (\<lambda>clientCtx.
     bindM (SetContext clientCtx) (\<lambda>_.
     bindM (liftM (resolveEVMChainID F defaultEVMChainID fs)) (\<lambda>evmChainID.
     Intercept (appConfig evmChainID) cometConfig)))"

end
