(* ===== verification/In_Place_Properties.thy ===== *)
theory In_Place_Properties
  imports In_Place_Testnet Ledger_Instance
begin

text \<open>
  The \<open>in-place-testnet\<close> command: it removes exactly the records of the old validator set, and it
  cannot be run without accounts to fund.
\<close>

section \<open>Removal\<close>

lemma forM_store_delete:
  "forM store_delete ks s = (Ok (), s\<lparr>staking_kv := filter (\<lambda>e. fst e \<notin> set ks) (staking_kv s)\<rparr>)"
proof (induction ks arbitrary: s)
  case (Cons k ks)
  have "filter (\<lambda>e. fst e \<notin> set ks) (filter (\<lambda>e. fst e \<noteq> k) (staking_kv s)) =
      filter (\<lambda>e. fst e \<notin> set (k # ks)) (staking_kv s)"
    by (auto intro: filter_cong)
  moreover have "store_delete k s = (Ok (), s\<lparr>staking_kv := filter (\<lambda>e. fst e \<noteq> k) (staking_kv s)\<rparr>)"
    by (simp add: store_delete_def)
  ultimately show ?case by (simp add: bindM_Ok Cons.IH)
qed simp

lemma delete_all_Ok:
  "iterator s = Ok ks \<Longrightarrow>
    delete_all iterator s = (Ok (), s\<lparr>staking_kv := filter (\<lambda>e. fst e \<notin> set ks) (staking_kv s)\<rparr>)"
  by (simp add: delete_all_def bindM_def mustM_def forM_store_delete)

text \<open>Whether a key starts with a prefix.\<close>

definition starts_with :: "bytes \<Rightarrow> bytes \<Rightarrow> bool" where
  "starts_with pre key \<longleftrightarrow> take (length pre) key = pre"

lemma delete_prefix:
  "(\<And>s. iterator s = Ok (prefix_keys pre (staking_kv s))) \<Longrightarrow>
    delete_all iterator s = (Ok (), s\<lparr>staking_kv := filter (\<lambda>e. \<not> starts_with pre (fst e)) (staking_kv s)\<rparr>)"
  by (auto simp: delete_all_Ok prefix_keys_def starts_with_def intro!: arg_cong2 [where f = "\<lambda>x y. x\<lparr>staking_kv := y\<rparr>"] filter_cong)

text \<open>The keepers' iterators run over the records under their prefixes.\<close>

definition iterator_laws :: "('c, 'v) testnet_keepers \<Rightarrow> bytes \<Rightarrow> bytes \<Rightarrow> bool" where
  "iterator_laws E powerKey lastKey \<longleftrightarrow>
     (\<forall>s. ValidatorsPowerStoreIterator E s = Ok (prefix_keys powerKey (staking_kv s))) \<and>
     (\<forall>s. LastValidatorsIterator E s = Ok (prefix_keys lastKey (staking_kv s)))"


section \<open>Accounts\<close>

text \<open>A step that returns or ends the process, but hands no error on.\<close>

definition errorless :: "('s \<Rightarrow> 'a outcome \<times> 's) \<Rightarrow> bool" where
  "errorless m \<longleftrightarrow> (\<forall>s e. fst (m s) \<noteq> Err e)"

lemma errorless_bindM [intro]: "errorless m \<Longrightarrow> (\<And>x. errorless (f x)) \<Longrightarrow> errorless (bindM m f)"
  by (auto simp: errorless_def bindM_def split: prod.split outcome.split) (metis fst_conv)

lemma errorless_must [intro]: "errorless (mustM m)" "errorless (liftM (mustO r))"
  by (auto simp: errorless_def mustM_def mustO_def split: prod.splits outcome.splits)

lemma errorless_coins [intro]: "errorless (liftM (bindO (mustO r) (\<lambda>c. mustO (f c))))"
  by (auto simp: errorless_def mustO_def split: outcome.splits)

lemma errorless_forM [intro]: "(\<And>x. errorless (f x)) \<Longrightarrow> errorless (forM f xs)"
proof (induction xs)
  case Nil
  then show ?case by (simp add: errorless_def)
qed auto

lemma errorless_delete_all [intro]: "errorless (delete_all iterator)"
proof -
  have "errorless (store_delete k)" for k by (simp add: errorless_def store_delete_def)
  then show ?thesis unfolding delete_all_def by blast
qed

lemma errorless_remove [intro]: "errorless (remove_validators E)"
  unfolding remove_validators_def by (intro errorless_bindM errorless_delete_all)

lemma errorless_initAppForTestnet: "errorless (initAppForTestnet L E args)"
  unfolding initAppForTestnet_def Let_def add_validator_def init_rewards_def fund_account_def
  by (intro errorless_bindM errorless_must errorless_coins errorless_forM errorless_remove)

text \<open>
  Without \<open>--accounts-to-fund\<close> the command ends the process: splitting the empty flag gives
  one empty account string, whose address does not decode, after the old validator set is gone. The
  default of the flag is the empty string.
\<close>

lemma in_place_testnet_needs_accounts:
  assumes "getCommandArgs ToString get = Ok args" and "ToString (get ''accounts-to-fund'') = []"
    and "\<not> is_ok (AccStringToBytes E [])"
  shows "accountsToFund args = [[]] \<and> fst (initAppForTestnet L E args s) = Panic"
proof -
  have accounts: "accountsToFund args = [[]]"
    using assms(1,2) by (auto simp: getCommandArgs_def Let_def split: opt_value.splits if_splits)
  have "fst (initAppForTestnet L E args s) \<noteq> Ok ()"
  proof
    assume "fst (initAppForTestnet L E args s) = Ok ()"
    then obtain s' where "initAppForTestnet L E args s = (Ok (), s')" by (metis prod.collapse)
    then show False
      using assms(3) by (auto simp: initAppForTestnet_def Let_def accounts fund_account_def bindM_Ok_iff)
  qed
  moreover have "fst (initAppForTestnet L E args s) \<noteq> Err e" for e
    using errorless_initAppForTestnet [of L E args] by (auto simp: errorless_def)
  ultimately show ?thesis
    using accounts by (cases "fst (initAppForTestnet L E args s)") auto
qed

text \<open>The tokens of the new validator are less than one unit of voting power on this chain.\<close>

lemma new_validator_has_no_power: "Tokens (new_testnet_validator operator key) div 10 ^ 18 = 0"
  by (simp add: new_testnet_validator_def valVotingPower_def)

section \<open>A concrete run\<close>

definition ref_testnet_keepers :: "(unit, unit) testnet_keepers" where
  "ref_testnet_keepers =
     \<lparr>NewAnyWithValue = Ok, ValAddressStringToBytes = ref_StringToBytes,
      ValidatorsPowerStoreIterator = (\<lambda>s. Ok (prefix_keys [0x23] (staking_kv s))),
      LastValidatorsIterator = (\<lambda>s. Ok (prefix_keys [0x11] (staking_kv s))),
      ValidatorsKey = [0x21], ValidatorQueueKey = [0x43],
      SetValidator = (\<lambda>_. retM ()), SetValidatorByConsAddr = (\<lambda>_. retM ()), SetValidatorByPowerIndex = (\<lambda>_. retM ()),
      SetLastValidatorPower = (\<lambda>_ _. retM ()), AfterValidatorCreated = (\<lambda>_. retM ()),
      SetValidatorHistoricalRewards = (\<lambda>_ _ _. retM ()), SetValidatorCurrentRewards = (\<lambda>_ _. retM ()),
      SetValidatorAccumulatedCommission = (\<lambda>_. retM ()), SetValidatorOutstandingRewards = (\<lambda>_. retM ()),
      BondDenom = (\<lambda>_. Ok DefaultBondDenom), MintCoins = (\<lambda>_ _. retM ()), AccStringToBytes = ref_StringToBytes,
      SendCoinsFromModuleToAccount = (\<lambda>_ _ _. retM ())\<rparr>"


definition ref_options :: "string \<Rightarrow> unit opt_value" where
  "ref_options name =
     (if name = ''newValAddr'' then HexBytesOpt [1]
      else if name = ''user-pub-key'' then PubKeyOpt ()
      else if name = ''accounts-to-fund'' then StringOpt []
      else StringOpt ''x'')"

lemma in_place_testnet_needs_accounts_witness:
  "\<exists>args. getCommandArgs (\<lambda>v. case v of StringOpt s \<Rightarrow> s | _ \<Rightarrow> []) ref_options = Ok args \<and>
     fst (initAppForTestnet ref_lib ref_testnet_keepers args \<lparr>staking_kv = [], other_state = ()\<rparr>) = Panic"
proof -
  let ?str = "\<lambda>v :: unit opt_value. case v of StringOpt s \<Rightarrow> s | _ \<Rightarrow> []"
  obtain args where args: "getCommandArgs ?str ref_options = Ok args"
    by (simp add: getCommandArgs_def ref_options_def Let_def)
  have "?str (ref_options ''accounts-to-fund'') = []" "\<not> is_ok (AccStringToBytes ref_testnet_keepers [])"
    by (simp_all add: ref_options_def ref_testnet_keepers_def ref_StringToBytes_def)
  from in_place_testnet_needs_accounts [OF args this, of ref_lib] args show ?thesis by blast
qed

end
