(* ===== verification/App_Config.thy ===== *)
theory App_Config
  imports App_Modules
begin

text \<open>
  \<^verbatim>\<open>app/config.go\<close>, the module lists of \<^verbatim>\<open>app/app.go\<close>, \<^verbatim>\<open>app/genesis.go\<close> and \<^verbatim>\<open>app/genesis_account.go\<close>:
  which modules the chain has, what their accounts may do, which addresses cannot receive funds, in
  which order the modules run at genesis and in every block. The names of the SDK's and of the EVM's
  modules are constants of those libraries; here they are the values of a datatype.
\<close>

section \<open>Modules and their accounts\<close>

datatype chain_module =
    Auth | Bank | Staking | Mint | Distribution | Slashing | Gov | Consensus | Upgrade | Feegrant | Evidence | Authz
  | Epochs | Burn | Validator | IBC | Transfer | EVM | FeeMarket | ERC20 | ProtocolPool | Genutil | Vesting
  | Tendermint | Solomachine

datatype account_name =
  FeeCollector | ProtocolPoolEscrow | BondedPool | NotBondedPool | ModuleAccount chain_module

datatype permission = Minter | Burner | StakingPermission

definition maccPerms :: "(account_name \<times> permission list) list" where
  "maccPerms =
     [(FeeCollector, []), (ModuleAccount Distribution, []), (ModuleAccount ProtocolPool, []), (ProtocolPoolEscrow, []),
      (BondedPool, [Burner, StakingPermission]), (NotBondedPool, [Burner, StakingPermission]),
      (ModuleAccount Burn, [Burner]), (ModuleAccount Validator, []), (ModuleAccount Mint, [Minter]),
      (ModuleAccount EVM, [Minter, Burner]), (ModuleAccount ERC20, [Minter, Burner]), (ModuleAccount FeeMarket, []),
      (ModuleAccount Transfer, [Minter, Burner]), (ModuleAccount Gov, [Burner])]"

definition blockAccAddrs :: "account_name list" where
  "blockAccAddrs = [FeeCollector, ModuleAccount Distribution, BondedPool, NotBondedPool]"

definition GetMaccPerms :: "account_name \<rightharpoonup> permission list" where
  "GetMaccPerms = map_of maccPerms"

text \<open>
  The blocked addresses: the listed accounts, or all module accounts if the list were empty, then the
  static precompiles and the native ones, from hexadecimal to Bech32.
\<close>

definition BlockedAddresses ::
  "(account_name \<Rightarrow> string) \<Rightarrow> ('h \<Rightarrow> string) \<Rightarrow> 'h list \<Rightarrow> 'h list \<Rightarrow> string set" where
  "BlockedAddresses moduleAddress Bech32StringFromHexAddress AvailableStaticPrecompiles PrecompiledAddressesPrague =
     moduleAddress ` set (if blockAccAddrs \<noteq> [] then blockAccAddrs else map fst maccPerms) \<union>
     Bech32StringFromHexAddress ` set (AvailableStaticPrecompiles @ PrecompiledAddressesPrague)"

text \<open>The Bech32 prefixes; the suffixes are those of the SDK.\<close>

definition Bech32Prefix :: string where "Bech32Prefix = ''mono''"

record bech32_config =
  AccAddr :: string
  AccPub :: string
  ValAddr :: string
  ValPub :: string
  ConsAddr :: string
  ConsPub :: string

definition SetBech32Prefixes :: bech32_config where
  "SetBech32Prefixes =
     \<lparr>AccAddr = Bech32Prefix, AccPub = Bech32Prefix @ ''pub'',
      ValAddr = Bech32Prefix @ ''val'' @ ''oper'', ValPub = Bech32Prefix @ ''val'' @ ''oper'' @ ''pub'',
      ConsAddr = Bech32Prefix @ ''val'' @ ''cons'', ConsPub = Bech32Prefix @ ''val'' @ ''cons'' @ ''pub''\<rparr>"

section \<open>Lists of modules\<close>

definition store_keys :: "chain_module list" where
  "store_keys =
     [Auth, Bank, Staking, Mint, Distribution, Slashing, Gov, Consensus, Upgrade, Feegrant, Evidence, Authz,
      Epochs, Burn, Validator, IBC, Transfer, EVM, FeeMarket, ERC20, ProtocolPool]"

definition managed_modules :: "chain_module list" where
  "managed_modules =
     [Genutil, Auth, Bank, Feegrant, Gov, Mint, Slashing, Distribution, Staking, Upgrade, Evidence, Authz, Consensus,
      Vesting, IBC, Tendermint, Transfer, EVM, FeeMarket, ERC20, Epochs, Burn, Validator, ProtocolPool, Tendermint,
      Solomachine]"

definition OrderPreBlockers :: "chain_module list" where
  "OrderPreBlockers = [Upgrade, Auth, EVM]"

definition OrderBeginBlockers :: "chain_module list" where
  "OrderBeginBlockers =
     [Epochs, Burn, Mint, Authz, IBC, Transfer, ERC20, FeeMarket, EVM, Distribution, ProtocolPool, Slashing, Evidence,
      Staking, Auth, Bank, Gov, Genutil, Feegrant, Consensus, Vesting]"

definition OrderEndBlockers :: "chain_module list" where
  "OrderEndBlockers =
     [Gov, Staking, EVM, FeeMarket, Feegrant, Auth, Authz, Bank, Consensus, Distribution, ERC20, Evidence, Genutil,
      IBC, Transfer, Mint, ProtocolPool, Slashing, Upgrade, Vesting]"

definition genesisModuleOrder :: "chain_module list" where
  "genesisModuleOrder =
     [Auth, Bank, Distribution, Staking, Slashing, Gov, Mint, IBC, EVM, FeeMarket, ERC20, Transfer, Epochs, Burn,
      Validator, ProtocolPool, Genutil, Evidence, Authz, Feegrant, Upgrade, Vesting, Consensus]"

section \<open>The module manager\<close>

text \<open>
  The manager of the SDK runs the hook of each module of an order, if the module has one, and stops at
  the first error.
\<close>

definition run_modules :: "(chain_module \<Rightarrow> ('s \<Rightarrow> unit outcome \<times> 's) option) \<Rightarrow> chain_module list \<Rightarrow> 's \<Rightarrow> unit outcome \<times> 's" where
  "run_modules hooks = forM (\<lambda>name. case hooks name of None \<Rightarrow> retM () | Some hook \<Rightarrow> hook)"

record 's module_hooks =
  PreBlock_hook :: "chain_module \<Rightarrow> ('s \<Rightarrow> unit outcome \<times> 's) option"
  BeginBlock_hook :: "chain_module \<Rightarrow> ('s \<Rightarrow> unit outcome \<times> 's) option"
  EndBlock_hook :: "chain_module \<Rightarrow> ('s \<Rightarrow> unit outcome \<times> 's) option"

definition PreBlocker :: "'s module_hooks \<Rightarrow> 's \<Rightarrow> unit outcome \<times> 's" where
  "PreBlocker M = run_modules (PreBlock_hook M) OrderPreBlockers"

definition BeginBlocker :: "'s module_hooks \<Rightarrow> 's \<Rightarrow> unit outcome \<times> 's" where
  "BeginBlocker M = run_modules (BeginBlock_hook M) OrderBeginBlockers"

definition EndBlocker :: "'s module_hooks \<Rightarrow> 's \<Rightarrow> unit outcome \<times> 's" where
  "EndBlocker M = run_modules (EndBlock_hook M) OrderEndBlockers"

section \<open>Genesis\<close>

text \<open>The EVM genesis gets the default preinstalls, when there is an EVM genesis.\<close>

record 'p evm_genesis =
  Preinstalls :: 'p

definition NewEVMGenesisState ::
  "('p evm_genesis, 'j) json_codec \<Rightarrow> 'p \<Rightarrow> (chain_module \<rightharpoonup> 'j) \<Rightarrow> (chain_module \<rightharpoonup> 'j) outcome" where
  "NewEVMGenesisState J DefaultPreinstalls genesisState =
     (case genesisState EVM of
        None \<Rightarrow> Ok genesisState
      | Some raw \<Rightarrow>
          bindO (mustO (UnmarshalJSON J raw)) (\<lambda>evmGenesis.
          bindO (mustO (MarshalJSON J (evmGenesis\<lparr>Preinstalls := DefaultPreinstalls\<rparr>))) (\<lambda>bz.
          Ok (genesisState(EVM \<mapsto> bz)))))"

text \<open>The manager initialises the modules the genesis file has an entry for, in order.\<close>

definition manager_InitGenesis ::
  "(chain_module \<Rightarrow> 'j \<Rightarrow> 's \<Rightarrow> unit outcome \<times> 's) \<Rightarrow> (chain_module \<rightharpoonup> 'j) \<Rightarrow> chain_module list \<Rightarrow> 's \<Rightarrow> unit outcome \<times> 's" where
  "manager_InitGenesis init genesisState =
     run_modules (\<lambda>name. map_option (init name) (genesisState name))"

definition InitChainer ::
  "('w \<Rightarrow> (chain_module \<rightharpoonup> 'j) outcome) \<Rightarrow> ('p evm_genesis, 'j) json_codec \<Rightarrow> 'p \<Rightarrow> ('s \<Rightarrow> unit outcome \<times> 's) \<Rightarrow>
     (chain_module \<Rightarrow> 'j \<Rightarrow> 's \<Rightarrow> unit outcome \<times> 's) \<Rightarrow> 'w \<Rightarrow> 's \<Rightarrow> unit outcome \<times> 's" where
  "InitChainer parse J DefaultPreinstalls SetModuleVersionMap init appStateBytes =
     bindM (liftM (mustO (parse appStateBytes))) (\<lambda>genesisState.
     bindM (liftM (NewEVMGenesisState J DefaultPreinstalls genesisState)) (\<lambda>genesisState.
     bindM (mustM SetModuleVersionMap) (\<lambda>_.
     manager_InitGenesis init genesisState genesisModuleOrder)))"

section \<open>\<open>GenesisAccount\<close>\<close>

record 'b GenesisAccount =
  BaseAccount :: 'b
  OriginalVesting :: "coin list"
  DelegatedFree :: "coin list"
  DelegatedVesting :: "coin list"
  StartTime :: "64 word"
  EndTime :: "64 word"
  GenesisAccountModule :: string
  ModulePermissions :: "string list"

text \<open>\<open>Coins.IsZero\<close> compares each amount with zero; a nil amount panics.\<close>

fun coins_IsZero :: "coin list \<Rightarrow> bool outcome" where
  "coins_IsZero [] = Ok True"
| "coins_IsZero (c # cs) = bindO (coin_IsZero c) (\<lambda>zero. if zero then coins_IsZero cs else Ok False)"

definition GenesisAccount_Validate ::
  "('b \<Rightarrow> string \<Rightarrow> string list \<Rightarrow> unit outcome) \<Rightarrow> ('b \<Rightarrow> unit outcome) \<Rightarrow> 'b GenesisAccount \<Rightarrow> unit outcome" where
  "GenesisAccount_Validate ModuleAccount_Validate BaseAccount_Validate sga =
     bindO (coins_IsZero (OriginalVesting sga)) (\<lambda>unvested.
     if \<not> unvested \<and> EndTime sga \<le>s StartTime sga
     then Err (OtherErr ''vesting start-time cannot be before end-time'')
     else
       bindO (if GenesisAccountModule sga \<noteq> []
              then ModuleAccount_Validate (BaseAccount sga) (GenesisAccountModule sga) (ModulePermissions sga)
              else Ok ()) (\<lambda>_.
       BaseAccount_Validate (BaseAccount sga)))"

end
