(* ===== verification/App_Start.thy ===== *)
theory App_Start
  imports App_Config
begin

text \<open>
  \<^verbatim>\<open>app/app.go\<close> (the parts of \<open>New\<close> that can fail, and the methods of \<open>App\<close>), \<^verbatim>\<open>app/mempool.go\<close> and
  \<^verbatim>\<open>app/ante.go\<close>: which errors stop the program at start-up and which are only reported, when the EVM
  mempool replaces the default one, and the listeners of pending transactions.
\<close>

section \<open>The EVM mempool\<close>

record ('a, 'l, 't) evm_mempool_config =
  AnteHandler :: 'a
  LegacyPoolConfig :: 'l
  BlockGasLimit :: "64 word"
  MinTip :: 't

text \<open>What the configuration readers of the EVM module return for the application's options.\<close>

record ('a, 'l, 't) mempool_options =
  ChainConfigSet :: bool
  CosmosPoolMaxTx :: int
  OptLegacyPoolConfig :: 'l
  OptBlockGasLimit :: "64 word"
  OptMinTip :: 't
  AppAnteHandler :: 'a

definition createMempoolConfig :: "('a, 'l, 't) mempool_options \<Rightarrow> ('a, 'l, 't) evm_mempool_config outcome" where
  "createMempoolConfig opts =
     Ok \<lparr>AnteHandler = AppAnteHandler opts, LegacyPoolConfig = OptLegacyPoolConfig opts,
         BlockGasLimit = OptBlockGasLimit opts, MinTip = OptMinTip opts\<rparr>"

text \<open>What the base application is told; \<open>None\<close> leaves its default in place.\<close>

record ('m, 'h, 'p, 'q) abci_handlers =
  EVMMempool :: "'m option"
  BaseMempool :: "'m option"
  CheckTxHandler :: "'h option"
  PrepareProposal :: "'p option"
  ProcessProposal :: "'q option"

text \<open>The constructors of the mempool and of the handlers over it.\<close>

record ('a, 'l, 't, 'm, 'h, 'p, 'q) mempool_lib =
  NewExperimentalEVMMempool :: "('a, 'l, 't) evm_mempool_config \<Rightarrow> int \<Rightarrow> 'm"
  NewCheckTxHandler :: "'m \<Rightarrow> 'h"
  PrepareProposalHandler :: "'m \<Rightarrow> 'p"
  ProcessProposalHandler :: "'m \<Rightarrow> 'q"

definition configureEVMMempool ::
  "('a, 'l, 't, 'm, 'h, 'p, 'q) mempool_lib \<Rightarrow> ('a, 'l, 't) mempool_options \<Rightarrow> ('m, 'h, 'p, 'q) abci_handlers
     \<Rightarrow> unit outcome \<times> ('m, 'h, 'p, 'q) abci_handlers" where
  "configureEVMMempool P opts app =
     (if \<not> ChainConfigSet opts then (Ok (), app)
      else if CosmosPoolMaxTx opts < 0 then (Ok (), app)
      else
        (case createMempoolConfig opts of
           Ok mempoolConfig \<Rightarrow>
             (let evmMempool = NewExperimentalEVMMempool P mempoolConfig (CosmosPoolMaxTx opts) in
              (Ok (), app\<lparr>EVMMempool := Some evmMempool, BaseMempool := Some evmMempool,
                CheckTxHandler := Some (NewCheckTxHandler P evmMempool),
                PrepareProposal := Some (PrepareProposalHandler P evmMempool),
                ProcessProposal := Some (ProcessProposalHandler P evmMempool)\<rparr>))
         | Err e \<Rightarrow> (Err e, app)
         | Panic \<Rightarrow> (Panic, app)))"

section \<open>Start-up\<close>

text \<open>The fallible steps of \<open>New\<close>, each on the application under construction.\<close>

record 's app_steps =
  RegisterStreamingServices :: "'s \<Rightarrow> unit outcome \<times> 's"
  VersionDBEnabled :: bool
  RegisterServices :: "'s \<Rightarrow> unit outcome \<times> 's"
  SetCircuitBreaker :: "'s \<Rightarrow> 's"
  NewReflectionService :: "'s \<Rightarrow> unit outcome \<times> 's"
  RegisterStoreDecoders :: "'s \<Rightarrow> 's"
  MountStores :: "'s \<Rightarrow> 's"
  SetLifecycle :: "'s \<Rightarrow> 's"
  ValidateAnteOptions :: "'s \<Rightarrow> unit outcome"
  SetAnteHandler :: "'s \<Rightarrow> 's"
  ConfigureMempool :: "'s \<Rightarrow> unit outcome \<times> 's"
  NewPostHandler :: "'s \<Rightarrow> unit outcome"
  SetPostHandler :: "'s \<Rightarrow> 's"
  MergedRegistry :: "'s \<Rightarrow> unit outcome"
  ValidateProtoAnnotations :: "'s \<Rightarrow> unit outcome"
  LoadLatestVersion :: "'s \<Rightarrow> unit outcome \<times> 's"

abbreviation pureM :: "('s \<Rightarrow> 's) \<Rightarrow> 's \<Rightarrow> unit outcome \<times> 's" where
  "pureM f \<equiv> (\<lambda>s. (Ok (), f s))"

text \<open>A streaming service that does not load is only printed; a version database is refused.\<close>

definition new_streaming :: "'s app_steps \<Rightarrow> 's \<Rightarrow> unit outcome \<times> 's" where
  "new_streaming A =
     bindM (ignoreM (RegisterStreamingServices A)) (\<lambda>_.
     if VersionDBEnabled A then liftM Panic else retM ())"

definition setAnteHandler :: "'s app_steps \<Rightarrow> 's \<Rightarrow> unit outcome \<times> 's" where
  "setAnteHandler A = bindM (mustM (\<lambda>s. (ValidateAnteOptions A s, s))) (\<lambda>_. pureM (SetAnteHandler A))"

definition setPostHandler :: "'s app_steps \<Rightarrow> 's \<Rightarrow> unit outcome \<times> 's" where
  "setPostHandler A = bindM (mustM (\<lambda>s. (NewPostHandler A s, s))) (\<lambda>_. pureM (SetPostHandler A))"

definition new_services :: "'s app_steps \<Rightarrow> 's \<Rightarrow> unit outcome \<times> 's" where
  "new_services A =
     bindM (mustM (RegisterServices A)) (\<lambda>_.
     bindM (pureM (SetCircuitBreaker A)) (\<lambda>_.
     bindM (mustM (NewReflectionService A)) (\<lambda>_.
     pureM (RegisterStoreDecoders A))))"

definition new_lifecycle :: "'s app_steps \<Rightarrow> bool \<Rightarrow> 's \<Rightarrow> unit outcome \<times> 's" where
  "new_lifecycle A loadLatest =
     bindM (pureM (MountStores A)) (\<lambda>_.
     bindM (pureM (SetLifecycle A)) (\<lambda>_.
     bindM (setAnteHandler A) (\<lambda>_.
     bindM (mustM (ConfigureMempool A)) (\<lambda>_.
     bindM (setPostHandler A) (\<lambda>_.
     bindM (mustM (\<lambda>s. (MergedRegistry A s, s))) (\<lambda>_.
     bindM (ignoreM (\<lambda>s. (ValidateProtoAnnotations A s, s))) (\<lambda>_.
     if loadLatest then mustM (LoadLatestVersion A) else retM ())))))))"

text \<open>The keepers are built between the first two; they are \<open>app_burn_keeper\<close> and \<open>app_validator_keeper\<close>.\<close>

definition app_burn_keeper ::
  "sdk_lib \<Rightarrow> 'b bank_keeper \<Rightarrow> string \<Rightarrow> (burn_key \<Rightarrow> error option) \<Rightarrow> 'b burn_keeper outcome" where
  "app_burn_keeper L B feeCollector fault =
     bindO (BytesToString L (NewModuleAddress L GovModuleName)) (\<lambda>authority.
     burn_NewKeeper L authority B feeCollector fault)"

section \<open>Methods\<close>

text \<open>The listeners run in the order they were registered.\<close>

definition onPendingTx :: "('h \<Rightarrow> 'w \<Rightarrow> 'w) list \<Rightarrow> 'h \<Rightarrow> 'w \<Rightarrow> 'w" where
  "onPendingTx listeners hash = fold (\<lambda>listener. listener hash) listeners"

definition RegisterPendingTxListener :: "('h \<Rightarrow> 'w \<Rightarrow> 'w) list \<Rightarrow> ('h \<Rightarrow> 'w \<Rightarrow> 'w) \<Rightarrow> ('h \<Rightarrow> 'w \<Rightarrow> 'w) list" where
  "RegisterPendingTxListener listeners listener = listeners @ [listener]"

definition GetMempool :: "('m, 'h, 'p, 'q) abci_handlers \<Rightarrow> 'm option" where
  "GetMempool app = EVMMempool app"

text \<open>A missing key reads as the nil pointer; the order of a map's keys is not determined.\<close>

definition GetKey :: "(string \<rightharpoonup> 'k) \<Rightarrow> string \<Rightarrow> 'k option" where
  "GetKey keys storeKey = keys storeKey"

definition GetStoreKeys :: "(string \<rightharpoonup> 'k) \<Rightarrow> 'k set" where
  "GetStoreKeys keys = ran keys"

definition AutoCliOpts_Modules :: "('m \<Rightarrow> string option) \<Rightarrow> ('m \<Rightarrow> 'a option) \<Rightarrow> 'm list \<Rightarrow> (string \<rightharpoonup> 'a)" where
  "AutoCliOpts_Modules HasName AppModule modules =
     map_of (rev (List.map_filter (\<lambda>m.
       case HasName m of None \<Rightarrow> None
       | Some name \<Rightarrow> (case AppModule m of None \<Rightarrow> None | Some a \<Rightarrow> Some (name, a))) modules))"

end
