(* ===== verification/App_Wiring.thy ===== *)
theory App_Wiring
  imports App_Start
begin

text \<open>
  \<^verbatim>\<open>app/app.go\<close>, the construction of the keepers in \<open>New\<close>: which constructor runs when, and what it is
  given. The constructors and setters are the libraries' (\<open>wiring_lib\<close>, over an opaque type \<open>'k\<close> of what
  they return); what the code decides is the order and the arguments, so \<open>New\<close> is a list of steps over
  the fields of \<open>App\<close> and its local variables. A field that is not assigned yet is the zero value or the
  nil pointer, and Go passes it on without complaint: the semantics keeps the difference between a value
  that is copied, a pointer to an object, and the address of a field that is filled in later.
\<close>

section \<open>Variables, arguments, steps\<close>

text \<open>The fields of \<open>App\<close> that hold keepers, then the local variables of \<open>New\<close>.\<close>

datatype wvar =
    TxConfig | ConsensusParamsKeeper | AccountKeeper | BankKeeper | StakingKeeper | SlashingKeeper | MintKeeper
  | DistrKeeper | ProtocolPoolKeeper | GovKeeper | UpgradeKeeper | AuthzKeeper | EvidenceKeeper | FeeGrantKeeper
  | EpochsKeeper | BurnKeeper | ValidatorKeeper | IBCKeeper | TransferKeeper | CallbackKeeper | FeeMarketKeeper
  | EVMKeeper | Erc20Keeper
  | StakingMsgServer | LocalGovKeeper | GovRouter | LocalEvidenceKeeper | Precompiles | RestrictedMsgServer
  | StakingPrecompile | TransferStack | TransferStackV2 | IBCRouter | IBCRouterV2 | TmLightClient | SmLightClient
  | TransferModule

definition app_fields :: "wvar list" where
  "app_fields =
     [TxConfig, ConsensusParamsKeeper, AccountKeeper, BankKeeper, StakingKeeper, SlashingKeeper, MintKeeper,
      DistrKeeper, ProtocolPoolKeeper, GovKeeper, UpgradeKeeper, AuthzKeeper, EvidenceKeeper, FeeGrantKeeper,
      EpochsKeeper, BurnKeeper, ValidatorKeeper, IBCKeeper, TransferKeeper, CallbackKeeper, FeeMarketKeeper,
      EVMKeeper, Erc20Keeper]"

text \<open>The variables whose declared type is a pointer.\<close>

fun pointer_var :: "wvar \<Rightarrow> bool" where
  "pointer_var StakingKeeper = True"
| "pointer_var UpgradeKeeper = True"
| "pointer_var IBCKeeper = True"
| "pointer_var EVMKeeper = True"
| "pointer_var LocalGovKeeper = True"
| "pointer_var LocalEvidenceKeeper = True"
| "pointer_var _ = False"

text \<open>
  \<^verbatim>\<open>app.X\<close>, \<^verbatim>\<open>*app.X\<close>, \<^verbatim>\<open>&app.X\<close>, a field or method value of \<^verbatim>\<open>app.X\<close>; the store of a module, its transient store,
  all keys; the address of the governance module; a literal nil; anything else the code has at hand.
\<close>

datatype wiring_arg =
    Use wvar | Deref wvar | Address_of wvar | Part wvar string
  | Store chain_module | Transient chain_module | AllKeys | GovAuthority | NilArg | Lib string

datatype wiring_step =
    Make wvar string "wiring_arg list"
  | Update wvar string "wiring_arg list"
  | Copy wvar wvar
  | Call string "wiring_arg list"

section \<open>Semantics\<close>

text \<open>What a constructor receives: a zero value or nil pointer where the variable was not set.\<close>

datatype 'k actual =
    ZeroValue | Given 'k | Pointer wvar | StoreOf chain_module | TransientOf chain_module | StoreMap | GovAddress
  | NilValue | LibValue string

record 'k wiring_lib =
  Construct :: "string \<Rightarrow> 'k actual list \<Rightarrow> 'k outcome"
  Method :: "string \<Rightarrow> 'k option \<Rightarrow> 'k actual list \<Rightarrow> 'k outcome"
  Perform :: "string \<Rightarrow> 'k actual list \<Rightarrow> unit outcome"
  PartOf :: "string \<Rightarrow> 'k \<Rightarrow> 'k"

record 'k wcall =
  callee :: string
  arguments :: "(wiring_arg \<times> 'k actual) list"

text \<open>\<open>slot\<close> is what a struct variable holds, or what a pointer variable points to; the calls made so far follow.\<close>

record 'k wiring =
  slot :: "wvar \<Rightarrow> 'k option"
  calls :: "'k wcall list"

definition wiring_start :: "'k wiring" where
  "wiring_start = \<lparr>slot = (\<lambda>_. None), calls = []\<rparr>"

fun eval_arg :: "'k wiring_lib \<Rightarrow> (wvar \<Rightarrow> 'k option) \<Rightarrow> wiring_arg \<Rightarrow> 'k actual outcome" where
  "eval_arg W m (Use v) =
     Ok (case m v of None \<Rightarrow> ZeroValue | Some k \<Rightarrow> if pointer_var v then Pointer v else Given k)"
| "eval_arg W m (Deref v) = (case m v of None \<Rightarrow> Panic | Some k \<Rightarrow> Ok (Given k))"
| "eval_arg W m (Address_of v) = Ok (Pointer v)"
| "eval_arg W m (Part v p) =
     (case m v of None \<Rightarrow> if pointer_var v then Panic else Ok ZeroValue | Some k \<Rightarrow> Ok (Given (PartOf W p k)))"
| "eval_arg W m (Store name) = Ok (StoreOf name)"
| "eval_arg W m (Transient name) = Ok (TransientOf name)"
| "eval_arg W m AllKeys = Ok StoreMap"
| "eval_arg W m GovAuthority = Ok GovAddress"
| "eval_arg W m NilArg = Ok NilValue"
| "eval_arg W m (Lib x) = Ok (LibValue x)"

fun eval_args :: "'k wiring_lib \<Rightarrow> (wvar \<Rightarrow> 'k option) \<Rightarrow> wiring_arg list \<Rightarrow> 'k actual list outcome" where
  "eval_args W m [] = Ok []"
| "eval_args W m (e # es) = bindO (eval_arg W m e) (\<lambda>a. bindO (eval_args W m es) (\<lambda>as. Ok (a # as)))"

text \<open>Evaluate the arguments, record the call.\<close>

definition pass_args :: "'k wiring_lib \<Rightarrow> string \<Rightarrow> wiring_arg list \<Rightarrow> 'k wiring \<Rightarrow> 'k actual list outcome \<times> 'k wiring" where
  "pass_args W f es =
     bindM (\<lambda>s. (eval_args W (slot s) es, s)) (\<lambda>as s.
       (Ok as, s\<lparr>calls := calls s @ [\<lparr>callee = f, arguments = zip es as\<rparr>]\<rparr>))"

definition assign :: "wvar \<Rightarrow> 'k \<Rightarrow> 'k wiring \<Rightarrow> unit outcome \<times> 'k wiring" where
  "assign v k s = (Ok (), s\<lparr>slot := (slot s)(v \<mapsto> k)\<rparr>)"

text \<open>A method on a nil pointer panics; on a struct it sees the value the variable holds, set or not.\<close>

fun do_step :: "'k wiring_lib \<Rightarrow> wiring_step \<Rightarrow> 'k wiring \<Rightarrow> unit outcome \<times> 'k wiring" where
  "do_step W (Make v f es) =
     bindM (pass_args W f es) (\<lambda>as. bindM (liftM (Construct W f as)) (assign v))"
| "do_step W (Update v f es) =
     bindM (pass_args W f es) (\<lambda>as.
     bindM (\<lambda>s. (if pointer_var v \<and> slot s v = None then Panic else Method W f (slot s v) as, s)) (assign v))"
| "do_step W (Copy v w) =
     bindM (pass_args W ''='' [Deref w]) (\<lambda>_.
     bindM (\<lambda>s. (case slot s w of None \<Rightarrow> Panic | Some k \<Rightarrow> Ok k, s)) (assign v))"
| "do_step W (Call f es) = bindM (pass_args W f es) (\<lambda>as. liftM (Perform W f as))"

definition run_wiring :: "'k wiring_lib \<Rightarrow> wiring_step list \<Rightarrow> 'k wiring \<Rightarrow> unit outcome \<times> 'k wiring" where
  "run_wiring W = forM (do_step W)"

section \<open>The steps of \<open>New\<close>\<close>

definition base_keepers :: "wiring_step list" where
  "base_keepers =
     [Make ConsensusParamsKeeper ''consensusparamkeeper.NewKeeper''
        [Lib ''appCodec'', Store Consensus, GovAuthority, Lib ''runtime.EventService''],
      Call ''bApp.SetParamStore'' [Part ConsensusParamsKeeper ''ParamsStore''],
      Make AccountKeeper ''authkeeper.NewAccountKeeper''
        [Lib ''appCodec'', Store Auth, Lib ''authtypes.ProtoBaseAccount'', Lib ''GetMaccPerms()'', Lib ''addressCodec'',
         Lib ''Bech32AccountAddrPrefix'', GovAuthority],
      Make BankKeeper ''bankkeeper.NewBaseKeeper''
        [Lib ''appCodec'', Store Bank, Use AccountKeeper, Lib ''BlockedAddresses()'', GovAuthority, Lib ''logger''],
      Make TxConfig ''authtx.NewTxConfigWithOptions''
        [Lib ''appCodec'', Lib ''enabledSignModes'', Use BankKeeper],
      Make StakingKeeper ''stakingkeeper.NewKeeper''
        [Lib ''appCodec'', Store Staking, Use AccountKeeper, Use BankKeeper, GovAuthority, Lib ''validatorAddressCodec'',
         Lib ''consensusAddressCodec''],
      Make MintKeeper ''mintkeeper.NewKeeper''
        [Lib ''appCodec'', Store Mint, Use StakingKeeper, Use AccountKeeper, Use BankKeeper,
         Lib ''authtypes.FeeCollectorName'', GovAuthority],
      Make ProtocolPoolKeeper ''protocolpoolkeeper.NewKeeper''
        [Lib ''appCodec'', Store ProtocolPool, Use AccountKeeper, Use BankKeeper, GovAuthority],
      Make DistrKeeper ''distrkeeper.NewKeeper''
        [Lib ''appCodec'', Store Distribution, Use AccountKeeper, Use BankKeeper, Use StakingKeeper,
         Lib ''authtypes.FeeCollectorName'', GovAuthority, Use ProtocolPoolKeeper],
      Make SlashingKeeper ''slashingkeeper.NewKeeper''
        [Lib ''appCodec'', Lib ''legacyAmino'', Store Slashing, Use StakingKeeper, GovAuthority],
      Make FeeGrantKeeper ''feegrantkeeper.NewKeeper'' [Lib ''appCodec'', Store Feegrant, Use AccountKeeper],
      Make EpochsKeeper ''epochskeeper.NewKeeper'' [Store Epochs, Lib ''appCodec''],
      Update EpochsKeeper ''SetHooks'' [Lib ''epochstypes.NewMultiEpochHooks()'']]"

definition own_keepers :: "wiring_step list" where
  "own_keepers =
     [Make BurnKeeper ''burnmodulekeeper.NewKeeper''
        [Store Burn, Lib ''appCodec'', Lib ''addressCodec'', GovAuthority, Use BankKeeper],
      Make StakingMsgServer ''stakingkeeper.NewMsgServerImpl'' [Use StakingKeeper],
      Make ValidatorKeeper ''validatormodulekeeper.NewKeeper''
        [Store Validator, Lib ''appCodec'', Lib ''addressCodec'', Lib ''validatorAddressCodec'', GovAuthority,
         Use BurnKeeper, Use StakingMsgServer],
      Update StakingKeeper ''SetHooks'' [Part DistrKeeper ''Hooks'', Part SlashingKeeper ''Hooks'']]"

definition chain_keepers :: "wiring_step list" where
  "chain_keepers =
     [Make AuthzKeeper ''authzkeeper.NewKeeper''
        [Store Authz, Lib ''appCodec'', Lib ''MsgServiceRouter'', Use AccountKeeper],
      Make UpgradeKeeper ''upgradekeeper.NewKeeper''
        [Lib ''skipUpgradeHeights'', Store Upgrade, Lib ''appCodec'', Lib ''homePath'', Lib ''bApp'', GovAuthority],
      Make IBCKeeper ''ibckeeper.NewKeeper''
        [Lib ''appCodec'', Store IBC, NilArg, Use UpgradeKeeper, GovAuthority],
      Make LocalGovKeeper ''govkeeper.NewKeeper''
        [Lib ''appCodec'', Store Gov, Use AccountKeeper, Use BankKeeper, Use StakingKeeper, Use DistrKeeper,
         Lib ''MsgServiceRouter'', Lib ''govtypes.DefaultConfig()'', GovAuthority],
      Make GovRouter ''govv1beta1.NewRouter'' [],
      Update GovRouter ''AddRoute'' [Lib ''govtypes.RouterKey'', Lib ''govv1beta1.ProposalHandler''],
      Update LocalGovKeeper ''SetLegacyRouter'' [Use GovRouter],
      Update LocalGovKeeper ''SetHooks'' [Lib ''govtypes.NewMultiGovHooks()''],
      Copy GovKeeper LocalGovKeeper,
      Make LocalEvidenceKeeper ''evidencekeeper.NewKeeper''
        [Lib ''appCodec'', Store Evidence, Use StakingKeeper, Use SlashingKeeper, Part AccountKeeper ''AddressCodec'',
         Lib ''runtime.ProvideCometInfoService()''],
      Copy EvidenceKeeper LocalEvidenceKeeper]"

definition evm_keepers :: "wiring_step list" where
  "evm_keepers =
     [Make FeeMarketKeeper ''feemarketkeeper.NewKeeper''
        [Lib ''appCodec'', GovAuthority, Store FeeMarket, Transient FeeMarket],
      Make Precompiles ''precompiletypes.NewStaticPrecompiles'' [],
      Update Precompiles ''WithPraguePrecompiles'' [],
      Update Precompiles ''WithP256Precompile'' [],
      Update Precompiles ''WithBech32Precompile'' [],
      Update Precompiles ''WithDistributionPrecompile'' [Use DistrKeeper, Deref StakingKeeper, Use BankKeeper],
      Update Precompiles ''WithICS20Precompile''
        [Use BankKeeper, Deref StakingKeeper, Address_of TransferKeeper, Part IBCKeeper ''ChannelKeeper'',
         Address_of Erc20Keeper],
      Update Precompiles ''WithBankPrecompile'' [Use BankKeeper, Address_of Erc20Keeper],
      Update Precompiles ''WithGovPrecompile'' [Use GovKeeper, Use BankKeeper, Lib ''appCodec''],
      Update Precompiles ''WithSlashingPrecompile'' [Use SlashingKeeper, Use BankKeeper],
      Make RestrictedMsgServer ''validatorante.NewRestrictedStakingMsgServer'' [Use StakingMsgServer],
      Make StakingPrecompile ''stakingprecompile.NewPrecompile''
        [Deref StakingKeeper, Use RestrictedMsgServer, Use StakingKeeper, Use BankKeeper, Lib ''addressCodec''],
      Update Precompiles ''[]='' [Use StakingPrecompile],
      Make EVMKeeper ''evmkeeper.NewKeeper''
        [Lib ''appCodec'', Store EVM, Transient EVM, AllKeys, GovAuthority, Use AccountKeeper, Use BankKeeper,
         Use StakingKeeper, Use FeeMarketKeeper, Address_of ConsensusParamsKeeper, Address_of Erc20Keeper,
         Lib ''evmChainID'', Lib ''tracer''],
      Update EVMKeeper ''WithStaticPrecompiles'' [Use Precompiles],
      Make Erc20Keeper ''erc20keeper.NewKeeper''
        [Store ERC20, Lib ''appCodec'', GovAuthority, Use AccountKeeper, Use BankKeeper, Use EVMKeeper,
         Use StakingKeeper, Address_of TransferKeeper]]"

definition transfer_keepers :: "wiring_step list" where
  "transfer_keepers =
     [Make TransferKeeper ''transferkeeper.NewKeeper''
        [Lib ''appCodec'', Store Transfer, NilArg, Part IBCKeeper ''ChannelKeeper'', Part IBCKeeper ''ChannelKeeper'',
         Lib ''MsgServiceRouter'', Use AccountKeeper, Use BankKeeper, GovAuthority],
      Make CallbackKeeper ''ibccallbackskeeper.NewKeeper'' [Use AccountKeeper, Use EVMKeeper, Use Erc20Keeper],
      Make TransferStack ''transfer.NewIBCModule'' [Use TransferKeeper],
      Make TransferStack ''erc20.NewIBCMiddleware'' [Use Erc20Keeper, Use TransferStack],
      Make TransferStack ''ibccallbacks.NewIBCMiddleware''
        [Use TransferStack, Part IBCKeeper ''ChannelKeeper'', Use CallbackKeeper, Lib ''MaxIBCCallbackGas''],
      Make TransferStackV2 ''transferv2.NewIBCModule'' [Use TransferKeeper],
      Make TransferStackV2 ''erc20v2.NewIBCMiddleware'' [Use TransferStackV2, Use Erc20Keeper],
      Make IBCRouter ''porttypes.NewRouter'' [],
      Update IBCRouter ''AddRoute'' [Lib ''ibctransfertypes.ModuleName'', Use TransferStack],
      Make IBCRouterV2 ''ibcapi.NewRouter'' [],
      Update IBCRouterV2 ''AddRoute'' [Lib ''ibctransfertypes.ModuleName'', Use TransferStackV2],
      Update IBCKeeper ''SetRouter'' [Use IBCRouter],
      Update IBCKeeper ''SetRouterV2'' [Use IBCRouterV2],
      Make TmLightClient ''tendermint.NewLightClientModule'' [Lib ''appCodec'', Part IBCKeeper ''ClientKeeper.GetStoreProvider''],
      Update IBCKeeper ''ClientKeeper.AddRoute'' [Lib ''tendermint.ModuleName'', Address_of TmLightClient],
      Make SmLightClient ''solomachine.NewLightClientModule'' [Lib ''appCodec'', Part IBCKeeper ''ClientKeeper.GetStoreProvider''],
      Update IBCKeeper ''ClientKeeper.AddRoute'' [Lib ''solomachine.ModuleName'', Address_of SmLightClient],
      Make TransferModule ''transfer.NewAppModule'' [Use TransferKeeper]]"

text \<open>The constructors of the modules the manager gets, with what they are given.\<close>

definition module_constructors :: "(chain_module \<times> wiring_arg list) list" where
  "module_constructors =
     [(Genutil, [Use AccountKeeper, Use StakingKeeper, Lib ''app'', Use TxConfig]),
      (Auth, [Lib ''appCodec'', Use AccountKeeper, Lib ''authsims.RandomGenesisAccounts'', NilArg]),
      (Bank, [Lib ''appCodec'', Use BankKeeper, Use AccountKeeper, NilArg]),
      (Feegrant, [Lib ''appCodec'', Use AccountKeeper, Use BankKeeper, Use FeeGrantKeeper, Lib ''interfaceRegistry'']),
      (Gov, [Lib ''appCodec'', Address_of GovKeeper, Use AccountKeeper, Use BankKeeper, NilArg]),
      (Mint, [Lib ''appCodec'', Use MintKeeper, Use AccountKeeper, NilArg, NilArg]),
      (Slashing, [Lib ''appCodec'', Use SlashingKeeper, Use AccountKeeper, Use BankKeeper, Use StakingKeeper, NilArg,
         Lib ''interfaceRegistry'']),
      (Distribution, [Lib ''appCodec'', Use DistrKeeper, Use AccountKeeper, Use BankKeeper, Use StakingKeeper, NilArg]),
      (Staking, [Lib ''appCodec'', Use StakingKeeper, Use AccountKeeper, Use BankKeeper, NilArg]),
      (Upgrade, [Use UpgradeKeeper, Part AccountKeeper ''AddressCodec'']),
      (Evidence, [Use EvidenceKeeper]),
      (Authz, [Lib ''appCodec'', Use AuthzKeeper, Use AccountKeeper, Use BankKeeper, Lib ''interfaceRegistry'']),
      (Consensus, [Lib ''appCodec'', Use ConsensusParamsKeeper]),
      (Vesting, [Use AccountKeeper, Use BankKeeper]),
      (IBC, [Use IBCKeeper]),
      (Tendermint, [Use TmLightClient]),
      (Transfer, [Use TransferModule]),
      (EVM, [Use EVMKeeper, Use AccountKeeper, Use BankKeeper, Part AccountKeeper ''AddressCodec'']),
      (FeeMarket, [Use FeeMarketKeeper]),
      (ERC20, [Use Erc20Keeper, Use AccountKeeper]),
      (Epochs, [Use EpochsKeeper]),
      (Burn, [Lib ''appCodec'', Use BurnKeeper, Lib ''addressCodec'']),
      (Validator, [Lib ''appCodec'', Use ValidatorKeeper, Use StakingKeeper]),
      (ProtocolPool, [Use ProtocolPoolKeeper, Use AccountKeeper, Use BankKeeper]),
      (Tendermint, [Use TmLightClient]),
      (Solomachine, [Use SmLightClient])]"

text \<open>The manager takes the modules by the list of their constructors.\<close>

definition new_keepers :: "wiring_step list" where
  "new_keepers =
     base_keepers @ own_keepers @ chain_keepers @ evm_keepers @ transfer_keepers @
     map (\<lambda>(name, es). Call ''NewAppModule'' es) module_constructors"

text \<open>\<open>skipUpgradeHeights\<close>: the heights of the flag, as a set; an \<^verbatim>\<open>int\<close> is an \<^verbatim>\<open>int64\<close> here.\<close>

definition skip_upgrade_heights :: "int list \<Rightarrow> (int \<rightharpoonup> bool)" where
  "skip_upgrade_heights hs = fold (\<lambda>h m. m(h \<mapsto> True)) hs Map.empty"

text \<open>
  \<open>New\<close>: the base application, the keepers, the services, the lifecycle. The base application and the
  keepers are two parts of one state.
\<close>

definition New ::
  "'s app_steps \<Rightarrow> 'k wiring_lib \<Rightarrow> bool \<Rightarrow> 's \<times> 'k wiring \<Rightarrow> unit outcome \<times> 's \<times> 'k wiring" where
  "New A W loadLatest =
     bindM (onM fst (\<lambda>s t. (s, snd t)) (new_streaming A)) (\<lambda>_.
     bindM (onM snd (\<lambda>w t. (fst t, w)) (mustM (run_wiring W new_keepers))) (\<lambda>_.
     bindM (onM fst (\<lambda>s t. (s, snd t)) (new_services A)) (\<lambda>_.
     onM fst (\<lambda>s t. (s, snd t)) (new_lifecycle A loadLatest))))"

end
