(* ===== verification/App_Api.thy ===== *)
theory App_Api
  imports App_Wiring
begin

text \<open>
  \<^verbatim>\<open>app/app.go\<close> (the fields of \<open>App\<close> that hold no keeper, accessors, service and API registration), the ante
  options of \<^verbatim>\<open>app/ante.go\<close>, and \<^verbatim>\<open>docs/docs.go\<close>. What a library returns is an opaque object \<open>'l\<close>.
\<close>

section \<open>\<open>App\<close> without its keepers\<close>

record 'l app_object =
  BaseApp :: 'l
  legacyAmino :: 'l
  appCodec :: 'l
  interfaceRegistry :: 'l
  txConfig :: 'l
  clientCtx :: "'l option"
  kv_keys :: "string \<rightharpoonup> 'l"
  transient_keys :: "string \<rightharpoonup> 'l"
  BasicModuleManager :: "'l option"
  simulation_manager :: "'l option"
  module_configurator :: "'l option"

text \<open>\<^verbatim>\<open>app := &App{...}\<close>: the fields that are not named are nil.\<close>

definition new_App :: "'l \<Rightarrow> 'l \<Rightarrow> 'l \<Rightarrow> 'l \<Rightarrow> 'l \<Rightarrow> (string \<rightharpoonup> 'l) \<Rightarrow> (string \<rightharpoonup> 'l) \<Rightarrow> 'l app_object" where
  "new_App bApp amino cdc txc registry keys tkeys =
     \<lparr>BaseApp = bApp, legacyAmino = amino, appCodec = cdc, interfaceRegistry = registry, txConfig = txc,
      clientCtx = None, kv_keys = keys, transient_keys = tkeys, BasicModuleManager = None,
      simulation_manager = None, module_configurator = None\<rparr>"

text \<open>
  The beginning of \<open>New\<close>: the encoding configuration depends on the EVM chain id; the base application gets
  the given options and optimistic execution, then its tracer, version, interface registry and encoder.
  The store keys are those of \<open>store_keys\<close> by name; two modules have a transient store.
\<close>

record 'l encoding_config =
  EncAmino :: 'l
  EncInterfaceRegistry :: 'l
  EncCodec :: 'l
  EncTxConfig :: 'l

record ('l, 'o) base_lib =
  MakeConfig :: "64 word \<Rightarrow> 'l encoding_config"
  OptimisticExecution :: 'o
  TxDecoder :: "'l \<Rightarrow> 'l"
  TxEncoder :: "'l \<Rightarrow> 'l"
  NewBaseApp :: "string \<Rightarrow> 'l \<Rightarrow> 'o list \<Rightarrow> 'l"
  SetCommitMultiStoreTracer :: "'l \<Rightarrow> 'l"
  SetVersion :: "'l \<Rightarrow> 'l"
  SetInterfaceRegistry :: "'l \<Rightarrow> 'l \<Rightarrow> 'l"
  SetTxEncoder :: "'l \<Rightarrow> 'l \<Rightarrow> 'l"
  NewKVStoreKey :: "string \<Rightarrow> 'l"
  NewTransientStoreKey :: "string \<Rightarrow> 'l"
  StoreName :: "chain_module \<Rightarrow> string"
  TransientName :: "chain_module \<Rightarrow> string"

definition transient_stores :: "chain_module list" where
  "transient_stores = [EVM, FeeMarket]"

definition new_base :: "('l, 'o) base_lib \<Rightarrow> 64 word \<Rightarrow> 'o list \<Rightarrow> 'l app_object" where
  "new_base B evmChainID baseAppOptions =
     (let enc = MakeConfig B evmChainID;
          bApp = NewBaseApp B ''mono'' (TxDecoder B (EncTxConfig enc)) (baseAppOptions @ [OptimisticExecution B]);
          bApp = SetTxEncoder B (TxEncoder B (EncTxConfig enc))
            (SetInterfaceRegistry B (EncInterfaceRegistry enc) (SetVersion B (SetCommitMultiStoreTracer B bApp)));
          keys = map_of (map (\<lambda>m. (StoreName B m, NewKVStoreKey B (StoreName B m))) store_keys);
          tkeys = map_of (map (\<lambda>m. (TransientName B m, NewTransientStoreKey B (TransientName B m))) transient_stores)
      in new_App bApp (EncAmino enc) (EncCodec enc) (EncTxConfig enc) (EncInterfaceRegistry enc) keys tkeys)"

definition LegacyAmino :: "'l app_object \<Rightarrow> 'l" where
  "LegacyAmino app = legacyAmino app"

definition AppCodec :: "'l app_object \<Rightarrow> 'l" where
  "AppCodec app = appCodec app"

definition InterfaceRegistry :: "'l app_object \<Rightarrow> 'l" where
  "InterfaceRegistry app = interfaceRegistry app"

definition App_TxConfig :: "'l app_object \<Rightarrow> 'l" where
  "App_TxConfig app = txConfig app"

definition SetClientCtx :: "'l \<Rightarrow> 'l app_object \<Rightarrow> 'l app_object" where
  "SetClientCtx ctx app = app\<lparr>clientCtx := Some ctx\<rparr>"

definition Configurator :: "'l app_object \<Rightarrow> 'l option" where
  "Configurator app = module_configurator app"

definition SimulationManager :: "'l app_object \<Rightarrow> 'l option" where
  "SimulationManager app = simulation_manager app"

text \<open>A method on the nil manager is the manager's panic.\<close>

definition DefaultGenesis :: "('l \<Rightarrow> 'l \<Rightarrow> (string \<rightharpoonup> 'j) outcome) \<Rightarrow> 'l app_object \<Rightarrow> (string \<rightharpoonup> 'j) outcome" where
  "DefaultGenesis BasicDefaultGenesis app =
     bindO (deref (BasicModuleManager app)) (\<lambda>bm. BasicDefaultGenesis bm (appCodec app))"

definition LoadHeight :: "(int \<Rightarrow> 'w \<Rightarrow> unit outcome \<times> 'w) \<Rightarrow> int \<Rightarrow> 'w \<Rightarrow> unit outcome \<times> 'w" where
  "LoadHeight LoadVersion height = LoadVersion height"

text \<open>
  \<open>NewBasicManagerFromManager\<close> takes a module of the manager as it is, unless the table names a
  replacement; then the codecs and the interfaces of all of them are registered.
\<close>

definition basic_module_overrides :: "(chain_module \<times> string) list" where
  "basic_module_overrides =
     [(Genutil, ''genutil.NewAppModuleBasic(genutiltypes.DefaultMessageValidator)''), (Staking, ''staking.AppModuleBasic{}''),
      (Gov, ''gov.NewAppModuleBasic(nil)''), (Transfer, ''transfer.AppModuleBasic{}'')]"

definition new_basic_manager ::
  "((chain_module \<times> string) list \<Rightarrow> 'l) \<Rightarrow> ('l \<Rightarrow> 'l \<Rightarrow> 'w \<Rightarrow> 'w) \<Rightarrow> ('l \<Rightarrow> 'l \<Rightarrow> 'w \<Rightarrow> 'w)
     \<Rightarrow> 'l app_object \<Rightarrow> 'w \<Rightarrow> 'l app_object \<times> 'w" where
  "new_basic_manager NewBasicManagerFromManager RegisterLegacyAminoCodec RegisterBasicInterfaces app w =
     (let bm = NewBasicManagerFromManager basic_module_overrides in
      (app\<lparr>BasicModuleManager := Some bm\<rparr>,
       RegisterBasicInterfaces bm (interfaceRegistry app) (RegisterLegacyAminoCodec bm (legacyAmino app) w)))"

section \<open>The ante options\<close>

definition ante_options :: "(string \<times> wiring_arg) list" where
  "ante_options =
     [(''Cdc'', Lib ''appCodec''), (''AccountKeeper'', Use AccountKeeper), (''BankKeeper'', Use BankKeeper),
      (''ExtensionOptionChecker'', Lib ''antetypes.HasDynamicFeeExtensionOption''), (''EvmKeeper'', Use EVMKeeper),
      (''FeegrantKeeper'', Use FeeGrantKeeper), (''IBCKeeper'', Use IBCKeeper), (''FeeMarketKeeper'', Use FeeMarketKeeper),
      (''SignModeHandler'', Part TxConfig ''SignModeHandler''), (''SigGasConsumer'', Lib ''evmante.SigVerificationGasConsumer''),
      (''MaxTxGasWanted'', Lib ''cast.ToUint64(appOpts.Get(srvflags.EVMMaxTxGasWanted))''),
      (''DynamicFeeChecker'', Lib ''true''), (''PendingTxListener'', Lib ''app.onPendingTx'')]"

section \<open>\<open>AutoCliOpts\<close>\<close>

text \<open>The prefixes of the codecs are those of the global configuration: accounts, validators, consensus nodes.\<close>

record ('l, 'o) autocli_options =
  cli_Modules :: "string \<rightharpoonup> 'l"
  cli_ModuleOptions :: 'o
  cli_AddressCodec :: 'l
  cli_ValidatorAddressCodec :: 'l
  cli_ConsensusAddressCodec :: 'l

definition AutoCliOpts ::
  "('m \<Rightarrow> string option) \<Rightarrow> ('m \<Rightarrow> 'l option) \<Rightarrow> ('m list \<Rightarrow> 'o) \<Rightarrow> (string \<Rightarrow> 'l) \<Rightarrow> string \<Rightarrow> string \<Rightarrow> string
     \<Rightarrow> 'm list \<Rightarrow> ('l, 'o) autocli_options" where
  "AutoCliOpts HasName AppModule ExtractAutoCLIOptions NewEvmCodec accPrefix valPrefix consPrefix modules =
     \<lparr>cli_Modules = AutoCliOpts_Modules HasName AppModule modules,
      cli_ModuleOptions = ExtractAutoCLIOptions modules, cli_AddressCodec = NewEvmCodec accPrefix,
      cli_ValidatorAddressCodec = NewEvmCodec valPrefix, cli_ConsensusAddressCodec = NewEvmCodec consPrefix\<rparr>"

text \<open>
  The manager keeps its modules in a Go map, so the loop meets them in any order; when their names differ
  the options are the same in every order.
\<close>

lemma cli_modules_any_order:
  assumes "\<forall>m \<in> set ms. HasName m = Some (name m)" "distinct (map name ms)" "distinct (map name ms')"
    and "set ms = set ms'"
  shows "cli_Modules (AutoCliOpts HasName AppModule X C p v c ms) = cli_Modules (AutoCliOpts HasName AppModule X C p v c ms')"
proof -
  define entries where "entries = List.map_filter (\<lambda>m.
       case HasName m of None \<Rightarrow> None
       | Some name \<Rightarrow> (case AppModule m of None \<Rightarrow> None | Some a \<Rightarrow> Some (name, a)))"
  have keys: "map fst (entries xs) = map name (filter (\<lambda>m. AppModule m \<noteq> None) xs)"
    if "\<forall>m \<in> set xs. HasName m = Some (name m)" for xs
    using that by (induction xs) (auto simp: entries_def map_filter_def split: option.splits)
  have "distinct (map fst (entries xs))" if "set xs = set ms" "distinct (map name xs)" for xs
    using that assms(1) by (simp add: keys distinct_map_filter)
  moreover have "set (entries ms) = set (entries ms')"
    using assms(4) by (auto simp: entries_def map_filter_def)
  ultimately have "map_of (rev (entries ms)) = map_of (rev (entries ms'))"
    using assms by (subst map_of_inject_set) (simp_all add: rev_map[symmetric])
  then show ?thesis by (simp add: AutoCliOpts_def AutoCliOpts_Modules_def entries_def)
qed

section \<open>Services and API routes\<close>

text \<open>What the registrations of the libraries do to the server.\<close>

record ('l, 'w) api_lib =
  AuthTx_RegisterGRPCGatewayRoutes :: "'l \<Rightarrow> 'w \<Rightarrow> 'w"
  CmtService_RegisterGRPCGatewayRoutes :: "'l \<Rightarrow> 'w \<Rightarrow> 'w"
  NodeService_RegisterGRPCGatewayRoutes :: "'l \<Rightarrow> 'w \<Rightarrow> 'w"
  Basic_RegisterGRPCGatewayRoutes :: "'l \<Rightarrow> 'l \<Rightarrow> 'w \<Rightarrow> unit outcome \<times> 'w"
  RegisterSwaggerAPI :: "'l \<Rightarrow> bool \<Rightarrow> 'w \<Rightarrow> unit outcome \<times> 'w"
  HandleFiles :: "string \<Rightarrow> 'w \<Rightarrow> 'w"
  HandleTemplate :: "string \<Rightarrow> string \<Rightarrow> string \<Rightarrow> 'w \<Rightarrow> 'w"
  GRPCQueryRouter :: "'l \<Rightarrow> 'l"
  SimulateOf :: "'l \<Rightarrow> 'l"
  CometABCIWrapperQuery :: "'l \<Rightarrow> 'l"
  AuthTx_RegisterTxService :: "'l \<Rightarrow> 'l \<Rightarrow> 'l \<Rightarrow> 'l \<Rightarrow> 'w \<Rightarrow> 'w"
  CmtService_RegisterTendermintService :: "'l \<Rightarrow> 'l \<Rightarrow> 'l \<Rightarrow> 'l \<Rightarrow> 'w \<Rightarrow> 'w"
  NodeService_RegisterNodeService :: "'l \<Rightarrow> 'l \<Rightarrow> 'l \<Rightarrow> 'w \<Rightarrow> 'w"

definition apiFile :: string where "apiFile = ''/static/openapi.json''"
definition indexFile :: string where "indexFile = ''template/index.tpl''"

text \<open>
  \<open>docs.RegisterOpenAPIService\<close>: the specification, then the page at the root, whose handler fills the
  template with the title and the path of the specification. The error of parsing the template is
  dropped, and so is the error of writing the page.
\<close>

definition RegisterOpenAPIService :: "('l, 'w) api_lib \<Rightarrow> string \<Rightarrow> 'w \<Rightarrow> 'w" where
  "RegisterOpenAPIService A appName w = HandleTemplate A ''/'' appName apiFile (HandleFiles A apiFile w)"

definition docs_handler ::
  "(string \<Rightarrow> 't outcome) \<Rightarrow> ('t option \<Rightarrow> string \<Rightarrow> string \<Rightarrow> 'r \<Rightarrow> unit outcome \<times> 'r) \<Rightarrow> string \<Rightarrow> 'r \<Rightarrow> unit outcome \<times> 'r" where
  "docs_handler ParseFS Execute title =
     ignoreM (Execute (case ParseFS indexFile of Ok t \<Rightarrow> Some t | _ \<Rightarrow> None) title apiFile)"

definition RegisterAPIRoutes :: "('l, 'w) api_lib \<Rightarrow> 'l \<Rightarrow> bool \<Rightarrow> 'l app_object \<Rightarrow> 'w \<Rightarrow> unit outcome \<times> 'w" where
  "RegisterAPIRoutes A serverCtx swagger app =
     bindM (pureM (AuthTx_RegisterGRPCGatewayRoutes A serverCtx)) (\<lambda>_.
     bindM (pureM (CmtService_RegisterGRPCGatewayRoutes A serverCtx)) (\<lambda>_.
     bindM (pureM (NodeService_RegisterGRPCGatewayRoutes A serverCtx)) (\<lambda>_.
     bindM (liftM (deref (BasicModuleManager app))) (\<lambda>bm.
     bindM (Basic_RegisterGRPCGatewayRoutes A bm serverCtx) (\<lambda>_.
     bindM (mustM (RegisterSwaggerAPI A serverCtx swagger)) (\<lambda>_.
     pureM (RegisterOpenAPIService A ''mono'')))))))"

definition RegisterTxService :: "('l, 'w) api_lib \<Rightarrow> 'l \<Rightarrow> 'l app_object \<Rightarrow> 'w \<Rightarrow> 'w" where
  "RegisterTxService A ctx app =
     AuthTx_RegisterTxService A (GRPCQueryRouter A (BaseApp app)) ctx (SimulateOf A (BaseApp app)) (interfaceRegistry app)"

definition RegisterTendermintService :: "('l, 'w) api_lib \<Rightarrow> 'l \<Rightarrow> 'l app_object \<Rightarrow> 'w \<Rightarrow> 'w" where
  "RegisterTendermintService A ctx app =
     CmtService_RegisterTendermintService A ctx (GRPCQueryRouter A (BaseApp app)) (interfaceRegistry app)
       (CometABCIWrapperQuery A (BaseApp app))"

definition RegisterNodeService :: "('l, 'w) api_lib \<Rightarrow> 'l \<Rightarrow> 'l \<Rightarrow> 'l app_object \<Rightarrow> 'w \<Rightarrow> 'w" where
  "RegisterNodeService A ctx cfg app = NodeService_RegisterNodeService A ctx (GRPCQueryRouter A (BaseApp app)) cfg"

end
