(* ===== verification/Node_Process.thy ===== *)
theory Node_Process
  imports App_Api
begin

text \<open>
  The process: \<^verbatim>\<open>cmd/monod/main.go\<close>, the package initialisation and the SDK configuration of
  \<^verbatim>\<open>app/config.go\<close>, the root command (\<^verbatim>\<open>root.go\<close>, \<^verbatim>\<open>config.go\<close>) and the trees of commands (\<^verbatim>\<open>commands.go\<close>, and
  the declarations in \<^verbatim>\<open>testnet.go\<close> and \<^verbatim>\<open>testnet_multi_node.go\<close>). What the commands do is in the theories of the
  commands; the state here is what the whole process shares, the global configuration of the SDK above all.
\<close>

section \<open>The global state\<close>

text \<open>\<^verbatim>\<open>sdk.Config\<close>, of an opaque type \<open>'c\<close>: its setters, \<open>Seal\<close>, and what can be read.\<close>

record 'c sdk_config =
  SetBech32PrefixForAccount :: "string \<Rightarrow> string \<Rightarrow> 'c \<Rightarrow> unit outcome \<times> 'c"
  SetBech32PrefixForValidator :: "string \<Rightarrow> string \<Rightarrow> 'c \<Rightarrow> unit outcome \<times> 'c"
  SetBech32PrefixForConsensusNode :: "string \<Rightarrow> string \<Rightarrow> 'c \<Rightarrow> unit outcome \<times> 'c"
  SetCoinType :: "nat \<Rightarrow> 'c \<Rightarrow> unit outcome \<times> 'c"
  SetPurpose :: "nat \<Rightarrow> 'c \<Rightarrow> unit outcome \<times> 'c"
  Seal :: "'c \<Rightarrow> 'c"
  Purpose :: nat
  ConfigPrefixes :: "'c \<Rightarrow> bech32_config"
  ConfigCoinType :: "'c \<Rightarrow> nat"
  ConfigPurpose :: "'c \<Rightarrow> nat"
  Sealed :: "'c \<Rightarrow> bool"

record 'c globals =
  SdkConfig :: 'c
  DefaultPowerReduction :: int
  SdkBondDenom :: string
  EnvPrefix :: string
  DefaultNodeHome :: string

definition AppName :: string where "AppName = ''mono''"
definition CoinType :: nat where "CoinType = 60"
definition MaxIBCCallbackGas :: "64 word" where "MaxIBCCallbackGas = 1000000"

text \<open>\<open>init\<close> of package \<open>app\<close>: \<open>AttoPowerReduction\<close> is \<open>10 ^ 18\<close>, a constant of the EVM module.\<close>

definition app_init :: "int \<Rightarrow> (string \<Rightarrow> string outcome) \<Rightarrow> 'c globals \<Rightarrow> unit outcome \<times> 'c globals" where
  "app_init AttoPowerReduction GetNodeHomeDirectory =
     bindM (pureM (\<lambda>g. g\<lparr>DefaultPowerReduction := AttoPowerReduction\<rparr>)) (\<lambda>_.
     bindM (pureM (\<lambda>g. g\<lparr>SdkBondDenom := DefaultBondDenom\<rparr>)) (\<lambda>_.
     bindM (pureM (\<lambda>g. g\<lparr>EnvPrefix := AppName\<rparr>)) (\<lambda>_.
     bindM (liftM (mustO (GetNodeHomeDirectory (''.'' @ AppName)))) (\<lambda>home.
     pureM (\<lambda>g. g\<lparr>DefaultNodeHome := home\<rparr>)))))"

definition set_bech32_prefixes :: "'c sdk_config \<Rightarrow> 'c \<Rightarrow> unit outcome \<times> 'c" where
  "set_bech32_prefixes C =
     bindM (SetBech32PrefixForAccount C (AccAddr SetBech32Prefixes) (AccPub SetBech32Prefixes)) (\<lambda>_.
     bindM (SetBech32PrefixForValidator C (ValAddr SetBech32Prefixes) (ValPub SetBech32Prefixes)) (\<lambda>_.
     SetBech32PrefixForConsensusNode C (ConsAddr SetBech32Prefixes) (ConsPub SetBech32Prefixes)))"

definition SetBip44CoinType :: "'c sdk_config \<Rightarrow> 'c \<Rightarrow> unit outcome \<times> 'c" where
  "SetBip44CoinType C = bindM (SetCoinType C CoinType) (\<lambda>_. SetPurpose C (Purpose C))"

abbreviation on_config :: "('c \<Rightarrow> 'r outcome \<times> 'c) \<Rightarrow> 'c globals \<Rightarrow> 'r outcome \<times> 'c globals" where
  "on_config \<equiv> onM SdkConfig (\<lambda>c g. g\<lparr>SdkConfig := c\<rparr>)"

definition setupSDKConfig :: "'c sdk_config \<Rightarrow> 'c globals \<Rightarrow> unit outcome \<times> 'c globals" where
  "setupSDKConfig C =
     on_config (bindM (set_bech32_prefixes C) (\<lambda>_. bindM (SetBip44CoinType C) (\<lambda>_. pureM (Seal C))))"

section \<open>Trees of commands\<close>

text \<open>
  A command declared here, with its name, aliases, the flags it adds and its children, or one a library
  constructs from the arguments it is given, possibly with more flags. What a library adds to the root by
  itself is an entry as well.
\<close>

datatype command =
    Command (word: string) (aliases: "string list") (flags: "string list") (children: "command list")
  | LibraryCommand string "string list"
  | WithFlags command "string list"

fun AddCommand :: "command list \<Rightarrow> command \<Rightarrow> command" where
  "AddCommand cs (Command w as fs ds) = Command w as fs (ds @ cs)"
| "AddCommand cs (LibraryCommand f xs) = LibraryCommand f xs"
| "AddCommand cs (WithFlags c fs) = WithFlags (AddCommand cs c) fs"

definition queryCommand :: command where
  "queryCommand =
     AddCommand
       [LibraryCommand ''rpc.WaitTxCmd'' [], LibraryCommand ''rpc.ValidatorCommand'' [],
        LibraryCommand ''server.QueryBlockCmd'' [], LibraryCommand ''authcmd.QueryTxsByEventsCmd'' [],
        LibraryCommand ''server.QueryBlocksCmd'' [], LibraryCommand ''authcmd.QueryTxCmd'' [],
        LibraryCommand ''server.QueryBlockResultsCmd'' []]
       (Command ''query'' [''q''] [] [])"

definition txCommand :: command where
  "txCommand =
     AddCommand
       [LibraryCommand ''authcmd.GetSignCommand'' [], LibraryCommand ''authcmd.GetSignBatchCommand'' [],
        LibraryCommand ''authcmd.GetMultiSignCommand'' [], LibraryCommand ''authcmd.GetMultiSignBatchCmd'' [],
        LibraryCommand ''authcmd.GetValidateSignaturesCommand'' [], LibraryCommand ''flags.LineBreak'' [],
        LibraryCommand ''authcmd.GetBroadcastCommand'' [], LibraryCommand ''authcmd.GetEncodeCommand'' [],
        LibraryCommand ''authcmd.GetDecodeCommand'' [], LibraryCommand ''authcmd.GetSimulateCmd'' []]
       (Command ''tx'' [] [] [])"

text \<open>\<open>init\<close> and \<open>in-place-testnet\<close> are commands of the library with one more flag.\<close>

definition monoInitCmd :: command where
  "monoInitCmd = WithFlags (LibraryCommand ''genutilcli.InitCmd'' [''basicManager'', ''app.DefaultNodeHome'']) [''network-id'']"

definition NewInPlaceTestnetCmd :: command where
  "NewInPlaceTestnetCmd = WithFlags (LibraryCommand ''server.InPlaceTestnetCreator'' [''newTestnetApp'']) [''accounts-to-fund'']"

definition NewTestnetMultiNodeCmd :: command where
  "NewTestnetMultiNodeCmd =
     Command ''multi-node'' []
       [''v'', ''output-dir'', ''chain-id'', ''minimum-gas-prices'', ''key-type'', ''list-ports'', ''node-dir-prefix'',
        ''validators-stake-amount'', ''starting-ip-address'', ''keyring-backend''] []"

text \<open>\<open>AddTxFlags\<close> adds the flags of EVM transactions to the root; its error is a panic.\<close>

definition initRootCmd :: "(command \<Rightarrow> command outcome) \<Rightarrow> command \<Rightarrow> command outcome" where
  "initRootCmd AddTxFlags rootCmd =
     mustO (AddTxFlags
       (AddCommand
          [LibraryCommand ''server.StatusCommand'' [],
           LibraryCommand ''genutilcli.Commands'' [''txConfig'', ''basicManager'', ''app.DefaultNodeHome''],
           queryCommand, txCommand]
       (AddCommand [LibraryCommand ''cosmosevmcmd.KeyCommands'' [''app.DefaultNodeHome'', ''true'']]
       (AddCommand [LibraryCommand ''cosmosevmserver.AddCommands'' [''newApp'', ''app.DefaultNodeHome'', ''appExport'', ''addModuleInitFlags'']]
       (AddCommand
          [monoInitCmd, NewInPlaceTestnetCmd, NewTestnetMultiNodeCmd, LibraryCommand ''confixcmd.ConfigCommand'' [],
           LibraryCommand ''pruning.Cmd'' [''sdkNewApp'', ''app.DefaultNodeHome''],
           LibraryCommand ''snapshot.Cmd'' [''sdkNewApp'']]
        rootCmd)))))"

section \<open>The root command\<close>

text \<open>
  What the constructor uses: \<open>app.New\<close> on an empty database, the client context over that application, the
  client configuration file, the options of AutoCLI and the commands AutoCLI adds.
\<close>

record ('g, 'a, 'x, 'o) root_lib =
  NewTempApp :: "'g \<Rightarrow> 'a outcome \<times> 'g"
  InitClientContext :: "'g \<Rightarrow> 'a \<Rightarrow> string \<Rightarrow> 'x"
  ReadFromClientConfig :: "'x \<Rightarrow> 'x \<times> error option"
  AutoCliOptsOf :: "'a \<Rightarrow> 'x \<Rightarrow> 'o"
  EnhanceRootCommand :: "'o \<Rightarrow> command \<Rightarrow> command outcome"
  AddTxFlags :: "command \<Rightarrow> command outcome"

text \<open>The error of reading the client configuration is dropped. The result is the command and its client context.\<close>

definition NewRootCmd :: "('g, 'a, 'x, 'o) root_lib \<Rightarrow> 'g \<Rightarrow> (command \<times> 'x) outcome \<times> 'g" where
  "NewRootCmd R =
     bindM (mustM (NewTempApp R)) (\<lambda>tempApp.
     bindM (getM (\<lambda>g. fst (ReadFromClientConfig R (InitClientContext R g tempApp AppName)))) (\<lambda>initClientCtx.
     bindM (liftM (initRootCmd (AddTxFlags R) (Command (AppName @ ''d'') [] [] []))) (\<lambda>rootCmd.
     bindM (liftM (mustO (EnhanceRootCommand R (AutoCliOptsOf R tempApp initClientCtx) rootCmd))) (\<lambda>rootCmd.
     retM (rootCmd, initClientCtx)))))"

text \<open>\<open>initCometBFTConfig\<close> leaves the default configuration as it is.\<close>

definition initCometBFTConfig :: "'k \<Rightarrow> 'k" where
  "initCometBFTConfig DefaultConfig = DefaultConfig"

definition addModuleInitFlags :: "command \<Rightarrow> command" where
  "addModuleInitFlags startCmd = startCmd"

section \<open>\<open>main\<close>\<close>

text \<open>How the process ends: by itself, with an exit code after printing an error, or by a panic.\<close>

datatype process_end = Finished | Exits nat error | Crashed

definition main ::
  "'c sdk_config \<Rightarrow> ('c globals, 'a, 'x, 'o) root_lib
     \<Rightarrow> (command \<times> 'x \<Rightarrow> string \<Rightarrow> string \<Rightarrow> 'c globals \<Rightarrow> unit outcome \<times> 'c globals)
     \<Rightarrow> 'c globals \<Rightarrow> process_end \<times> 'c globals" where
  "main C R Execute g =
     (case bindM (setupSDKConfig C) (\<lambda>_.
           bindM (NewRootCmd R) (\<lambda>rootCmd.
           bindM (getM (\<lambda>g. (EnvPrefix g, DefaultNodeHome g))) (\<lambda>(prefix, home).
           Execute rootCmd prefix home))) g of
        (Ok _, g) \<Rightarrow> (Finished, g)
      | (Err e, g) \<Rightarrow> (Exits 1 e, g)
      | (Panic, g) \<Rightarrow> (Crashed, g))"

end
