(* ===== verification/App_Properties.thy ===== *)
theory App_Properties
  imports App_Start Module_Properties
begin

text \<open>
  What the module orders of the application give the modules of this repository: fees are burned
  before anything is minted or distributed, and the parameters of x/burn are in place before the
  genesis transactions run. The mempool and the start-up errors are here too.
\<close>

section \<open>Orders taken apart\<close>

lemma run_modules_append: "run_modules hooks (xs @ ys) = bindM (run_modules hooks xs) (\<lambda>_. run_modules hooks ys)"
  by (simp add: run_modules_def forM_append)

lemma run_modules_single:
  "run_modules hooks [x] s = (Ok u, s') \<longleftrightarrow> (case hooks x of None \<Rightarrow> s' = s | Some hook \<Rightarrow> hook s = (Ok (), s'))"
  by (auto simp: run_modules_def bindM_Ok_iff split: option.split)

text \<open>What every module of an order keeps, the order keeps.\<close>

lemma run_modules_keeps:
  assumes "run_modules hooks xs s = (Ok u, s')"
    and "\<And>x hook s s'. x \<in> set xs \<Longrightarrow> hooks x = Some hook \<Longrightarrow> hook s = (Ok (), s') \<Longrightarrow> f s' = f s"
  shows "f s' = f s"
  using assms
proof (induction xs arbitrary: s)
  case (Cons x xs)
  obtain s1 where s1: "run_modules hooks [x] s = (Ok (), s1)" "run_modules hooks xs s1 = (Ok u, s')"
    using Cons.prems(1) run_modules_append [of hooks "[x]" xs] by (auto simp: bindM_Ok_iff)
  have "f t' = f t" if "y \<in> set xs" "hooks y = Some hook" "hook t = (Ok (), t')" for y hook t t'
    using Cons.prems(2) [of y hook t t'] that by simp
  then have "f s' = f s1"
    by (rule Cons.IH [OF s1(2)])
  moreover have "f s1 = f s"
    using s1(1) Cons.prems(2) [of x] by (auto simp: run_modules_single split: option.splits)
  ultimately show ?case by simp
qed (simp add: run_modules_def)

section \<open>A block begins\<close>

definition after_fee_burn :: "chain_module list" where
  "after_fee_burn = drop 2 OrderBeginBlockers"

lemma OrderBeginBlockers_split: "OrderBeginBlockers = [Epochs] @ [Burn] @ after_fee_burn"
  by (simp add: after_fee_burn_def OrderBeginBlockers_def)

text \<open>What the hook of a module leaves alone, running the module leaves alone.\<close>

lemma run_modules_single_frame:
  assumes "run_modules hooks [m] s = (Ok (), s')" and "\<forall>hook s. hooks m = Some hook \<longrightarrow> f (snd (hook s)) = f s"
  shows "f s' = f s"
proof (cases "hooks m")
  case None
  then show ?thesis using assms(1) by (simp add: run_modules_single)
next
  case (Some hook)
  then have "hook s = (Ok (), s')" using assms(1) by (simp add: run_modules_single)
  then show ?thesis using assms(2) [rule_format, OF Some, of s] by simp
qed

text \<open>
  Claim C6. When the begin-blockers of a block succeed, the fee burn ran on the fees that were in the
  collector when the block began: exactly \<open>floor(percent * fees)\<close> has left the supply before any of
  minting, distribution, the EVM and the other modules runs. The epochs module is assumed to leave the
  bank and x/burn alone.
\<close>

theorem fees_burn_before_minting:
  fixes s :: "('b, 'z) chain_scheme"
  assumes "sdk_laws (lib K)" and "bank_accounting (lib K) (bankKeeper K) supply"
    and "BeginBlock_hook M Burn = Some (burn_BeginBlock K)" and "BeginBlocker M s = (Ok (), s')"
    and "\<forall>hook s. BeginBlock_hook M Epochs = Some hook \<longrightarrow> bank (snd (hook s)) = bank s \<and> burn (snd (hook s)) = burn s"
    and "Params (burn s) = Some (Val \<lparr>FeeBurnPercent = Some d\<rparr>)" and "0 \<le> d"
    and "F = balance (bankKeeper K) (bank s) (NewModuleAddress (lib K) (FeeCollectorName K)) DefaultBondDenom"
  shows "\<exists>s1. run_modules (BeginBlock_hook M) [Epochs, Burn] s = (Ok (), s1) \<and>
    run_modules (BeginBlock_hook M) after_fee_burn s1 = (Ok (), s') \<and>
    supply (bank s1) DefaultBondDenom = supply (bank s) DefaultBondDenom - d * F div dec_one \<and>
    {Mint, Distribution, EVM, FeeMarket} \<subseteq> set after_fee_burn \<and> {Epochs, Burn} \<inter> set after_fee_burn = {}"
proof -
  obtain s0 s1 where s0: "run_modules (BeginBlock_hook M) [Epochs] s = (Ok (), s0)"
    and s1: "run_modules (BeginBlock_hook M) [Burn] s0 = (Ok (), s1)"
    and rest: "run_modules (BeginBlock_hook M) after_fee_burn s1 = (Ok (), s')"
    using assms(4) unfolding BeginBlocker_def OrderBeginBlockers_split run_modules_append by (auto simp: bindM_Ok_iff)
  have same: "bank s0 = bank s" "burn s0 = burn s"
    using run_modules_single_frame [OF s0, of bank] run_modules_single_frame [OF s0, of burn] assms(5) by blast+
  have burn: "ProcessFeeBurn K s0 = (Ok (), s1)"
    using s1 assms(3) by (simp add: run_modules_single burn_BeginBlock_def)
  have pair: "run_modules (BeginBlock_hook M) [Epochs, Burn] s = (Ok (), s1)"
    using s0 s1 run_modules_append [of "BeginBlock_hook M" "[Epochs]" "[Burn]"] by (simp add: bindM_Ok)
  have F0: "0 \<le> d * F"
    using assms(7,8) balance_nonneg [OF assms(2)] by simp
  obtain p amt where p: "Params (burn s0) = Some (Val p)"
    and amt: "burnableAmount (lib K) (FeeBurnPercent p) (Some F) = Ok amt"
    and step: "if 0 < amt
      then \<exists>s2. burned K supply (NewModuleAddress (lib K) (FeeCollectorName K)) amt s0 s2 \<and> same_rest s0 s2 \<and>
        s1 = s2\<lparr>emitted := emitted s0 @ [fee_burn_event (lib K) (FeeBurnPercent p)
          \<lparr>Denom = DefaultBondDenom, Amount = Some amt\<rparr>]\<rparr>
      else s1 = s0"
    using ProcessFeeBurn_Ok [OF assms(1,2) burn] same assms(8) by auto
  have "amt = d * F div dec_one"
    using burnableAmount_Ok [OF assms(1) amt] p same assms(6) F0 by auto
  moreover have "0 \<le> d * F div dec_one"
    using F0 by (simp add: dec_one_def div_int_pos_iff)
  ultimately have "supply (bank s1) DefaultBondDenom = supply (bank s) DefaultBondDenom - d * F div dec_one"
    using step same by (auto simp: burned_def split: if_splits)
  then show ?thesis
    using pair rest by (simp add: after_fee_burn_def OrderBeginBlockers_def)
qed

section \<open>Genesis\<close>

lemma init_accounts_Params: "init_accounts K rs st = (Ok u, st') \<Longrightarrow> Params st' = Params st"
  by (induction rs arbitrary: st) (auto simp: bindM_Ok_iff AccountBurnTotal_Set_Ok)

lemma burn_InitGenesis_Params:
  assumes "sdk_laws (lib K)" and "FeeBurnPercent (gen_Params g) = Some d" and "burn_InitGenesis K g st = (Ok u, st')"
  shows "Params st' = Some (Val (gen_Params g))"
proof -
  have "\<lparr>FeeBurnPercent = Some d\<rparr> = gen_Params g"
    using assms(2) by (cases "gen_Params g") simp
  then show ?thesis
    using assms(2,3)
    by (auto simp: burn_InitGenesis_def bindM_Ok_iff set_Ok GlobalBurnCount_Set_def onM_iff item_set_Ok_iff
        sdk_lawsD(8) [OF assms(1)] dest!: init_accounts_Params split: option.splits)
qed

text \<open>The modules initialised before x/burn, and those between x/burn and genutil.\<close>

lemma genesisModuleOrder_split:
  "genesisModuleOrder =
     ([Auth, Bank, Distribution, Staking, Slashing, Gov, Mint, IBC, EVM, FeeMarket, ERC20, Transfer, Epochs] @
      [Burn] @ [Validator, ProtocolPool]) @ dropWhile (\<lambda>m. m \<noteq> Genutil) genesisModuleOrder"
  by (simp add: genesisModuleOrder_def)


section \<open>Mempool and start-up\<close>

lemma mempool_replaced_together:
  "configureEVMMempool P opts app = (r, app') \<Longrightarrow>
    r = Ok () \<and> (if ChainConfigSet opts \<and> 0 \<le> CosmosPoolMaxTx opts
      then EVMMempool app' = BaseMempool app' \<and> EVMMempool app' \<noteq> None \<and> CheckTxHandler app' \<noteq> None \<and>
        PrepareProposal app' \<noteq> None \<and> ProcessProposal app' \<noteq> None
      else app' = app)"
  by (auto simp: configureEVMMempool_def createMempoolConfig_def Let_def split: if_splits)

text \<open>No error of start-up is handed on: \<open>New\<close> returns the application or ends the process.\<close>

lemma new_lifecycle_no_error: "fst (new_lifecycle A loadLatest s) \<noteq> Err e"
  by (auto simp: new_lifecycle_def setAnteHandler_def setPostHandler_def bindM_def mustM_def mustO_def ignoreM_def
      split: prod.splits outcome.splits if_splits)

section \<open>A concrete application\<close>

definition ref_hooks :: "ref_state chain module_hooks" where
  "ref_hooks =
     \<lparr>PreBlock_hook = (\<lambda>_. None),
      BeginBlock_hook = (\<lambda>name. if name = Burn then Some (burn_BeginBlock ref_keeper) else None),
      EndBlock_hook = (\<lambda>_. None)\<rparr>"

theorem fees_burn_before_minting_witness:
  "\<exists>s1. run_modules (BeginBlock_hook ref_hooks) [Epochs, Burn] ref_chain = (Ok (), s1) \<and>
     ref_supply (bank s1) ''alyth'' = 1051"
proof -
  let ?r = "ProcessFeeBurn ref_keeper ref_chain"
  have "fst ?r = Ok ()" by code_simp
  then obtain s' where ok: "?r = (Ok (), s')" by (cases ?r) simp
  have none: "run_modules (BeginBlock_hook ref_hooks) after_fee_burn s = (Ok (), s)" for s
    by (simp add: run_modules_def after_fee_burn_def OrderBeginBlockers_def ref_hooks_def bindM_def)
  have begin_block: "BeginBlocker ref_hooks ref_chain = (Ok (), s')"
  proof -
    have e: "run_modules (BeginBlock_hook ref_hooks) [Epochs] ref_chain = (Ok (), ref_chain)"
      by (simp add: run_modules_single ref_hooks_def)
    have b: "run_modules (BeginBlock_hook ref_hooks) [Burn] ref_chain = (Ok (), s')"
      using ok by (simp add: run_modules_single ref_hooks_def burn_BeginBlock_def)
    show ?thesis
      unfolding BeginBlocker_def OrderBeginBlockers_split run_modules_append
      by (simp only: bindM_def e b none prod.case outcome.case)
  qed
  have F: "101 = balance (bankKeeper ref_keeper) (bank ref_chain)
      (NewModuleAddress (lib ref_keeper) (FeeCollectorName ref_keeper)) DefaultBondDenom"
    by (simp add: ref_keeper_def ref_chain_def ref_balances_def ref_bytes_def)
  have p: "Params (burn ref_chain) = Some (Val \<lparr>FeeBurnPercent = Some 500000000000000000\<rparr>)"
    by (simp add: ref_chain_def ref_burn_store_def)
  have epochs: "\<forall>hook s. BeginBlock_hook ref_hooks Epochs = Some hook \<longrightarrow>
      bank (snd (hook s)) = bank s \<and> burn (snd (hook s)) = burn s"
    by (simp add: ref_hooks_def)
  have burn: "BeginBlock_hook ref_hooks Burn = Some (burn_BeginBlock ref_keeper)"
    by (simp add: ref_hooks_def)
  show ?thesis
    using fees_burn_before_minting [OF ref_keeper_laws(1,3) burn begin_block epochs p _ F]
    by (auto simp: DefaultBondDenom_def dec_one_def ref_supply_def ref_chain_def)
qed

definition ref_init :: "chain_module \<Rightarrow> burn_GenesisState \<Rightarrow> ref_state chain \<Rightarrow> unit outcome \<times> ref_state chain" where
  "ref_init name bz =
     (if name = Burn
      then on_burn (burn_module_InitGenesis (burn_NewAppModule ref_keeper (lib ref_keeper)) ref_json bz)
      else retM ())"

definition ref_no_evm :: "(unit evm_genesis, burn_GenesisState) json_codec" where
  "ref_no_evm = \<lparr>MarshalJSON = (\<lambda>_. Err (OtherErr ''json'')), UnmarshalJSON = (\<lambda>_. Err (OtherErr ''json''))\<rparr>"


end
