(* ===== verification/Wiring_Properties.thy ===== *)
theory Wiring_Properties
  imports App_Wiring App_Properties
begin

text \<open>
  What the construction of the keepers guarantees. A static analysis in the style of definite
  initialisation (\<open>well_wired\<close>: every variable is set before it is read; \<open>settled\<close>: what is copied is
  not changed afterwards) is proved sound for the semantics once, and evaluated on the steps of \<open>New\<close>.
\<close>

section \<open>The analysis\<close>

fun arg_vars :: "wiring_arg \<Rightarrow> wvar list" where
  "arg_vars (Use v) = [v]"
| "arg_vars (Deref v) = [v]"
| "arg_vars (Part v p) = [v]"
| "arg_vars _ = []"

fun step_args :: "wiring_step \<Rightarrow> wiring_arg list" where
  "step_args (Make v f es) = es"
| "step_args (Update v f es) = es"
| "step_args (Copy v w) = [Deref w]"
| "step_args (Call f es) = es"

fun step_callee :: "wiring_step \<Rightarrow> string" where
  "step_callee (Make v f es) = f"
| "step_callee (Update v f es) = f"
| "step_callee (Copy v w) = ''=''"
| "step_callee (Call f es) = f"

fun step_target :: "wiring_step \<Rightarrow> wvar list" where
  "step_target (Make v f es) = [v]"
| "step_target (Update v f es) = [v]"
| "step_target (Copy v w) = [v]"
| "step_target (Call f es) = []"

text \<open>A method needs its receiver.\<close>

fun step_vars :: "wiring_step \<Rightarrow> wvar list" where
  "step_vars (Update v f es) = v # concat (map arg_vars es)"
| "step_vars st = concat (map arg_vars (step_args st))"

fun well_wired :: "wvar list \<Rightarrow> wiring_step list \<Rightarrow> bool" where
  "well_wired A [] = True"
| "well_wired A (st # p) = (list_all (\<lambda>v. v \<in> set A) (step_vars st) \<and> well_wired (step_target st @ A) p)"

text \<open>The variable an argument copies the content of, as a struct.\<close>

fun copied :: "wiring_arg \<Rightarrow> wvar option" where
  "copied (Use v) = (if pointer_var v then None else Some v)"
| "copied (Deref v) = Some v"
| "copied _ = None"

definition copies :: "wvar \<Rightarrow> wiring_arg list \<Rightarrow> bool" where
  "copies v es \<longleftrightarrow> list_ex (\<lambda>e. copied e = Some v) es"

definition targets :: "wiring_step list \<Rightarrow> wvar list" where
  "targets p = concat (map step_target p)"

fun settled :: "wvar \<Rightarrow> wiring_step list \<Rightarrow> bool" where
  "settled v [] = True"
| "settled v (st # p) = (if copies v (step_args st) then v \<notin> set (targets (st # p)) else settled v p)"

lemma settled_untouched: "v \<notin> set (targets p) \<Longrightarrow> settled v p"
  by (induction p) (auto simp: targets_def)

lemma settled_Cons: "settled v (st # p) \<Longrightarrow> settled v p"
  by (auto simp: targets_def intro!: settled_untouched split: if_splits)

section \<open>Soundness\<close>

text \<open>Libraries whose constructors, setters and calls return.\<close>

definition wiring_total :: "'k wiring_lib \<Rightarrow> bool" where
  "wiring_total W \<longleftrightarrow>
     (\<forall>f as. \<exists>k. Construct W f as = Ok k) \<and> (\<forall>f m as. \<exists>k. Method W f m as = Ok k) \<and>
     (\<forall>f as. Perform W f as = Ok ())"

definition all_set :: "(wvar \<Rightarrow> 'k option) \<Rightarrow> wvar list \<Rightarrow> bool" where
  "all_set m A \<longleftrightarrow> (\<forall>v \<in> set A. m v \<noteq> None)"

lemma all_setD: "all_set m A \<Longrightarrow> v \<in> set A \<Longrightarrow> \<exists>k. m v = Some k"
  by (auto simp: all_set_def)

text \<open>What the call records of an argument: never a zero value, and of a copy the content at that moment.\<close>

definition passed :: "(wvar \<Rightarrow> 'k option) \<Rightarrow> wiring_arg \<times> 'k actual \<Rightarrow> bool" where
  "passed m ea \<longleftrightarrow> snd ea \<noteq> ZeroValue \<and> (\<forall>v. copied (fst ea) = Some v \<longrightarrow> snd ea = Given (the (m v)))"

lemma eval_arg_set:
  "all_set m (arg_vars e) \<Longrightarrow> \<exists>a. eval_arg W m e = Ok a \<and> passed m (e, a)"
  by (cases e) (auto simp: passed_def all_set_def)

lemma eval_args_set:
  "all_set m (concat (map arg_vars es)) \<Longrightarrow>
    \<exists>as. eval_args W m es = Ok as \<and> length as = length es \<and> list_all (passed m) (zip es as)"
proof (induction es)
  case (Cons e es)
  then have "all_set m (arg_vars e)" "all_set m (concat (map arg_vars es))"
    by (auto simp: all_set_def)
  then show ?case
    using eval_arg_set [of m e W] Cons.IH by fastforce
qed simp

text \<open>One step runs, sets its target, touches nothing else, and records its call.\<close>

lemma do_step_set:
  assumes "wiring_total W" and "all_set (slot s) (step_vars st)"
  shows "\<exists>s' as. do_step W st s = (Ok (), s') \<and>
    all_set (slot s') (step_target st) \<and> (\<forall>v. v \<notin> set (step_target st) \<longrightarrow> slot s' v = slot s v) \<and>
    (\<forall>v. slot s v \<noteq> None \<longrightarrow> slot s' v \<noteq> None) \<and>
    length as = length (step_args st) \<and> list_all (passed (slot s)) (zip (step_args st) as) \<and>
    calls s' = calls s @ [\<lparr>callee = step_callee st, arguments = zip (step_args st) as\<rparr>]"
proof -
  have "all_set (slot s) (concat (map arg_vars (step_args st)))"
    using assms(2) by (cases st) (auto simp: all_set_def)
  then obtain as where as: "eval_args W (slot s) (step_args st) = Ok as" "length as = length (step_args st)"
    "list_all (passed (slot s)) (zip (step_args st) as)"
    using eval_args_set [of "slot s" "step_args st" W] by blast
  let ?c = "\<lparr>callee = step_callee st, arguments = zip (step_args st) as\<rparr>"
  have pass: "pass_args W (step_callee st) (step_args st) s = (Ok as, s\<lparr>calls := calls s @ [?c]\<rparr>)"
    by (simp add: pass_args_def bindM_def as(1))
  obtain k where k: "Construct W (step_callee st) as = Ok k"
    using assms(1) unfolding wiring_total_def by blast
  obtain k' where k': "Method W (step_callee st) (slot s (hd (step_target st))) as = Ok k'"
    using assms(1) unfolding wiring_total_def by blast
  have do: "Perform W (step_callee st) as = Ok ()"
    using assms(1) unfolding wiring_total_def by blast
  show ?thesis
  proof (cases st)
    case (Make v f es)
    then show ?thesis
      using pass k as by (auto simp: bindM_def assign_def all_set_def)
  next
    case (Update v f es)
    then have "slot s v \<noteq> None" using assms(2) by (simp add: all_set_def)
    then show ?thesis
      using Update pass k' as by (auto simp: bindM_def assign_def all_set_def)
  next
    case (Copy v w)
    then obtain x where "slot s w = Some x" using assms(2) by (auto simp: all_set_def)
    then show ?thesis
      using Copy pass as by (auto simp: bindM_def assign_def all_set_def)
  next
    case (Call f es)
    then show ?thesis
      using pass do as by (auto simp: bindM_def all_set_def)
  qed
qed

text \<open>The calls a program makes, as far as the program determines them.\<close>

definition step_call :: "wiring_step \<Rightarrow> string \<times> wiring_arg list" where
  "step_call st = (step_callee st, step_args st)"

definition call_shape :: "'k wcall \<Rightarrow> string \<times> wiring_arg list" where
  "call_shape c = (callee c, map fst (arguments c))"

definition sound_call :: "(wvar \<Rightarrow> 'k option) \<Rightarrow> wvar list \<Rightarrow> 'k wcall \<Rightarrow> bool" where
  "sound_call m vs c \<longleftrightarrow>
     (\<forall>(e, a) \<in> set (arguments c). a \<noteq> ZeroValue \<and> (\<forall>v \<in> set vs. copied e = Some v \<longrightarrow> a = Given (the (m v))))"

lemma sound_call_cong:
  assumes "\<And>v. v \<in> set vs \<Longrightarrow> copies v (map fst (arguments c)) \<Longrightarrow> m v = m' v"
  shows "sound_call m vs c \<longleftrightarrow> sound_call m' vs c"
proof -
  have "m v = m' v" if "(e, a) \<in> set (arguments c)" "v \<in> set vs" "copied e = Some v" for e a v
    using that by (intro assms) (auto simp: copies_def list_ex_iff intro!: bexI [of _ "(e, a)"])
  then show ?thesis
    unfolding sound_call_def by (intro ball_cong refl) auto
qed

lemma run_wiring_sound:
  assumes "wiring_total W"
  shows "well_wired A p \<Longrightarrow> all_set (slot s) A \<Longrightarrow> \<forall>v \<in> set vs. settled v p \<Longrightarrow>
    \<exists>s' cs. run_wiring W p s = (Ok (), s') \<and> all_set (slot s') (targets p @ A) \<and>
      (\<forall>v. v \<notin> set (targets p) \<longrightarrow> slot s' v = slot s v) \<and>
      calls s' = calls s @ cs \<and> map call_shape cs = map step_call p \<and> list_all (sound_call (slot s') vs) cs"
proof (induction p arbitrary: A s)
  case Nil
  then show ?case by (simp add: run_wiring_def targets_def)
next
  case (Cons st p)
  have "all_set (slot s) (step_vars st)"
    using Cons.prems(1,2) by (auto simp: all_set_def list_all_iff)
  then obtain s1 as where s1: "do_step W st s = (Ok (), s1)" "all_set (slot s1) (step_target st)"
      "\<forall>v. v \<notin> set (step_target st) \<longrightarrow> slot s1 v = slot s v" "\<forall>v. slot s v \<noteq> None \<longrightarrow> slot s1 v \<noteq> None"
      "length as = length (step_args st)" "list_all (passed (slot s)) (zip (step_args st) as)"
      "calls s1 = calls s @ [\<lparr>callee = step_callee st, arguments = zip (step_args st) as\<rparr>]"
    using do_step_set [OF assms] by blast
  have "all_set (slot s1) (step_target st @ A)"
    using s1(2,4) Cons.prems(2) by (auto simp: all_set_def)
  then obtain s' cs where s': "run_wiring W p s1 = (Ok (), s')" "all_set (slot s') (targets p @ step_target st @ A)"
      "\<forall>v. v \<notin> set (targets p) \<longrightarrow> slot s' v = slot s1 v" "calls s' = calls s1 @ cs"
      "map call_shape cs = map step_call p" "list_all (sound_call (slot s') vs) cs"
    using Cons.IH [of "step_target st @ A" s1] Cons.prems(1,3) settled_Cons by (metis well_wired.simps(2))
  let ?c = "\<lparr>callee = step_callee st, arguments = zip (step_args st) as\<rparr> :: 'a wcall"
  have shape: "map fst (arguments ?c) = step_args st" using s1(5) by simp
  have same: "slot s v = slot s' v" if "v \<in> set vs" "copies v (step_args st)" for v
    using that Cons.prems(3) s1(3) s'(3) by (fastforce simp: targets_def)
  have "sound_call (slot s) vs ?c"
    using s1(6) by (auto simp: sound_call_def passed_def list_all_iff)
  then have c: "sound_call (slot s') vs ?c"
    using sound_call_cong [of vs ?c "slot s" "slot s'"] same unfolding shape by blast
  show ?case
  proof (intro exI conjI)
    show "run_wiring W (st # p) s = (Ok (), s')"
      using s1(1) s'(1) by (simp add: run_wiring_def bindM_Ok)
    show "all_set (slot s') (targets (st # p) @ A)"
      using s'(2) by (auto simp: all_set_def targets_def)
    show "\<forall>v. v \<notin> set (targets (st # p)) \<longrightarrow> slot s' v = slot s v"
      using s1(3) s'(3) by (simp add: targets_def)
    show "calls s' = calls s @ ?c # cs" using s1(7) s'(4) by simp
    show "map call_shape (?c # cs) = map step_call (st # p)"
      using shape s'(5) by (simp add: call_shape_def step_call_def)
    show "list_all (sound_call (slot s') vs) (?c # cs)" using c s'(6) by simp
  qed
qed

section \<open>The steps of \<open>New\<close>\<close>

lemma new_keepers_well_wired: "well_wired [] new_keepers"
  by code_simp

lemma new_keepers_targets: "list_all (\<lambda>v. v \<in> set (targets new_keepers))
    (app_fields @ [StakingMsgServer, LocalGovKeeper, GovRouter, LocalEvidenceKeeper, Precompiles, RestrictedMsgServer,
      StakingPrecompile, TransferStack, TransferStackV2, IBCRouter, IBCRouterV2, TmLightClient, SmLightClient,
      TransferModule])"
  by code_simp

lemma all_wvars: "v \<in> set (app_fields @ [StakingMsgServer, LocalGovKeeper, GovRouter, LocalEvidenceKeeper, Precompiles,
    RestrictedMsgServer, StakingPrecompile, TransferStack, TransferStackV2, IBCRouter, IBCRouterV2, TmLightClient,
    SmLightClient, TransferModule])"
  by (cases v) (simp_all add: app_fields_def)

lemma new_keepers_settled: "list_all (\<lambda>v. settled v new_keepers) app_fields"
  by code_simp

text \<open>The modules of the manager, in the order of their constructors.\<close>

lemma module_constructors_modules: "map fst module_constructors = managed_modules"
  by (simp add: module_constructors_def managed_modules_def)

lemma run_new_keepers:
  assumes "wiring_total W"
  shows "\<exists>s. run_wiring W new_keepers wiring_start = (Ok (), s) \<and> (\<forall>v. slot s v \<noteq> None) \<and>
    map call_shape (calls s) = map step_call new_keepers \<and> list_all (sound_call (slot s) app_fields) (calls s)"
proof -
  have "all_set (slot wiring_start) []" by (simp add: all_set_def)
  moreover have "\<forall>v \<in> set app_fields. settled v new_keepers"
    using new_keepers_settled by (simp add: list_all_iff)
  ultimately obtain s cs where s: "run_wiring W new_keepers wiring_start = (Ok (), s)"
      "all_set (slot s) (targets new_keepers @ [])" "calls s = calls wiring_start @ cs"
      "map call_shape cs = map step_call new_keepers" "list_all (sound_call (slot s) app_fields) cs"
    using run_wiring_sound [OF assms new_keepers_well_wired, of wiring_start app_fields] by blast
  have "slot s v \<noteq> None" for v
    using s(2) new_keepers_targets all_wvars [of v] unfolding all_set_def list_all_iff by auto
  then show ?thesis
    using s by (simp add: wiring_start_def)
qed

text \<open>
  Claim C13. The keepers of the application are built in an order that works. When the constructors of
  the libraries return, \<open>New\<close> gets through all of them without touching a nil pointer; no constructor,
  setter or module is handed a keeper that does not exist yet; every field and variable is set in the
  end, so that the addresses taken early (of the ERC-20 and the transfer keeper) point to a keeper; and a
  keeper handed on by value is the finished one: nothing is set on it after it was copied (the hooks of
  x/staking and x/gov in particular are in place before the first copy).
\<close>

theorem keepers_wired:
  assumes "wiring_total W"
  shows "\<exists>s. run_wiring W new_keepers wiring_start = (Ok (), s) \<and> (\<forall>v. slot s v \<noteq> None) \<and>
    (\<forall>c \<in> set (calls s). \<forall>(e, a) \<in> set (arguments c).
       a \<noteq> ZeroValue \<and> (\<forall>v \<in> set app_fields. copied e = Some v \<longrightarrow> a = Given (the (slot s v))))"
  using run_new_keepers [OF assms] by (auto simp: list_all_iff sound_call_def)

section \<open>Who receives what\<close>

text \<open>The constructors and setters that are given a variable, a store.\<close>

definition receivers :: "(wiring_arg \<Rightarrow> bool) \<Rightarrow> 'k wiring \<Rightarrow> string list" where
  "receivers P s = map callee (filter (\<lambda>c. list_ex P (map fst (arguments c))) (calls s))"

definition shape_receivers :: "(wiring_arg \<Rightarrow> bool) \<Rightarrow> wiring_step list \<Rightarrow> string list" where
  "shape_receivers P p = map step_callee (filter (\<lambda>st. list_ex P (step_args st)) p)"

lemma receivers_shape:
  "map call_shape (calls s) = map step_call p \<Longrightarrow> receivers P s = shape_receivers P p"
proof -
  have "map call_shape cs = map step_call p \<Longrightarrow>
      map callee (filter (\<lambda>c. list_ex P (map fst (arguments c))) cs) =
      map step_callee (filter (\<lambda>st. list_ex P (step_args st)) p)" for cs :: "'k wcall list"
  proof (induction p arbitrary: cs)
    case (Cons st p)
    then show ?case by (cases cs) (auto simp: call_shape_def step_call_def)
  qed simp
  then show "map call_shape (calls s) = map step_call p \<Longrightarrow> receivers P s = shape_receivers P p"
    by (simp add: receivers_def shape_receivers_def)
qed

lemma new_receivers:
  assumes "wiring_total W" and "run_wiring W new_keepers wiring_start = (Ok (), s)"
  shows "receivers P s = shape_receivers P new_keepers"
proof -
  have "map call_shape (calls s) = map step_call new_keepers"
    using run_new_keepers [OF assms(1)] assms(2) by auto
  then show ?thesis by (rule receivers_shape)
qed

text \<open>The stores, constructor by constructor.\<close>

fun store_name :: "wiring_arg \<Rightarrow> chain_module option" where
  "store_name (Store m) = Some m"
| "store_name _ = None"

lemma store_name_Some [simp]: "store_name e = Some m \<longleftrightarrow> e = Store m"
  by (cases e) auto

lemma shape_receivers_store:
  "map (\<lambda>st. (step_callee st, List.map_filter store_name (step_args st))) p = tab \<Longrightarrow>
    shape_receivers (\<lambda>e. e = Store m) p = map fst (filter (\<lambda>(f, ms). m \<in> set ms) tab)"
proof (induction p arbitrary: tab)
  case (Cons st p)
  have "list_ex (\<lambda>e. e = Store m) es \<longleftrightarrow> m \<in> set (List.map_filter store_name es)" for es
    by (induction es) (auto simp: List.map_filter_simps split: option.splits)
  then show ?case
    using Cons by (auto simp: shape_receivers_def)
qed (simp add: shape_receivers_def)

lemma filter_stores:
  "filter (\<lambda>(f, ms). m \<in> set ms) tab = filter (\<lambda>(f, ms). m \<in> set ms) (filter (\<lambda>(f, ms). ms \<noteq> []) tab)"
  by (induction tab) auto

lemma new_stores_table:
  "filter (\<lambda>(f, ms). ms \<noteq> []) (map (\<lambda>st. (step_callee st, List.map_filter store_name (step_args st))) new_keepers) =
     [(''consensusparamkeeper.NewKeeper'', [Consensus]), (''authkeeper.NewAccountKeeper'', [Auth]),
      (''bankkeeper.NewBaseKeeper'', [Bank]), (''stakingkeeper.NewKeeper'', [Staking]),
      (''mintkeeper.NewKeeper'', [Mint]), (''protocolpoolkeeper.NewKeeper'', [ProtocolPool]),
      (''distrkeeper.NewKeeper'', [Distribution]), (''slashingkeeper.NewKeeper'', [Slashing]),
      (''feegrantkeeper.NewKeeper'', [Feegrant]), (''epochskeeper.NewKeeper'', [Epochs]),
      (''burnmodulekeeper.NewKeeper'', [Burn]), (''validatormodulekeeper.NewKeeper'', [Validator]),
      (''authzkeeper.NewKeeper'', [Authz]), (''upgradekeeper.NewKeeper'', [Upgrade]),
      (''ibckeeper.NewKeeper'', [IBC]), (''govkeeper.NewKeeper'', [Gov]), (''evidencekeeper.NewKeeper'', [Evidence]),
      (''feemarketkeeper.NewKeeper'', [FeeMarket]), (''evmkeeper.NewKeeper'', [EVM]),
      (''erc20keeper.NewKeeper'', [ERC20]), (''transferkeeper.NewKeeper'', [Transfer])]"
  by code_simp

lemmas new_stores =
  shape_receivers_store [OF refl, of _ new_keepers, unfolded filter_stores [of _ "map _ new_keepers"] new_stores_table]


text \<open>
  Claim C7. The message server of x/staking that creates validators without asking goes to two places only:
  to x/validator, whose registration pays first, and into the wrapper that refuses creation; of the two
  the EVM's precompile sees the wrapper. The burn keeper x/validator pays through is the one whose
  module the application runs.
\<close>

theorem staking_server_confined:
  assumes "wiring_total W" and "run_wiring W new_keepers wiring_start = (Ok (), s)"
  shows "receivers (\<lambda>e. e = Use StakingMsgServer) s =
      [''validatormodulekeeper.NewKeeper'', ''validatorante.NewRestrictedStakingMsgServer''] \<and>
    receivers (\<lambda>e. e = Use RestrictedMsgServer) s = [''stakingprecompile.NewPrecompile''] \<and>
    (\<forall>c \<in> set (calls s). \<forall>(e, a) \<in> set (arguments c). e = Use BurnKeeper \<longrightarrow> a = Given (the (slot s BurnKeeper))) \<and>
    receivers (\<lambda>e. e = Use BurnKeeper) s = [''validatormodulekeeper.NewKeeper'', ''NewAppModule'']"
proof -
  have "shape_receivers (\<lambda>e. e = Use StakingMsgServer) new_keepers =
      [''validatormodulekeeper.NewKeeper'', ''validatorante.NewRestrictedStakingMsgServer'']"
    "shape_receivers (\<lambda>e. e = Use RestrictedMsgServer) new_keepers = [''stakingprecompile.NewPrecompile'']"
    "shape_receivers (\<lambda>e. e = Use BurnKeeper) new_keepers = [''validatormodulekeeper.NewKeeper'', ''NewAppModule'']"
    by code_simp+
  moreover have "list_all (sound_call (slot s) app_fields) (calls s)"
    using run_new_keepers [OF assms(1)] assms(2) by auto
  then have "\<forall>c \<in> set (calls s). \<forall>(e, a) \<in> set (arguments c). e = Use BurnKeeper \<longrightarrow> a = Given (the (slot s BurnKeeper))"
    by (auto simp: list_all_iff sound_call_def app_fields_def split_beta dest!: bspec)
  ultimately show ?thesis
    using new_receivers [OF assms] by simp
qed

section \<open>A concrete library\<close>

text \<open>A library that numbers what it returns by the arguments it was given.\<close>

definition ref_wiring :: "nat wiring_lib" where
  "ref_wiring =
     \<lparr>Construct = (\<lambda>f as. Ok (length as)), Method = (\<lambda>f m as. Ok (case m of None \<Rightarrow> 0 | Some k \<Rightarrow> k + length as)),
      Perform = (\<lambda>f as. Ok ()), PartOf = (\<lambda>p k. k)\<rparr>"

lemma ref_wiring_total: "wiring_total ref_wiring"
  by (simp add: wiring_total_def ref_wiring_def)

lemma ref_wiring_run:
  "run_wiring ref_wiring new_keepers wiring_start = (Ok (), snd (run_wiring ref_wiring new_keepers wiring_start))"
  using run_new_keepers [OF ref_wiring_total] by auto

theorem keepers_wired_witness:
  "\<exists>s. run_wiring ref_wiring new_keepers wiring_start = (Ok (), s) \<and> slot s Erc20Keeper \<noteq> None"
  using keepers_wired [OF ref_wiring_total] by blast


theorem staking_server_confined_witness:
  "receivers (\<lambda>e. e = Use RestrictedMsgServer) (snd (run_wiring ref_wiring new_keepers wiring_start)) =
     [''stakingprecompile.NewPrecompile'']"
  using staking_server_confined [OF ref_wiring_total ref_wiring_run] by blast

section \<open>The whole of \<open>New\<close>\<close>

text \<open>\<open>New\<close> hands no error on either: it returns the application or ends the process.\<close>

lemma New_no_error: "fst (New A W loadLatest t) \<noteq> Err e"
proof -
  have bind: "fst (bindM m f s) \<noteq> Err e" if "\<And>s. fst (m s) \<noteq> Err e" "\<And>x s. fst (f x s) \<noteq> Err e"
    for m :: "'x \<Rightarrow> 'y outcome \<times> 'x" and f :: "'y \<Rightarrow> 'x \<Rightarrow> unit outcome \<times> 'x" and s
    using that(1) [of s] that(2) by (auto simp: bindM_def split: prod.splits outcome.splits)
  have on: "fst (onM get put m s) \<noteq> Err e" if "\<And>s. fst (m s) \<noteq> Err e"
    for get put and m :: "'x \<Rightarrow> unit outcome \<times> 'x" and s :: "'a \<times> 'b wiring"
    using that [of "get s"] by (auto simp: onM_def split: prod.splits)
  have "fst (new_streaming A s) \<noteq> Err e" "fst (new_services A s) \<noteq> Err e" for s
    by (auto simp: new_streaming_def new_services_def bindM_def mustM_def mustO_def ignoreM_def
        split: prod.splits outcome.splits if_splits)
  moreover have "fst (mustM (run_wiring W new_keepers) w) \<noteq> Err e" for w
    by (auto simp: mustM_def mustO_def split: prod.splits outcome.splits)
  ultimately show ?thesis
    unfolding New_def by (intro bind on new_lifecycle_no_error)
qed

end
