(* ===== verification/Process_Properties.thy ===== *)
theory Process_Properties
  imports Node_Process Wiring_Properties
begin

text \<open>
  What holds of the process: the configuration every address is printed with is complete and sealed before
  the application is built, and the exit code tells an error of a command from a crash.
\<close>

section \<open>The configuration of the SDK\<close>

text \<open>
  The documented behaviour of \<^verbatim>\<open>sdk.Config\<close>: a setter changes its own field of an open configuration and
  panics on a sealed one.
\<close>

definition config_setter :: "('c \<Rightarrow> bool) \<Rightarrow> ('c \<Rightarrow> 'f) \<Rightarrow> ('f \<Rightarrow> 'f) \<Rightarrow> ('c \<Rightarrow> unit outcome \<times> 'c) \<Rightarrow> bool" where
  "config_setter sealed_c fields_c f setter \<longleftrightarrow>
     (\<forall>c. if sealed_c c then setter c = (Panic, c)
          else (\<exists>c'. setter c = (Ok (), c') \<and> \<not> sealed_c c' \<and> fields_c c' = f (fields_c c)))"

definition config_fields :: "'c sdk_config \<Rightarrow> 'c \<Rightarrow> bech32_config \<times> nat \<times> nat" where
  "config_fields C c = (ConfigPrefixes C c, ConfigCoinType C c, ConfigPurpose C c)"

definition config_laws :: "'c sdk_config \<Rightarrow> bool" where
  "config_laws C \<longleftrightarrow>
     (\<forall>a p. config_setter (Sealed C) (config_fields C) (apfst (\<lambda>b. b\<lparr>AccAddr := a, AccPub := p\<rparr>)) (SetBech32PrefixForAccount C a p)) \<and>
     (\<forall>a p. config_setter (Sealed C) (config_fields C) (apfst (\<lambda>b. b\<lparr>ValAddr := a, ValPub := p\<rparr>)) (SetBech32PrefixForValidator C a p)) \<and>
     (\<forall>a p. config_setter (Sealed C) (config_fields C) (apfst (\<lambda>b. b\<lparr>ConsAddr := a, ConsPub := p\<rparr>)) (SetBech32PrefixForConsensusNode C a p)) \<and>
     (\<forall>n. config_setter (Sealed C) (config_fields C) (apsnd (apfst (\<lambda>_. n))) (SetCoinType C n)) \<and>
     (\<forall>n. config_setter (Sealed C) (config_fields C) (apsnd (apsnd (\<lambda>_. n))) (SetPurpose C n)) \<and>
     (\<forall>c. Sealed C (Seal C c) \<and> config_fields C (Seal C c) = config_fields C c)"

lemma config_setterD:
  assumes "config_setter S F f setter"
  shows "S c \<Longrightarrow> setter c = (Panic, c)"
    and "\<not> S c \<Longrightarrow> \<exists>c'. setter c = (Ok (), c') \<and> \<not> S c' \<and> F c' = f (F c)"
  using assms unfolding config_setter_def by (meson)+

lemma config_setter_bind:
  assumes "config_setter S F f m" and "config_setter S F g n"
  shows "config_setter S F (g \<circ> f) (bindM m (\<lambda>_. n))"
  unfolding config_setter_def
proof
  fix c
  show "if S c then bindM m (\<lambda>_. n) c = (Panic, c)
      else \<exists>c'. bindM m (\<lambda>_. n) c = (Ok (), c') \<and> \<not> S c' \<and> F c' = (g \<circ> f) (F c)"
    using config_setterD [OF assms(1), of c] config_setterD(2) [OF assms(2)]
    by (auto simp: bindM_def) (metis case_prod_conv outcome.simps(8))
qed

lemma setup_fields:
  assumes "config_laws C"
  shows "config_setter (Sealed C) (config_fields C) (\<lambda>_. (SetBech32Prefixes, CoinType, Purpose C))
    (bindM (set_bech32_prefixes C) (\<lambda>_. SetBip44CoinType C))"
proof -
  let ?P = SetBech32Prefixes
  let ?set = "(apsnd (apsnd (\<lambda>_ :: nat. Purpose C)) \<circ> apsnd (apfst (\<lambda>_ :: nat. CoinType))) \<circ>
      ((apfst (\<lambda>b. b\<lparr>ConsAddr := ConsAddr ?P, ConsPub := ConsPub ?P\<rparr>) \<circ>
        apfst (\<lambda>b. b\<lparr>ValAddr := ValAddr ?P, ValPub := ValPub ?P\<rparr>)) \<circ>
       apfst (\<lambda>b. b\<lparr>AccAddr := AccAddr ?P, AccPub := AccPub ?P\<rparr>))"
  have setter: "config_setter (Sealed C) (config_fields C) ?set (bindM (set_bech32_prefixes C) (\<lambda>_. SetBip44CoinType C))"
    unfolding set_bech32_prefixes_def SetBip44CoinType_def
    using assms [unfolded config_laws_def] by (intro config_setter_bind) blast+
  have eq: "?set = (\<lambda>_. (?P, CoinType, Purpose C))"
    by (auto simp: fun_eq_iff)
  show ?thesis using setter unfolding eq .
qed

lemma setupSDKConfig_seals:
  assumes "config_laws C" and "\<not> Sealed C (SdkConfig g)"
  shows "\<exists>c. setupSDKConfig C g = (Ok (), g\<lparr>SdkConfig := c\<rparr>) \<and> Sealed C c \<and>
    config_fields C c = (SetBech32Prefixes, CoinType, Purpose C)"
proof -
  obtain c' where "bindM (set_bech32_prefixes C) (\<lambda>_. SetBip44CoinType C) (SdkConfig g) = (Ok (), c')"
    and "config_fields C c' = (SetBech32Prefixes, CoinType, Purpose C)"
    using config_setterD(2) [OF setup_fields [OF assms(1)] assms(2)] by blast
  moreover have "Sealed C (Seal C c')" "config_fields C (Seal C c') = config_fields C c'"
    using assms(1) by (simp_all add: config_laws_def)
  ultimately show ?thesis
    by (intro exI [of _ "Seal C c'"]) (auto simp: setupSDKConfig_def onM_def bindM_def split: prod.splits outcome.splits)
qed

lemma sealed_setters_panic:
  assumes "config_laws C" and "Sealed C c"
  shows "set_bech32_prefixes C c = (Panic, c)" and "SetBip44CoinType C c = (Panic, c)"
    and "SdkConfig g = c \<Longrightarrow> setupSDKConfig C g = (Panic, g)"
proof -
  note panics = config_setterD(1) [where S = "Sealed C" and c = c, OF _ assms(2)]
  show "set_bech32_prefixes C c = (Panic, c)" "SetBip44CoinType C c = (Panic, c)"
    unfolding set_bech32_prefixes_def SetBip44CoinType_def
    using assms(1) [unfolded config_laws_def] by (rule_tac [!] bindM_Panic, rule_tac [!] panics) blast+
  then show "SdkConfig g = c \<Longrightarrow> setupSDKConfig C g = (Panic, g)"
    by (simp add: setupSDKConfig_def onM_def bindM_def)
qed

lemma NewRootCmd_no_error: "NewRootCmd R g \<noteq> (Err e, g')"
  by (auto simp: NewRootCmd_def bindM_def mustM_def mustO_def initRootCmd_def liftM_def retM_def
      split: prod.splits outcome.splits)

section \<open>The life of the process\<close>

text \<open>
  Claim C29. The application is never built on a configuration that can still change. From an open
  configuration, \<open>main\<close> runs the root command's construction (and with it \<open>app.New\<close>, which prints the
  addresses of the modules) on the configuration with the prefixes of the chain and coin type 60,
  sealed, so that every later attempt to change it panics; from a sealed one \<open>main\<close> crashes before it
  builds anything. The exit code 1 stands for an error of the executed command and nothing else.
\<close>

theorem main_seals_configuration:
  assumes "config_laws C"
  shows "(\<not> Sealed C (SdkConfig g) \<longrightarrow>
      (\<exists>c. Sealed C c \<and> config_fields C c = (SetBech32Prefixes, CoinType, Purpose C) \<and>
         fst (set_bech32_prefixes C c) = Panic \<and> fst (SetBip44CoinType C c) = Panic \<and>
         main C R Execute g = (case NewRootCmd R (g\<lparr>SdkConfig := c\<rparr>) of
             (Ok root, g1) \<Rightarrow>
               (case Execute root (EnvPrefix g1) (DefaultNodeHome g1) g1 of
                  (Ok _, g2) \<Rightarrow> (Finished, g2) | (Err e, g2) \<Rightarrow> (Exits 1 e, g2) | (Panic, g2) \<Rightarrow> (Crashed, g2))
           | (_, g1) \<Rightarrow> (Crashed, g1)))) \<and>
    (Sealed C (SdkConfig g) \<longrightarrow> main C R Execute g = (Crashed, g))"
proof (intro conjI impI)
  assume "\<not> Sealed C (SdkConfig g)"
  then obtain c where c: "setupSDKConfig C g = (Ok (), g\<lparr>SdkConfig := c\<rparr>)" "Sealed C c"
      "config_fields C c = (SetBech32Prefixes, CoinType, Purpose C)"
    using setupSDKConfig_seals [OF assms] by blast
  show "\<exists>c. Sealed C c \<and> config_fields C c = (SetBech32Prefixes, CoinType, Purpose C) \<and>
         fst (set_bech32_prefixes C c) = Panic \<and> fst (SetBip44CoinType C c) = Panic \<and>
         main C R Execute g = (case NewRootCmd R (g\<lparr>SdkConfig := c\<rparr>) of
             (Ok root, g1) \<Rightarrow>
               (case Execute root (EnvPrefix g1) (DefaultNodeHome g1) g1 of
                  (Ok _, g2) \<Rightarrow> (Finished, g2) | (Err e, g2) \<Rightarrow> (Exits 1 e, g2) | (Panic, g2) \<Rightarrow> (Crashed, g2))
           | (_, g1) \<Rightarrow> (Crashed, g1))"
    using c sealed_setters_panic [OF assms c(2)] NewRootCmd_no_error [of R "g\<lparr>SdkConfig := c\<rparr>"]
    by (intro exI [of _ c]) (auto simp: main_def bindM_def split: prod.splits outcome.splits)
next
  assume "Sealed C (SdkConfig g)"
  then show "main C R Execute g = (Crashed, g)"
    using sealed_setters_panic(3) [OF assms] by (simp add: main_def bindM_def)
qed

text \<open>A configuration that keeps what it is told, and a library whose root command fails on its flags.\<close>

definition ref_config :: "((bech32_config \<times> nat \<times> nat) \<times> bool) sdk_config" where
  "ref_config =
     (let put = (\<lambda>f (v, sealed). if sealed then (Panic, (v, sealed)) else (Ok (), (f v, False))) in
      \<lparr>SetBech32PrefixForAccount = (\<lambda>a p. put (apfst (\<lambda>b. b\<lparr>AccAddr := a, AccPub := p\<rparr>))),
       SetBech32PrefixForValidator = (\<lambda>a p. put (apfst (\<lambda>b. b\<lparr>ValAddr := a, ValPub := p\<rparr>))),
       SetBech32PrefixForConsensusNode = (\<lambda>a p. put (apfst (\<lambda>b. b\<lparr>ConsAddr := a, ConsPub := p\<rparr>))),
       SetCoinType = (\<lambda>n. put (apsnd (apfst (\<lambda>_. n)))), SetPurpose = (\<lambda>n. put (apsnd (apsnd (\<lambda>_. n)))),
       Seal = (\<lambda>(v, _). (v, True)), Purpose = 44, ConfigPrefixes = fst \<circ> fst, ConfigCoinType = fst \<circ> snd \<circ> fst,
       ConfigPurpose = snd \<circ> snd \<circ> fst, Sealed = snd\<rparr>)"

lemma ref_config_laws: "config_laws ref_config"
  by (auto simp: config_laws_def config_setter_def ref_config_def config_fields_def Let_def)

definition ref_root_lib :: "('g, unit, unit, unit) root_lib" where
  "ref_root_lib =
     \<lparr>NewTempApp = (\<lambda>g. (Ok (), g)), InitClientContext = (\<lambda>_ _ _. ()), ReadFromClientConfig = (\<lambda>x. (x, None)),
      AutoCliOptsOf = (\<lambda>_ _. ()), EnhanceRootCommand = (\<lambda>_ c. Ok c), AddTxFlags = Ok\<rparr>"

definition ref_globals :: "((bech32_config \<times> nat \<times> nat) \<times> bool) globals" where
  "ref_globals =
     \<lparr>SdkConfig = ((\<lparr>AccAddr = '''', AccPub = '''', ValAddr = '''', ValPub = '''', ConsAddr = '''', ConsPub = ''''\<rparr>, 118, 44), False),
      DefaultPowerReduction = 1, SdkBondDenom = ''stake'', EnvPrefix = '''', DefaultNodeHome = ''''\<rparr>"

theorem main_seals_configuration_witness:
  "main ref_config ref_root_lib (\<lambda>_ _ _ g. (Err InvalidArgument, g)) ref_globals =
     (Exits 1 InvalidArgument, ref_globals\<lparr>SdkConfig := ((SetBech32Prefixes, 60, 44), True)\<rparr>)"
proof -
  obtain c where c: "Sealed ref_config c" "config_fields ref_config c = (SetBech32Prefixes, CoinType, Purpose ref_config)"
    and run: "main ref_config ref_root_lib (\<lambda>_ _ _ g. (Err InvalidArgument, g)) ref_globals =
      (case NewRootCmd ref_root_lib (ref_globals\<lparr>SdkConfig := c\<rparr>) of
         (Ok root, g1) \<Rightarrow> (Exits 1 InvalidArgument, g1) | (_, g1) \<Rightarrow> (Crashed, g1))"
    using main_seals_configuration [OF ref_config_laws, of ref_globals ref_root_lib "\<lambda>_ _ _ g. (Err InvalidArgument, g)"]
    by (auto simp: ref_config_def ref_globals_def cong: outcome.case_cong prod.case_cong)
  have "c = ((SetBech32Prefixes, 60, 44), True)"
    using c by (cases c) (auto simp: ref_config_def config_fields_def CoinType_def)
  then show ?thesis
    unfolding run by (simp add: NewRootCmd_def initRootCmd_def ref_root_lib_def bindM_def mustM_def mustO_def)
qed

section \<open>The root command, the ante options and the API\<close>

text \<open>Adding flags and AutoCLI's commands aside, the root has these children, \<open>query\<close> and \<open>tx\<close> once each.\<close>

lemma root_commands:
  assumes "initRootCmd Ok (Command (AppName @ ''d'') [] [] []) = Ok root"
  shows "word root = ''monod''" and "length (children root) = 12"
    and "filter (\<lambda>c. c = queryCommand) (children root) = [queryCommand]"
    and "filter (\<lambda>c. c = txCommand) (children root) = [txCommand]"
  using assms
  by (auto simp: initRootCmd_def mustO_def AppName_def queryCommand_def txCommand_def monoInitCmd_def
      NewInPlaceTestnetCmd_def NewTestnetMultiNodeCmd_def)

text \<open>The handlers of transactions get keepers that exist.\<close>

lemma ante_options_given:
  assumes "wiring_total P" and "run_wiring P new_keepers wiring_start = (Ok (), s)" and "(field, e) \<in> set ante_options"
  shows "\<exists>a. eval_arg P (slot s) e = Ok a \<and> a \<noteq> ZeroValue"
proof -
  have "slot s v \<noteq> None" for v
    using run_new_keepers [OF assms(1)] assms(2) by auto
  then show ?thesis
    using assms(3) by (auto simp: ante_options_def split: option.split)
qed

text \<open>Before \<open>New\<close> has made the basic manager the API cannot be registered; afterwards only swagger stops it.\<close>

lemma api_routes_registered:
  assumes "\<And>bm w. fst (Basic_RegisterGRPCGatewayRoutes A bm sctx w) = Ok ()"
  shows "fst (RegisterAPIRoutes A sctx swagger app w) = Ok () \<longleftrightarrow>
    (\<exists>bm. BasicModuleManager app = Some bm \<and>
       fst (RegisterSwaggerAPI A sctx swagger
         (snd (Basic_RegisterGRPCGatewayRoutes A bm sctx
           (NodeService_RegisterGRPCGatewayRoutes A sctx (CmtService_RegisterGRPCGatewayRoutes A sctx
             (AuthTx_RegisterGRPCGatewayRoutes A sctx w)))))) = Ok ())"
proof (cases "BasicModuleManager app")
  case None
  then show ?thesis by (simp add: RegisterAPIRoutes_def bindM_def liftM_def)
next
  case (Some bm)
  show ?thesis
    using assms [of bm "NodeService_RegisterGRPCGatewayRoutes A sctx (CmtService_RegisterGRPCGatewayRoutes A sctx
             (AuthTx_RegisterGRPCGatewayRoutes A sctx w))"]
    by (auto simp: RegisterAPIRoutes_def bindM_def liftM_def mustM_def mustO_def Some split: prod.splits outcome.splits)
qed

end
