(* ===== verification/Grpc_Services.thy ===== *)
theory Grpc_Services
  imports App_Modules Wire_Burn Wire_Validator
begin

text \<open>
  The gRPC part of the generated files (\<^verbatim>\<open>tx.pb.go\<close>, \<^verbatim>\<open>query.pb.go\<close> of both modules): clients, service
  tables, method handlers, and the server stubs that implement nothing. An \<^verbatim>\<open>interface{}\<close> that holds a
  message is a value of \<open>burn_any\<close> or \<open>validator_any\<close>, one that holds a server a \<open>service\<close>; a type assertion is
  a match that panics when it fails. The connection of a client, the decoder and the interceptor a
  handler is given are the callers' (grpc, or the routers of the SDK) and are arguments.
\<close>

section \<open>Handlers and clients\<close>

text \<open>The context of a call is the state \<open>'s\<close> the call runs in; a query leaves it.\<close>

type_synonym ('a, 's) unary = "'a \<Rightarrow> 's \<Rightarrow> 'a outcome \<times> 's"

record 'v unary_info =
  InfoServer :: 'v
  FullMethod :: string

type_synonym ('a, 'v, 's) interceptor = "'a \<Rightarrow> 'v unary_info \<Rightarrow> ('a, 's) unary \<Rightarrow> 's \<Rightarrow> 'a outcome \<times> 's"

type_synonym ('a, 'v, 's) method_handler =
  "'v \<Rightarrow> ('a \<Rightarrow> 'a outcome) \<Rightarrow> ('a, 'v, 's) interceptor option \<Rightarrow> 's \<Rightarrow> 'a outcome \<times> 's"

text \<open>
  A callee that is given the pointer to a new message can only write through it: what it leaves there
  is a message of the same type, or the zero message that was there.
\<close>

definition through :: "('a \<Rightarrow> 'm option) \<Rightarrow> 'm \<Rightarrow> 'a \<Rightarrow> 'm" where
  "through cast zero filled = (case cast filled of Some m \<Rightarrow> m | None \<Rightarrow> zero)"

text \<open>
  The body every \<^verbatim>\<open>_Service_Method_Handler\<close> repeats: a new request, decoded; then the method, directly
  or as the handler of the interceptor, which asserts the type of the request it is passed.
\<close>

definition unary_handler ::
  "('a \<Rightarrow> 'm option) \<Rightarrow> ('m \<Rightarrow> 'a) \<Rightarrow> 'm \<Rightarrow> string \<Rightarrow> ('v \<Rightarrow> 'm \<Rightarrow> 's \<Rightarrow> 'a outcome \<times> 's) \<Rightarrow> ('a, 'v, 's) method_handler" where
  "unary_handler cast box zero fullMethod call srv dec interceptor =
     bindM (liftM (dec (box zero))) (\<lambda>filled.
       case interceptor of
         None \<Rightarrow> call srv (through cast zero filled)
       | Some i \<Rightarrow>
           i (box (through cast zero filled)) \<lparr>InfoServer = srv, FullMethod = fullMethod\<rparr>
             (\<lambda>req. case cast req of None \<Rightarrow> liftM Panic | Some m \<Rightarrow> call srv m))"

text \<open>A client method: a new reply, filled in by the connection.\<close>

definition unary_call ::
  "('a \<Rightarrow> 'm option) \<Rightarrow> ('m \<Rightarrow> 'a) \<Rightarrow> 'm \<Rightarrow> string \<Rightarrow> ('x \<Rightarrow> string \<Rightarrow> 'a \<Rightarrow> 'a \<Rightarrow> 'a outcome \<times> server_metadata)
     \<Rightarrow> 'x \<Rightarrow> 'a \<Rightarrow> 'm outcome \<times> server_metadata" where
  "unary_call cast box zero method cc ctx msg =
     (case cc ctx method msg (box zero) of (r, md) \<Rightarrow> (bindO r (\<lambda>filled. Ok (through cast zero filled)), md))"

text \<open>\<^verbatim>\<open>grpc.ServiceDesc\<close>: which servers may be registered, and the handlers by name.\<close>

record ('a, 'v, 's) service_desc =
  ServiceName :: string
  HandlerType :: "'v \<Rightarrow> bool"
  Methods :: "(string \<times> ('a, 'v, 's) method_handler) list"
  Streams :: "string list"
  Metadata :: string

fun is_MsgServer :: "('m, 'q) service \<Rightarrow> bool" where
  "is_MsgServer (MsgServer _) = True"
| "is_MsgServer (QueryServer _) = False"

fun is_QueryServer :: "('m, 'q) service \<Rightarrow> bool" where
  "is_QueryServer (QueryServer _) = True"
| "is_QueryServer (MsgServer _) = False"

text \<open>\<^verbatim>\<open>srv.(MsgServer).Method(ctx, m)\<close>, and the same of a query server, which only reads.\<close>

definition on_MsgServer :: "('m \<Rightarrow> 's \<Rightarrow> 'r outcome \<times> 's) \<Rightarrow> ('r \<Rightarrow> 'a) \<Rightarrow> ('m, 'q) service \<Rightarrow> 's \<Rightarrow> 'a outcome \<times> 's" where
  "on_MsgServer method reply srv =
     (case srv of QueryServer _ \<Rightarrow> liftM Panic | MsgServer v \<Rightarrow> bindM (method v) (\<lambda>r. retM (reply r)))"

definition on_QueryServer :: "('q \<Rightarrow> 'x \<Rightarrow> 'r outcome) \<Rightarrow> ('r \<Rightarrow> 'a) \<Rightarrow> ('m, 'q) service \<Rightarrow> 'x \<Rightarrow> 'a outcome \<times> 'x" where
  "on_QueryServer method reply srv ctx =
     (case srv of MsgServer _ \<Rightarrow> Panic | QueryServer v \<Rightarrow> bindO (method v ctx) (\<lambda>r. Ok (reply r)), ctx)"

definition unimplemented :: "string \<Rightarrow> error" where
  "unimplemented method = OtherErr (''method '' @ method @ '' not implemented'')"

section \<open>x/burn\<close>

text \<open>The messages of the two services. A pointer to the request for an account may be nil.\<close>

datatype burn_any =
    AnyMsgUpdateParams burn_MsgUpdateParams
  | AnyMsgUpdateParamsResponse
  | AnyMsgBurn MsgBurn
  | AnyMsgBurnResponse
  | AnyParamsRequest
  | AnyParamsResponse burn_QueryParamsResponse
  | AnyBurnStatsRequest
  | AnyBurnStatsResponse BurnStatsResponse
  | AnyAccountBurnsRequest "QueryAccountBurnsRequest option"
  | AnyAccountBurnsResponse QueryAccountBurnsResponse

fun as_MsgUpdateParams :: "burn_any \<Rightarrow> burn_MsgUpdateParams option" where
  "as_MsgUpdateParams (AnyMsgUpdateParams m) = Some m" | "as_MsgUpdateParams _ = None"

fun as_MsgBurn :: "burn_any \<Rightarrow> MsgBurn option" where
  "as_MsgBurn (AnyMsgBurn m) = Some m" | "as_MsgBurn _ = None"

fun as_ParamsResponse :: "burn_any \<Rightarrow> burn_QueryParamsResponse option" where
  "as_ParamsResponse (AnyParamsResponse m) = Some m" | "as_ParamsResponse _ = None"

fun as_BurnStatsResponse :: "burn_any \<Rightarrow> BurnStatsResponse option" where
  "as_BurnStatsResponse (AnyBurnStatsResponse m) = Some m" | "as_BurnStatsResponse _ = None"

fun as_AccountBurnsRequest :: "burn_any \<Rightarrow> QueryAccountBurnsRequest option option" where
  "as_AccountBurnsRequest (AnyAccountBurnsRequest m) = Some m" | "as_AccountBurnsRequest _ = None"

fun as_AccountBurnsResponse :: "burn_any \<Rightarrow> QueryAccountBurnsResponse option" where
  "as_AccountBurnsResponse (AnyAccountBurnsResponse m) = Some m" | "as_AccountBurnsResponse _ = None"

text \<open>The assertion to a message without fields only tests the type.\<close>

definition as_unit :: "'a \<Rightarrow> 'a \<Rightarrow> unit option" where
  "as_unit a b = (if b = a then Some () else None)"

text \<open>The zero messages.\<close>

definition zero_coin :: coin where
  "zero_coin = \<lparr>Denom = '''', Amount = None\<rparr>"

definition zero_MsgUpdateParams :: burn_MsgUpdateParams where
  "zero_MsgUpdateParams = \<lparr>bup_Authority = '''', bup_Params = \<lparr>FeeBurnPercent = None\<rparr>\<rparr>"

definition zero_MsgBurn :: MsgBurn where
  "zero_MsgBurn = \<lparr>FromAddress = '''', BurnAmount = zero_coin\<rparr>"

text \<open>\<open>tx.pb.go\<close>\<close>

type_synonym ('s, 'q) burn_msg_handler = "(burn_any, ('s burn_MsgServer, 'q) service, 's) method_handler"

definition burn_Msg_UpdateParams_Handler :: "('s, 'q) burn_msg_handler" where
  "burn_Msg_UpdateParams_Handler =
     unary_handler as_MsgUpdateParams AnyMsgUpdateParams zero_MsgUpdateParams ''/monolythium.burn.v1.Msg/UpdateParams''
       (\<lambda>srv m. on_MsgServer (\<lambda>v. Serve_UpdateParams v m) (\<lambda>_. AnyMsgUpdateParamsResponse) srv)"

definition Msg_Burn_Handler :: "('s, 'q) burn_msg_handler" where
  "Msg_Burn_Handler =
     unary_handler as_MsgBurn AnyMsgBurn zero_MsgBurn ''/monolythium.burn.v1.Msg/Burn''
       (\<lambda>srv m. on_MsgServer (\<lambda>v. Serve_Burn v m) (\<lambda>_. AnyMsgBurnResponse) srv)"

definition burn_Msg_serviceDesc :: "(burn_any, ('s burn_MsgServer, 'q) service, 's) service_desc" where
  "burn_Msg_serviceDesc =
     \<lparr>ServiceName = ''monolythium.burn.v1.Msg'', HandlerType = is_MsgServer,
      Methods = [(''UpdateParams'', burn_Msg_UpdateParams_Handler), (''Burn'', Msg_Burn_Handler)],
      Streams = [], Metadata = ''monolythium/burn/v1/tx.proto''\<rparr>"

definition burn_RegisterMsgServer ::
  "((burn_any, ('s burn_MsgServer, 'q) service, 's) service_desc \<Rightarrow> ('s burn_MsgServer, 'q) service \<Rightarrow> 'r \<Rightarrow> 'r)
     \<Rightarrow> 's burn_MsgServer \<Rightarrow> 'r \<Rightarrow> 'r" where
  "burn_RegisterMsgServer RegisterService srv = RegisterService burn_Msg_serviceDesc (MsgServer srv)"

definition burn_UnimplementedMsgServer :: "'s burn_MsgServer" where
  "burn_UnimplementedMsgServer =
     \<lparr>Serve_Burn = (\<lambda>_. failM (unimplemented ''Burn'')),
      Serve_UpdateParams = (\<lambda>_. failM (unimplemented ''UpdateParams''))\<rparr>"

type_synonym ('a, 'x) client_conn = "'x \<Rightarrow> string \<Rightarrow> 'a \<Rightarrow> 'a \<Rightarrow> 'a outcome \<times> server_metadata"

record 'x burn_MsgClient =
  Client_UpdateParams :: "'x \<Rightarrow> burn_MsgUpdateParams \<Rightarrow> unit outcome \<times> server_metadata"
  Client_Burn :: "'x \<Rightarrow> MsgBurn \<Rightarrow> unit outcome \<times> server_metadata"

definition burn_NewMsgClient :: "(burn_any, 'x) client_conn \<Rightarrow> 'x burn_MsgClient" where
  "burn_NewMsgClient cc =
     \<lparr>Client_UpdateParams = (\<lambda>ctx m.
        unary_call (as_unit AnyMsgUpdateParamsResponse) (\<lambda>_. AnyMsgUpdateParamsResponse) ()
          ''/monolythium.burn.v1.Msg/UpdateParams'' cc ctx (AnyMsgUpdateParams m)),
      Client_Burn = (\<lambda>ctx m.
        unary_call (as_unit AnyMsgBurnResponse) (\<lambda>_. AnyMsgBurnResponse) ()
          ''/monolythium.burn.v1.Msg/Burn'' cc ctx (AnyMsgBurn m))\<rparr>"

text \<open>\<open>query.pb.go\<close>\<close>

type_synonym ('m, 'x) burn_query_handler = "(burn_any, ('m, 'x burn_QueryServer) service, 'x) method_handler"

definition burn_Query_Params_Handler :: "('m, 'x) burn_query_handler" where
  "burn_Query_Params_Handler =
     unary_handler (as_unit AnyParamsRequest) (\<lambda>_. AnyParamsRequest) () ''/monolythium.burn.v1.Query/Params''
       (\<lambda>srv _. on_QueryServer Server_Params (\<lambda>p. AnyParamsResponse \<lparr>qpr_Params = p\<rparr>) srv)"

definition Query_BurnStats_Handler :: "('m, 'x) burn_query_handler" where
  "Query_BurnStats_Handler =
     unary_handler (as_unit AnyBurnStatsRequest) (\<lambda>_. AnyBurnStatsRequest) () ''/monolythium.burn.v1.Query/BurnStats''
       (\<lambda>srv _. on_QueryServer Server_BurnStats AnyBurnStatsResponse srv)"

definition Query_AccountBurns_Handler :: "('m, 'x) burn_query_handler" where
  "Query_AccountBurns_Handler =
     unary_handler as_AccountBurnsRequest AnyAccountBurnsRequest (Some \<lparr>qab_Address = ''''\<rparr>)
       ''/monolythium.burn.v1.Query/AccountBurns''
       (\<lambda>srv m. on_QueryServer (\<lambda>v ctx. Server_AccountBurns v ctx (map_option qab_Address m))
          (\<lambda>a. AnyAccountBurnsResponse \<lparr>qab_Amount = a\<rparr>) srv)"

definition burn_Query_serviceDesc :: "(burn_any, ('m, 'x burn_QueryServer) service, 'x) service_desc" where
  "burn_Query_serviceDesc =
     \<lparr>ServiceName = ''monolythium.burn.v1.Query'', HandlerType = is_QueryServer,
      Methods = [(''Params'', burn_Query_Params_Handler), (''BurnStats'', Query_BurnStats_Handler),
                 (''AccountBurns'', Query_AccountBurns_Handler)],
      Streams = [], Metadata = ''monolythium/burn/v1/query.proto''\<rparr>"

definition burn_RegisterQueryServer ::
  "((burn_any, ('m, 'x burn_QueryServer) service, 'x) service_desc \<Rightarrow> ('m, 'x burn_QueryServer) service \<Rightarrow> 'r \<Rightarrow> 'r)
     \<Rightarrow> 'x burn_QueryServer \<Rightarrow> 'r \<Rightarrow> 'r" where
  "burn_RegisterQueryServer RegisterService srv = RegisterService burn_Query_serviceDesc (QueryServer srv)"

definition burn_UnimplementedQueryServer :: "'x burn_QueryServer" where
  "burn_UnimplementedQueryServer =
     \<lparr>Server_Params = (\<lambda>_. Err (unimplemented ''Params'')),
      Server_BurnStats = (\<lambda>_. Err (unimplemented ''BurnStats'')),
      Server_AccountBurns = (\<lambda>_ _. Err (unimplemented ''AccountBurns''))\<rparr>"

definition burn_NewQueryClient :: "(burn_any, 'x) client_conn \<Rightarrow> 'x burn_QueryClient" where
  "burn_NewQueryClient cc =
     \<lparr>Client_Params = (\<lambda>ctx.
        case unary_call as_ParamsResponse AnyParamsResponse \<lparr>qpr_Params = \<lparr>FeeBurnPercent = None\<rparr>\<rparr>
          ''/monolythium.burn.v1.Query/Params'' cc ctx AnyParamsRequest of (r, md) \<Rightarrow> (replied qpr_Params r, md)),
      Client_BurnStats = (\<lambda>ctx.
        unary_call as_BurnStatsResponse AnyBurnStatsResponse \<lparr>TotalBurns = 0, TotalBurned = ''''\<rparr>
          ''/monolythium.burn.v1.Query/BurnStats'' cc ctx AnyBurnStatsRequest),
      Client_AccountBurns = (\<lambda>ctx req.
        case unary_call as_AccountBurnsResponse AnyAccountBurnsResponse \<lparr>qab_Amount = ''''\<rparr>
          ''/monolythium.burn.v1.Query/AccountBurns'' cc ctx
          (AnyAccountBurnsRequest (map_option (\<lambda>a. \<lparr>qab_Address = a\<rparr>) req)) of (r, md) \<Rightarrow> (replied qab_Amount r, md))\<rparr>"

text \<open>
  \<open>Marshal\<close> and \<open>Unmarshal\<close> of the message an interface holds; a nil pointer is dereferenced in
  \<open>MarshalToSizedBuffer\<close>.
\<close>

fun burn_any_Marshal :: "int option custom_type \<Rightarrow> coin foreign_message \<Rightarrow> burn_any \<Rightarrow> bytes outcome" where
  "burn_any_Marshal D N (AnyMsgUpdateParams m) = burn_MsgUpdateParams_Marshal D m"
| "burn_any_Marshal D N AnyMsgUpdateParamsResponse =
     proto_Marshal burn_MsgUpdateParamsResponse_Size burn_MsgUpdateParamsResponse_MarshalToSizedBuffer ()"
| "burn_any_Marshal D N (AnyMsgBurn m) = MsgBurn_Marshal N m"
| "burn_any_Marshal D N AnyMsgBurnResponse = proto_Marshal MsgBurnResponse_Size MsgBurnResponse_MarshalToSizedBuffer ()"
| "burn_any_Marshal D N AnyParamsRequest =
     proto_Marshal burn_QueryParamsRequest_Size burn_QueryParamsRequest_MarshalToSizedBuffer ()"
| "burn_any_Marshal D N (AnyParamsResponse m) = burn_QueryParamsResponse_Marshal D m"
| "burn_any_Marshal D N AnyBurnStatsRequest =
     proto_Marshal QueryBurnStatsRequest_Size QueryBurnStatsRequest_MarshalToSizedBuffer ()"
| "burn_any_Marshal D N (AnyBurnStatsResponse m) = BurnStatsResponse_Marshal m"
| "burn_any_Marshal D N (AnyAccountBurnsRequest None) = Panic"
| "burn_any_Marshal D N (AnyAccountBurnsRequest (Some m)) = QueryAccountBurnsRequest_Marshal m"
| "burn_any_Marshal D N (AnyAccountBurnsResponse m) = QueryAccountBurnsResponse_Marshal m"

fun burn_any_Unmarshal ::
  "int option custom_type \<Rightarrow> coin foreign_message \<Rightarrow> bytes \<Rightarrow> burn_any \<Rightarrow> burn_any outcome" where
  "burn_any_Unmarshal D N bs (AnyMsgUpdateParams m) = replied AnyMsgUpdateParams (burn_MsgUpdateParams_Unmarshal D bs m)"
| "burn_any_Unmarshal D N bs AnyMsgUpdateParamsResponse =
     replied (\<lambda>_. AnyMsgUpdateParamsResponse) (burn_MsgUpdateParamsResponse_Unmarshal bs ())"
| "burn_any_Unmarshal D N bs (AnyMsgBurn m) = replied AnyMsgBurn (MsgBurn_Unmarshal N bs m)"
| "burn_any_Unmarshal D N bs AnyMsgBurnResponse = replied (\<lambda>_. AnyMsgBurnResponse) (MsgBurnResponse_Unmarshal bs ())"
| "burn_any_Unmarshal D N bs AnyParamsRequest = replied (\<lambda>_. AnyParamsRequest) (burn_QueryParamsRequest_Unmarshal bs ())"
| "burn_any_Unmarshal D N bs (AnyParamsResponse m) = replied AnyParamsResponse (burn_QueryParamsResponse_Unmarshal D bs m)"
| "burn_any_Unmarshal D N bs AnyBurnStatsRequest = replied (\<lambda>_. AnyBurnStatsRequest) (QueryBurnStatsRequest_Unmarshal bs ())"
| "burn_any_Unmarshal D N bs (AnyBurnStatsResponse m) = replied AnyBurnStatsResponse (BurnStatsResponse_Unmarshal bs m)"
| "burn_any_Unmarshal D N bs (AnyAccountBurnsRequest None) = Panic"
| "burn_any_Unmarshal D N bs (AnyAccountBurnsRequest (Some m)) =
     replied (\<lambda>m. AnyAccountBurnsRequest (Some m)) (QueryAccountBurnsRequest_Unmarshal bs m)"
| "burn_any_Unmarshal D N bs (AnyAccountBurnsResponse m) =
     replied AnyAccountBurnsResponse (QueryAccountBurnsResponse_Unmarshal bs m)"

section \<open>x/validator\<close>

datatype 'c validator_any =
    AnyMsgRegisterValidator "'c MsgRegisterValidator"
  | AnyMsgRegisterValidatorResponse
  | AnyValidatorMsgUpdateParams validator_MsgUpdateParams
  | AnyValidatorMsgUpdateParamsResponse
  | AnyValidatorParamsRequest
  | AnyValidatorParamsResponse validator_QueryParamsResponse

fun as_MsgRegisterValidator :: "'c validator_any \<Rightarrow> 'c MsgRegisterValidator option" where
  "as_MsgRegisterValidator (AnyMsgRegisterValidator m) = Some m" | "as_MsgRegisterValidator _ = None"

fun as_ValidatorMsgUpdateParams :: "'c validator_any \<Rightarrow> validator_MsgUpdateParams option" where
  "as_ValidatorMsgUpdateParams (AnyValidatorMsgUpdateParams m) = Some m" | "as_ValidatorMsgUpdateParams _ = None"

fun as_ValidatorParamsResponse :: "'c validator_any \<Rightarrow> validator_QueryParamsResponse option" where
  "as_ValidatorParamsResponse (AnyValidatorParamsResponse m) = Some m" | "as_ValidatorParamsResponse _ = None"

definition zero_validator_params :: validator_params where
  "zero_validator_params = \<lparr>ValidatorRegistrationBurn = zero_coin, ValidatorMinSelfDelegation = zero_coin\<rparr>"

definition zero_ValidatorMsgUpdateParams :: validator_MsgUpdateParams where
  "zero_ValidatorMsgUpdateParams = \<lparr>vup_Authority = '''', vup_Params = zero_validator_params\<rparr>"

text \<open>The zero \<open>MsgCreateValidator\<close> of x/staking is a parameter.\<close>

definition zero_MsgRegisterValidator :: "'c MsgCreateValidator_scheme \<Rightarrow> 'c MsgRegisterValidator" where
  "zero_MsgRegisterValidator zeroCV = \<lparr>Sender = '''', CreateValidator = zeroCV, Burn = zero_coin\<rparr>"

text \<open>\<open>tx.pb.go\<close>\<close>

type_synonym ('c, 's, 'q) validator_msg_handler =
  "('c validator_any, (('c, 's) validator_MsgServer, 'q) service, 's) method_handler"

definition Msg_RegisterValidator_Handler :: "'c MsgCreateValidator_scheme \<Rightarrow> ('c, 's, 'q) validator_msg_handler" where
  "Msg_RegisterValidator_Handler zeroCV =
     unary_handler as_MsgRegisterValidator AnyMsgRegisterValidator (zero_MsgRegisterValidator zeroCV)
       ''/monolythium.validator.v1.Msg/RegisterValidator''
       (\<lambda>srv m. on_MsgServer (\<lambda>v. Serve_RegisterValidator v m) (\<lambda>_. AnyMsgRegisterValidatorResponse) srv)"

definition validator_Msg_UpdateParams_Handler :: "('c, 's, 'q) validator_msg_handler" where
  "validator_Msg_UpdateParams_Handler =
     unary_handler as_ValidatorMsgUpdateParams AnyValidatorMsgUpdateParams zero_ValidatorMsgUpdateParams
       ''/monolythium.validator.v1.Msg/UpdateParams''
       (\<lambda>srv m. on_MsgServer (\<lambda>v. Serve_Validator_UpdateParams v m) (\<lambda>_. AnyValidatorMsgUpdateParamsResponse) srv)"

definition validator_Msg_serviceDesc ::
  "'c MsgCreateValidator_scheme \<Rightarrow> ('c validator_any, (('c, 's) validator_MsgServer, 'q) service, 's) service_desc" where
  "validator_Msg_serviceDesc zeroCV =
     \<lparr>ServiceName = ''monolythium.validator.v1.Msg'', HandlerType = is_MsgServer,
      Methods = [(''RegisterValidator'', Msg_RegisterValidator_Handler zeroCV),
                 (''UpdateParams'', validator_Msg_UpdateParams_Handler)],
      Streams = [], Metadata = ''monolythium/validator/v1/tx.proto''\<rparr>"

definition validator_RegisterMsgServer ::
  "'c MsgCreateValidator_scheme \<Rightarrow> (('c validator_any, (('c, 's) validator_MsgServer, 'q) service, 's) service_desc
       \<Rightarrow> (('c, 's) validator_MsgServer, 'q) service \<Rightarrow> 'r \<Rightarrow> 'r)
     \<Rightarrow> ('c, 's) validator_MsgServer \<Rightarrow> 'r \<Rightarrow> 'r" where
  "validator_RegisterMsgServer zeroCV RegisterService srv =
     RegisterService (validator_Msg_serviceDesc zeroCV) (MsgServer srv)"

definition validator_UnimplementedMsgServer :: "('c, 's) validator_MsgServer" where
  "validator_UnimplementedMsgServer =
     \<lparr>Serve_RegisterValidator = (\<lambda>_. failM (unimplemented ''RegisterValidator'')),
      Serve_Validator_UpdateParams = (\<lambda>_. failM (unimplemented ''UpdateParams''))\<rparr>"

record ('c, 'x) validator_MsgClient =
  Client_RegisterValidator :: "'x \<Rightarrow> 'c MsgRegisterValidator \<Rightarrow> unit outcome \<times> server_metadata"
  Client_Validator_UpdateParams :: "'x \<Rightarrow> validator_MsgUpdateParams \<Rightarrow> unit outcome \<times> server_metadata"

definition validator_NewMsgClient :: "('c validator_any, 'x) client_conn \<Rightarrow> ('c, 'x) validator_MsgClient" where
  "validator_NewMsgClient cc =
     \<lparr>Client_RegisterValidator = (\<lambda>ctx m.
        unary_call (as_unit AnyMsgRegisterValidatorResponse) (\<lambda>_. AnyMsgRegisterValidatorResponse) ()
          ''/monolythium.validator.v1.Msg/RegisterValidator'' cc ctx (AnyMsgRegisterValidator m)),
      Client_Validator_UpdateParams = (\<lambda>ctx m.
        unary_call (as_unit AnyValidatorMsgUpdateParamsResponse) (\<lambda>_. AnyValidatorMsgUpdateParamsResponse) ()
          ''/monolythium.validator.v1.Msg/UpdateParams'' cc ctx (AnyValidatorMsgUpdateParams m))\<rparr>"

text \<open>\<open>query.pb.go\<close>: a query server is its one method.\<close>

definition validator_Query_Params_Handler ::
  "('c validator_any, ('m, 'x \<Rightarrow> validator_params outcome) service, 'x) method_handler" where
  "validator_Query_Params_Handler =
     unary_handler (as_unit AnyValidatorParamsRequest) (\<lambda>_. AnyValidatorParamsRequest) ()
       ''/monolythium.validator.v1.Query/Params''
       (\<lambda>srv _. on_QueryServer (\<lambda>v. v) (\<lambda>p. AnyValidatorParamsResponse \<lparr>vqpr_Params = p\<rparr>) srv)"

definition validator_Query_serviceDesc ::
  "('c validator_any, ('m, 'x \<Rightarrow> validator_params outcome) service, 'x) service_desc" where
  "validator_Query_serviceDesc =
     \<lparr>ServiceName = ''monolythium.validator.v1.Query'', HandlerType = is_QueryServer,
      Methods = [(''Params'', validator_Query_Params_Handler)],
      Streams = [], Metadata = ''monolythium/validator/v1/query.proto''\<rparr>"

definition validator_RegisterQueryServer ::
  "(('c validator_any, ('m, 'x \<Rightarrow> validator_params outcome) service, 'x) service_desc
       \<Rightarrow> ('m, 'x \<Rightarrow> validator_params outcome) service \<Rightarrow> 'r \<Rightarrow> 'r)
     \<Rightarrow> ('x \<Rightarrow> validator_params outcome) \<Rightarrow> 'r \<Rightarrow> 'r" where
  "validator_RegisterQueryServer RegisterService srv = RegisterService validator_Query_serviceDesc (QueryServer srv)"

definition validator_UnimplementedQueryServer :: "'x \<Rightarrow> validator_params outcome" where
  "validator_UnimplementedQueryServer ctx = Err (unimplemented ''Params'')"

definition validator_NewQueryClient ::
  "('c validator_any, 'x) client_conn \<Rightarrow> 'x \<Rightarrow> validator_params outcome \<times> server_metadata" where
  "validator_NewQueryClient cc ctx =
     (case unary_call as_ValidatorParamsResponse AnyValidatorParamsResponse \<lparr>vqpr_Params = zero_validator_params\<rparr>
        ''/monolythium.validator.v1.Query/Params'' cc ctx AnyValidatorParamsRequest of (r, md) \<Rightarrow> (replied vqpr_Params r, md))"

fun validator_any_Marshal ::
  "'c MsgCreateValidator_scheme foreign_message \<Rightarrow> coin foreign_message \<Rightarrow> 'c validator_any \<Rightarrow> bytes outcome" where
  "validator_any_Marshal V N (AnyMsgRegisterValidator m) = MsgRegisterValidator_Marshal V N m"
| "validator_any_Marshal V N AnyMsgRegisterValidatorResponse =
     proto_Marshal MsgRegisterValidatorResponse_Size MsgRegisterValidatorResponse_MarshalToSizedBuffer ()"
| "validator_any_Marshal V N (AnyValidatorMsgUpdateParams m) = validator_MsgUpdateParams_Marshal N m"
| "validator_any_Marshal V N AnyValidatorMsgUpdateParamsResponse =
     proto_Marshal validator_MsgUpdateParamsResponse_Size validator_MsgUpdateParamsResponse_MarshalToSizedBuffer ()"
| "validator_any_Marshal V N AnyValidatorParamsRequest =
     proto_Marshal validator_QueryParamsRequest_Size validator_QueryParamsRequest_MarshalToSizedBuffer ()"
| "validator_any_Marshal V N (AnyValidatorParamsResponse m) = validator_QueryParamsResponse_Marshal N m"

fun validator_any_Unmarshal ::
  "'c MsgCreateValidator_scheme foreign_message \<Rightarrow> coin foreign_message \<Rightarrow> bytes \<Rightarrow> 'c validator_any
     \<Rightarrow> 'c validator_any outcome" where
  "validator_any_Unmarshal V N bs (AnyMsgRegisterValidator m) =
     replied AnyMsgRegisterValidator (MsgRegisterValidator_Unmarshal V N bs m)"
| "validator_any_Unmarshal V N bs AnyMsgRegisterValidatorResponse =
     replied (\<lambda>_. AnyMsgRegisterValidatorResponse) (MsgRegisterValidatorResponse_Unmarshal bs ())"
| "validator_any_Unmarshal V N bs (AnyValidatorMsgUpdateParams m) =
     replied AnyValidatorMsgUpdateParams (validator_MsgUpdateParams_Unmarshal N bs m)"
| "validator_any_Unmarshal V N bs AnyValidatorMsgUpdateParamsResponse =
     replied (\<lambda>_. AnyValidatorMsgUpdateParamsResponse) (validator_MsgUpdateParamsResponse_Unmarshal bs ())"
| "validator_any_Unmarshal V N bs AnyValidatorParamsRequest =
     replied (\<lambda>_. AnyValidatorParamsRequest) (validator_QueryParamsRequest_Unmarshal bs ())"
| "validator_any_Unmarshal V N bs (AnyValidatorParamsResponse m) =
     replied AnyValidatorParamsResponse (validator_QueryParamsResponse_Unmarshal N bs m)"

end
