(* ===== verification/Grpc_Properties.thy ===== *)
theory Grpc_Properties
  imports Grpc_Services Gateway_Properties Wire_Instance
begin

text \<open>
  What a query answers over a gRPC connection and how a message reaches its server. The transport is
  grpc's: \<open>serves\<close> states its documented contract (the method of the service table named in the path
  runs on the decoded request, the reply is encoded and decoded, an error arrives as a status).
\<close>

section \<open>The transport\<close>

text \<open>\<open>relay\<close> is what becomes of an error on the wire.\<close>

definition relayed :: "(error \<Rightarrow> error) \<Rightarrow> 'a outcome \<Rightarrow> 'a outcome" where
  "relayed relay r = (case r of Ok x \<Rightarrow> Ok x | Err e \<Rightarrow> Err (relay e) | Panic \<Rightarrow> Panic)"

lemma relayed_simps [simp]:
  "relayed relay (Ok x) = Ok x" "relayed relay (Err e) = Err (relay e)" "relayed relay Panic = Panic"
  by (simp_all add: relayed_def)

lemma replied_simps [simp]: "replied f (Ok x) = Ok (f x)" "replied f (Err e) = Err e" "replied f Panic = Panic"
  by (simp_all add: replied_def)

lemma relayed_replied: "relayed relay (replied f r) = replied f (relayed relay r)"
  by (cases r) simp_all

lemma replied_replied [simp]: "replied f (replied g r) = replied (\<lambda>x. f (g x)) r"
  by (cases r) simp_all

lemma replied_id [simp]: "replied (\<lambda>x. x) r = r"
  by (cases r) simp_all

lemma relayed_id [simp]: "relayed (\<lambda>e. e) r = r"
  by (cases r) simp_all

definition full_method :: "('a, 'v, 's) service_desc \<Rightarrow> string \<Rightarrow> string" where
  "full_method desc name = ''/'' @ ServiceName desc @ ''/'' @ name"

text \<open>\<open>incoming\<close> takes the context of the client to the context of the handler.\<close>

definition serves ::
  "('a \<Rightarrow> bytes outcome) \<Rightarrow> (bytes \<Rightarrow> 'a \<Rightarrow> 'a outcome) \<Rightarrow> (error \<Rightarrow> error) \<Rightarrow> ('x \<Rightarrow> 'x)
     \<Rightarrow> ('a, 'v, 'x) service_desc \<Rightarrow> 'v \<Rightarrow> ('a, 'x) client_conn \<Rightarrow> bool" where
  "serves marsh unmarsh relay incoming desc srv cc \<longleftrightarrow>
     (\<forall>(name, h) \<in> set (Methods desc). \<forall>ctx a out bs. marsh a = Ok bs \<longrightarrow>
        (case fst (h srv (unmarsh bs) None (incoming ctx)) of
           Err e \<Rightarrow> fst (cc ctx (full_method desc name) a out) = Err (relay e)
         | Panic \<Rightarrow> True
         | Ok resp \<Rightarrow> (\<forall>rbs got. marsh resp = Ok rbs \<longrightarrow> unmarsh rbs out = Ok got \<longrightarrow>
             fst (cc ctx (full_method desc name) a out) = Ok got)))"

lemma servesD:
  assumes "serves marsh unmarsh relay incoming desc srv cc" and "(name, h) \<in> set (Methods desc)" and "marsh a = Ok bs"
  shows "case fst (h srv (unmarsh bs) None (incoming ctx)) of
      Err e \<Rightarrow> fst (cc ctx (full_method desc name) a out) = Err (relay e)
    | Panic \<Rightarrow> True
    | Ok resp \<Rightarrow> (\<forall>rbs got. marsh resp = Ok rbs \<longrightarrow> unmarsh rbs out = Ok got \<longrightarrow>
        fst (cc ctx (full_method desc name) a out) = Ok got)"
  using bspec [OF assms(1) [unfolded serves_def] assms(2)] assms(3) by simp

text \<open>A message that survives the wire, read into a new message \<open>zero\<close>.\<close>

definition carried :: "('a \<Rightarrow> bytes outcome) \<Rightarrow> (bytes \<Rightarrow> 'a \<Rightarrow> 'a outcome) \<Rightarrow> 'a \<Rightarrow> 'a \<Rightarrow> bool" where
  "carried marsh unmarsh zero a \<longleftrightarrow> (\<exists>bs. marsh a = Ok bs \<and> unmarsh bs zero = Ok a)"

text \<open>A codec carries its messages, whatever constructor of the interface type they are under.\<close>

lemma carried_codec:
  assumes "message_codec mar msize unmar new good enc" and "good m" and "msize m < 2 ^ 63"
    and "marsh (box m) = proto_Marshal msize mar m" and "\<And>bs. unmarsh bs (box new) = replied box (unmar bs new)"
  shows "carried marsh unmarsh (box new) (box m)"
  using message_codec.roundtrip [OF assms(1-3)] by (auto simp: carried_def assms(4,5))

text \<open>One query method over the wire.\<close>

lemma query_over_grpc:
  assumes "serves marsh unmarsh relay incoming desc (QueryServer v) cc"
    and "(name, unary_handler cast box zero fm (\<lambda>srv m. on_QueryServer (meth m) reply srv)) \<in> set (Methods desc)"
    and "carried marsh unmarsh (box zero) a" and "cast a = Some m"
    and "meth m v (incoming ctx) \<noteq> Panic"
    and "\<And>r. meth m v (incoming ctx) = Ok r \<Longrightarrow> carried marsh unmarsh (rbox rzero) (reply r) \<and> rcast (reply r) = Some (wire r)"
  shows "fst (unary_call rcast rbox rzero (full_method desc name) cc ctx a) =
    relayed relay (replied wire (meth m v (incoming ctx)))"
proof -
  obtain bs where bs: "marsh a = Ok bs" "unmarsh bs (box zero) = Ok a"
    using assms(3) by (auto simp: carried_def)
  note law = servesD [OF assms(1,2) bs(1), where out = "rbox rzero" and ctx = ctx]
  have "fst (unary_handler cast box zero fm (\<lambda>srv m. on_QueryServer (meth m) reply srv)
        (QueryServer v) (unmarsh bs) None (incoming ctx)) = replied reply (meth m v (incoming ctx))"
    by (simp add: unary_handler_def bs(2) bindM_def liftM_def through_def assms(4) on_QueryServer_def replied_def)
  note law = law [unfolded this]
  show ?thesis
  proof (cases "meth m v (incoming ctx)")
    case (Ok r)
    then obtain rbs where "marsh (reply r) = outcome.Ok rbs" "unmarsh rbs (rbox rzero) = outcome.Ok (reply r)"
      using assms(6) by (auto simp: carried_def)
    then have "fst (cc ctx (full_method desc name) a (rbox rzero)) = outcome.Ok (reply r)"
      using law Ok by simp
    then show ?thesis
      using assms(6) [OF Ok] by (simp add: unary_call_def split_def Ok through_def)
  next
    case (Err e)
    then show ?thesis
      using law by (simp add: unary_call_def split_def)
  next
    case Panic
    then show ?thesis using assms(5) by simp
  qed
qed

section \<open>The query clients\<close>

text \<open>What the server of a module answers in a context can be put on the wire.\<close>

definition burn_answers_fit ::
  "int option custom_type \<Rightarrow> (int option \<Rightarrow> bool) \<Rightarrow> 'x burn_QueryServer \<Rightarrow> 'x \<Rightarrow> bool" where
  "burn_answers_fit D good server ctx \<longleftrightarrow>
     (Server_Params server ctx \<noteq> Panic \<and> Server_BurnStats server ctx \<noteq> Panic) \<and>
     (\<forall>p. Server_Params server ctx = Ok p \<longrightarrow>
        good (FeeBurnPercent p) \<and> burn_QueryParamsResponse_Size D \<lparr>qpr_Params = p\<rparr> < 2 ^ 63) \<and>
     (\<forall>r. Server_BurnStats server ctx = Ok r \<longrightarrow> BurnStatsResponse_Size r < 2 ^ 63) \<and>
     (\<forall>a. Server_AccountBurns server ctx (Some a) \<noteq> Panic \<and>
        (\<forall>t. Server_AccountBurns server ctx (Some a) = Ok t \<longrightarrow> QueryAccountBurnsResponse_Size \<lparr>qab_Amount = t\<rparr> < 2 ^ 63))"

definition validator_answers_fit ::
  "coin foreign_message \<Rightarrow> (coin \<Rightarrow> bool) \<Rightarrow> ('x \<Rightarrow> validator_params outcome) \<Rightarrow> 'x \<Rightarrow> bool" where
  "validator_answers_fit N good server ctx \<longleftrightarrow>
     server ctx \<noteq> Panic \<and>
     (\<forall>p. server ctx = Ok p \<longrightarrow> good (ValidatorRegistrationBurn p) \<and> good (ValidatorMinSelfDelegation p) \<and>
        validator_QueryParamsResponse_Size N \<lparr>vqpr_Params = p\<rparr> < 2 ^ 63)"

lemma burn_requests_carried:
  "carried (burn_any_Marshal D N) (burn_any_Unmarshal D N) AnyParamsRequest AnyParamsRequest"
  "carried (burn_any_Marshal D N) (burn_any_Unmarshal D N) AnyBurnStatsRequest AnyBurnStatsRequest"
  "QueryAccountBurnsRequest_Size m < 2 ^ 63 \<Longrightarrow>
     carried (burn_any_Marshal D N) (burn_any_Unmarshal D N) (AnyAccountBurnsRequest (Some \<lparr>qab_Address = ''''\<rparr>))
       (AnyAccountBurnsRequest (Some m))"
  by (rule carried_codec [OF burn_QueryParamsRequest.message_codec_axioms, where box = "\<lambda>_. AnyParamsRequest"]
      carried_codec [OF QueryBurnStatsRequest.message_codec_axioms, where box = "\<lambda>_. AnyBurnStatsRequest"]
      carried_codec [OF QueryAccountBurnsRequest.message_codec_axioms, where box = "\<lambda>m. AnyAccountBurnsRequest (Some m)"],
      simp_all add: burn_QueryParamsRequest_Size_def QueryBurnStatsRequest_Size_def QueryAccountBurnsRequest_Marshal_def)+

lemma burn_params_carried:
  assumes "custom_laws D good enc" and "good (FeeBurnPercent (qpr_Params m))" and "burn_QueryParamsResponse_Size D m < 2 ^ 63"
  shows "carried (burn_any_Marshal D N) (burn_any_Unmarshal D N) (AnyParamsResponse \<lparr>qpr_Params = \<lparr>FeeBurnPercent = None\<rparr>\<rparr>)
       (AnyParamsResponse m)"
  by (rule carried_codec [OF burn_QueryParamsResponse_codec [OF assms(1)] assms(2,3)])
    (simp_all add: burn_QueryParamsResponse_Marshal_def)

lemma burn_replies_carried:
  "BurnStatsResponse_Size r < 2 ^ 63 \<Longrightarrow>
     carried (burn_any_Marshal D N) (burn_any_Unmarshal D N) (AnyBurnStatsResponse \<lparr>TotalBurns = 0, TotalBurned = ''''\<rparr>)
       (AnyBurnStatsResponse r)"
  "QueryAccountBurnsResponse_Size t < 2 ^ 63 \<Longrightarrow>
     carried (burn_any_Marshal D N) (burn_any_Unmarshal D N) (AnyAccountBurnsResponse \<lparr>qab_Amount = ''''\<rparr>)
       (AnyAccountBurnsResponse t)"
  by (rule carried_codec [OF BurnStatsResponse.message_codec_axioms]
      carried_codec [OF QueryAccountBurnsResponse.message_codec_axioms],
      simp_all add: BurnStatsResponse_Marshal_def QueryAccountBurnsResponse_Marshal_def)+

lemma burn_Params_over_grpc:
  fixes D :: "int option custom_type" and N :: "coin foreign_message" and server :: "'x burn_QueryServer"
    and desc :: "(burn_any, ('m, 'x burn_QueryServer) service, 'x) service_desc"
  defines "desc \<equiv> burn_Query_serviceDesc"
  assumes D: "custom_laws D good enc"
    and serves: "serves (burn_any_Marshal D N) (burn_any_Unmarshal D N) relay incoming desc (QueryServer server) cc"
    and fit: "burn_answers_fit D good server (incoming ctx)"
  shows "fst (Client_Params (burn_NewQueryClient cc) ctx) = relayed relay (Server_Params server (incoming ctx))"
proof -
  have "fst (unary_call as_ParamsResponse AnyParamsResponse \<lparr>qpr_Params = \<lparr>FeeBurnPercent = None\<rparr>\<rparr>
      (full_method desc ''Params'') cc ctx AnyParamsRequest) =
    relayed relay (replied (\<lambda>p. \<lparr>qpr_Params = p\<rparr>) (Server_Params server (incoming ctx)))"
  proof (rule query_over_grpc [where meth = "\<lambda>_. Server_Params" and m = "()", OF serves])
    show "(''Params'', unary_handler (as_unit AnyParamsRequest) (\<lambda>_. AnyParamsRequest) () ''/monolythium.burn.v1.Query/Params''
       (\<lambda>srv _. on_QueryServer Server_Params (\<lambda>p. AnyParamsResponse \<lparr>qpr_Params = p\<rparr>) srv)) \<in> set (Methods desc)"
      by (simp add: desc_def burn_Query_serviceDesc_def burn_Query_Params_Handler_def)
  qed (use fit in \<open>auto simp: burn_requests_carried as_unit_def burn_answers_fit_def intro!: burn_params_carried [OF D]\<close>)
  then show ?thesis
    by (simp add: burn_NewQueryClient_def full_method_def desc_def burn_Query_serviceDesc_def split_def relayed_replied)
qed

lemma burn_BurnStats_over_grpc:
  fixes D :: "int option custom_type" and N :: "coin foreign_message" and server :: "'x burn_QueryServer"
    and desc :: "(burn_any, ('m, 'x burn_QueryServer) service, 'x) service_desc"
  defines "desc \<equiv> burn_Query_serviceDesc"
  assumes serves: "serves (burn_any_Marshal D N) (burn_any_Unmarshal D N) relay incoming desc (QueryServer server) cc"
    and fit: "burn_answers_fit D good server (incoming ctx)"
  shows "fst (Client_BurnStats (burn_NewQueryClient cc) ctx) = relayed relay (Server_BurnStats server (incoming ctx))"
proof -
  have "fst (unary_call as_BurnStatsResponse AnyBurnStatsResponse \<lparr>TotalBurns = 0, TotalBurned = ''''\<rparr>
      (full_method desc ''BurnStats'') cc ctx AnyBurnStatsRequest) =
    relayed relay (replied (\<lambda>r. r) (Server_BurnStats server (incoming ctx)))"
  proof (rule query_over_grpc [where meth = "\<lambda>_. Server_BurnStats" and m = "()", OF serves])
    show "(''BurnStats'', unary_handler (as_unit AnyBurnStatsRequest) (\<lambda>_. AnyBurnStatsRequest) () ''/monolythium.burn.v1.Query/BurnStats''
       (\<lambda>srv _. on_QueryServer Server_BurnStats AnyBurnStatsResponse srv)) \<in> set (Methods desc)"
      by (simp add: desc_def burn_Query_serviceDesc_def Query_BurnStats_Handler_def)
  qed (use fit in \<open>auto simp: burn_requests_carried as_unit_def burn_answers_fit_def intro!: burn_replies_carried\<close>)
  then show ?thesis
    by (simp add: burn_NewQueryClient_def full_method_def desc_def burn_Query_serviceDesc_def)
qed

lemma burn_AccountBurns_over_grpc:
  fixes D :: "int option custom_type" and N :: "coin foreign_message" and server :: "'x burn_QueryServer"
    and desc :: "(burn_any, ('m, 'x burn_QueryServer) service, 'x) service_desc"
  defines "desc \<equiv> burn_Query_serviceDesc"
  assumes serves: "serves (burn_any_Marshal D N) (burn_any_Unmarshal D N) relay incoming desc (QueryServer server) cc"
    and fit: "burn_answers_fit D good server (incoming ctx)"
    and size: "QueryAccountBurnsRequest_Size \<lparr>qab_Address = a\<rparr> < 2 ^ 63"
  shows "fst (Client_AccountBurns (burn_NewQueryClient cc) ctx (Some a)) =
    relayed relay (Server_AccountBurns server (incoming ctx) (Some a))"
proof -
  have "fst (unary_call as_AccountBurnsResponse AnyAccountBurnsResponse \<lparr>qab_Amount = ''''\<rparr>
      (full_method desc ''AccountBurns'') cc ctx (AnyAccountBurnsRequest (Some \<lparr>qab_Address = a\<rparr>))) =
    relayed relay (replied (\<lambda>t. \<lparr>qab_Amount = t\<rparr>) (Server_AccountBurns server (incoming ctx) (Some a)))"
  proof (rule query_over_grpc [where meth = "\<lambda>m v ctx. Server_AccountBurns v ctx (map_option qab_Address m)"
        and m = "Some \<lparr>qab_Address = a\<rparr>", OF serves, simplified])
    show "(''AccountBurns'', unary_handler as_AccountBurnsRequest AnyAccountBurnsRequest (Some \<lparr>qab_Address = ''''\<rparr>)
       ''/monolythium.burn.v1.Query/AccountBurns''
       (\<lambda>srv m. on_QueryServer (\<lambda>v ctx. Server_AccountBurns v ctx (map_option qab_Address m))
          (\<lambda>a. AnyAccountBurnsResponse \<lparr>qab_Amount = a\<rparr>) srv)) \<in> set (Methods desc)"
      by (simp add: desc_def burn_Query_serviceDesc_def Query_AccountBurns_Handler_def)
  qed (use fit in \<open>auto simp: burn_answers_fit_def intro!: size burn_requests_carried burn_replies_carried\<close>)
  then show ?thesis
    by (simp add: burn_NewQueryClient_def full_method_def desc_def burn_Query_serviceDesc_def split_def relayed_replied)
qed

lemma validator_Params_over_grpc:
  fixes N :: "coin foreign_message" and server :: "'x \<Rightarrow> validator_params outcome"
    and desc :: "('c validator_any, ('m, 'x \<Rightarrow> validator_params outcome) service, 'x) service_desc"
  defines "desc \<equiv> validator_Query_serviceDesc"
  assumes N: "message_codec (MMarshal N) (MSize N) (MUnmarshal N) zero_coin good enc"
    and serves: "serves (validator_any_Marshal V N) (validator_any_Unmarshal V N) relay incoming desc (QueryServer server) cc"
    and fit: "validator_answers_fit N good server (incoming ctx)"
  shows "fst (validator_NewQueryClient cc ctx) = relayed relay (server (incoming ctx))"
proof -
  let ?carried = "carried (validator_any_Marshal V N) (validator_any_Unmarshal V N)"
  have request: "?carried AnyValidatorParamsRequest AnyValidatorParamsRequest"
    by (rule carried_codec [OF validator_QueryParamsRequest.message_codec_axioms, where box = "\<lambda>_. AnyValidatorParamsRequest"])
      (simp_all add: validator_QueryParamsRequest_Size_def)
  have reply: "?carried (AnyValidatorParamsResponse \<lparr>vqpr_Params = zero_validator_params\<rparr>) (AnyValidatorParamsResponse m)"
    if "good (ValidatorRegistrationBurn (vqpr_Params m)) \<and> good (ValidatorMinSelfDelegation (vqpr_Params m))"
      "validator_QueryParamsResponse_Size N m < 2 ^ 63" for m
    unfolding zero_validator_params_def
    by (rule carried_codec [OF validator_QueryParamsResponse_codec [OF N]])
      (use that in \<open>simp_all add: validator_QueryParamsResponse_Marshal_def\<close>)
  have "fst (unary_call as_ValidatorParamsResponse AnyValidatorParamsResponse \<lparr>vqpr_Params = zero_validator_params\<rparr>
      (full_method desc ''Params'') cc ctx AnyValidatorParamsRequest) =
    relayed relay (replied (\<lambda>p. \<lparr>vqpr_Params = p\<rparr>) (server (incoming ctx)))"
  proof (rule query_over_grpc [where meth = "\<lambda>_ v. v" and m = "()", OF serves])
    show "(''Params'', unary_handler (as_unit AnyValidatorParamsRequest) (\<lambda>_. AnyValidatorParamsRequest) ()
       ''/monolythium.validator.v1.Query/Params''
       (\<lambda>srv _. on_QueryServer (\<lambda>v. v) (\<lambda>p. AnyValidatorParamsResponse \<lparr>vqpr_Params = p\<rparr>) srv)) \<in> set (Methods desc)"
      by (simp add: desc_def validator_Query_serviceDesc_def validator_Query_Params_Handler_def)
  qed (use fit in \<open>auto simp: request as_unit_def validator_answers_fit_def intro!: reply\<close>)
  then show ?thesis
    by (simp add: validator_NewQueryClient_def full_method_def desc_def validator_Query_serviceDesc_def split_def relayed_replied)
qed

section \<open>The gateway over a connection\<close>

lemma bare_reply_relayed:
  assumes "AnnotateContext E req = Ok ctx" and "AnnotateIncomingContext E req = Ok (incoming ctx)"
    and "fst (request ctx b) = relayed relay (fst (local_request (incoming ctx) b))"
  shows "bare_reply (serve_client E request req b) = relayed relay (bare_reply (serve_local E local_request req b))"
  using assms(3)
  by (cases "fst (local_request (incoming ctx) b)")
    (auto simp: bare_reply_def serve_client_def serve_local_def assms(1,2) split_def Let_def)

text \<open>
  Claim C30. The HTTP gateway dialed to a gRPC endpoint answers like the gateway in the process: when the
  connection serves the registered query services of the modules, a request gets on every path the
  replies of the in-process routes, an error as grpc relays it. The reply went through the generated
  client, the encoding of the request, the handler of the service table, the server, and the encoding
  of the reply.
\<close>

theorem gateway_over_grpc:
  fixes D :: "int option custom_type" and N :: "coin foreign_message"
  assumes codecs: "custom_laws D goodD encD" "message_codec (MMarshal N) (MSize N) (MUnmarshal N) zero_coin goodN encN"
    and serves: "serves (burn_any_Marshal D N) (burn_any_Unmarshal D N) relay incoming burn_Query_serviceDesc (QueryServer server) cc"
      "serves (validator_any_Marshal V N) (validator_any_Unmarshal V N) relay incoming validator_Query_serviceDesc (QueryServer vserver) vcc"
    and fit: "burn_answers_fit D goodD server (incoming ctx)" "validator_answers_fit N goodN vserver (incoming ctx)"
    and annotated: "AnnotateContext E req = Ok ctx" "AnnotateIncomingContext E req = Ok (incoming ctx)"
    and argument: "relay InvalidArgument = InvalidArgument"
      "\<And>b val a. PM pattern_Query_AccountBurns_0 comps = Some b \<Longrightarrow> b ''address'' = Some val \<Longrightarrow> RuntimeString E val = Ok a \<Longrightarrow>
         QueryAccountBurnsRequest_Size \<lparr>qab_Address = a\<rparr> < 2 ^ 63"
  shows "map bare_reply (replies_to PM (burn_RegisterQueryHandler E burn_NewQueryClient cc) comps req) =
      map (\<lambda>r. relayed relay (bare_reply r)) (replies_to PM (burn_RegisterQueryHandlerServer E server) comps req) \<and>
    map bare_reply (replies_to PM (validator_RegisterQueryHandler E validator_NewQueryClient vcc) comps req) =
      map (\<lambda>r. relayed relay (bare_reply r)) (replies_to PM (validator_RegisterQueryHandlerServer E vserver) comps req)"
proof -
  note clients = burn_Params_over_grpc [OF codecs(1) serves(1) fit(1)] burn_BurnStats_over_grpc [OF serves(1) fit(1)]
    burn_AccountBurns_over_grpc [OF serves(1) fit(1)] validator_Params_over_grpc [OF codecs(2) serves(2) fit(2)]
  note same = bare_reply_relayed [where E = E and req = req and ctx = ctx and incoming = incoming, OF annotated]
  let ?client = "burn_NewQueryClient cc"
  have "bare_reply (serve_client E (request_Query_Params_0 ?client) req b) =
        relayed relay (bare_reply (serve_local E (local_request_Query_Params_0 server) req b))"
      "bare_reply (serve_client E (request_Query_BurnStats_0 ?client) req b) =
        relayed relay (bare_reply (serve_local E (local_request_Query_BurnStats_0 server) req b))"
      "bare_reply (serve_client E (validator_request_Query_Params_0 (validator_NewQueryClient vcc)) req b) =
        relayed relay (bare_reply (serve_local E (validator_local_request_Query_Params_0 vserver) req b))" for b
    by (rule same, simp add: clients request_Query_Params_0_def local_request_Query_Params_0_def request_Query_BurnStats_0_def
        local_request_Query_BurnStats_0_def validator_request_Query_Params_0_def validator_local_request_Query_Params_0_def
        split_def relayed_replied)+
  moreover have "bare_reply (serve_client E (request_Query_AccountBurns_0 E ?client) req b) =
        relayed relay (bare_reply (serve_local E (local_request_Query_AccountBurns_0 E server) req b))"
    if "PM pattern_Query_AccountBurns_0 comps = Some b" for b
    using argument that
    by (intro same) (auto simp: clients request_Query_AccountBurns_0_def local_request_Query_AccountBurns_0_def
        split_def relayed_replied split: option.split outcome.split)
  ultimately show ?thesis
    by (simp add: replies_to_def burn_RegisterQueryHandler_def burn_RegisterQueryHandlerClient_def
        burn_RegisterQueryHandlerServer_def validator_RegisterQueryHandler_def
        validator_RegisterQueryHandlerClient_def validator_RegisterQueryHandlerServer_def split: option.split)
qed

text \<open>A connection to a server in the same process, through the bytes.\<close>

definition loopback ::
  "('a \<Rightarrow> bytes outcome) \<Rightarrow> (bytes \<Rightarrow> 'a \<Rightarrow> 'a outcome) \<Rightarrow> ('a, 'v, 'x) service_desc \<Rightarrow> 'v \<Rightarrow> ('a, 'x) client_conn" where
  "loopback marsh unmarsh desc srv ctx path a out =
     ((case map_of (map (\<lambda>(n, h). (full_method desc n, h)) (Methods desc)) path of
         None \<Rightarrow> Err (OtherErr ''unknown method'')
       | Some h \<Rightarrow>
           bindO (marsh a) (\<lambda>bs.
           bindO (fst (h srv (unmarsh bs) None ctx)) (\<lambda>resp.
           bindO (marsh resp) (\<lambda>rbs. unmarsh rbs out)))), no_metadata)"

lemma loopback_serves:
  assumes "distinct (map fst (Methods desc))"
  shows "serves marsh unmarsh (\<lambda>e. e) (\<lambda>x. x) desc srv (loopback marsh unmarsh desc srv)"
proof -
  have "map_of (map (\<lambda>(n, h). (full_method desc n, h)) (Methods desc)) (full_method desc name) = Some h"
    if "(name, h) \<in> set (Methods desc)" for name h
    using that assms
    by (intro map_of_is_SomeI) (auto simp: full_method_def comp_def split_def distinct_map inj_on_def
        intro: rev_image_eqI [where x = "(name, h)"])
  then show ?thesis
    by (auto simp: serves_def loopback_def split: outcome.split)
qed

definition ref_validator_params :: validator_params where
  "ref_validator_params =
     \<lparr>ValidatorRegistrationBurn = \<lparr>Denom = ''alyth'', Amount = Some 3\<rparr>,
      ValidatorMinSelfDelegation = \<lparr>Denom = ''alyth'', Amount = Some 2\<rparr>\<rparr>"

definition ref_burn_server :: "unit burn_QueryServer" where
  "ref_burn_server =
     \<lparr>Server_Params = (\<lambda>_. Ok \<lparr>FeeBurnPercent = Some 5\<rparr>), Server_BurnStats = (\<lambda>_. Err ErrNotFound),
      Server_AccountBurns = (\<lambda>_ _. Ok ''12'')\<rparr>"

theorem gateway_over_grpc_witness:
  "map bare_reply (replies_to run_pattern (burn_RegisterQueryHandler ref_gateway burn_NewQueryClient
       (loopback (burn_any_Marshal ref_int ref_coin_message) (burn_any_Unmarshal ref_int ref_coin_message)
          burn_Query_serviceDesc (QueryServer ref_burn_server))) (burn_path [''accounts'', ''a'', ''burns'']) ()) =
     map (\<lambda>r. relayed (\<lambda>e. e) (bare_reply r))
       (replies_to run_pattern (burn_RegisterQueryHandlerServer ref_gateway ref_burn_server) (burn_path [''accounts'', ''a'', ''burns'']) ())"
proof -
  have N: "message_codec (MMarshal ref_coin_message) (MSize ref_coin_message) (MUnmarshal ref_coin_message)
      zero_coin (\<lambda>_. True) (ref_Coin_enc ref_int_bytes)"
    using ref_coin_codec by (simp add: zero_coin_def)
  have fit: "burn_answers_fit ref_int (\<lambda>_. True) ref_burn_server ()"
    by (simp add: burn_answers_fit_def ref_burn_server_def, code_simp)
  have vfit: "validator_answers_fit ref_coin_message (\<lambda>_. True) (\<lambda>_. Ok ref_validator_params) ()"
    by (simp add: validator_answers_fit_def, code_simp)
  have "QueryAccountBurnsRequest_Size \<lparr>qab_Address = ''a''\<rparr> < 2 ^ 63"
    by code_simp
  then have size: "run_pattern pattern_Query_AccountBurns_0 (burn_path [''accounts'', ''a'', ''burns'']) = Some b \<Longrightarrow>
      b ''address'' = Some val \<Longrightarrow> RuntimeString ref_gateway val = Ok a \<Longrightarrow>
      QueryAccountBurnsRequest_Size \<lparr>qab_Address = a\<rparr> < 2 ^ 63" for b val a
    by (auto simp: burn_patterns_match ref_gateway_def)
  show ?thesis
    by (rule gateway_over_grpc [where V = ref_create_message and vserver = "\<lambda>_. Ok ref_validator_params"
          and vcc = "loopback (validator_any_Marshal ref_create_message ref_coin_message)
            (validator_any_Unmarshal ref_create_message ref_coin_message) validator_Query_serviceDesc
            (QueryServer (\<lambda>_. Ok ref_validator_params))" and ctx = "()" and incoming = "\<lambda>x. x",
          OF ref_int_laws N loopback_serves loopback_serves, THEN conjunct1];
        (erule (2) size | simp add: fit vfit burn_Query_serviceDesc_def validator_Query_serviceDesc_def ref_gateway_def))
qed

section \<open>How a message reaches its server\<close>

text \<open>The method of the service that takes a message, and what it does with it.\<close>

fun burn_msg_method :: "burn_any \<Rightarrow> string option" where
  "burn_msg_method (AnyMsgBurn m) = Some ''Burn''"
| "burn_msg_method (AnyMsgUpdateParams m) = Some ''UpdateParams''"
| "burn_msg_method _ = None"

fun burn_msg_run :: "'s burn_MsgServer \<Rightarrow> burn_any \<Rightarrow> 's \<Rightarrow> burn_any outcome \<times> 's" where
  "burn_msg_run srv (AnyMsgBurn m) = bindM (Serve_Burn srv m) (\<lambda>_. retM AnyMsgBurnResponse)"
| "burn_msg_run srv (AnyMsgUpdateParams m) = bindM (Serve_UpdateParams srv m) (\<lambda>_. retM AnyMsgUpdateParamsResponse)"
| "burn_msg_run srv _ = liftM Panic"

fun validator_msg_method :: "'c validator_any \<Rightarrow> string option" where
  "validator_msg_method (AnyMsgRegisterValidator m) = Some ''RegisterValidator''"
| "validator_msg_method (AnyValidatorMsgUpdateParams m) = Some ''UpdateParams''"
| "validator_msg_method _ = None"

fun validator_msg_run :: "('c, 's) validator_MsgServer \<Rightarrow> 'c validator_any \<Rightarrow> 's \<Rightarrow> 'c validator_any outcome \<times> 's" where
  "validator_msg_run srv (AnyMsgRegisterValidator m) =
     bindM (Serve_RegisterValidator srv m) (\<lambda>_. retM AnyMsgRegisterValidatorResponse)"
| "validator_msg_run srv (AnyValidatorMsgUpdateParams m) =
     bindM (Serve_Validator_UpdateParams srv m) (\<lambda>_. retM AnyValidatorMsgUpdateParamsResponse)"
| "validator_msg_run srv _ = liftM Panic"

text \<open>The interceptor of the SDK's message router: it runs the handler on the message of the transaction.\<close>

definition substitutes :: "'a \<Rightarrow> ('a, 'v, 's) interceptor" where
  "substitutes a = (\<lambda>_ _ handler. handler a)"

text \<open>A handler runs one call: on what the decoder left, or on what the interceptor passes.\<close>

lemma handler_decodes:
  assumes "carried marsh unmarsh (box zero) (box m)" and "\<And>m. cast (box m) = Some m"
  shows "\<exists>bs. marsh (box m) = Ok bs \<and> unary_handler cast box zero fm call srv (unmarsh bs) None s = call srv m s"
  using assms by (auto simp: carried_def unary_handler_def bindM_def liftM_def through_def)

lemma handler_substitutes:
  "unary_handler cast box zero fm call srv Ok (Some (substitutes a)) s =
     (case cast a of None \<Rightarrow> (Panic, s) | Some m \<Rightarrow> call srv m s)"
  by (simp add: unary_handler_def bindM_def liftM_def substitutes_def split: option.split)

text \<open>The messages of a transaction the codecs can carry.\<close>

fun burn_msg_fits ::
  "int option custom_type \<Rightarrow> (int option \<Rightarrow> bool) \<Rightarrow> coin foreign_message \<Rightarrow> (coin \<Rightarrow> bool) \<Rightarrow> burn_any \<Rightarrow> bool" where
  "burn_msg_fits D goodD N goodN (AnyMsgBurn m) \<longleftrightarrow> goodN (BurnAmount m) \<and> MsgBurn_Size N m < 2 ^ 63"
| "burn_msg_fits D goodD N goodN (AnyMsgUpdateParams m) \<longleftrightarrow>
     goodD (FeeBurnPercent (bup_Params m)) \<and> burn_MsgUpdateParams_Size D m < 2 ^ 63"
| "burn_msg_fits D goodD N goodN _ \<longleftrightarrow> False"

fun validator_msg_fits ::
  "'c MsgCreateValidator_scheme foreign_message \<Rightarrow> ('c MsgCreateValidator_scheme \<Rightarrow> bool) \<Rightarrow> coin foreign_message
     \<Rightarrow> (coin \<Rightarrow> bool) \<Rightarrow> 'c validator_any \<Rightarrow> bool" where
  "validator_msg_fits V goodV N goodN (AnyMsgRegisterValidator m) \<longleftrightarrow>
     goodV (CreateValidator m) \<and> goodN (MsgRegisterValidator.Burn m) \<and> MsgRegisterValidator_Size V N m < 2 ^ 63"
| "validator_msg_fits V goodV N goodN (AnyValidatorMsgUpdateParams m) \<longleftrightarrow>
     goodN (ValidatorRegistrationBurn (vup_Params m)) \<and> goodN (ValidatorMinSelfDelegation (vup_Params m)) \<and>
     validator_MsgUpdateParams_Size N m < 2 ^ 63"
| "validator_msg_fits V goodV N goodN _ \<longleftrightarrow> False"

lemma burn_msg_carried:
  assumes D: "custom_laws D goodD encD" and N: "message_codec (MMarshal N) (MSize N) (MUnmarshal N) zero_coin goodN encN"
  shows "goodN (BurnAmount m) \<Longrightarrow> MsgBurn_Size N m < 2 ^ 63 \<Longrightarrow>
      carried (burn_any_Marshal D N) (burn_any_Unmarshal D N) (AnyMsgBurn zero_MsgBurn) (AnyMsgBurn m)"
    and "goodD (FeeBurnPercent (bup_Params u)) \<Longrightarrow> burn_MsgUpdateParams_Size D u < 2 ^ 63 \<Longrightarrow>
      carried (burn_any_Marshal D N) (burn_any_Unmarshal D N) (AnyMsgUpdateParams zero_MsgUpdateParams) (AnyMsgUpdateParams u)"
  unfolding zero_MsgBurn_def zero_MsgUpdateParams_def
  by (rule carried_codec [OF MsgBurn_codec [OF N]] carried_codec [OF burn_MsgUpdateParams_codec [OF D]],
      simp_all add: MsgBurn_Marshal_def burn_MsgUpdateParams_Marshal_def)+

lemma validator_msg_carried:
  fixes V :: "'c MsgCreateValidator_scheme foreign_message"
  assumes V: "message_codec (MMarshal V) (MSize V) (MUnmarshal V) zeroV goodV encV"
    and N: "message_codec (MMarshal N) (MSize N) (MUnmarshal N) zero_coin goodN encN"
  shows "goodV (CreateValidator m) \<Longrightarrow> goodN (MsgRegisterValidator.Burn m) \<Longrightarrow> MsgRegisterValidator_Size V N m < 2 ^ 63 \<Longrightarrow>
      carried (validator_any_Marshal V N) (validator_any_Unmarshal V N)
        (AnyMsgRegisterValidator (zero_MsgRegisterValidator zeroV)) (AnyMsgRegisterValidator m)"
    and "goodN (ValidatorRegistrationBurn (vup_Params u)) \<Longrightarrow> goodN (ValidatorMinSelfDelegation (vup_Params u)) \<Longrightarrow>
      validator_MsgUpdateParams_Size N u < 2 ^ 63 \<Longrightarrow>
      carried (validator_any_Marshal V N) (validator_any_Unmarshal V N)
        (AnyValidatorMsgUpdateParams zero_ValidatorMsgUpdateParams) (AnyValidatorMsgUpdateParams u)"
  unfolding zero_MsgRegisterValidator_def zero_ValidatorMsgUpdateParams_def zero_validator_params_def
  by (rule carried_codec [OF MsgRegisterValidator_codec [OF V N]] carried_codec [OF validator_MsgUpdateParams_codec [OF N]],
      simp_all add: MsgRegisterValidator_Marshal_def validator_MsgUpdateParams_Marshal_def)+

lemma burn_handler_decodes:
  assumes D: "custom_laws D goodD encD" and N: "message_codec (MMarshal N) (MSize N) (MUnmarshal N) zero_coin goodN encN"
  shows "burn_msg_fits D goodD N goodN (AnyMsgBurn m) \<Longrightarrow> \<exists>bs. burn_any_Marshal D N (AnyMsgBurn m) = Ok bs \<and>
      Msg_Burn_Handler (MsgServer srv) (burn_any_Unmarshal D N bs) None s = burn_msg_run srv (AnyMsgBurn m) s"
    and "burn_msg_fits D goodD N goodN (AnyMsgUpdateParams u) \<Longrightarrow> \<exists>bs. burn_any_Marshal D N (AnyMsgUpdateParams u) = Ok bs \<and>
      burn_Msg_UpdateParams_Handler (MsgServer srv) (burn_any_Unmarshal D N bs) None s = burn_msg_run srv (AnyMsgUpdateParams u) s"
  using handler_decodes [where box = AnyMsgBurn and zero = zero_MsgBurn and m = m, OF burn_msg_carried(1) [OF D N], where cast = as_MsgBurn and s = s and srv = "MsgServer srv"
      and call = "\<lambda>srv m. on_MsgServer (\<lambda>v. Serve_Burn v m) (\<lambda>_. AnyMsgBurnResponse) srv"]
    handler_decodes [where box = AnyMsgUpdateParams and zero = zero_MsgUpdateParams and m = u, OF burn_msg_carried(2) [OF D N], where cast = as_MsgUpdateParams and s = s and srv = "MsgServer srv"
      and call = "\<lambda>srv m. on_MsgServer (\<lambda>v. Serve_UpdateParams v m) (\<lambda>_. AnyMsgUpdateParamsResponse) srv"]
  by (simp_all add: Msg_Burn_Handler_def burn_Msg_UpdateParams_Handler_def on_MsgServer_def del: burn_any_Marshal.simps)

lemma burn_handler_substitutes:
  "Msg_Burn_Handler (MsgServer srv) Ok (Some (substitutes a)) s =
     (if burn_msg_method a = Some ''Burn'' then burn_msg_run srv a s else (Panic, s))"
  "burn_Msg_UpdateParams_Handler (MsgServer srv) Ok (Some (substitutes a)) s =
     (if burn_msg_method a = Some ''UpdateParams'' then burn_msg_run srv a s else (Panic, s))"
  by (simp_all add: Msg_Burn_Handler_def burn_Msg_UpdateParams_Handler_def handler_substitutes on_MsgServer_def)
    (cases a; simp)+

lemma validator_handler_decodes:
  fixes V :: "'c MsgCreateValidator_scheme foreign_message"
  assumes V: "message_codec (MMarshal V) (MSize V) (MUnmarshal V) zeroV goodV encV"
    and N: "message_codec (MMarshal N) (MSize N) (MUnmarshal N) zero_coin goodN encN"
  shows "validator_msg_fits V goodV N goodN (AnyMsgRegisterValidator m) \<Longrightarrow>
      \<exists>bs. validator_any_Marshal V N (AnyMsgRegisterValidator m) = Ok bs \<and>
        Msg_RegisterValidator_Handler zeroV (MsgServer srv) (validator_any_Unmarshal V N bs) None s =
          validator_msg_run srv (AnyMsgRegisterValidator m) s"
    and "validator_msg_fits V goodV N goodN (AnyValidatorMsgUpdateParams u) \<Longrightarrow>
      \<exists>bs. validator_any_Marshal V N (AnyValidatorMsgUpdateParams u) = Ok bs \<and>
        validator_Msg_UpdateParams_Handler (MsgServer srv) (validator_any_Unmarshal V N bs) None s =
          validator_msg_run srv (AnyValidatorMsgUpdateParams u) s"
  using handler_decodes [where box = AnyMsgRegisterValidator and zero = "zero_MsgRegisterValidator zeroV" and m = m, OF validator_msg_carried(1) [OF V N], where cast = as_MsgRegisterValidator and s = s
      and srv = "MsgServer srv" and call = "\<lambda>srv m. on_MsgServer (\<lambda>v. Serve_RegisterValidator v m) (\<lambda>_. AnyMsgRegisterValidatorResponse) srv"]
    handler_decodes [where box = AnyValidatorMsgUpdateParams and zero = zero_ValidatorMsgUpdateParams and m = u, OF validator_msg_carried(2) [OF V N], where cast = as_ValidatorMsgUpdateParams and s = s
      and srv = "MsgServer srv" and call = "\<lambda>srv m. on_MsgServer (\<lambda>v. Serve_Validator_UpdateParams v m) (\<lambda>_. AnyValidatorMsgUpdateParamsResponse) srv"]
  by (simp_all add: Msg_RegisterValidator_Handler_def validator_Msg_UpdateParams_Handler_def on_MsgServer_def
      del: validator_any_Marshal.simps)

lemma validator_handler_substitutes:
  "Msg_RegisterValidator_Handler zeroV (MsgServer srv) Ok (Some (substitutes b)) s =
     (if validator_msg_method b = Some ''RegisterValidator'' then validator_msg_run srv b s else (Panic, s))"
  "validator_Msg_UpdateParams_Handler (MsgServer srv) Ok (Some (substitutes b)) s =
     (if validator_msg_method b = Some ''UpdateParams'' then validator_msg_run srv b s else (Panic, s))"
  by (simp_all add: Msg_RegisterValidator_Handler_def validator_Msg_UpdateParams_Handler_def handler_substitutes on_MsgServer_def)
    (cases b; simp)+

text \<open>
  Claim C31. A message reaches the same method of the same server on both ways in. Of every entry of the
  service tables of the two modules: decoded from the bytes of a request, or put in by the SDK's
  message router in place of the request it never decodes, a message of the entry's type runs the
  server method of that name, on that message; a message of any other type is a panic that changes
  nothing.
\<close>

theorem message_paths_agree:
  fixes D :: "int option custom_type" and N :: "coin foreign_message" and V :: "'c MsgCreateValidator_scheme foreign_message"
  assumes codecs: "custom_laws D goodD encD" "message_codec (MMarshal N) (MSize N) (MUnmarshal N) zero_coin goodN encN"
      "message_codec (MMarshal V) (MSize V) (MUnmarshal V) zeroV goodV encV"
    and entries: "(name, h) \<in> set (Methods burn_Msg_serviceDesc)" "(vname, vh) \<in> set (Methods (validator_Msg_serviceDesc zeroV))"
  shows "(burn_msg_method a = Some name \<longrightarrow> burn_msg_fits D goodD N goodN a \<longrightarrow>
        (\<exists>bs. burn_any_Marshal D N a = Ok bs \<and> h (MsgServer srv) (burn_any_Unmarshal D N bs) None s = burn_msg_run srv a s)) \<and>
    h (MsgServer srv) Ok (Some (substitutes a)) s = (if burn_msg_method a = Some name then burn_msg_run srv a s else (Panic, s)) \<and>
    (validator_msg_method b = Some vname \<longrightarrow> validator_msg_fits V goodV N goodN b \<longrightarrow>
        (\<exists>bs. validator_any_Marshal V N b = Ok bs \<and>
           vh (MsgServer vsrv) (validator_any_Unmarshal V N bs) None t = validator_msg_run vsrv b t)) \<and>
    vh (MsgServer vsrv) Ok (Some (substitutes b)) t =
      (if validator_msg_method b = Some vname then validator_msg_run vsrv b t else (Panic, t))"
proof -
  have tables: "(name, h) = (''UpdateParams'', burn_Msg_UpdateParams_Handler) \<or> (name, h) = (''Burn'', Msg_Burn_Handler)"
    "(vname, vh) = (''RegisterValidator'', Msg_RegisterValidator_Handler zeroV) \<or>
       (vname, vh) = (''UpdateParams'', validator_Msg_UpdateParams_Handler)"
    using entries by (simp_all add: burn_Msg_serviceDesc_def validator_Msg_serviceDesc_def)
  have "\<exists>bs. burn_any_Marshal D N a = Ok bs \<and> h (MsgServer srv) (burn_any_Unmarshal D N bs) None s = burn_msg_run srv a s"
    if "burn_msg_method a = Some name" "burn_msg_fits D goodD N goodN a"
    using that tables(1) burn_handler_decodes [OF codecs(1,2), where srv = srv and s = s] by (cases a) auto
  moreover have "\<exists>bs. validator_any_Marshal V N b = Ok bs \<and>
      vh (MsgServer vsrv) (validator_any_Unmarshal V N bs) None t = validator_msg_run vsrv b t"
    if "validator_msg_method b = Some vname" "validator_msg_fits V goodV N goodN b"
    using that tables(2) validator_handler_decodes [OF codecs(3,2), where srv = vsrv and s = t] by (cases b) auto
  ultimately show ?thesis
    using tables by (auto simp: burn_handler_substitutes validator_handler_substitutes)
qed

text \<open>A burn of three tokens by its message, from the bytes to the keeper.\<close>

theorem message_paths_agree_witness:
  "\<exists>bs. burn_any_Marshal ref_int ref_coin_message
        (AnyMsgBurn \<lparr>FromAddress = ''alice'', BurnAmount = \<lparr>Denom = ''alyth'', Amount = Some 3\<rparr>\<rparr>) = Ok bs \<and>
      Msg_Burn_Handler (MsgServer (burn_NewMsgServerImpl ref_keeper)) (burn_any_Unmarshal ref_int ref_coin_message bs) None ref_chain =
        bindM (msg_Burn ref_keeper \<lparr>FromAddress = ''alice'', BurnAmount = \<lparr>Denom = ''alyth'', Amount = Some 3\<rparr>\<rparr>)
          (\<lambda>_. retM AnyMsgBurnResponse) ref_chain"
proof -
  let ?m = "\<lparr>FromAddress = ''alice'', BurnAmount = \<lparr>Denom = ''alyth'', Amount = Some 3\<rparr>\<rparr>"
  have N: "message_codec (MMarshal ref_coin_message) (MSize ref_coin_message) (MUnmarshal ref_coin_message)
      zero_coin (\<lambda>_. True) (ref_Coin_enc ref_int_bytes)"
    using ref_coin_codec by (simp add: zero_coin_def)
  have fits: "burn_msg_fits ref_int (\<lambda>_. True) ref_coin_message (\<lambda>_. True) (AnyMsgBurn ?m)"
    by code_simp
  have entries: "(''Burn'', Msg_Burn_Handler) \<in> set (Methods burn_Msg_serviceDesc)"
    "(''UpdateParams'', validator_Msg_UpdateParams_Handler) \<in> set (Methods (validator_Msg_serviceDesc zeroCV))" for zeroCV
    by (simp_all add: burn_Msg_serviceDesc_def validator_Msg_serviceDesc_def)
  show ?thesis
    using message_paths_agree [where a = "AnyMsgBurn ?m" and srv = "burn_NewMsgServerImpl ref_keeper" and s = ref_chain,
        OF ref_int_laws N ref_create_codec entries(1) entries(2), THEN conjunct1] fits
    by (simp add: burn_NewMsgServerImpl_def del: burn_any_Marshal.simps)
qed

section \<open>Names, and the stubs\<close>

text \<open>Every method a client names is an entry of the service table, under the name its handler gives to interceptors.\<close>

lemma client_methods_served:
  "map (full_method burn_Msg_serviceDesc \<circ> fst) (Methods burn_Msg_serviceDesc) =
     [''/monolythium.burn.v1.Msg/UpdateParams'', ''/monolythium.burn.v1.Msg/Burn'']"
  "map (full_method burn_Query_serviceDesc \<circ> fst) (Methods burn_Query_serviceDesc) =
     [''/monolythium.burn.v1.Query/Params'', ''/monolythium.burn.v1.Query/BurnStats'', ''/monolythium.burn.v1.Query/AccountBurns'']"
  "map (full_method (validator_Msg_serviceDesc zeroV) \<circ> fst) (Methods (validator_Msg_serviceDesc zeroV)) =
     [''/monolythium.validator.v1.Msg/RegisterValidator'', ''/monolythium.validator.v1.Msg/UpdateParams'']"
  "map (full_method validator_Query_serviceDesc \<circ> fst) (Methods validator_Query_serviceDesc) =
     [''/monolythium.validator.v1.Query/Params'']"
  by (simp_all add: full_method_def burn_Msg_serviceDesc_def burn_Query_serviceDesc_def validator_Msg_serviceDesc_def
      validator_Query_serviceDesc_def)

text \<open>A server that embeds the stub refuses every message and leaves the state.\<close>

lemma unimplemented_refuses:
  "burn_msg_method a = Some name \<Longrightarrow> burn_msg_run burn_UnimplementedMsgServer a s = (Err (unimplemented name), s)"
  "validator_msg_method b = Some name \<Longrightarrow> validator_msg_run validator_UnimplementedMsgServer b s = (Err (unimplemented name), s)"
  by (cases a; auto simp: burn_UnimplementedMsgServer_def bindM_def failM_def)
    (cases b; auto simp: validator_UnimplementedMsgServer_def bindM_def failM_def)

end
