(* ===== verification/Module_Cli.thy ===== *)
theory Module_Cli
  imports Grpc_Properties
begin

text \<open>
  \<^verbatim>\<open>x/*/types/codec.go\<close> and \<^verbatim>\<open>x/*/autocli.go\<close>: the message types a module registers with the interface
  registry of the SDK, and the description from which the SDK builds its command line. Both are data
  for libraries; the lemmas check them against the service tables.
\<close>

section \<open>codec.go\<close>

text \<open>\<^verbatim>\<open>registrar.RegisterImplementations((*sdk.Msg)(nil), ...)\<close>, then \<^verbatim>\<open>msgservice.RegisterMsgServiceDesc\<close>.\<close>

record ('a, 'd, 'r) interface_registry =
  RegisterImplementations :: "string \<Rightarrow> 'a list \<Rightarrow> 'r \<Rightarrow> 'r"
  RegisterMsgServiceDesc :: "'d \<Rightarrow> 'r \<Rightarrow> 'r"

definition burn_msg_types :: "burn_any list" where
  "burn_msg_types = [AnyMsgBurn zero_MsgBurn, AnyMsgUpdateParams zero_MsgUpdateParams]"

definition burn_RegisterInterfaces ::
  "(burn_any, (burn_any, ('s burn_MsgServer, 'q) service, 's) service_desc, 'r) interface_registry \<Rightarrow> 'r \<Rightarrow> 'r" where
  "burn_RegisterInterfaces R registrar =
     RegisterMsgServiceDesc R burn_Msg_serviceDesc (RegisterImplementations R ''sdk.Msg'' burn_msg_types registrar)"

definition validator_msg_types :: "'c MsgCreateValidator_scheme \<Rightarrow> 'c validator_any list" where
  "validator_msg_types zeroCV =
     [AnyMsgRegisterValidator (zero_MsgRegisterValidator zeroCV), AnyValidatorMsgUpdateParams zero_ValidatorMsgUpdateParams]"

definition validator_RegisterInterfaces ::
  "'c MsgCreateValidator_scheme
     \<Rightarrow> ('c validator_any, ('c validator_any, (('c, 's) validator_MsgServer, 'q) service, 's) service_desc, 'r) interface_registry
     \<Rightarrow> 'r \<Rightarrow> 'r" where
  "validator_RegisterInterfaces zeroCV R registrar =
     RegisterMsgServiceDesc R (validator_Msg_serviceDesc zeroCV)
       (RegisterImplementations R ''sdk.Msg'' (validator_msg_types zeroCV) registrar)"

text \<open>\<open>UnpackInterfaces\<close> of \<open>MsgRegisterValidator\<close> is that of the message inside.\<close>

definition MsgRegisterValidator_UnpackInterfaces ::
  "('c MsgCreateValidator_scheme \<Rightarrow> 'u \<Rightarrow> unit outcome) \<Rightarrow> 'c MsgRegisterValidator \<Rightarrow> 'u \<Rightarrow> unit outcome" where
  "MsgRegisterValidator_UnpackInterfaces UnpackInterfaces msg unpacker = UnpackInterfaces (CreateValidator msg) unpacker"

text \<open>Exactly the messages the services take are registered, each once.\<close>

lemma registered_messages_served:
  "set (map burn_msg_method burn_msg_types) = Some ` set (map fst (Methods burn_Msg_serviceDesc))"
  "distinct (map burn_msg_method burn_msg_types)"
  "set (map validator_msg_method (validator_msg_types zeroCV)) = Some ` set (map fst (Methods (validator_Msg_serviceDesc zeroCV)))"
  "distinct (map validator_msg_method (validator_msg_types zeroCV))"
  by (auto simp: burn_msg_types_def burn_Msg_serviceDesc_def validator_msg_types_def validator_Msg_serviceDesc_def)

section \<open>autocli.go\<close>

record rpc_command_options =
  RpcMethod :: string
  CmdUse :: string
  CmdShort :: string
  PositionalArgs :: "string list"
  GovProposal :: bool

record service_command_descriptor =
  CmdService :: string
  EnhanceCustomCommand :: bool
  RpcCommandOptions :: "rpc_command_options list"

record module_options =
  QueryCommands :: service_command_descriptor
  TxCommands :: service_command_descriptor

text \<open>The service tables, at one type of server.\<close>

abbreviation burn_Query_table :: "(burn_any, (unit, unit burn_QueryServer) service, unit) service_desc" where
  "burn_Query_table \<equiv> burn_Query_serviceDesc"

abbreviation burn_Msg_table :: "(burn_any, (unit burn_MsgServer, unit) service, unit) service_desc" where
  "burn_Msg_table \<equiv> burn_Msg_serviceDesc"

abbreviation validator_Query_table :: "(unit validator_any, (unit, unit \<Rightarrow> validator_params outcome) service, unit) service_desc" where
  "validator_Query_table \<equiv> validator_Query_serviceDesc"

abbreviation validator_Msg_table ::
  "'c MsgCreateValidator_scheme \<Rightarrow> ('c validator_any, (('c, unit) validator_MsgServer, unit) service, unit) service_desc" where
  "validator_Msg_table \<equiv> validator_Msg_serviceDesc"

definition burn_AutoCLIOptions :: module_options where
  "burn_AutoCLIOptions =
     \<lparr>QueryCommands =
        \<lparr>CmdService = ServiceName burn_Query_table, EnhanceCustomCommand = False,
         RpcCommandOptions =
           [\<lparr>RpcMethod = ''Params'', CmdUse = ''params'', CmdShort = ''Shows the parameters of the module'',
             PositionalArgs = [], GovProposal = False\<rparr>,
            \<lparr>RpcMethod = ''BurnStats'', CmdUse = ''burn-stats'', CmdShort = ''Query global burn statistics'',
             PositionalArgs = [], GovProposal = False\<rparr>,
            \<lparr>RpcMethod = ''AccountBurns'', CmdUse = ''account-burns [address]'', CmdShort = ''Query burn total for an account'',
             PositionalArgs = [''address''], GovProposal = False\<rparr>]\<rparr>,
      TxCommands =
        \<lparr>CmdService = ServiceName burn_Msg_table, EnhanceCustomCommand = False,
         RpcCommandOptions =
           [\<lparr>RpcMethod = ''UpdateParams'', CmdUse = ''update-params-proposal [params]'',
             CmdShort = ''Submit a proposal to update burn module params. Note: the entire params must be provided.'',
             PositionalArgs = [''params''], GovProposal = True\<rparr>,
            \<lparr>RpcMethod = ''Burn'', CmdUse = ''burn [amount]'', CmdShort = ''Send a burn tx'',
             PositionalArgs = [''amount''], GovProposal = False\<rparr>]\<rparr>\<rparr>"

definition validator_AutoCLIOptions :: "'c MsgCreateValidator_scheme \<Rightarrow> module_options" where
  "validator_AutoCLIOptions zeroCV =
     \<lparr>QueryCommands =
        \<lparr>CmdService = ServiceName validator_Query_table, EnhanceCustomCommand = False,
         RpcCommandOptions =
           [\<lparr>RpcMethod = ''Params'', CmdUse = ''params'', CmdShort = ''Shows the parameters of the module'',
             PositionalArgs = [], GovProposal = False\<rparr>]\<rparr>,
      TxCommands =
        \<lparr>CmdService = ServiceName (validator_Msg_table zeroCV), EnhanceCustomCommand = True,
         RpcCommandOptions =
           [\<lparr>RpcMethod = ''UpdateParams'', CmdUse = ''update-params-proposal [params]'',
             CmdShort = ''Submit a proposal to update validator module params. Note: the entire params must be provided.'',
             PositionalArgs = [''params''], GovProposal = True\<rparr>]\<rparr>\<rparr>"

text \<open>The fields of the request of a method, by their protobuf names.\<close>

definition burn_request_fields :: "(string \<times> string list) list" where
  "burn_request_fields =
     [(''UpdateParams'', [''authority'', ''params'']), (''Burn'', [''from_address'', ''amount'']),
      (''Params'', []), (''BurnStats'', []), (''AccountBurns'', [''address''])]"

definition validator_request_fields :: "(string \<times> string list) list" where
  "validator_request_fields =
     [(''RegisterValidator'', [''sender'', ''create_validator'', ''burn'']), (''UpdateParams'', [''authority'', ''params'']),
      (''Params'', [])]"

text \<open>The usage line: the command word, then the positional arguments in brackets.\<close>

fun usage_args :: "string list \<Rightarrow> string" where
  "usage_args [] = ''''"
| "usage_args (a # as) = '' ['' @ a @ '']'' @ usage_args as"

definition command_word :: "string \<Rightarrow> string" where
  "command_word use = takeWhile (\<lambda>c. c \<noteq> CHR '' '') use"

definition descriptor_sound ::
  "(string \<times> string list) list \<Rightarrow> string \<Rightarrow> string list \<Rightarrow> service_command_descriptor \<Rightarrow> bool" where
  "descriptor_sound of_method service methods d \<longleftrightarrow>
     CmdService d = service \<and> distinct (map (command_word \<circ> CmdUse) (RpcCommandOptions d)) \<and>
     list_all (\<lambda>c. RpcMethod c \<in> set methods \<and>
       CmdUse c = command_word (CmdUse c) @ usage_args (PositionalArgs c) \<and>
       set (PositionalArgs c) \<subseteq> set (the (map_of of_method (RpcMethod c)))) (RpcCommandOptions d)"

text \<open>
  Every command runs a method of the service it names, the arguments of its usage line are the
  positional arguments, in that order, and these are fields of the request.
\<close>

lemma burn_commands_sound:
  "descriptor_sound burn_request_fields (ServiceName burn_Query_serviceDesc) (map fst (Methods burn_Query_serviceDesc))
     (QueryCommands burn_AutoCLIOptions)"
  "descriptor_sound burn_request_fields (ServiceName burn_Msg_serviceDesc) (map fst (Methods burn_Msg_serviceDesc))
     (TxCommands burn_AutoCLIOptions)"
  by (simp_all add: descriptor_sound_def burn_AutoCLIOptions_def burn_Query_serviceDesc_def burn_Msg_serviceDesc_def
      command_word_def burn_request_fields_def)

lemma validator_commands_sound:
  "descriptor_sound validator_request_fields (ServiceName validator_Query_serviceDesc) (map fst (Methods validator_Query_serviceDesc))
     (QueryCommands (validator_AutoCLIOptions zeroCV))"
  "descriptor_sound validator_request_fields (ServiceName (validator_Msg_serviceDesc zeroCV))
     (map fst (Methods (validator_Msg_serviceDesc zeroCV))) (TxCommands (validator_AutoCLIOptions zeroCV))"
  by (simp_all add: descriptor_sound_def validator_AutoCLIOptions_def validator_Query_serviceDesc_def
      validator_Msg_serviceDesc_def command_word_def validator_request_fields_def)

end
