(* ===== verification/Wire_Hooks.thy ===== *)
theory Wire_Hooks
  imports Grpc_Services
begin

text \<open>
  What else the generated files (\<^verbatim>\<open>*.pb.go\<close>) declare for every message: the \<open>XXX_\<close> hooks through which the
  protobuf library marshals, the getters, which accept a nil pointer, and \<open>Equal\<close> of the two \<open>Params\<close>.
\<close>

section \<open>The hooks of the protobuf library\<close>

text \<open>
  \<open>XXX_Marshal\<close> is the same for every message: deterministic output is the library's business
  (\<open>info\<close>, a parameter); otherwise the buffer, up to its capacity, is filled from its end and cut at the
  number of bytes written.
\<close>

definition XXX_Marshal ::
  "('m \<Rightarrow> bytes \<Rightarrow> bytes outcome) \<Rightarrow> ('m \<Rightarrow> bytes \<Rightarrow> (int \<times> bytes) outcome) \<Rightarrow> 'm \<Rightarrow> bytes \<Rightarrow> bool \<Rightarrow> bytes outcome" where
  "XXX_Marshal info marshal m b deterministic =
     (if deterministic then info m b
      else bindO (marshal m b) (\<lambda>(n, d). slice d 0 n))"

definition XXX_Size :: "('m \<Rightarrow> int) \<Rightarrow> 'm \<Rightarrow> int" where
  "XXX_Size msize m = msize m"

definition XXX_Unmarshal :: "(bytes \<Rightarrow> 'm \<Rightarrow> 'm outcome) \<Rightarrow> 'm \<Rightarrow> bytes \<Rightarrow> 'm outcome" where
  "XXX_Unmarshal unmarshal m b = unmarshal b m"

text \<open>\<open>Reset\<close> and the library's \<open>Unmarshal\<close>, which resets the message first.\<close>

definition proto_Reset :: "'m \<Rightarrow> 'm \<Rightarrow> 'm" where
  "proto_Reset zero m = zero"

text \<open>\<open>XXX_Merge\<close> and \<open>XXX_DiscardUnknown\<close> are the library's, on this message.\<close>

definition XXX_Merge :: "('m \<Rightarrow> 'm \<Rightarrow> 'm) \<Rightarrow> 'm \<Rightarrow> 'm \<Rightarrow> 'm" where
  "XXX_Merge infoMerge m src = infoMerge m src"

definition XXX_DiscardUnknown :: "('m \<Rightarrow> 'm) \<Rightarrow> 'm \<Rightarrow> 'm" where
  "XXX_DiscardUnknown infoDiscard m = infoDiscard m"

text \<open>
  A buffer of \<open>XXX_Size\<close> bytes, whatever they are, gives what \<open>Marshal\<close> gives. Of a longer one the hook
  returns the front, but the message is at the end: the library has to bring the exact capacity.
\<close>

lemma XXX_Marshal_front:
  assumes "message_codec marshal msize unmarshal new good enc" and "good m" and "length old = length (enc m)"
  shows "XXX_Marshal info marshal m (pre @ old) False = Ok (take (length (enc m)) (pre @ enc m))"
proof -
  have "marshal m (pre @ old) = Ok (int (length (enc m)), pre @ enc m)"
    using message_codec.marshal_enc [OF assms(1,2)] assms(3) by (simp add: sized_def)
  then show ?thesis by (simp add: XXX_Marshal_def slice_def)
qed

lemma XXX_Marshal_exact:
  assumes "message_codec marshal msize unmarshal new good enc" and "good m" and "int (length b) = XXX_Size msize m"
  shows "XXX_Marshal info marshal m b False = proto_Marshal msize marshal m"
proof -
  have "length b = length (enc m)"
    using message_codec.size_enc [OF assms(1,2)] assms(3) by (simp add: XXX_Size_def)
  then show ?thesis
    using XXX_Marshal_front [OF assms(1,2), of b _ "[]"] message_codec.Marshal_enc [OF assms(1,2)] by simp
qed

section \<open>Registered types\<close>

text \<open>
  Per file: its name, and the types its \<open>init\<close> registers, with the index their \<open>Descriptor\<close> gives in the
  descriptor of the file.
\<close>

type_synonym proto_file = "string \<times> (string \<times> nat) list"

definition burn_genesis_types :: proto_file where
  "burn_genesis_types =
     (''monolythium/burn/v1/genesis.proto'',
      [(''monolythium.burn.v1.GenesisState'', 0),
       (''monolythium.burn.v1.AccountBurnRecord'', 1)])"

definition burn_params_types :: proto_file where
  "burn_params_types =
     (''monolythium/burn/v1/params.proto'',
      [(''monolythium.burn.v1.Params'', 0)])"

definition burn_query_types :: proto_file where
  "burn_query_types =
     (''monolythium/burn/v1/query.proto'',
      [(''monolythium.burn.v1.QueryParamsRequest'', 0),
       (''monolythium.burn.v1.QueryParamsResponse'', 1),
       (''monolythium.burn.v1.QueryBurnStatsRequest'', 2),
       (''monolythium.burn.v1.QueryBurnStatsResponse'', 3),
       (''monolythium.burn.v1.QueryAccountBurnsRequest'', 4),
       (''monolythium.burn.v1.QueryAccountBurnsResponse'', 5)])"

definition burn_tx_types :: proto_file where
  "burn_tx_types =
     (''monolythium/burn/v1/tx.proto'',
      [(''monolythium.burn.v1.MsgUpdateParams'', 0),
       (''monolythium.burn.v1.MsgUpdateParamsResponse'', 1),
       (''monolythium.burn.v1.MsgBurn'', 2),
       (''monolythium.burn.v1.MsgBurnResponse'', 3)])"

definition validator_genesis_types :: proto_file where
  "validator_genesis_types =
     (''monolythium/validator/v1/genesis.proto'',
      [(''monolythium.validator.v1.GenesisState'', 0)])"

definition validator_params_types :: proto_file where
  "validator_params_types =
     (''monolythium/validator/v1/params.proto'',
      [(''monolythium.validator.v1.Params'', 0)])"

definition validator_query_types :: proto_file where
  "validator_query_types =
     (''monolythium/validator/v1/query.proto'',
      [(''monolythium.validator.v1.QueryParamsRequest'', 0),
       (''monolythium.validator.v1.QueryParamsResponse'', 1)])"

definition validator_tx_types :: proto_file where
  "validator_tx_types =
     (''monolythium/validator/v1/tx.proto'',
      [(''monolythium.validator.v1.MsgRegisterValidator'', 0),
       (''monolythium.validator.v1.MsgRegisterValidatorResponse'', 1),
       (''monolythium.validator.v1.MsgUpdateParams'', 2),
       (''monolythium.validator.v1.MsgUpdateParamsResponse'', 3)])"

definition proto_files :: "proto_file list" where
  "proto_files =
     [burn_genesis_types, burn_params_types, burn_query_types, burn_tx_types,
      validator_genesis_types, validator_params_types, validator_query_types, validator_tx_types]"

lemmas proto_files_defs = proto_files_def burn_genesis_types_def burn_params_types_def burn_query_types_def burn_tx_types_def
  validator_genesis_types_def validator_params_types_def validator_query_types_def validator_tx_types_def

text \<open>No name is registered twice, and the indices count the messages of a file.\<close>

lemma registered_names_distinct:
  "distinct (map fst (concat (map snd proto_files)))" "distinct (map fst proto_files)"
  by (simp_all add: proto_files_defs)

lemma descriptor_indices: "list_all (\<lambda>f. map snd (snd f) = [0..<length (snd f)]) proto_files"
  by (simp add: proto_files_defs upt_rec)

section \<open>Getters\<close>

text \<open>A nil receiver gives the zero value of the field.\<close>

definition getter :: "('m \<Rightarrow> 'f) \<Rightarrow> 'f \<Rightarrow> 'm option \<Rightarrow> 'f" where
  "getter field zero m = (case m of Some x \<Rightarrow> field x | None \<Rightarrow> zero)"

definition burn_GenesisState_GetParams where "burn_GenesisState_GetParams = getter gen_Params \<lparr>FeeBurnPercent = None\<rparr>"
definition burn_GenesisState_GetCount where "burn_GenesisState_GetCount = getter gen_Count 0"
definition burn_GenesisState_GetAccountTotals where "burn_GenesisState_GetAccountTotals = getter gen_AccountTotals []"
definition AccountBurnRecord_GetAddress where "AccountBurnRecord_GetAddress = getter rec_Address ''''"
definition burn_QueryParamsResponse_GetParams where
  "burn_QueryParamsResponse_GetParams = getter qpr_Params \<lparr>FeeBurnPercent = None\<rparr>"
definition QueryBurnStatsResponse_GetTotalBurns where "QueryBurnStatsResponse_GetTotalBurns = getter TotalBurns 0"
definition QueryBurnStatsResponse_GetTotalBurned where "QueryBurnStatsResponse_GetTotalBurned = getter TotalBurned ''''"
definition QueryAccountBurnsRequest_GetAddress where "QueryAccountBurnsRequest_GetAddress = getter qab_Address ''''"
definition QueryAccountBurnsResponse_GetAmount where "QueryAccountBurnsResponse_GetAmount = getter qab_Amount ''''"
definition burn_MsgUpdateParams_GetAuthority where "burn_MsgUpdateParams_GetAuthority = getter bup_Authority ''''"
definition burn_MsgUpdateParams_GetParams where "burn_MsgUpdateParams_GetParams = getter bup_Params \<lparr>FeeBurnPercent = None\<rparr>"
definition MsgBurn_GetFromAddress where "MsgBurn_GetFromAddress = getter FromAddress ''''"
definition MsgBurn_GetAmount where "MsgBurn_GetAmount = getter BurnAmount zero_coin"
definition validator_GenesisState_GetParams where "validator_GenesisState_GetParams = getter vgen_Params zero_validator_params"
definition GetValidatorRegistrationBurn where "GetValidatorRegistrationBurn = getter ValidatorRegistrationBurn zero_coin"
definition GetValidatorMinSelfDelegation where "GetValidatorMinSelfDelegation = getter ValidatorMinSelfDelegation zero_coin"
definition validator_QueryParamsResponse_GetParams where
  "validator_QueryParamsResponse_GetParams = getter vqpr_Params zero_validator_params"
definition MsgRegisterValidator_GetSender where "MsgRegisterValidator_GetSender = getter Sender ''''"
definition MsgRegisterValidator_GetCreateValidator where "MsgRegisterValidator_GetCreateValidator zeroCV = getter CreateValidator zeroCV"
definition MsgRegisterValidator_GetBurn where "MsgRegisterValidator_GetBurn = getter MsgRegisterValidator.Burn zero_coin"
definition validator_MsgUpdateParams_GetAuthority where "validator_MsgUpdateParams_GetAuthority = getter vup_Authority ''''"
definition validator_MsgUpdateParams_GetParams where "validator_MsgUpdateParams_GetParams = getter vup_Params zero_validator_params"

section \<open>\<open>Equal\<close>\<close>

text \<open>What an \<^verbatim>\<open>interface{}\<close> may hold: nothing, a pointer (nil or not), a value, something else.\<close>

datatype 'p any_value = NilInterface | PointerTo "'p option" | ValueOf 'p | OtherValue

text \<open>
  The generated \<open>Equal\<close>: a comparison with a nil interface or a nil pointer looks at the receiver's pointer;
  a value or a pointer is compared field by field; anything else differs.
\<close>

definition proto_Equal :: "('p \<Rightarrow> 'p \<Rightarrow> bool outcome) \<Rightarrow> 'p option \<Rightarrow> 'p any_value \<Rightarrow> bool outcome" where
  "proto_Equal fields_equal this that =
     (let against = (\<lambda>that1. case that1 of
          None \<Rightarrow> Ok (this = None)
        | Some q \<Rightarrow> (case this of None \<Rightarrow> Ok False | Some p \<Rightarrow> fields_equal p q)) in
      case that of
        NilInterface \<Rightarrow> Ok (this = None)
      | PointerTo q \<Rightarrow> against q
      | ValueOf q \<Rightarrow> against (Some q)
      | OtherValue \<Rightarrow> Ok False)"

text \<open>The fields: \<open>LegacyDec.Equal\<close> and \<open>Coin.Equal\<close> are the SDK's.\<close>

definition burn_Params_Equal ::
  "(int option \<Rightarrow> int option \<Rightarrow> bool outcome) \<Rightarrow> burn_params option \<Rightarrow> burn_params any_value \<Rightarrow> bool outcome" where
  "burn_Params_Equal DecEqual =
     proto_Equal (\<lambda>this that1.
       bindO (DecEqual (FeeBurnPercent this) (FeeBurnPercent that1)) (\<lambda>eq. if \<not> eq then Ok False else Ok True))"

definition validator_Params_Equal ::
  "(coin option \<Rightarrow> coin any_value \<Rightarrow> bool outcome) \<Rightarrow> validator_params option \<Rightarrow> validator_params any_value \<Rightarrow> bool outcome" where
  "validator_Params_Equal CoinEqual =
     proto_Equal (\<lambda>this that1.
       bindO (CoinEqual (Some (ValidatorRegistrationBurn this)) (PointerTo (Some (ValidatorRegistrationBurn that1)))) (\<lambda>eq.
       if \<not> eq then Ok False
       else
         bindO (CoinEqual (Some (ValidatorMinSelfDelegation this)) (PointerTo (Some (ValidatorMinSelfDelegation that1)))) (\<lambda>eq.
         if \<not> eq then Ok False else Ok True)))"

text \<open>
  Numbers are compared by value, and a number that was never set is a nil pointer of the library, which
  panics. On parameters that are set \<open>Equal\<close> is equality; on parameters that are not it panics.
\<close>

definition equal_laws :: "(int option \<Rightarrow> int option \<Rightarrow> bool outcome) \<Rightarrow> (coin option \<Rightarrow> coin any_value \<Rightarrow> bool outcome) \<Rightarrow> bool" where
  "equal_laws DecEqual CoinEqual \<longleftrightarrow>
     (\<forall>a b. DecEqual a b = bindO (deref a) (\<lambda>x. bindO (deref b) (\<lambda>y. Ok (x = y)))) \<and>
     (\<forall>c d. CoinEqual (Some c) (PointerTo (Some d)) =
        (if Denom c \<noteq> Denom d then Ok False
         else bindO (deref (Amount c)) (\<lambda>x. bindO (deref (Amount d)) (\<lambda>y. Ok (x = y)))))"

lemma burn_Params_Equal_set:
  assumes "equal_laws DecEqual CoinEqual" and "FeeBurnPercent p \<noteq> None" and "FeeBurnPercent q \<noteq> None"
  shows "burn_Params_Equal DecEqual (Some p) (PointerTo (Some q)) = Ok (p = q)"
    and "burn_Params_Equal DecEqual (Some p) (ValueOf q) = Ok (p = q)"
  using assms by (cases p; cases q; auto simp: burn_Params_Equal_def proto_Equal_def equal_laws_def)+

lemma burn_Params_Equal_unset:
  assumes "equal_laws DecEqual CoinEqual" and "FeeBurnPercent p = None"
  shows "burn_Params_Equal DecEqual (Some p) (ValueOf p) = Panic"
  using assms by (simp add: burn_Params_Equal_def proto_Equal_def equal_laws_def)

lemma validator_Params_Equal_set:
  assumes "equal_laws DecEqual CoinEqual"
    and "Amount (ValidatorRegistrationBurn p) \<noteq> None" and "Amount (ValidatorMinSelfDelegation p) \<noteq> None"
    and "Amount (ValidatorRegistrationBurn q) \<noteq> None" and "Amount (ValidatorMinSelfDelegation q) \<noteq> None"
  shows "validator_Params_Equal CoinEqual (Some p) (PointerTo (Some q)) = Ok (p = q)"
    and "validator_Params_Equal CoinEqual (Some p) (ValueOf q) = Ok (p = q)"
  using assms
  by (cases "ValidatorRegistrationBurn p"; cases "ValidatorMinSelfDelegation p"; cases "ValidatorRegistrationBurn q";
      cases "ValidatorMinSelfDelegation q"; cases p; cases q;
      auto simp: validator_Params_Equal_def proto_Equal_def equal_laws_def)+

end
