(* ===== verification/Spec2Isabelle.thy ===== *)
theory Spec2Isabelle
  imports Burn_Properties Validator_Properties Wire_Properties Command_Properties Export_Preparation
    Gateway_Properties Simulation_Properties Chain_Restart Test_Doubles Testnet_Command In_Place_Properties
    Process_Properties Grpc_Properties Module_Cli Wire_Hooks
begin

text \<open>
  A verification development for mono-chain, a Cosmos SDK chain with an EVM (\<^verbatim>\<open>monod\<close>). The program's
  own logic is two modules and the application and commands around them.

  \<^item> x/burn (\<^verbatim>\<open>x/burn\<close>) destroys tokens: a share of the fees at the start of every block, and whatever
    an account burns by a message. It keeps a counter, a total and a total per account.
  \<^item> x/validator (\<^verbatim>\<open>x/validator\<close>) is the only way to become a validator after genesis: a registration
    burns tokens through x/burn and then creates the validator in x/staking. A restricted staking server
    and a circuit breaker (\<^verbatim>\<open>x/validator/ante\<close>) close the other ways.
  \<^item> The application (\<^verbatim>\<open>app\<close>) builds the keepers, fixes the module orders of genesis and of every block,
    and exports the state for a restart at height 0.
  \<^item> The commands (\<^verbatim>\<open>cmd/monod/cmd\<close>) resolve the identity of the network, set up a testnet of several
    nodes, and turn a local copy of the chain into a testnet.

  Go as it is modelled. A call ends with a value, an error or a panic (\<open>outcome\<close>, \<^verbatim>\<open>Mono_Prelude\<close>); a call
  that writes state is a function from the state to an outcome and the state it leaves, also on an
  error, since the handlers return early and undo nothing themselves. \<open>bindM\<close> is the sequence with its
  early return. \<^verbatim>\<open>os.Exit\<close>, \<^verbatim>\<open>log.Fatal\<close> and \<^verbatim>\<open>panic\<close> are one outcome. A nil \<^verbatim>\<open>math.Int\<close> is \<open>None\<close>. A \<^verbatim>\<open>uint64\<close> is a
  64-bit word where it can wrap, an index into a slice is an integer kept in \<^verbatim>\<open>int64\<close> by \<open>i64\<close> in the codecs. A Go
  string is the list of its bytes.

  The theories, from the bottom.

  \<^item> \<^verbatim>\<open>Mono_Prelude\<close>, \<^verbatim>\<open>Go_Loops\<close>, \<^verbatim>\<open>Go_Paths\<close>: outcomes, errors, sequencing, loops and iterators, the decimal
    numbers and slash-separated paths of the Go library, with the lemmas the components share.
  \<^item> \<^verbatim>\<open>Module_Store\<close>: the state a keeper declares (\<^verbatim>\<open>collections.Item\<close>, \<^verbatim>\<open>Sequence\<close>, \<^verbatim>\<open>Map\<close>). A cell is absent, a
    value, or bytes that do not decode; which writes fail is a parameter. The map is the locale
    \<open>ordered_store\<close>, provided by an association list.
  \<^item> \<^verbatim>\<open>Sdk_Interfaces\<close>: the SDK as records of parameters, and the laws the theorems assume of it.
  \<^item> \<^verbatim>\<open>Burn_Types\<close>, \<^verbatim>\<open>Burn_Keeper\<close>: \<^verbatim>\<open>x/burn/types\<close>, \<^verbatim>\<open>x/burn/keeper\<close> and \<^verbatim>\<open>abci.go\<close>, one definition per Go
    function (\<open>BurnFromAccount\<close>, \<open>ProcessFeeBurn\<close>, \<open>updateTrackers\<close>, the servers, genesis). \<^verbatim>\<open>Burn_Ledger\<close> is the
    abstract ledger and the refinement, \<^verbatim>\<open>Burn_Genesis\<close> import and export, \<^verbatim>\<open>Burn_Machine\<close> the state machine
    of the module, \<^verbatim>\<open>Burn_Properties\<close> its properties.
  \<^item> \<^verbatim>\<open>Validator_Types\<close>, \<^verbatim>\<open>Validator_Keeper\<close>: \<^verbatim>\<open>x/validator\<close> with the two guards and the wiring of its keeper.
    \<^verbatim>\<open>Validator_Gate\<close> states what x/validator needs of x/burn (locale \<open>burn_service\<close>, provided by x/burn's
    own \<open>BurnFromAccount\<close> through \<open>burn_module\<close>) and the machine of every way a validator can be created;
    \<^verbatim>\<open>Validator_Properties\<close> has the properties.
  \<^item> \<^verbatim>\<open>Wire\<close>, \<^verbatim>\<open>Wire_Laws\<close>, \<^verbatim>\<open>Wire_Burn\<close>, \<^verbatim>\<open>Wire_Validator\<close>, \<^verbatim>\<open>Wire_Properties\<close>: the generated protobuf codecs
    (\<^verbatim>\<open>x/*/types/*.pb.go\<close>), byte by byte. The routines every file repeats are modelled once; each message is
    a composition of them, and the locale \<open>message_codec\<close> is the contract of a message. \<^verbatim>\<open>Wire_Hooks\<close> has the
    entry points of the protobuf library, the getters, \<open>Params.Equal\<close> and the registered types.
  \<^item> \<^verbatim>\<open>Gateway\<close>, \<^verbatim>\<open>Gateway_Properties\<close>: the HTTP gateways (\<^verbatim>\<open>query.pb.gw.go\<close>), from the path of a request to
    the query server of the keeper.
  \<^item> \<^verbatim>\<open>Grpc_Services\<close>, \<^verbatim>\<open>Grpc_Properties\<close>: the gRPC services of \<^verbatim>\<open>tx.pb.go\<close> and \<^verbatim>\<open>query.pb.go\<close>: clients, service
    tables, handlers. A message behind an interface is a value of \<open>burn_any\<close> or \<open>validator_any\<close>; connection,
    decoder and interceptor are arguments. \<^verbatim>\<open>Module_Cli\<close>: \<^verbatim>\<open>codec.go\<close> and \<^verbatim>\<open>autocli.go\<close>, checked against the tables.
  \<^item> \<^verbatim>\<open>App_Modules\<close>, \<^verbatim>\<open>Module_Properties\<close>: \<^verbatim>\<open>module.go\<close> of both modules; genesis through JSON. \<^verbatim>\<open>Chain_Restart\<close>
    puts the machine of the gate and restarts by export and import into one, over the whole life of a chain.
  \<^item> \<^verbatim>\<open>Simulation\<close>, \<^verbatim>\<open>Simulation_Properties\<close>: \<^verbatim>\<open>x/*/simulation\<close> over an explicit random source.
  \<^item> \<^verbatim>\<open>App_Config\<close>, \<^verbatim>\<open>App_Start\<close>, \<^verbatim>\<open>App_Properties\<close>: \<^verbatim>\<open>app/config.go\<close>, the module orders and lifecycle methods
    of \<^verbatim>\<open>app/app.go\<close>, genesis, mempool and ante handler, and the steps of \<open>New\<close> that can fail.
  \<^item> \<^verbatim>\<open>App_Wiring\<close>, \<^verbatim>\<open>Wiring_Properties\<close>: the construction of the keepers in \<open>New\<close>, as a program of constructor
    and setter calls (\<open>new_keepers\<close>) over the fields of \<open>App\<close>, run by \<open>run_wiring\<close>; Go copies a struct, shares a
    pointer, and passes a field on that is not set yet, and the semantics keeps these apart. A static
    analysis of the program, proved sound once, gives the properties. \<^verbatim>\<open>App_Api\<close>: the other fields of \<open>App\<close>,
    accessors, ante options, API routes and \<^verbatim>\<open>docs\<close>.
  \<^item> \<^verbatim>\<open>Node_Process\<close>, \<^verbatim>\<open>Process_Properties\<close>: \<^verbatim>\<open>main.go\<close>, the global configuration of the SDK, \<open>NewRootCmd\<close> and the
    trees of commands.
  \<^item> \<^verbatim>\<open>Export_Zero\<close>, \<^verbatim>\<open>Export_Properties\<close>, \<^verbatim>\<open>Export_Preparation\<close>: \<^verbatim>\<open>app/export.go\<close>, phase by phase and as a whole.
  \<^item> \<^verbatim>\<open>Chain_Id\<close>, \<^verbatim>\<open>Command_Properties\<close>: \<^verbatim>\<open>chain_id.go\<close>, \<^verbatim>\<open>mono_config.go\<close> and the init command. The regular
    expression is matched by a small matcher whose result is proved equal to the grammar.
  \<^item> \<^verbatim>\<open>Testnet_Plan\<close>, \<^verbatim>\<open>Testnet_Files\<close>, \<^verbatim>\<open>Testnet_Properties\<close>, \<^verbatim>\<open>Testnet_Command\<close>: \<^verbatim>\<open>testnet_multi_node.go\<close>, first
    what it computes, then what it does to the files, then \<open>initTestnetFiles\<close> as a whole.
  \<^item> \<^verbatim>\<open>In_Place_Testnet\<close>, \<^verbatim>\<open>In_Place_Properties\<close>: \<^verbatim>\<open>testnet.go\<close>, the construction of the application in
    \<^verbatim>\<open>commands.go\<close> and the hook of \<^verbatim>\<open>root.go\<close>.
  \<^item> \<^verbatim>\<open>Test_Doubles\<close>: the generated mocks and the failing store and codec of the tests, and what the modules do
    over them (gomock's controller is an argument).
  \<^item> \<^verbatim>\<open>Ledger_Instance\<close>, \<^verbatim>\<open>Wire_Instance\<close>: a concrete library, bank and codecs that satisfy the assumed laws;
    the witnesses run the model on them.

  What the lemmas show. Of x/burn: every run conserves tokens (what leaves the supply is what the
  trackers gain), the total is the sum of the accounts in every reachable state, the fee burn takes
  exactly the floor of its share, a block never fails on it, the keeper refines the ledger, genesis
  round-trips, and no recorded burn is lost in a restart. Of x/validator: after genesis a validator exists only by a registration that paid, with
  the account that signed, and every refusal has its error. Of the codecs: encoding fills exactly the
  announced size and decodes to the same message, decoding any bytes returns and never panics. Of the
  services: a query over gRPC, and over HTTP on top of it, is answered like a direct call, and a message
  reaches the server method of its type however it comes in. Of the application: every keeper is built
  before it is used and is complete where it is copied, every store has one owner, the staking server
  that creates validators unasked reaches x/validator and the restricting wrapper only; the fee burn runs before minting and distribution, the parameters of x/burn are set
  before genesis transactions run, an export for height 0 leaves no height behind. Of the process: the
  application is built on a sealed configuration. Of the commands: which network
  identifiers are accepted and what they resolve to, which nodes, ports, peers and transactions a
  testnet gets, what the in-place testnet removes. Several theorems record behaviour that a comment
  or the evident intent contradicts (default stakes without voting power, lost errors of the export,
  a required list of accounts).

  Bounds and fuel. The two decoding loops take fuel: the length of the input plus one. Every round
  consumes a byte, so it is enough, and more changes nothing (\<^verbatim>\<open>decoding_terminates\<close>); running out would be
  a panic, which \<^verbatim>\<open>decoding_never_panics\<close> excludes. Inputs are shorter than \<open>2 ^ 63\<close> bytes, as every Go slice
  is. The other loops recurse on a list or have a measure.

  Assumed. The laws of \<^verbatim>\<open>Sdk_Interfaces\<close> (integer and decimal arithmetic within the range of the SDK, coin
  constructors, the address codec, what a successful bank call moves), the contracts of foreign codecs,
  of the iterators of the staking keeper, of the routing library, of a gRPC connection, of the global
  configuration and of the simulation framework. Each
  is a named hypothesis and has an instance.

  Not modelled. The SDK, IBC, the EVM and CometBFT, whose keepers and constructors are parameters; of the
  generated protobuf files the compressed file descriptors; usage and help texts
  of commands; telemetry and logging; the test functions themselves.
\<close>

end
